(* ===== verification/Prelude.thy ===== *)
theory Prelude
  imports Main "HOL-Library.Word" "HOL-Library.List_Lexorder" "HOL-Library.Char_ord"
begin

text \<open>
  Shared vocabulary of the development.  Go strings are byte sequences, so a Go
  \<open>string\<close> is modelled by the HOL \<open>string\<close> (a list of 8-bit \<open>char\<close>s).  Go's \<open>int\<close>
  and \<open>int64\<close> (64 bits on the platforms the library targets) are HOL \<open>int\<close>s
  that stay inside the signed 64-bit range; where the Go code computes with
  wrap-around (the decimal accumulator of \<open>strconv.ParseUint\<close>, \<open>time.Duration\<close>
  products) the model uses \<open>64 word\<close>.  The collection \<open>go_eval\<close> holds the
  definitions that are unfolded to evaluate the model on a concrete input.
\<close>

named_theorems go_eval "definitions unfolded when the model is run on a concrete input"

type_synonym byte = "8 word"

subsection \<open>The signed 64-bit range\<close>

definition int64_min :: int where
  "int64_min = - (2 ^ 63)"

definition int64_max :: int where
  "int64_max = 2 ^ 63 - 1"

definition in_int64 :: "int \<Rightarrow> bool" where
  "in_int64 x \<longleftrightarrow> int64_min \<le> x \<and> x \<le> int64_max"

subsection \<open>ASCII character classes\<close>

text \<open>The byte tests the Go sources and the Go runtime perform on strings.\<close>

definition is_digit :: "char \<Rightarrow> bool" where
  "is_digit c \<longleftrightarrow> CHR ''0'' \<le> c \<and> c \<le> CHR ''9''"

definition digit_val :: "char \<Rightarrow> nat" where
  "digit_val c = of_char c - of_char CHR ''0''"

definition digit_char :: "nat \<Rightarrow> char" where
  "digit_char d = char_of (48 + d)"

subsection \<open>Lemmas\<close>

lemma in_int64_sint [simp]: "in_int64 (sint (w :: 64 word))"
proof -
  have "- (2 ^ 63) \<le> sint w" using sint_ge [of w] by simp
  moreover have "sint w < 2 ^ 63" using sint_lt [of w] by simp
  ultimately show ?thesis by (simp add: in_int64_def int64_min_def int64_max_def)
qed

lemma in_int64_0 [simp]: "in_int64 0"
  by (simp add: in_int64_def int64_min_def int64_max_def)

lemma in_int64_bounds [simp]: "in_int64 int64_max" "in_int64 int64_min"
  by (simp_all add: in_int64_def int64_min_def int64_max_def)

lemma unat64_less [simp]: "unat (w :: 64 word) < 18446744073709551616"
  using unsigned_less [of w, where 'a = nat] by simp

lemma unat64_not_ge [simp]: "\<not> 18446744073709551616 \<le> unat (w :: 64 word)"
  using unat64_less [of w] by linarith

lemma in_int64_sint_of_int:
  "in_int64 x \<Longrightarrow> sint (word_of_int x :: 64 word) = x"
  by (simp add: in_int64_def int64_min_def int64_max_def sint_sbintrunc' signed_take_bit_int_eq_self)

lemma is_digit_iff: "is_digit c \<longleftrightarrow> 48 \<le> (of_char c :: nat) \<and> (of_char c :: nat) \<le> 57"
  by (simp add: is_digit_def less_eq_char_def)

lemma digit_val_less: "is_digit c \<Longrightarrow> digit_val c < 10"
  unfolding is_digit_iff digit_val_def by simp arith

lemma digit_val_char [simp]: "d < 10 \<Longrightarrow> digit_val (digit_char d) = d"
  by (simp add: digit_val_def digit_char_def)

lemma is_digit_char [simp]: "d < 10 \<Longrightarrow> is_digit (digit_char d)"
  by (simp add: is_digit_iff digit_char_def)

lemma digit_char_val: "is_digit c \<Longrightarrow> digit_char (digit_val c) = c"
  by (simp add: is_digit_iff digit_val_def digit_char_def)

lemmas digit_simps [go_eval] = is_digit_iff digit_val_def digit_char_def char_of_eq_iff

end
