(* ===== verification/Data_Model.thy ===== *)
theory Data_Model
  imports Prelude
begin

text \<open>
  The payload types of \<^verbatim>\<open>src/types.go\<close>.  Each Go struct is a record whose
  fields keep the Go field order, prefixed by the struct they belong to (several
  Go structs share field names such as \<^verbatim>\<open>Message\<close>).  A pointer field is an
  \<open>option\<close>, a slice a list, and the \<^verbatim>\<open>map[string]any\<close> of template data an
  association list over \<open>go_any\<close>, the Go values an \<^verbatim>\<open>any\<close> can hold.  The
  zero values are the values Go's decoder starts from.
\<close>

subsection \<open>Dynamic values (\<^verbatim>\<open>any\<close>)\<close>

text \<open>
  The values a caller stores in \<^verbatim>\<open>DynamicData\<close>: \<open>AnyNumber\<close> is a
  \<^verbatim>\<open>json.Number\<close> (a string holding a number literal), \<open>AnyUnsupported\<close> a value
  of a type \<^verbatim>\<open>encoding/json\<close> refuses (a channel, a function, a complex number),
  named by its type.  Go's floating-point numbers are not modelled.
\<close>

datatype go_any =
    AnyNil
  | AnyBool bool
  | AnyInt int
  | AnyString string
  | AnyNumber string
  | AnySlice "go_any list"
  | AnyMap "(string \<times> go_any) list"
  | AnyUnsupported string

subsection \<open>Request payload\<close>

record email_address =
  email :: string
  name :: string

record send_email_request =
  req_to :: email_address
  req_from :: email_address
  req_subject :: string
  req_html :: string
  req_text :: string
  req_template_id :: string
  req_reply_to :: "email_address option"
  req_unsubscribe_group_id :: string
  req_categories :: "string list"
  req_dynamic_data :: "(string \<times> go_any) list"
  req_scheduled_at :: string
  req_campaign_name :: string
  req_test :: bool

subsection \<open>Response payloads\<close>

text \<open>
  A \<^verbatim>\<open>time.Time\<close> as its calendar fields and the zone offset in seconds east of
  UTC; its zero value is January 1 of year 1, 00:00:00 UTC.
\<close>

record go_time =
  t_year :: int
  t_month :: nat
  t_day :: nat
  t_hour :: nat
  t_min :: nat
  t_sec :: nat
  t_nsec :: nat
  t_offset :: int

record send_email_data =
  email_id :: string
  status :: string
  queued_at :: go_time

record send_email_response =
  resp_success :: bool
  resp_message :: string
  resp_data :: send_email_data

record field_error =
  fe_field :: string
  fe_message :: string

record error_response =
  er_success :: bool
  er_message :: string
  er_errors :: "field_error list"
  er_retry_after :: int

record rate_limit_info =
  rl_limit :: int
  rl_remaining :: int
  rl_reset :: int

subsection \<open>Zero values\<close>

definition zero_time :: go_time where
  "zero_time = \<lparr>t_year = 1, t_month = 1, t_day = 1, t_hour = 0, t_min = 0, t_sec = 0,
                t_nsec = 0, t_offset = 0\<rparr>"

definition zero_email_address :: email_address where
  "zero_email_address = \<lparr>email = [], name = []\<rparr>"

definition zero_request :: send_email_request where
  "zero_request = \<lparr>req_to = zero_email_address, req_from = zero_email_address,
     req_subject = [], req_html = [], req_text = [], req_template_id = [], req_reply_to = None,
     req_unsubscribe_group_id = [], req_categories = [], req_dynamic_data = [],
     req_scheduled_at = [], req_campaign_name = [], req_test = False\<rparr>"

definition zero_data :: send_email_data where
  "zero_data = \<lparr>email_id = [], status = [], queued_at = zero_time\<rparr>"

definition zero_send_email_response :: send_email_response where
  "zero_send_email_response = \<lparr>resp_success = False, resp_message = [], resp_data = zero_data\<rparr>"

definition zero_field_error :: field_error where
  "zero_field_error = \<lparr>fe_field = [], fe_message = []\<rparr>"

definition zero_error_response :: error_response where
  "zero_error_response = \<lparr>er_success = False, er_message = [], er_errors = [], er_retry_after = 0\<rparr>"

definition zero_rate_limit_info :: rate_limit_info where
  "zero_rate_limit_info = \<lparr>rl_limit = 0, rl_remaining = 0, rl_reset = 0\<rparr>"

lemmas zero_values [go_eval] = zero_time_def zero_email_address_def zero_request_def zero_data_def
  zero_send_email_response_def zero_field_error_def zero_error_response_def zero_rate_limit_info_def

end
