(* ===== verification/Validation.thy ===== *)
theory Validation
  imports Data_Model
begin

text \<open>
  \<^verbatim>\<open>validateSendEmailRequest\<close> (\<^verbatim>\<open>src/email.go\<close>): the pre-flight check run
  before any network I/O.  The Go function returns \<^verbatim>\<open>nil\<close> or an error built by
  \<^verbatim>\<open>fmt.Errorf\<close>; the model returns \<open>None\<close> or one of five error values, and
  \<open>validation_message\<close> is the text of each.  The request pointer may be
  \<^verbatim>\<open>nil\<close>, hence the \<open>option\<close>.  The invariant of a sendable request (spec
  section 3) is \<open>request_wf\<close>; the lemmas show that the check accepts exactly the
  requests satisfying it, that it reports the first failing check in source
  order, and that the five messages are distinct.
\<close>

datatype validation_error =
    ErrRequestNil
  | ErrToEmail
  | ErrFromEmail
  | ErrNoContent
  | ErrNoSubject

primrec validation_message :: "validation_error \<Rightarrow> string" where
  "validation_message ErrRequestNil = ''request cannot be nil''"
| "validation_message ErrToEmail = ''to.email is required''"
| "validation_message ErrFromEmail = ''from.email is required''"
| "validation_message ErrNoContent = ''either templateId or html/text content must be provided''"
| "validation_message ErrNoSubject = ''subject is required when not using a template''"

definition validate_send_email_request :: "send_email_request option \<Rightarrow> validation_error option" where
  "validate_send_email_request r =
     (case r of
        None \<Rightarrow> Some ErrRequestNil
      | Some req \<Rightarrow>
          if email (req_to req) = [] then Some ErrToEmail
          else if email (req_from req) = [] then Some ErrFromEmail
          else if req_template_id req = [] \<and> req_html req = [] \<and> req_text req = []
            then Some ErrNoContent
          else if req_template_id req = [] \<and> req_subject req = [] then Some ErrNoSubject
          else None)"

declare validate_send_email_request_def [go_eval]

subsection \<open>The contract\<close>

text \<open>
  The invariant of spec section 3: both addresses present, a template or some
  content, and a subject whenever there is no template.
\<close>

definition request_wf :: "send_email_request \<Rightarrow> bool" where
  "request_wf req \<longleftrightarrow>
     email (req_to req) \<noteq> [] \<and> email (req_from req) \<noteq> [] \<and>
     (req_template_id req \<noteq> [] \<or> req_html req \<noteq> [] \<or> req_text req \<noteq> []) \<and>
     (req_template_id req = [] \<longrightarrow> req_subject req \<noteq> [])"

text \<open>
  The condition each error reports as violated, and the position of the check
  in the source (checks run in this order and stop at the first failure).
\<close>

primrec check_passes :: "validation_error \<Rightarrow> send_email_request option \<Rightarrow> bool" where
  "check_passes ErrRequestNil r = (r \<noteq> None)"
| "check_passes ErrToEmail r = (\<forall>req. r = Some req \<longrightarrow> email (req_to req) \<noteq> [])"
| "check_passes ErrFromEmail r = (\<forall>req. r = Some req \<longrightarrow> email (req_from req) \<noteq> [])"
| "check_passes ErrNoContent r =
     (\<forall>req. r = Some req \<longrightarrow> req_template_id req \<noteq> [] \<or> req_html req \<noteq> [] \<or> req_text req \<noteq> [])"
| "check_passes ErrNoSubject r =
     (\<forall>req. r = Some req \<longrightarrow> req_template_id req = [] \<longrightarrow> req_subject req \<noteq> [])"

primrec check_rank :: "validation_error \<Rightarrow> nat" where
  "check_rank ErrRequestNil = 0"
| "check_rank ErrToEmail = 1"
| "check_rank ErrFromEmail = 2"
| "check_rank ErrNoContent = 3"
| "check_rank ErrNoSubject = 4"

lemma validate_Some_req:
  "validate_send_email_request (Some req) = None \<longleftrightarrow> request_wf req"
  by (auto simp: validate_send_email_request_def request_wf_def)

lemma validate_None_req:
  "validate_send_email_request None = Some ErrRequestNil"
  by (simp add: validate_send_email_request_def)

text \<open>
  C1: the validation accepts a request exactly when the pointer is not nil and
  the request satisfies the invariant of spec section 3; so every request that
  reaches the network satisfies it.  A request without a template needs a
  subject and either HTML or text: one with text and no HTML is accepted,
  although the \<^verbatim>\<open>SendEmailRequest\<close> listing of \<^verbatim>\<open>README.md\<close> marks
  \<^verbatim>\<open>HTML\<close> as required unless a template is used.
\<close>

theorem validate_accepts_iff_wf:
  "validate_send_email_request r = None \<longleftrightarrow> (\<exists>req. r = Some req \<and> request_wf req)"
  by (cases r) (simp_all add: validate_Some_req validate_None_req)

lemma check_rank_less_iff:
  "check_rank e' < check_rank e \<longleftrightarrow>
   e' \<in> set (take (check_rank e) [ErrRequestNil, ErrToEmail, ErrFromEmail, ErrNoContent])"
  by (cases e; cases e'; simp)

text \<open>
  C19: when the validation fails, the error it reports names a check the request
  violates, and every check that comes earlier in the source passes: the checks
  run in source order and stop at the first failure.
\<close>

theorem validate_reports_first_failure:
  assumes "validate_send_email_request r = Some e"
  shows "\<not> check_passes e r \<and> (\<forall>e'. check_rank e' < check_rank e \<longrightarrow> check_passes e' r)"
proof (cases r)
  case None
  with assms show ?thesis by (simp add: validate_None_req)
next
  case (Some req)
  with assms show ?thesis
    by (auto simp: validate_send_email_request_def check_rank_less_iff split: if_splits)
qed

text \<open>
  Each of the five validation failures has its own message.
\<close>

theorem validation_messages_distinct: "inj validation_message"
proof (rule injI)
  fix a b assume "validation_message a = validation_message b"
  then show "a = b" by (cases a; cases b; simp)
qed

subsection \<open>Witnesses\<close>

theorem validate_accepts_iff_wf_witness:
  "validate_send_email_request (Some (zero_request\<lparr>req_to := \<lparr>email = ''a@x.io'', name = []\<rparr>,
      req_from := \<lparr>email = ''b@y.io'', name = []\<rparr>, req_template_id := ''tmpl_1''\<rparr>)) = None \<and>
   request_wf (zero_request\<lparr>req_to := \<lparr>email = ''a@x.io'', name = []\<rparr>,
      req_from := \<lparr>email = ''b@y.io'', name = []\<rparr>, req_template_id := ''tmpl_1''\<rparr>)"
  using validate_accepts_iff_wf [of "Some (zero_request\<lparr>req_to := \<lparr>email = ''a@x.io'', name = []\<rparr>,
      req_from := \<lparr>email = ''b@y.io'', name = []\<rparr>, req_template_id := ''tmpl_1''\<rparr>)"]
  by (simp add: go_eval)

theorem validate_reports_first_failure_witness:
  "\<not> check_passes ErrFromEmail (Some (zero_request\<lparr>req_to := \<lparr>email = ''a@x.io'', name = []\<rparr>\<rparr>)) \<and>
   check_passes ErrToEmail (Some (zero_request\<lparr>req_to := \<lparr>email = ''a@x.io'', name = []\<rparr>\<rparr>))"
proof -
  have v: "validate_send_email_request (Some (zero_request\<lparr>req_to := \<lparr>email = ''a@x.io'', name = []\<rparr>\<rparr>))
           = Some ErrFromEmail"
    by (simp add: go_eval)
  show ?thesis using validate_reports_first_failure [OF v] by simp
qed

end
