(* ===== verification/Strconv.thy ===== *)
theory Strconv
  imports Prelude
begin

text \<open>
  The decimal conversions of Go's \<^verbatim>\<open>strconv\<close> package that the library calls:
  \<^verbatim>\<open>strconv.Atoi\<close> and \<^verbatim>\<open>strconv.ParseInt(s, 10, 64)\<close> in
  \<^verbatim>\<open>parseRateLimitHeaders\<close>, the same \<^verbatim>\<open>ParseInt\<close> in \<^verbatim>\<open>encoding/json\<close> for
  integer fields, and the \<^verbatim>\<open>%d\<close> verb of \<^verbatim>\<open>fmt\<close> in \<^verbatim>\<open>APIError.Error\<close>.
  The library is not part of the repository; it is modelled from the Go
  standard library's documented behaviour, keeping the shape of its code.
  \<^verbatim>\<open>ParseUint\<close> accumulates in a \<^verbatim>\<open>uint64\<close> and detects overflow with a cutoff
  test before the multiplication and a wrap test after the addition; the model
  does the same on \<open>64 word\<close>.  A conversion returns its value together with its
  error, because the callers in \<^verbatim>\<open>parseRateLimitHeaders\<close> keep the value and
  drop the error: on a range error Go returns the clamped bound, not 0.
\<close>

datatype num_error = ErrSyntax | ErrRange

subsection \<open>Formatting (\<^verbatim>\<open>%d\<close>, \<^verbatim>\<open>strconv.Itoa\<close>)\<close>

fun digits_of :: "nat \<Rightarrow> string" where
  "digits_of n = (if n < 10 then [digit_char n] else digits_of (n div 10) @ [digit_char (n mod 10)])"

declare digits_of.simps [simp del]

definition itoa :: "int \<Rightarrow> string" where
  "itoa i = (if i < 0 then CHR ''-'' # digits_of (nat (- i)) else digits_of (nat i))"

subsection \<open>\<^verbatim>\<open>strconv.ParseUint(s, 10, 64)\<close>\<close>

text \<open>
  \<open>uint64_cutoff\<close> is Go's \<^verbatim>\<open>maxUint64/10 + 1\<close>, the least value whose product
  with 10 overflows; \<^verbatim>\<open>maxVal\<close> is \<^verbatim>\<open>1<<64 - 1\<close> for \<^verbatim>\<open>bitSize\<close> 64.  For base 10
  every byte other than an ASCII digit is a syntax error (letters give digit
  values of at least 10 and \<^verbatim>\<open>_\<close> is only accepted for base 0).
\<close>

definition uint64_max :: "64 word" where
  "uint64_max = - 1"

definition uint64_cutoff :: "64 word" where
  "uint64_cutoff = uint64_max div 10 + 1"

fun parse_uint_digits :: "64 word \<Rightarrow> string \<Rightarrow> 64 word \<times> num_error option" where
  "parse_uint_digits n [] = (n, None)"
| "parse_uint_digits n (c # cs) =
     (if \<not> is_digit c then (0, Some ErrSyntax)
      else if uint64_cutoff \<le> n then (uint64_max, Some ErrRange)
      else (let n1 = n * 10 + of_nat (digit_val c)
            in if n1 < n * 10 \<or> uint64_max < n1 then (uint64_max, Some ErrRange)
               else parse_uint_digits n1 cs))"

definition parse_uint :: "string \<Rightarrow> 64 word \<times> num_error option" where
  "parse_uint s = (if s = [] then (0, Some ErrSyntax) else parse_uint_digits 0 s)"

subsection \<open>\<^verbatim>\<open>strconv.ParseInt(s, 10, 64)\<close>\<close>

text \<open>
  The sign is picked off, the rest converted by \<^verbatim>\<open>ParseUint\<close>, a syntax error
  returned with value 0, and the magnitude clamped against \<^verbatim>\<open>cutoff = 1<<63\<close>.
  The final \<^verbatim>\<open>n := int64(un); if neg { n = -n }\<close> is two's-complement
  arithmetic on 64 bits, read back with \<open>sint\<close>.
\<close>

definition split_sign :: "string \<Rightarrow> bool \<times> string" where
  "split_sign s =
     (case s of
        c # cs \<Rightarrow> if c = CHR ''+'' then (False, cs) else if c = CHR ''-'' then (True, cs) else (False, s)
      | [] \<Rightarrow> (False, []))"

definition parse_int :: "string \<Rightarrow> int \<times> num_error option" where
  "parse_int s =
     (if s = [] then (0, Some ErrSyntax)
      else (let (neg, body) = split_sign s;
                (un, err) = parse_uint body
            in if err = Some ErrSyntax then (0, Some ErrSyntax)
               else if \<not> neg \<and> 2 ^ 63 \<le> unat un then (int64_max, Some ErrRange)
               else if neg \<and> 2 ^ 63 < unat un then (int64_min, Some ErrRange)
               else (sint (if neg then - un else un), None)))"

subsection \<open>\<^verbatim>\<open>strconv.Atoi\<close>\<close>

text \<open>
  On a 64-bit platform \<^verbatim>\<open>Atoi\<close> has a fast path for strings of 1 to 18 bytes:
  an optional sign, then digits accumulated in an \<^verbatim>\<open>int\<close> with the byte test
  \<^verbatim>\<open>ch -= '0'; if ch > 9\<close>; anything longer goes to \<^verbatim>\<open>ParseInt(s, 10, 0)\<close>.
\<close>

fun atoi_fast_digits :: "64 word \<Rightarrow> string \<Rightarrow> 64 word option" where
  "atoi_fast_digits n [] = Some n"
| "atoi_fast_digits n (c # cs) =
     (let ch = (of_char c :: byte) - of_char CHR ''0''
      in if 9 < ch then None else atoi_fast_digits (n * 10 + ucast ch) cs)"

definition atoi :: "string \<Rightarrow> int \<times> num_error option" where
  "atoi s =
     (if 0 < length s \<and> length s < 19 then
        (let body = (if hd s = CHR ''-'' \<or> hd s = CHR ''+'' then tl s else s)
         in if body = [] then (0, Some ErrSyntax)
            else (case atoi_fast_digits 0 body of
                    None \<Rightarrow> (0, Some ErrSyntax)
                  | Some n \<Rightarrow> (sint (if hd s = CHR ''-'' then - n else n), None)))
      else parse_int s)"

subsection \<open>Abstract reading of a decimal string\<close>

text \<open>The value of a digit string, accumulated from the left.\<close>

fun dec_acc :: "nat \<Rightarrow> string \<Rightarrow> nat" where
  "dec_acc n [] = n"
| "dec_acc n (c # cs) = dec_acc (10 * n + digit_val c) cs"

text \<open>
  A decimal value clamped to the signed 64-bit range, with a range error
  outside it: what \<^verbatim>\<open>ParseInt\<close> promises.
\<close>

definition clamp_int64 :: "int \<Rightarrow> int \<times> num_error option" where
  "clamp_int64 v = (if int64_max < v then (int64_max, Some ErrRange)
                    else if v < int64_min then (int64_min, Some ErrRange) else (v, None))"

subsection \<open>Evaluation\<close>

lemma uint64_max_numeral: "uint64_max = 18446744073709551615"
  by (simp add: uint64_max_def)

lemma uint64_cutoff_numeral: "uint64_cutoff = 1844674407370955162"
  by (simp add: uint64_cutoff_def uint64_max_def)

lemmas strconv_defs [go_eval] = itoa_def uint64_max_numeral uint64_cutoff_numeral parse_uint_def
  split_sign_def parse_int_def atoi_def word_le_nat_alt word_less_nat_alt

subsection \<open>Correctness of \<^verbatim>\<open>ParseUint\<close> and \<^verbatim>\<open>ParseInt\<close>\<close>

lemma dec_acc_mono: "m \<le> dec_acc m s"
proof (induction s arbitrary: m)
  case Nil then show ?case by simp
next
  case (Cons c cs)
  have "m \<le> 10 * m + digit_val c" by simp
  also have "\<dots> \<le> dec_acc (10 * m + digit_val c) cs" by (rule Cons.IH)
  finally show ?case by simp
qed

lemma parse_uint_digits_eq:
  "parse_uint_digits n s =
     (let ds = takeWhile is_digit s; v = dec_acc (unat n) ds
      in if 2 ^ 64 \<le> v then (uint64_max, Some ErrRange)
         else if ds = s then (of_nat v, None) else (0, Some ErrSyntax))"
proof (induction s arbitrary: n)
  case Nil
  then show ?case by (simp add: Let_def)
next
  case (Cons c cs)
  show ?case
  proof (cases "is_digit c")
    case False
    then show ?thesis by (simp add: Let_def)
  next
    case True
    define d where "d = digit_val c"
    have d: "d < 10" using True digit_val_less d_def by blast
    show ?thesis
    proof (cases "uint64_cutoff \<le> n")
      case True
      then have "1844674407370955162 \<le> unat n"
        by (simp add: uint64_cutoff_numeral word_le_nat_alt)
      then have "2 ^ 64 \<le> 10 * unat n + d" by simp
      also have "\<dots> \<le> dec_acc (10 * unat n + d) (takeWhile is_digit cs)" by (rule dec_acc_mono)
      finally show ?thesis using True \<open>is_digit c\<close> by (simp add: Let_def d_def)
    next
      case False
      then have small: "unat n \<le> 1844674407370955161"
        by (simp add: uint64_cutoff_numeral word_le_nat_alt)
      then have m10: "unat (n * 10) = 10 * unat n"
        by (simp add: unat_mult_lem [THEN iffD1] mult.commute)
      have ud: "unat (of_nat d :: 64 word) = d" using d by (simp add: unat_of_nat)
      show ?thesis
      proof (cases "10 * unat n + d < 2 ^ 64")
        case True
        then have n1: "unat (n * 10 + of_nat d) = 10 * unat n + d"
          using m10 ud by (simp add: unat_add_lem [THEN iffD1])
        then have "\<not> n * 10 + of_nat d < n * 10"
          using m10 by (simp add: word_less_nat_alt)
        moreover have "\<not> uint64_max < n * 10 + of_nat d"
          by (simp add: uint64_max_def)
        ultimately show ?thesis
          using \<open>\<not> uint64_cutoff \<le> n\<close> \<open>is_digit c\<close> Cons.IH [of "n * 10 + of_nat d"] n1 True
          by (simp add: Let_def d_def)
      next
        case False
        then have "n * 10 + of_nat d < n * 10"
          using m10 ud no_olen_add_nat [of "n * 10" "of_nat d"] by (simp add: not_le)
        moreover have "2 ^ 64 \<le> dec_acc (10 * unat n + d) (takeWhile is_digit cs)"
          using False dec_acc_mono [of "10 * unat n + d" "takeWhile is_digit cs"] by linarith
        ultimately show ?thesis using \<open>\<not> uint64_cutoff \<le> n\<close> \<open>is_digit c\<close>
          by (simp add: Let_def d_def)
      qed
    qed
  qed
qed
lemma parse_uint_all_digits:
  assumes "ds \<noteq> []" "list_all is_digit ds"
  shows "parse_uint ds = (if 2 ^ 64 \<le> dec_acc 0 ds then (uint64_max, Some ErrRange)
                         else (of_nat (dec_acc 0 ds), None))"
proof -
  have tw: "takeWhile is_digit ds = ds" using assms(2) by (simp add: list_all_iff)
  show ?thesis using assms(1) by (simp add: parse_uint_def parse_uint_digits_eq Let_def tw)
qed

lemma sint_of_nat_small: "v < 2 ^ 63 \<Longrightarrow> sint (of_nat v :: 64 word) = int v"
  using in_int64_sint_of_int [of "int v"] by (simp add: in_int64_def int64_min_def int64_max_def)

lemma sint_neg_of_nat_small: "v \<le> 2 ^ 63 \<Longrightarrow> sint (- of_nat v :: 64 word) = - int v"
proof -
  assume "v \<le> 2 ^ 63"
  then have r: "in_int64 (- int v)" by (simp add: in_int64_def int64_min_def int64_max_def)
  have eq: "(- of_nat v :: 64 word) = word_of_int (- int v)" by simp
  show ?thesis unfolding eq by (rule in_int64_sint_of_int [OF r])
qed

lemma split_sign_digits:
  assumes "ds \<noteq> []" "list_all is_digit ds" "sg \<in> {[], ''+'', ''-''}"
  shows "split_sign (sg @ ds) = (sg = ''-'', ds)"
proof -
  obtain c cs where ds: "ds = c # cs" using assms(1) by (cases ds) auto
  with assms(2) have "is_digit c" by simp
  then have "c \<noteq> CHR ''+'' \<and> c \<noteq> CHR ''-''" by (auto simp: is_digit_def)
  with assms(3) ds show ?thesis by (auto simp: split_sign_def)
qed

theorem parse_int_decimal:
  assumes "ds \<noteq> []" "list_all is_digit ds" "sg \<in> {[], ''+'', ''-''}"
  shows "parse_int (sg @ ds) =
           clamp_int64 (if sg = ''-'' then - int (dec_acc 0 ds) else int (dec_acc 0 ds))"
proof -
  define v where "v = dec_acc 0 ds"
  have ne: "sg @ ds \<noteq> []" using assms(1) by simp
  have ss: "split_sign (sg @ ds) = (sg = ''-'', ds)" using assms by (rule split_sign_digits)
  have pu: "parse_uint ds = (if 2 ^ 64 \<le> v then (uint64_max, Some ErrRange) else (of_nat v, None))"
    using assms(1,2) by (simp add: parse_uint_all_digits v_def)
  show ?thesis
  proof (cases "2 ^ 64 \<le> v")
    case True
    then show ?thesis using ne ss pu
      by (simp add: parse_int_def clamp_int64_def int64_max_def int64_min_def uint64_max_numeral
                    v_def [symmetric])
  next
    case False
    then have uv: "unat (of_nat v :: 64 word) = v" by (simp add: unat_of_nat)
    show ?thesis
    proof (cases "sg = ''-''")
      case True
      then show ?thesis using False ne ss pu uv sint_neg_of_nat_small [of v]
        by (simp add: parse_int_def clamp_int64_def int64_max_def int64_min_def v_def [symmetric])
    next
      case False
      then show ?thesis using \<open>\<not> 2 ^ 64 \<le> v\<close> ne ss pu uv sint_of_nat_small [of v]
        by (simp add: parse_int_def clamp_int64_def int64_max_def int64_min_def v_def [symmetric])
    qed
  qed
qed

lemma parse_int_general:
  assumes "v \<noteq> []"
  shows "parse_int v =
           (case split_sign v of (neg, body) \<Rightarrow>
              let ds = takeWhile is_digit body; m = dec_acc 0 ds
              in if 2 ^ 64 \<le> m \<or> ds = body \<and> body \<noteq> []
                 then clamp_int64 (if neg then - int m else int m) else (0, Some ErrSyntax))"
proof -
  obtain neg body where ss: "split_sign v = (neg, body)" by (cases "split_sign v")
  define ds where "ds = takeWhile is_digit body"
  define m where "m = dec_acc 0 ds"
  have rhs: "(case split_sign v of (neg, body) \<Rightarrow>
              let ds = takeWhile is_digit body; m = dec_acc 0 ds
              in if 2 ^ 64 \<le> m \<or> ds = body \<and> body \<noteq> []
                 then clamp_int64 (if neg then - int m else int m) else (0, Some ErrSyntax)) =
             (if 2 ^ 64 \<le> m \<or> ds = body \<and> body \<noteq> []
              then clamp_int64 (if neg then - int m else int m) else (0, Some ErrSyntax))"
    by (simp only: ss prod.case Let_def ds_def [symmetric] m_def [symmetric])
  have lhs: "parse_int v = (case parse_uint body of (un, err) \<Rightarrow>
      if err = Some ErrSyntax then (0, Some ErrSyntax)
      else if \<not> neg \<and> 2 ^ 63 \<le> unat un then (int64_max, Some ErrRange)
      else if neg \<and> 2 ^ 63 < unat un then (int64_min, Some ErrRange)
      else (sint (if neg then - un else un), None))"
    using assms by (simp add: parse_int_def ss)
  have pu: "parse_uint body =
      (if body = [] then (0, Some ErrSyntax)
       else if 2 ^ 64 \<le> m then (uint64_max, Some ErrRange)
       else if ds = body then (of_nat m, None) else (0, Some ErrSyntax))"
    by (simp add: parse_uint_def parse_uint_digits_eq Let_def ds_def m_def)
  have body: "2 ^ 64 \<le> m \<Longrightarrow> body \<noteq> []" by (auto simp: m_def ds_def)
  show ?thesis
  proof (cases "2 ^ 64 \<le> m")
    case True
    then show ?thesis unfolding rhs lhs pu using body
      by (simp add: clamp_int64_def int64_max_def int64_min_def uint64_max_numeral)
  next
    case False
    then have uv: "unat (of_nat m :: 64 word) = m" by (simp add: unat_of_nat)
    show ?thesis
    proof (cases "ds = body \<and> body \<noteq> []")
      case True
      then show ?thesis unfolding rhs lhs pu
        using False uv sint_neg_of_nat_small [of m] sint_of_nat_small [of m]
        by (simp add: clamp_int64_def int64_max_def int64_min_def)
    next
      case nd: False
      then show ?thesis unfolding rhs lhs pu using False by auto
    qed
  qed
qed
lemma dec_acc_append: "dec_acc m (xs @ ys) = dec_acc (dec_acc m xs) ys"
  by (induction xs arbitrary: m) simp_all

lemma digits_of_props:
  "digits_of n \<noteq> [] \<and> list_all is_digit (digits_of n) \<and> dec_acc 0 (digits_of n) = n"
proof (induction n rule: digits_of.induct)
  case (1 n)
  show ?case
  proof (cases "n < 10")
    case True
    then show ?thesis by (simp add: digits_of.simps [of n])
  next
    case False
    with "1.IH" show ?thesis
      by (simp add: digits_of.simps [of n] dec_acc_append)
  qed
qed

lemma digits_of_lead:
  "0 < n \<Longrightarrow> \<exists>d ds. digits_of n = d # ds \<and> CHR ''1'' \<le> d \<and> d \<le> CHR ''9'' \<and> list_all is_digit ds"
proof (induction n rule: digits_of.induct)
  case (1 n)
  show ?case
  proof (cases "n < 10")
    case True
    with "1.prems" show ?thesis
      by (simp add: digits_of.simps [of n] digit_char_def less_eq_char_def)
  next
    case False
    then obtain d ds where "digits_of (n div 10) = d # ds" "CHR ''1'' \<le> d" "d \<le> CHR ''9''" "list_all is_digit ds"
      using "1.IH" by fastforce
    with False show ?thesis by (simp add: digits_of.simps [of n])
  qed
qed

theorem parse_int_itoa: "in_int64 x \<Longrightarrow> parse_int (itoa x) = (x, None)"
proof -
  assume x: "in_int64 x"
  show ?thesis
  proof (cases "x < 0")
    case True
    have "parse_int (''-'' @ digits_of (nat (- x))) = clamp_int64 (- int (nat (- x)))"
      using parse_int_decimal [of "digits_of (nat (- x))" "''-''"] digits_of_props [of "nat (- x)"]
      by simp
    with True x show ?thesis
      by (simp add: itoa_def clamp_int64_def in_int64_def)
  next
    case False
    have "parse_int ([] @ digits_of (nat x)) = clamp_int64 (int (nat x))"
      using parse_int_decimal [of "digits_of (nat x)" "[]"] digits_of_props [of "nat x"]
      by simp
    with False x show ?thesis
      by (simp add: itoa_def clamp_int64_def in_int64_def)
  qed
qed
lemma itoa_chars: "c \<in> set (itoa x) \<Longrightarrow> c = CHR ''-'' \<or> is_digit c"
  using digits_of_props [of "nat x"] digits_of_props [of "nat (- x)"]
  by (auto simp: itoa_def list_all_iff split: if_splits)

subsection \<open>The fast path of \<^verbatim>\<open>Atoi\<close> agrees with \<^verbatim>\<open>ParseInt\<close>\<close>

lemma unat_of_char_byte: "unat (of_char c :: byte) = of_char c"
proof -
  have "(of_char c :: byte) = of_nat (of_char c)" by (simp add: of_nat_of_char)
  then show ?thesis using nat_of_char_less_256 [of c] by (simp add: unat_of_nat)
qed

lemma atoi_digit_byte:
  "(9 < (of_char c :: byte) - of_char CHR ''0'' \<longleftrightarrow> \<not> is_digit c) \<and>
   (is_digit c \<longrightarrow> (ucast ((of_char c :: byte) - of_char CHR ''0'') :: 64 word) = of_nat (digit_val c))"
proof (cases "48 \<le> (of_char c :: nat)")
  case True
  have u: "unat ((of_char c :: byte) - of_char CHR ''0'') = of_char c - 48"
    using True unat_of_char_byte [of c] by (simp add: unat_sub_if')
  have "(of_char c :: nat) - 48 < 18446744073709551616" using nat_of_char_less_256 [of c] by arith
  then have lt: "(of_char c :: nat) - 48 < 2 ^ 64" by simp
  have lhs: "unat (ucast ((of_char c :: byte) - of_char CHR ''0'') :: 64 word) = of_char c - 48"
    unfolding unsigned_ucast_eq u using take_bit_nat_eq_self [OF lt] by simp
  show ?thesis
  proof (intro conjI impI)
    show "9 < (of_char c :: byte) - of_char CHR ''0'' \<longleftrightarrow> \<not> is_digit c"
      using True u by (auto simp: word_less_nat_alt is_digit_iff)
    assume "is_digit c"
    then have "digit_val c < 10" by (rule digit_val_less)
    then have rhs: "unat (of_nat (digit_val c) :: 64 word) = of_char c - 48"
      by (simp add: unat_of_nat digit_val_def)
    show "(ucast ((of_char c :: byte) - of_char CHR ''0'') :: 64 word) = of_nat (digit_val c)"
      by (simp only: word_unat_eq_iff lhs rhs)
  qed
next
  case False
  have u: "unat ((of_char c :: byte) - of_char CHR ''0'') = of_char c + 208"
    using False unat_of_char_byte [of c] by (simp add: unat_sub_if')
  then show ?thesis using False by (simp add: word_less_nat_alt is_digit_iff)
qed

lemma atoi_fast_digits_eq:
  "atoi_fast_digits (of_nat m) s =
     (if list_all is_digit s then Some (of_nat (dec_acc m s)) else None)"
proof (induction s arbitrary: m)
  case Nil
  show ?case by simp
next
  case (Cons c cs)
  show ?case
  proof (cases "is_digit c")
    case True
    then have ch: "\<not> 9 < (of_char c :: byte) - of_char CHR ''0''"
      and u: "(ucast ((of_char c :: byte) - of_char CHR ''0'') :: 64 word) = of_nat (digit_val c)"
      using atoi_digit_byte [of c] by simp_all
    have eq: "(of_nat m * 10 + of_nat (digit_val c) :: 64 word) = of_nat (10 * m + digit_val c)"
      by simp
    have "atoi_fast_digits (of_nat m) (c # cs) =
            atoi_fast_digits (of_nat m * 10 + of_nat (digit_val c)) cs"
      using ch u by (simp add: Let_def)
    also have "\<dots> = atoi_fast_digits (of_nat (10 * m + digit_val c)) cs"
      by (simp only: eq)
    also have "\<dots> = (if list_all is_digit cs then Some (of_nat (dec_acc (10 * m + digit_val c) cs))
                     else None)"
      by (rule Cons.IH)
    finally show ?thesis using True by (simp del: atoi_fast_digits.simps)
  next
    case False
    with atoi_digit_byte [of c] show ?thesis by (simp add: Let_def)
  qed
qed

lemma dec_acc_bound: "list_all is_digit s \<Longrightarrow> dec_acc m s < (m + 1) * 10 ^ length s"
proof (induction s arbitrary: m)
  case Nil
  then show ?case by simp
next
  case (Cons c cs)
  then have d: "digit_val c < 10" by (simp add: digit_val_less)
  have "dec_acc m (c # cs) < (10 * m + digit_val c + 1) * 10 ^ length cs"
    using Cons by simp
  also have "\<dots> \<le> (10 * (m + 1)) * 10 ^ length cs"
    using d by (intro mult_le_mono1) simp
  also have "\<dots> = (m + 1) * 10 ^ length (c # cs)" by (simp add: algebra_simps)
  finally show ?case .
qed

theorem atoi_eq_parse_int: "atoi s = parse_int s"
proof (cases "0 < length s \<and> length s < 19")
  case False
  then show ?thesis by (simp only: atoi_def if_not_P [OF False] if_False)
next
  case True
  then obtain c cs where s: "s = c # cs" by (cases s) auto
  define body where "body = (if c = CHR ''-'' \<or> c = CHR ''+'' then cs else s)"
  have ss: "split_sign s = (c = CHR ''-'', body)" by (auto simp: split_sign_def body_def s)
  have len: "length body \<le> 18" using True by (auto simp: body_def s)
  have at: "atoi s = (if body = [] then (0, Some ErrSyntax)
                      else (case atoi_fast_digits 0 body of
                              None \<Rightarrow> (0, Some ErrSyntax)
                            | Some n \<Rightarrow> (sint (if c = CHR ''-'' then - n else n), None)))"
    using True unfolding s atoi_def Let_def list.sel by (simp add: body_def s)
  have pi: "parse_int s = (case parse_uint body of (un, err) \<Rightarrow>
              if err = Some ErrSyntax then (0, Some ErrSyntax)
              else if \<not> c = CHR ''-'' \<and> 2 ^ 63 \<le> unat un then (int64_max, Some ErrRange)
              else if c = CHR ''-'' \<and> 2 ^ 63 < unat un then (int64_min, Some ErrRange)
              else (sint (if c = CHR ''-'' then - un else un), None))"
    using s unfolding parse_int_def Let_def ss by simp
  show ?thesis
  proof (cases "body = []")
    case True
    then show ?thesis by (simp add: at pi parse_uint_def)
  next
    case False
    define ds where "ds = takeWhile is_digit body"
    have "length ds \<le> 18" using len by (simp add: ds_def order_trans [OF length_takeWhile_le])
    moreover have "list_all is_digit ds"
      by (auto simp: ds_def list_all_iff dest: set_takeWhileD)
    then have "dec_acc 0 ds < 10 ^ length ds"
      using dec_acc_bound [of ds 0] by simp
    ultimately have "dec_acc 0 ds < 10 ^ 18"
      using power_increasing [of "length ds" 18 "10::nat"] by linarith
    then have small: "dec_acc 0 ds < 2 ^ 63" by simp
    have pu: "parse_uint body =
                (if ds = body then (of_nat (dec_acc 0 ds), None) else (0, Some ErrSyntax))"
      using small False by (simp add: parse_uint_def parse_uint_digits_eq Let_def ds_def [symmetric])
    have af: "atoi_fast_digits 0 body =
                (if list_all is_digit body then Some (of_nat (dec_acc 0 body)) else None)"
      using atoi_fast_digits_eq [of 0 body] by simp
    have dsb: "ds = body \<longleftrightarrow> list_all is_digit body"
      by (simp add: ds_def takeWhile_eq_all_conv list_all_iff)
    show ?thesis
    proof (cases "list_all is_digit body")
      case True
      then have "ds = body" using dsb by simp
      moreover have "unat (of_nat (dec_acc 0 body) :: 64 word) = dec_acc 0 body"
        using small \<open>ds = body\<close> by (simp add: unat_of_nat)
      ultimately show ?thesis using True small False
        by (simp add: at pi pu af)
    next
      case False
      with dsb \<open>body \<noteq> []\<close> show ?thesis by (simp add: at pi pu af)
    qed
  qed
qed

lemma parse_int_in_int64: "parse_int s = (n, e) \<Longrightarrow> in_int64 n"
  by (auto simp: parse_int_def Let_def split: prod.splits if_splits)

end
