(* ===== verification/Api_Error.thy ===== *)
theory Api_Error
  imports Data_Model Strconv
begin

text \<open>
  The typed API error of \<^verbatim>\<open>src/unnamed/part_001\<close>: the \<^verbatim>\<open>APIError\<close> struct,
  its \<^verbatim>\<open>Error()\<close> rendering, the five classification predicates and
  \<^verbatim>\<open>GetRetryAfter\<close>.  The \<^verbatim>\<open>RateLimitInfo\<close> pointer is an \<open>option\<close>.
  \<^verbatim>\<open>Error()\<close> is built with \<^verbatim>\<open>fmt.Sprintf\<close> (\<^verbatim>\<open>%d\<close> is \<open>itoa\<close>, \<^verbatim>\<open>%s\<close>
  copies the bytes) and \<^verbatim>\<open>strings.Join\<close>.

  Spec section 9 describes the classification as a tagged variant computed once
  from the status code; \<open>error_kind\<close> and \<open>kind_of_status\<close> are that abstract
  view, and the lemmas show that the code's predicates refine it (so at most one
  of them holds), that the retry hint is only ever reported for a 429, and what
  the rendered text contains.
\<close>

record api_error =
  status_code :: int
  ae_message :: string
  ae_errors :: "field_error list"
  retry_after :: int
  rate_limit :: "rate_limit_info option"

subsection \<open>\<^verbatim>\<open>Error()\<close>\<close>

fun strings_join :: "string list \<Rightarrow> string \<Rightarrow> string" where
  "strings_join [] sep = []"
| "strings_join [x] sep = x"
| "strings_join (x # y # xs) sep = x @ sep @ strings_join (y # xs) sep"

definition error_prefix :: "int \<Rightarrow> string \<Rightarrow> string" where
  "error_prefix code msg = ''autosend API error (status '' @ itoa code @ ''): '' @ msg"

definition field_error_text :: "field_error \<Rightarrow> string" where
  "field_error_text fe = fe_field fe @ '': '' @ fe_message fe"

definition api_error_string :: "api_error \<Rightarrow> string" where
  "api_error_string e =
     (if 0 < length (ae_errors e) then
        error_prefix (status_code e) (ae_message e) @ '' - '' @
          strings_join (map field_error_text (ae_errors e)) '', ''
      else if 0 < retry_after e then
        error_prefix (status_code e) (ae_message e) @ '' (retry after '' @ itoa (retry_after e) @
          '' seconds)''
      else error_prefix (status_code e) (ae_message e))"

subsection \<open>Classification\<close>

definition is_rate_limit_error :: "api_error \<Rightarrow> bool" where
  "is_rate_limit_error e \<longleftrightarrow> status_code e = 429"

definition is_validation_error :: "api_error \<Rightarrow> bool" where
  "is_validation_error e \<longleftrightarrow> status_code e = 400"

definition is_authentication_error :: "api_error \<Rightarrow> bool" where
  "is_authentication_error e \<longleftrightarrow> status_code e = 401"

definition is_forbidden_error :: "api_error \<Rightarrow> bool" where
  "is_forbidden_error e \<longleftrightarrow> status_code e = 403"

definition is_server_error :: "api_error \<Rightarrow> bool" where
  "is_server_error e \<longleftrightarrow> 500 \<le> status_code e \<and> status_code e < 600"

definition get_retry_after :: "api_error \<Rightarrow> int" where
  "get_retry_after e = (if is_rate_limit_error e then retry_after e else 0)"

subsection \<open>The abstract classification of spec section 9\<close>

datatype error_kind = KRateLimit | KValidation | KAuthentication | KForbidden | KServerError | KOther

definition kind_of_status :: "int \<Rightarrow> error_kind" where
  "kind_of_status c =
     (if c = 429 then KRateLimit
      else if c = 400 then KValidation
      else if c = 401 then KAuthentication
      else if c = 403 then KForbidden
      else if 500 \<le> c \<and> c < 600 then KServerError
      else KOther)"

text \<open>The error of spec section 8 for a 429 response with \<^verbatim>\<open>retryAfter\<close> 5.\<close>

definition rate_limited_example :: api_error where
  "rate_limited_example = \<lparr>status_code = 429, ae_message = ''rate limited'', ae_errors = [],
     retry_after = 5, rate_limit = Some \<lparr>rl_limit = 50, rl_remaining = 0, rl_reset = 1700000000\<rparr>\<rparr>"

lemmas api_error_defs [go_eval] = api_error_string_def error_prefix_def field_error_text_def
  is_rate_limit_error_def is_validation_error_def is_authentication_error_def is_forbidden_error_def
  is_server_error_def get_retry_after_def

subsection \<open>Lemmas\<close>

text \<open>
  C11: the five predicates of \<^verbatim>\<open>APIError\<close> are exactly the tags of the abstract
  classification: each holds precisely when the status code is classified
  with its kind.
\<close>

theorem predicates_refine_kind:
  "(is_rate_limit_error e \<longleftrightarrow> kind_of_status (status_code e) = KRateLimit) \<and>
   (is_validation_error e \<longleftrightarrow> kind_of_status (status_code e) = KValidation) \<and>
   (is_authentication_error e \<longleftrightarrow> kind_of_status (status_code e) = KAuthentication) \<and>
   (is_forbidden_error e \<longleftrightarrow> kind_of_status (status_code e) = KForbidden) \<and>
   (is_server_error e \<longleftrightarrow> kind_of_status (status_code e) = KServerError)"
  by (simp add: kind_of_status_def api_error_defs)

text \<open>
  At most one of the five classification predicates holds for any error, so a
  caller's \<^verbatim>\<open>switch\<close> over them never has two applicable cases.
\<close>

lemma predicates_exclusive:
  "length (filter id [is_rate_limit_error e, is_validation_error e, is_authentication_error e,
                      is_forbidden_error e, is_server_error e]) \<le> 1"
  by (simp add: api_error_defs)

text \<open>
  \<^verbatim>\<open>GetRetryAfter\<close> reports a non-zero wait only for a rate-limit error, and
  then exactly the server's \<^verbatim>\<open>retryAfter\<close>.
\<close>

lemma get_retry_after_only_429:
  "get_retry_after e \<noteq> 0 \<Longrightarrow> is_rate_limit_error e \<and> get_retry_after e = retry_after e"
  by (simp add: get_retry_after_def split: if_splits)

lemma api_error_string_prefix:
  "\<exists>rest. api_error_string e = error_prefix (status_code e) (ae_message e) @ rest"
  by (auto simp: api_error_string_def)

text \<open>
  the status code can be read back from the rendered message: the text
  between \<^verbatim>\<open>(status \<close> and the next \<^verbatim>\<open>)\<close> parses, with \<^verbatim>\<open>strconv.ParseInt\<close>,
  to the error's status code, whatever the message, field errors and retry hint.
\<close>

lemma api_error_string_status_roundtrip:
  assumes "in_int64 (status_code e)"
  shows "parse_int (takeWhile (\<lambda>c. c \<noteq> CHR '')'') (drop 27 (api_error_string e))) =
           (status_code e, None)"
proof -
  obtain rest where r: "api_error_string e = error_prefix (status_code e) (ae_message e) @ rest"
    using api_error_string_prefix by blast
  have "CHR '')'' \<notin> set (itoa (status_code e))"
    using itoa_chars [of "CHR '')''" "status_code e"] by (auto simp: is_digit_iff)
  then have "takeWhile (\<lambda>c. c \<noteq> CHR '')'') (drop 27 (api_error_string e)) = itoa (status_code e)"
    by (auto simp: r error_prefix_def takeWhile_append2 takeWhile_tail)
  with assms show ?thesis by (simp add: parse_int_itoa)
qed

end
