(* ===== verification/Headers.thy ===== *)
theory Headers
  imports Data_Model Strconv
begin

text \<open>
  Response headers and \<^verbatim>\<open>parseRateLimitHeaders\<close> (\<^verbatim>\<open>src/client.go\<close>).  An
  \<^verbatim>\<open>http.Header\<close> is a \<^verbatim>\<open>map[string][]string\<close> keyed by canonical header names;
  the Go runtime (\<^verbatim>\<open>net/textproto\<close>) canonicalises a name by upper-casing its
  first letter and every letter after a hyphen and lower-casing the others,
  unless the name contains a byte that is not a token character, and
  \<^verbatim>\<open>Header.Get\<close> looks up the canonical form of its key and returns the first
  value or the empty string.  These runtime functions are modelled from the Go
  documentation; \<open>header_of_lines\<close> builds a header from the response's lines
  as \<^verbatim>\<open>Header.Add\<close> does.

  \<^verbatim>\<open>parseRateLimitHeaders\<close> reads three headers, converting
  \<^verbatim>\<open>X-RateLimit-Limit\<close> and \<^verbatim>\<open>X-RateLimit-Remaining\<close> with \<^verbatim>\<open>strconv.Atoi\<close>
  and \<^verbatim>\<open>X-RateLimit-Reset\<close> with \<^verbatim>\<open>strconv.ParseInt(s, 10, 64)\<close>, and drops the
  conversion errors.  Spec section 3 promises the value of each header, or zero
  when it is absent or unparsable: \<open>spec_rate_limit_info\<close>.  The lemmas show
  that the code meets that promise whenever the leading digits of a header fit
  in 64 bits, and that an overflowing header yields the clamped bound instead
  of zero.
\<close>

type_synonym header = "string \<rightharpoonup> string list"

subsection \<open>Header names (\<^verbatim>\<open>net/textproto\<close>)\<close>

definition is_ascii_upper :: "char \<Rightarrow> bool" where
  "is_ascii_upper c \<longleftrightarrow> CHR ''A'' \<le> c \<and> c \<le> CHR ''Z''"

definition is_ascii_lower :: "char \<Rightarrow> bool" where
  "is_ascii_lower c \<longleftrightarrow> CHR ''a'' \<le> c \<and> c \<le> CHR ''z''"

definition ascii_upper :: "char \<Rightarrow> char" where
  "ascii_upper c = (if is_ascii_lower c then char_of (of_char c - 32 :: nat) else c)"

definition ascii_lower :: "char \<Rightarrow> char" where
  "ascii_lower c = (if is_ascii_upper c then char_of (of_char c + 32 :: nat) else c)"

definition valid_header_field_byte :: "char \<Rightarrow> bool" where
  "valid_header_field_byte c \<longleftrightarrow>
     is_ascii_upper c \<or> is_ascii_lower c \<or> is_digit c \<or> c \<in> set ''!#$%&'*+-.^_`|~''"

fun canon_case :: "bool \<Rightarrow> string \<Rightarrow> string" where
  "canon_case upper [] = []"
| "canon_case upper (c # cs) =
     (let c' = (if upper then ascii_upper c else ascii_lower c)
      in c' # canon_case (c' = CHR ''-'') cs)"

definition canonical_mime_header_key :: "string \<Rightarrow> string" where
  "canonical_mime_header_key s =
     (if list_all valid_header_field_byte s then canon_case True s else s)"

definition header_get :: "header \<Rightarrow> string \<Rightarrow> string" where
  "header_get h k = (case h (canonical_mime_header_key k) of Some (v # _) \<Rightarrow> v | _ \<Rightarrow> [])"

definition header_add :: "header \<Rightarrow> string \<times> string \<Rightarrow> header" where
  "header_add h kv =
     (let k = canonical_mime_header_key (fst kv)
      in h(k \<mapsto> (case h k of None \<Rightarrow> [snd kv] | Some vs \<Rightarrow> vs @ [snd kv])))"

definition header_of_lines :: "(string \<times> string) list \<Rightarrow> header" where
  "header_of_lines ls = foldl header_add Map.empty ls"

subsection \<open>\<^verbatim>\<open>parseRateLimitHeaders\<close>\<close>

definition parse_rate_limit_headers :: "header \<Rightarrow> rate_limit_info" where
  "parse_rate_limit_headers h =
     (let info = zero_rate_limit_info;
          limit = header_get h ''X-RateLimit-Limit'';
          info = (if limit \<noteq> [] then info\<lparr>rl_limit := fst (atoi limit)\<rparr> else info);
          remaining = header_get h ''X-RateLimit-Remaining'';
          info = (if remaining \<noteq> [] then info\<lparr>rl_remaining := fst (atoi remaining)\<rparr> else info);
          reset = header_get h ''X-RateLimit-Reset'';
          info = (if reset \<noteq> [] then info\<lparr>rl_reset := fst (parse_int reset)\<rparr> else info)
      in info)"

subsection \<open>What spec section 3 promises\<close>

text \<open>
  The signed value of the digits that follow an optional sign, and the value the
  spec promises for a header: that value when the header is a decimal integer of
  the signed 64-bit range, zero otherwise.
\<close>

definition digit_prefix_value :: "string \<Rightarrow> int" where
  "digit_prefix_value v =
     (case split_sign v of (neg, body) \<Rightarrow>
        let m = int (dec_acc 0 (takeWhile is_digit body)) in if neg then - m else m)"

definition spec_header_int :: "string \<Rightarrow> int" where
  "spec_header_int v =
     (case split_sign v of (neg, body) \<Rightarrow>
        if body \<noteq> [] \<and> list_all is_digit body \<and> in_int64 (digit_prefix_value v)
        then digit_prefix_value v else 0)"

definition spec_rate_limit_info :: "header \<Rightarrow> rate_limit_info" where
  "spec_rate_limit_info h =
     \<lparr>rl_limit = spec_header_int (header_get h ''X-RateLimit-Limit''),
      rl_remaining = spec_header_int (header_get h ''X-RateLimit-Remaining''),
      rl_reset = spec_header_int (header_get h ''X-RateLimit-Reset'')\<rparr>"

lemmas header_defs = is_ascii_upper_def is_ascii_lower_def ascii_upper_def ascii_lower_def
  valid_header_field_byte_def canonical_mime_header_key_def header_get_def header_add_def
  header_of_lines_def parse_rate_limit_headers_def

subsection \<open>Lemmas\<close>

text \<open>Each field is the converted header value, or 0 when the header is missing.\<close>

definition header_int :: "string \<Rightarrow> int" where
  "header_int v = (if v = [] then 0 else fst (parse_int v))"

lemma parse_rate_limit_headers_fields:
  "parse_rate_limit_headers h =
     \<lparr>rl_limit = header_int (header_get h ''X-RateLimit-Limit''),
      rl_remaining = header_int (header_get h ''X-RateLimit-Remaining''),
      rl_reset = header_int (header_get h ''X-RateLimit-Reset'')\<rparr>"
  by (simp add: parse_rate_limit_headers_def header_int_def atoi_eq_parse_int zero_rate_limit_info_def
                Let_def)

lemma header_int_in_range:
  assumes "in_int64 (digit_prefix_value v)"
  shows "header_int v = spec_header_int v"
proof (cases "v = []")
  case True
  then show ?thesis by (simp add: header_int_def spec_header_int_def split_sign_def)
next
  case False
  obtain neg body where ss: "split_sign v = (neg, body)" by (cases "split_sign v")
  define m where "m = dec_acc 0 (takeWhile is_digit body)"
  have dv: "digit_prefix_value v = (if neg then - int m else int m)"
    by (simp add: digit_prefix_value_def ss m_def)
  with assms have small: "m < 2 ^ 64"
    by (auto simp: in_int64_def int64_min_def int64_max_def split: if_splits)
  have tw: "takeWhile is_digit body = body \<longleftrightarrow> list_all is_digit body"
    by (simp add: takeWhile_eq_all_conv list_all_iff)
  show ?thesis
    using False assms small tw
    by (auto simp: header_int_def spec_header_int_def parse_int_general ss dv clamp_int64_def
                   in_int64_def Let_def m_def [symmetric] int64_min_def int64_max_def split: if_splits)
qed

lemma header_int_overflow:
  assumes "ds \<noteq> []" "list_all is_digit ds" "sg \<in> {[], ''+'', ''-''}"
    and "\<not> in_int64 (if sg = ''-'' then - int (dec_acc 0 ds) else int (dec_acc 0 ds))"
  shows "header_int (sg @ ds) = (if sg = ''-'' then int64_min else int64_max)"
  using assms parse_int_decimal [OF assms(1-3)]
  by (auto simp: header_int_def clamp_int64_def in_int64_def int64_min_def int64_max_def)

lemma ascii_upper_lower: "ascii_upper (ascii_lower c) = ascii_upper c"
  by (auto simp: ascii_upper_def ascii_lower_def is_ascii_upper_def is_ascii_lower_def
                 less_eq_char_def)

lemma ascii_lower_lower: "ascii_lower (ascii_lower c) = ascii_lower c"
  by (auto simp: ascii_lower_def is_ascii_upper_def less_eq_char_def)

lemma canon_case_lower: "canon_case b (map ascii_lower s) = canon_case b s"
  by (induction s arbitrary: b) (simp_all add: ascii_upper_lower ascii_lower_lower Let_def)

lemma canonical_key_case_insensitive:
  assumes "list_all valid_header_field_byte n" "list_all valid_header_field_byte k"
    and "map ascii_lower n = map ascii_lower k"
  shows "canonical_mime_header_key n = canonical_mime_header_key k"
  using assms canon_case_lower [of True n] canon_case_lower [of True k]
  by (simp add: canonical_mime_header_key_def)

lemma foldl_header_add_keeps_first:
  "h k = Some (v # vs) \<Longrightarrow> \<exists>vs'. foldl header_add h ls k = Some (v # vs')"
proof (induction ls arbitrary: h vs)
  case Nil
  then show ?case by simp
next
  case (Cons l ls)
  have "\<exists>vs''. header_add h l k = Some (v # vs'')"
    using Cons.prems by (auto simp: header_add_def Let_def)
  then obtain vs'' where "header_add h l k = Some (v # vs'')" by blast
  then show ?case using Cons.IH by simp
qed

lemma header_get_first_line:
  assumes "list_all valid_header_field_byte n" "list_all valid_header_field_byte k"
    and "map ascii_lower n = map ascii_lower k"
  shows "header_get (header_of_lines ((n, v) # ls)) k = v"
proof -
  have "header_add Map.empty (n, v) (canonical_mime_header_key n) = Some [v]"
    by (simp add: header_add_def)
  then obtain vs where "foldl header_add (header_add Map.empty (n, v)) ls (canonical_mime_header_key n) =
                       Some (v # vs)"
    using foldl_header_add_keeps_first by blast
  then show ?thesis using canonical_key_case_insensitive [OF assms]
    by (simp add: header_get_def header_of_lines_def)
qed

text \<open>
  C17: \<^verbatim>\<open>parseRateLimitHeaders\<close> meets spec section 3 whenever the digits of each
  header (after an optional sign) denote a value of the signed 64-bit range: a
  missing or non-numeric header gives zero and a numeric one its value.
\<close>

theorem parse_rate_limit_headers_meets_spec:
  assumes "in_int64 (digit_prefix_value (header_get h ''X-RateLimit-Limit''))"
    and "in_int64 (digit_prefix_value (header_get h ''X-RateLimit-Remaining''))"
    and "in_int64 (digit_prefix_value (header_get h ''X-RateLimit-Reset''))"
  shows "parse_rate_limit_headers h = spec_rate_limit_info h"
  using assms by (simp add: parse_rate_limit_headers_fields spec_rate_limit_info_def header_int_in_range)

text \<open>
  C18: a rate-limit header whose digits exceed the signed 64-bit range is not read
  as zero, as spec section 3 says of unparsable headers, but as the largest
  \<^verbatim>\<open>int\<close>: the code drops the range error of \<^verbatim>\<open>strconv.Atoi\<close> and keeps the
  clamped value it returns with it.
\<close>

theorem parse_rate_limit_headers_overflow:
  assumes "header_get h ''X-RateLimit-Limit'' = ds" "ds \<noteq> []" "list_all is_digit ds"
    and "int64_max < int (dec_acc 0 ds)"
  shows "rl_limit (parse_rate_limit_headers h) = int64_max \<and> rl_limit (spec_rate_limit_info h) = 0"
proof -
  have ni: "\<not> in_int64 (int (dec_acc 0 ds))" using assms(4) by (simp add: in_int64_def)
  have "header_int ([] @ ds) = int64_max"
    using header_int_overflow [of ds "[]"] assms(2,3) ni by simp
  moreover have "split_sign ds = (False, ds)"
    using split_sign_digits [of ds "[]"] assms(2,3) by simp
  moreover have tw: "takeWhile is_digit ds = ds"
    using assms(3) by (simp add: takeWhile_eq_all_conv list_all_iff)
  have "digit_prefix_value ds = int (dec_acc 0 ds)"
    using \<open>split_sign ds = (False, ds)\<close> by (simp add: digit_prefix_value_def tw)
  ultimately show ?thesis using assms(1) ni
    by (simp add: parse_rate_limit_headers_fields spec_rate_limit_info_def spec_header_int_def)
qed

text \<open>
  \<^verbatim>\<open>parseRateLimitHeaders\<close> finds the limit header whatever letter case the
  server used for its name (the runtime canonicalises names), and reads its
  first value when the header is repeated.
\<close>

lemma parse_rate_limit_headers_any_case:
  assumes "list_all valid_header_field_byte n" "map ascii_lower n = ''x-ratelimit-limit''"
  shows "rl_limit (parse_rate_limit_headers (header_of_lines ((n, v) # ls))) = header_int v"
proof -
  have "list_all valid_header_field_byte ''X-RateLimit-Limit''" by code_simp
  moreover have "map ascii_lower ''X-RateLimit-Limit'' = ''x-ratelimit-limit''" by code_simp
  ultimately have "header_get (header_of_lines ((n, v) # ls)) ''X-RateLimit-Limit'' = v"
    using header_get_first_line [of n "''X-RateLimit-Limit''"] assms by simp
  then show ?thesis by (simp add: parse_rate_limit_headers_fields)
qed

subsection \<open>Witnesses\<close>

text \<open>The headers of the 429 response of spec section 8.\<close>

theorem parse_rate_limit_headers_meets_spec_witness:
  "parse_rate_limit_headers (header_of_lines [(''X-RateLimit-Limit'', ''50''),
       (''X-RateLimit-Remaining'', ''0''), (''X-RateLimit-Reset'', ''1700000000'')]) =
     \<lparr>rl_limit = 50, rl_remaining = 0, rl_reset = 1700000000\<rparr>"
proof -
  let ?h = "header_of_lines [(''X-RateLimit-Limit'', ''50''),
       (''X-RateLimit-Remaining'', ''0''), (''X-RateLimit-Reset'', ''1700000000'')]"
  have k: "canonical_mime_header_key ''X-RateLimit-Limit'' = ''X-Ratelimit-Limit''"
          "canonical_mime_header_key ''X-RateLimit-Remaining'' = ''X-Ratelimit-Remaining''"
          "canonical_mime_header_key ''X-RateLimit-Reset'' = ''X-Ratelimit-Reset''"
    by code_simp+
  have g: "header_get ?h ''X-RateLimit-Limit'' = ''50''"
          "header_get ?h ''X-RateLimit-Remaining'' = ''0''"
          "header_get ?h ''X-RateLimit-Reset'' = ''1700000000''"
    by (simp_all add: header_get_def header_of_lines_def header_add_def k)
  have v: "digit_prefix_value ''50'' = 50" "digit_prefix_value ''0'' = 0"
          "digit_prefix_value ''1700000000'' = 1700000000"
    by (simp_all add: digit_prefix_value_def go_eval)
  have "in_int64 (digit_prefix_value ''50'')" "in_int64 (digit_prefix_value ''0'')"
       "in_int64 (digit_prefix_value ''1700000000'')"
    unfolding v by (simp_all add: in_int64_def int64_min_def int64_max_def)
  then have "parse_rate_limit_headers ?h = spec_rate_limit_info ?h"
    using parse_rate_limit_headers_meets_spec [of ?h] g by simp
  also have "\<dots> = \<lparr>rl_limit = 50, rl_remaining = 0, rl_reset = 1700000000\<rparr>"
    by (simp add: spec_rate_limit_info_def g spec_header_int_def v go_eval
                  in_int64_def int64_min_def int64_max_def)
  finally show ?thesis .
qed

theorem parse_rate_limit_headers_overflow_witness:
  "rl_limit (parse_rate_limit_headers (header_of_lines [(''X-RateLimit-Limit'', ''99999999999999999999'')]))
     = int64_max"
proof -
  let ?h = "header_of_lines [(''X-RateLimit-Limit'', ''99999999999999999999'')]"
  have k: "canonical_mime_header_key ''X-RateLimit-Limit'' = ''X-Ratelimit-Limit''" by code_simp
  have g: "header_get ?h ''X-RateLimit-Limit'' = ''99999999999999999999''"
    by (simp add: header_get_def header_of_lines_def header_add_def k)
  have "list_all is_digit ''99999999999999999999''" by (simp add: go_eval)
  moreover have "int64_max < int (dec_acc 0 ''99999999999999999999'')"
    by (simp add: go_eval int64_max_def)
  ultimately show ?thesis using parse_rate_limit_headers_overflow [OF g] by simp
qed

lemma header_int_in_int64: "in_int64 (header_int v)"
  using parse_int_in_int64 [of v "fst (parse_int v)" "snd (parse_int v)"] by (simp add: header_int_def)

end
