(* ===== verification/Url.thy ===== *)
theory Url
  imports Headers
begin

text \<open>
  \<^verbatim>\<open>url.Parse\<close> of the Go runtime (\<^verbatim>\<open>net/url\<close>, as of Go 1.22), which
  \<^verbatim>\<open>http.NewRequestWithContext\<close> applies to the URL \<^verbatim>\<open>doRequest\<close> builds.
  The model follows the runtime's functions one by one: \<^verbatim>\<open>getScheme\<close>,
  \<^verbatim>\<open>shouldEscape\<close>, \<^verbatim>\<open>unescape\<close> (its checking pass and its copying pass),
  \<^verbatim>\<open>escape\<close>, \<^verbatim>\<open>validOptionalPort\<close>, \<^verbatim>\<open>validUserinfo\<close>, \<^verbatim>\<open>parseHost\<close>,
  \<^verbatim>\<open>parseAuthority\<close>, \<^verbatim>\<open>setPath\<close>, \<^verbatim>\<open>setFragment\<close>, \<^verbatim>\<open>parse\<close> (with
  \<^verbatim>\<open>viaRequest = false\<close>, the only way \<^verbatim>\<open>Parse\<close> calls it) and \<^verbatim>\<open>Parse\<close>.
  A failure is a \<open>url_error\<close>, one constructor per error the runtime returns;
  the \<^verbatim>\<open>*url.Error\<close> wrapping (operation and URL) is left out.  The
  \<^verbatim>\<open>strings\<close> helpers the runtime calls are \<open>str_cut\<close> (\<^verbatim>\<open>strings.Cut\<close> on
  a one-byte separator), \<open>last_index\<close> (\<^verbatim>\<open>strings.LastIndex\<close> of one byte,
  \<open>None\<close> for -1) and \<open>str_index\<close> (\<^verbatim>\<open>strings.Index\<close>).
\<close>

datatype encoding =
    EncodePath | EncodePathSegment | EncodeHost | EncodeZone | EncodeUserPassword
  | EncodeQueryComponent | EncodeFragment

datatype url_error =
    ErrCtlByte
  | ErrMissingScheme
  | ErrColonInFirstSegment
  | ErrMissingBracket
  | ErrInvalidPort string
  | ErrInvalidUserinfo
  | ErrEscape string
  | ErrInvalidHost string

record userinfo =
  ui_username :: string
  ui_password :: "string option"

record url =
  url_scheme :: string
  url_opaque :: string
  url_user :: "userinfo option"
  url_host :: string
  url_path :: string
  url_raw_path :: string
  url_omit_host :: bool
  url_force_query :: bool
  url_raw_query :: string
  url_fragment :: string
  url_raw_fragment :: string

definition zero_url :: url where
  "zero_url = \<lparr>url_scheme = [], url_opaque = [], url_user = None, url_host = [], url_path = [],
     url_raw_path = [], url_omit_host = False, url_force_query = False, url_raw_query = [],
     url_fragment = [], url_raw_fragment = []\<rparr>"

subsection \<open>String helpers\<close>

definition str_cut :: "char \<Rightarrow> string \<Rightarrow> string \<times> string" where
  "str_cut c s = (takeWhile (\<lambda>x. x \<noteq> c) s, drop 1 (dropWhile (\<lambda>x. x \<noteq> c) s))"

fun last_index :: "string \<Rightarrow> char \<Rightarrow> nat option" where
  "last_index [] c = None"
| "last_index (x # xs) c =
     (case last_index xs c of Some i \<Rightarrow> Some (Suc i) | None \<Rightarrow> if x = c then Some 0 else None)"

definition str_index :: "string \<Rightarrow> string \<Rightarrow> nat option" where
  "str_index s t = find (\<lambda>i. take (length t) (drop i s) = t) [0..<Suc (length s - length t)]"

definition has_ctl_byte :: "string \<Rightarrow> bool" where
  "has_ctl_byte s \<longleftrightarrow> list_ex (\<lambda>c. of_char c < (32::nat) \<or> of_char c = (127::nat)) s"

subsection \<open>Escaping\<close>

definition is_ascii_alnum :: "char \<Rightarrow> bool" where
  "is_ascii_alnum c \<longleftrightarrow> is_ascii_lower c \<or> is_ascii_upper c \<or> is_digit c"

definition should_escape :: "char \<Rightarrow> encoding \<Rightarrow> bool" where
  "should_escape c mode =
     (if is_ascii_alnum c then False
      else if (mode = EncodeHost \<or> mode = EncodeZone) \<and> c \<in> set ''!$&'()*+,;=:[]<>\"'' then False
      else if c \<in> set ''-_.~'' then False
      else if c \<in> set ''$&+,/:;=?@'' \<and>
              mode \<in> {EncodePath, EncodePathSegment, EncodeUserPassword, EncodeQueryComponent, EncodeFragment} then
        (case mode of
           EncodePath \<Rightarrow> c = CHR ''?''
         | EncodePathSegment \<Rightarrow> c \<in> set ''/;,?''
         | EncodeUserPassword \<Rightarrow> c \<in> set ''@/?:''
         | EncodeQueryComponent \<Rightarrow> True
         | _ \<Rightarrow> False)
      else if mode = EncodeFragment \<and> c \<in> set ''!()*'' then False
      else True)"

definition ishex :: "char \<Rightarrow> bool" where
  "ishex c \<longleftrightarrow> is_digit c \<or> (CHR ''a'' \<le> c \<and> c \<le> CHR ''f'') \<or> (CHR ''A'' \<le> c \<and> c \<le> CHR ''F'')"

definition unhex :: "char \<Rightarrow> nat" where
  "unhex c =
     (if is_digit c then of_char c - 48
      else if CHR ''a'' \<le> c \<and> c \<le> CHR ''f'' then of_char c - 97 + 10
      else if CHR ''A'' \<le> c \<and> c \<le> CHR ''F'' then of_char c - 65 + 10
      else 0)"

text \<open>
  The checking pass of \<^verbatim>\<open>unescape\<close>: the first malformed or forbidden escape or
  host byte, else the number of escapes and whether a \<open>+\<close> is to become a space.
\<close>

fun unescape_scan :: "encoding \<Rightarrow> string \<Rightarrow> url_error + nat \<times> bool" where
  "unescape_scan mode [] = Inr (0, False)"
| "unescape_scan mode (c # s) =
     (if c = CHR ''%'' then
        (case s of
           a # b # rest \<Rightarrow>
             if \<not> (ishex a \<and> ishex b) then Inl (ErrEscape [c, a, b])
             else if mode = EncodeHost \<and> unhex a < 8 \<and> [c, a, b] \<noteq> ''%25'' then Inl (ErrEscape [c, a, b])
             else if mode = EncodeZone \<and> [c, a, b] \<noteq> ''%25'' \<and> 16 * unhex a + unhex b \<noteq> 32 \<and>
                     should_escape (char_of (16 * unhex a + unhex b)) EncodeHost then Inl (ErrEscape [c, a, b])
             else map_sum id (\<lambda>(n, p). (Suc n, p)) (unescape_scan mode rest)
         | _ \<Rightarrow> Inl (ErrEscape (c # s)))
      else if c = CHR ''+'' then map_sum id (\<lambda>(n, p). (n, mode = EncodeQueryComponent)) (unescape_scan mode s)
      else if (mode = EncodeHost \<or> mode = EncodeZone) \<and> of_char c < (128::nat) \<and> should_escape c mode then
        Inl (ErrInvalidHost [c])
      else unescape_scan mode s)"

text \<open>
  The copying pass, run only on a string the checking pass accepted (so every
  \<open>%\<close> is followed by two hex digits).
\<close>

fun unescape_build :: "encoding \<Rightarrow> string \<Rightarrow> string" where
  "unescape_build mode [] = []"
| "unescape_build mode (c # s) =
     (if c = CHR ''%'' then
        (case s of
           a # b # rest \<Rightarrow> char_of (16 * unhex a + unhex b) # unescape_build mode rest
         | _ \<Rightarrow> c # unescape_build mode s)
      else if c = CHR ''+'' \<and> mode = EncodeQueryComponent then CHR '' '' # unescape_build mode s
      else c # unescape_build mode s)"

definition unescape :: "string \<Rightarrow> encoding \<Rightarrow> url_error + string" where
  "unescape s mode =
     (case unescape_scan mode s of
        Inl e \<Rightarrow> Inl e
      | Inr (n, has_plus) \<Rightarrow> if n = 0 \<and> \<not> has_plus then Inr s else Inr (unescape_build mode s))"

definition upperhex :: string where
  "upperhex = ''0123456789ABCDEF''"

definition escape_byte :: "encoding \<Rightarrow> char \<Rightarrow> string" where
  "escape_byte mode c =
     (if c = CHR '' '' \<and> mode = EncodeQueryComponent then ''+''
      else if should_escape c mode then
        [CHR ''%'', upperhex ! (of_char c div 16), upperhex ! (of_char c mod 16)]
      else [c])"

definition escape :: "string \<Rightarrow> encoding \<Rightarrow> string" where
  "escape s mode = (if \<not> list_ex (\<lambda>c. should_escape c mode) s then s else concat (map (escape_byte mode) s))"

subsection \<open>Authority, path and fragment\<close>

definition valid_optional_port :: "string \<Rightarrow> bool" where
  "valid_optional_port port \<longleftrightarrow> port = [] \<or> (hd port = CHR '':'' \<and> list_all is_digit (tl port))"

definition valid_userinfo :: "string \<Rightarrow> bool" where
  "valid_userinfo s \<longleftrightarrow> list_all (\<lambda>r. is_ascii_alnum r \<or> r \<in> set ''-._:~!$&'()*+,;=%@'') s"

definition parse_host :: "string \<Rightarrow> url_error + string" where
  "parse_host host =
     (if take 1 host = ''['' then
        (case last_index host (CHR '']'') of
           None \<Rightarrow> Inl ErrMissingBracket
         | Some i \<Rightarrow>
             if \<not> valid_optional_port (drop (Suc i) host) then Inl (ErrInvalidPort (drop (Suc i) host))
             else (case str_index (take i host) ''%25'' of
                     Some z \<Rightarrow>
                       (case unescape (take z host) EncodeHost of
                          Inl e \<Rightarrow> Inl e
                        | Inr h1 \<Rightarrow>
                            (case unescape (drop z (take i host)) EncodeZone of
                               Inl e \<Rightarrow> Inl e
                             | Inr h2 \<Rightarrow>
                                 (case unescape (drop i host) EncodeHost of
                                    Inl e \<Rightarrow> Inl e
                                  | Inr h3 \<Rightarrow> Inr (h1 @ h2 @ h3))))
                   | None \<Rightarrow> unescape host EncodeHost))
      else (case last_index host (CHR '':'') of
              Some i \<Rightarrow>
                if \<not> valid_optional_port (drop i host) then Inl (ErrInvalidPort (drop i host))
                else unescape host EncodeHost
            | None \<Rightarrow> unescape host EncodeHost))"

definition parse_authority :: "string \<Rightarrow> url_error + userinfo option \<times> string" where
  "parse_authority authority =
     (case last_index authority (CHR ''@'') of
        None \<Rightarrow> map_sum id (\<lambda>h. (None, h)) (parse_host authority)
      | Some i \<Rightarrow>
          (case parse_host (drop (Suc i) authority) of
             Inl e \<Rightarrow> Inl e
           | Inr h \<Rightarrow>
               (let ui = take i authority in
                if \<not> valid_userinfo ui then Inl ErrInvalidUserinfo
                else if CHR '':'' \<notin> set ui then
                  map_sum id (\<lambda>u. (Some \<lparr>ui_username = u, ui_password = None\<rparr>, h)) (unescape ui EncodeUserPassword)
                else
                  (case unescape (fst (str_cut (CHR '':'') ui)) EncodeUserPassword of
                     Inl e \<Rightarrow> Inl e
                   | Inr u \<Rightarrow>
                       map_sum id (\<lambda>p. (Some \<lparr>ui_username = u, ui_password = Some p\<rparr>, h))
                         (unescape (snd (str_cut (CHR '':'') ui)) EncodeUserPassword)))))"

definition set_path :: "url \<Rightarrow> string \<Rightarrow> url_error + url" where
  "set_path u p =
     map_sum id (\<lambda>path. u\<lparr>url_path := path, url_raw_path := (if p = escape path EncodePath then [] else p)\<rparr>)
       (unescape p EncodePath)"

definition set_fragment :: "url \<Rightarrow> string \<Rightarrow> url_error + url" where
  "set_fragment u f =
     map_sum id (\<lambda>frag. u\<lparr>url_fragment := frag,
                           url_raw_fragment := (if f = escape frag EncodeFragment then [] else f)\<rparr>)
       (unescape f EncodeFragment)"

subsection \<open>\<^verbatim>\<open>getScheme\<close>, \<^verbatim>\<open>parse\<close> and \<^verbatim>\<open>Parse\<close>\<close>

text \<open>The loop of \<^verbatim>\<open>getScheme\<close>, \<open>i\<close> the index of the byte it looks at.\<close>

fun get_scheme_loop :: "nat \<Rightarrow> string \<Rightarrow> string \<Rightarrow> url_error + string \<times> string" where
  "get_scheme_loop i raw [] = Inr ([], raw)"
| "get_scheme_loop i raw (c # cs) =
     (if is_ascii_lower c \<or> is_ascii_upper c then get_scheme_loop (Suc i) raw cs
      else if is_digit c \<or> c \<in> set ''+-.'' then
        (if i = 0 then Inr ([], raw) else get_scheme_loop (Suc i) raw cs)
      else if c = CHR '':'' then
        (if i = 0 then Inl ErrMissingScheme else Inr (take i raw, drop (Suc i) raw))
      else Inr ([], raw))"

definition get_scheme :: "string \<Rightarrow> url_error + string \<times> string" where
  "get_scheme raw = get_scheme_loop 0 raw raw"

text \<open>The query split of \<^verbatim>\<open>parse\<close>: the rest, \<^verbatim>\<open>ForceQuery\<close> and \<^verbatim>\<open>RawQuery\<close>.\<close>

definition split_query :: "string \<Rightarrow> string \<times> bool \<times> string" where
  "split_query rest =
     (if rest \<noteq> [] \<and> last rest = CHR ''?'' \<and> count_list rest (CHR ''?'') = 1 then (butlast rest, True, [])
      else (fst (str_cut (CHR ''?'') rest), False, snd (str_cut (CHR ''?'') rest)))"

definition parse :: "string \<Rightarrow> url_error + url" where
  "parse raw =
     (if has_ctl_byte raw then Inl ErrCtlByte
      else if raw = ''*'' then Inr (zero_url\<lparr>url_path := ''*''\<rparr>)
      else (case get_scheme raw of
              Inl e \<Rightarrow> Inl e
            | Inr (sch, rest0) \<Rightarrow>
                (case split_query rest0 of
                   (rest, fq, rq) \<Rightarrow>
                     (let u = zero_url\<lparr>url_scheme := map ascii_lower sch, url_force_query := fq,
                                        url_raw_query := rq\<rparr> in
                      if take 1 rest \<noteq> ''/'' \<and> url_scheme u \<noteq> [] then Inr (u\<lparr>url_opaque := rest\<rparr>)
                      else if take 1 rest \<noteq> ''/'' \<and> CHR '':'' \<in> set (fst (str_cut (CHR ''/'') rest)) then
                        Inl ErrColonInFirstSegment
                      else if (url_scheme u \<noteq> [] \<or> take 3 rest \<noteq> ''///'') \<and> take 2 rest = ''//'' then
                        (case parse_authority (takeWhile (\<lambda>c. c \<noteq> CHR ''/'') (drop 2 rest)) of
                           Inl e \<Rightarrow> Inl e
                         | Inr (usr, h) \<Rightarrow>
                             set_path (u\<lparr>url_user := usr, url_host := h\<rparr>)
                               (dropWhile (\<lambda>c. c \<noteq> CHR ''/'') (drop 2 rest)))
                      else if url_scheme u \<noteq> [] \<and> take 1 rest = ''/'' then
                        set_path (u\<lparr>url_omit_host := True\<rparr>) rest
                      else set_path u rest))))"

definition url_parse :: "string \<Rightarrow> url_error + url" where
  "url_parse raw =
     (case parse (fst (str_cut (CHR ''#'') raw)) of
        Inl e \<Rightarrow> Inl e
      | Inr u \<Rightarrow> if snd (str_cut (CHR ''#'') raw) = [] then Inr u else set_fragment u (snd (str_cut (CHR ''#'') raw)))"

text \<open>
  Byte classes for the lemmas: the modes whose escapes carry no restriction,
  and the bytes of a host name and of a path that need no escape.
\<close>

definition plain_mode :: "encoding \<Rightarrow> bool" where
  "plain_mode mode \<longleftrightarrow> mode \<in> {EncodePath, EncodePathSegment, EncodeUserPassword, EncodeFragment}"

definition host_byte :: "char \<Rightarrow> bool" where
  "host_byte c \<longleftrightarrow> is_ascii_alnum c \<or> c = CHR ''.'' \<or> c = CHR ''-''"

definition path_byte :: "char \<Rightarrow> bool" where
  "path_byte c \<longleftrightarrow> is_ascii_alnum c \<or> c \<in> set ''-._~/''"

lemmas url_defs [go_eval] = url_parse_def parse_def split_query_def get_scheme_def set_path_def set_fragment_def
  parse_authority_def parse_host_def valid_userinfo_def valid_optional_port_def escape_def escape_byte_def
  upperhex_def unescape_def unhex_def ishex_def should_escape_def is_ascii_alnum_def has_ctl_byte_def
  str_index_def str_cut_def zero_url_def

subsection \<open>Lemmas\<close>

lemma upperhex_digit:
  assumes "d < 16"
  shows "ishex (upperhex ! d) \<and> unhex (upperhex ! d) = d"
proof -
  have "list_all (\<lambda>d. ishex (upperhex ! d) \<and> unhex (upperhex ! d) = d) [0..<16]" by code_simp
  with assms show ?thesis by (simp add: list_all_iff)
qed

lemma char_div16: "of_char c div 16 < (16::nat)"
  using less_mult_imp_div_less [of "of_char c" 16 16] nat_of_char_less_256 [of c] by simp

lemma should_escape_percent [simp]: "should_escape CHR ''%'' mode"
  by (cases mode) (simp_all add: should_escape_def is_ascii_alnum_def is_ascii_lower_def is_ascii_upper_def
                                  is_digit_def)

lemma escape_byte_cases:
  assumes "plain_mode mode"
  shows "escape_byte mode c =
           (if should_escape c mode
            then [CHR ''%'', upperhex ! (of_char c div 16), upperhex ! (of_char c mod 16)] else [c])"
  using assms by (auto simp: escape_byte_def plain_mode_def)

lemma unescape_scan_escaped:
  assumes "plain_mode mode"
  shows "unescape_scan mode (concat (map (escape_byte mode) s)) = Inr (length (filter (\<lambda>c. should_escape c mode) s), False)"
proof (induction s)
  case Nil then show ?case by simp
next
  case (Cons c s)
  have m: "mode \<noteq> EncodeHost" "mode \<noteq> EncodeZone" "mode \<noteq> EncodeQueryComponent"
    using assms by (auto simp: plain_mode_def)
  show ?case
  proof (cases "should_escape c mode")
    case True
    have h1: "ishex (upperhex ! (of_char c div 16))" using upperhex_digit [OF char_div16] by blast
    have h2: "ishex (upperhex ! (of_char c mod 16))" using upperhex_digit [of "of_char c mod 16"] by simp
    show ?thesis using True Cons.IH m h1 h2 by (simp add: escape_byte_cases [OF assms])
  next
    case False
    then have "c \<noteq> CHR ''%''" by auto
    with False Cons.IH m show ?thesis by (simp add: escape_byte_cases [OF assms])
  qed
qed

lemma unescape_build_escaped:
  assumes "plain_mode mode"
  shows "unescape_build mode (concat (map (escape_byte mode) s)) = s"
proof (induction s)
  case Nil then show ?case by simp
next
  case (Cons c s)
  have m: "mode \<noteq> EncodeQueryComponent" using assms by (auto simp: plain_mode_def)
  show ?case
  proof (cases "should_escape c mode")
    case True
    note d = char_div16 [of c]
    have v: "16 * unhex (upperhex ! (of_char c div 16)) + unhex (upperhex ! (of_char c mod 16)) = of_char c"
      using upperhex_digit [OF d] upperhex_digit [of "of_char c mod 16"] by simp
    show ?thesis using True Cons.IH v by (simp add: escape_byte_cases [OF assms])
  next
    case False
    then have "c \<noteq> CHR ''%''" by auto
    with False Cons.IH m show ?thesis by (simp add: escape_byte_cases [OF assms])
  qed
qed

lemma unescape_scan_plain:
  assumes "plain_mode mode" and "CHR ''%'' \<notin> set s"
  shows "unescape_scan mode s = Inr (0, False)"
  using assms(2)
proof (induction s)
  case Nil then show ?case by simp
next
  case (Cons c s)
  then show ?case using assms(1) by (auto simp: plain_mode_def)
qed

lemma unescape_escape:
  assumes "plain_mode mode"
  shows "unescape (escape s mode) mode = Inr s"
proof (cases "list_ex (\<lambda>c. should_escape c mode) s")
  case False
  then have "CHR ''%'' \<notin> set s" by (auto simp: list_ex_iff)
  with False show ?thesis by (simp add: escape_def unescape_def unescape_scan_plain [OF assms])
next
  case True
  then have "filter (\<lambda>c. should_escape c mode) s \<noteq> []" by (auto simp: list_ex_iff filter_empty_conv)
  with True show ?thesis
    by (simp add: escape_def unescape_def unescape_scan_escaped [OF assms] unescape_build_escaped [OF assms])
qed
lemma get_scheme_loop_letters:
  "list_all is_ascii_lower xs \<Longrightarrow>
   get_scheme_loop i raw (xs @ CHR '':'' # rest) =
     (if i + length xs = 0 then Inl ErrMissingScheme
      else Inr (take (i + length xs) raw, drop (Suc (i + length xs)) raw))"
proof (induction xs arbitrary: i)
  case Nil
  have "\<not> is_ascii_lower CHR '':''" "\<not> is_ascii_upper CHR '':''" "\<not> is_digit CHR '':''"
    by (simp_all add: is_ascii_lower_def is_ascii_upper_def is_digit_def less_eq_char_def)
  then show ?case by simp
next
  case (Cons x xs)
  then show ?case by simp
qed

lemma last_index_None: "c \<notin> set s \<Longrightarrow> last_index s c = None"
  by (induction s) auto

lemma unescape_scan_unreserved:
  "list_all (\<lambda>c. c \<noteq> CHR ''%'' \<and> c \<noteq> CHR ''+'' \<and> \<not> should_escape c mode) s \<Longrightarrow>
   unescape_scan mode s = Inr (0, False)"
  by (induction s) simp_all

lemma unescape_unreserved:
  "list_all (\<lambda>c. c \<noteq> CHR ''%'' \<and> c \<noteq> CHR ''+'' \<and> \<not> should_escape c mode) s \<Longrightarrow> unescape s mode = Inr s"
  by (simp add: unescape_def unescape_scan_unreserved)

lemma alnum_not_special:
  assumes "is_ascii_alnum c"
  shows "c \<notin> set ''%+/@:[#?'' \<and> \<not> (of_char c < (32::nat) \<or> of_char c = (127::nat)) \<and>
         \<not> should_escape c mode"
proof -
  have "\<forall>d \<in> set ''%+/@:[#?''. \<not> is_ascii_alnum d" by code_simp
  then have "c \<notin> set ''%+/@:[#?''" using assms by blast
  moreover have "\<not> (of_char c < (32::nat) \<or> of_char c = (127::nat))"
    using assms by (auto simp: is_ascii_alnum_def is_ascii_lower_def is_ascii_upper_def is_digit_iff less_eq_char_def)
  ultimately show ?thesis using assms by (simp add: should_escape_def)
qed

lemma host_byte_unreserved:
  assumes "host_byte c"
  shows "c \<notin> set ''%+/@:[#?'' \<and> \<not> should_escape c EncodeHost \<and>
         \<not> (of_char c < (32::nat) \<or> of_char c = (127::nat))"
proof -
  have "\<not> should_escape CHR ''.'' EncodeHost" "\<not> should_escape CHR ''-'' EncodeHost"
    by code_simp+
  then show ?thesis using assms alnum_not_special [of c EncodeHost] by (auto simp: host_byte_def)
qed

lemma path_byte_unreserved:
  assumes "path_byte c"
  shows "c \<notin> set ''%+#?'' \<and> \<not> should_escape c EncodePath \<and>
         \<not> (of_char c < (32::nat) \<or> of_char c = (127::nat))"
proof -
  have "\<forall>d \<in> set ''-._~/''. \<not> should_escape d EncodePath" by code_simp
  then show ?thesis using assms alnum_not_special [of c EncodePath] by (auto simp: path_byte_def)
qed
lemma str_cut_absent: "c \<notin> set s \<Longrightarrow> str_cut c s = (s, [])"
  by (induction s) (auto simp: str_cut_def)

lemma parse_authority_host:
  assumes "list_all host_byte host"
  shows "parse_authority host = Inr (None, host)"
proof -
  have hb: "c \<in> set host \<Longrightarrow> c \<notin> set ''%+/@:[#?'' \<and> \<not> should_escape c EncodeHost" for c
    using assms host_byte_unreserved by (auto simp: list_all_iff)
  have "take 1 host \<noteq> ''[''" using hb by (cases host) auto
  moreover have "CHR '':'' \<notin> set host" "CHR ''@'' \<notin> set host" using hb by auto
  then have "last_index host (CHR '':'') = None" "last_index host (CHR ''@'') = None"
    by (simp_all add: last_index_None)
  moreover have "unescape host EncodeHost = Inr host"
    using hb by (intro unescape_unreserved) (auto simp: list_all_iff)
  ultimately show ?thesis by (simp add: parse_authority_def parse_host_def)
qed

lemma set_path_plain:
  assumes "list_all path_byte path"
  shows "set_path u path = Inr (u\<lparr>url_path := path, url_raw_path := []\<rparr>)"
proof -
  have pb: "c \<in> set path \<Longrightarrow> c \<notin> set ''%+#?'' \<and> \<not> should_escape c EncodePath" for c
    using assms path_byte_unreserved by (auto simp: list_all_iff)
  have "unescape path EncodePath = Inr path"
    using pb by (intro unescape_unreserved) (auto simp: list_all_iff)
  moreover have "escape path EncodePath = path" using pb by (auto simp: escape_def list_ex_iff)
  ultimately show ?thesis by (simp add: set_path_def)
qed
lemma url_parse_simple:
  assumes sch: "sch = ''http'' \<or> sch = ''https''"
    and host: "list_all host_byte host" and path: "list_all path_byte path"
    and slash: "path = [] \<or> hd path = CHR ''/''"
  shows "url_parse (sch @ ''://'' @ host @ path) =
           Inr (zero_url\<lparr>url_scheme := sch, url_host := host, url_path := path\<rparr>)"
proof -
  have hb: "c \<in> set host \<Longrightarrow> c \<notin> set ''%+/@:[#?'' \<and> \<not> (of_char c < (32::nat) \<or> of_char c = (127::nat))" for c
    using host host_byte_unreserved by (auto simp: list_all_iff)
  have pb: "c \<in> set path \<Longrightarrow> c \<notin> set ''%+#?'' \<and> \<not> (of_char c < (32::nat) \<or> of_char c = (127::nat))" for c
    using path path_byte_unreserved by (auto simp: list_all_iff)
  have sl: "list_all is_ascii_lower sch" "map ascii_lower sch = sch" "sch \<noteq> []"
    "\<not> has_ctl_byte sch" "CHR ''#'' \<notin> set sch"
    using sch by (auto simp: is_ascii_lower_def ascii_lower_def is_ascii_upper_def has_ctl_byte_def)
  let ?rest = "CHR ''/'' # CHR ''/'' # host @ path"
  let ?raw = "sch @ CHR '':'' # ?rest"
  have nsharp: "CHR ''#'' \<notin> set ?raw" using sl(5) hb pb by auto
  have nq: "CHR ''?'' \<notin> set ?rest" using hb pb by auto
  have nctl: "\<not> has_ctl_byte ?raw" using sl(4) hb pb by (auto simp: has_ctl_byte_def list_ex_iff)
  have gs: "get_scheme ?raw = Inr (sch, ?rest)"
    using get_scheme_loop_letters [OF sl(1), of 0 ?raw ?rest] sl(3) by (simp add: get_scheme_def)
  have sq: "split_query ?rest = (?rest, False, [])"
    using str_cut_absent [OF nq] nq by (simp add: split_query_def count_list_0_iff)
  have nh: "\<forall>c \<in> set host. c \<noteq> CHR ''/''" using hb by auto
  have tw: "takeWhile (\<lambda>c. c \<noteq> CHR ''/'') (host @ path) = host"
    and dw: "dropWhile (\<lambda>c. c \<noteq> CHR ''/'') (host @ path) = path"
    using nh slash by (cases path; simp add: takeWhile_append2 dropWhile_append2)+
  have nstar: "?raw \<noteq> ''*''" using sl(3) by (cases sch) auto
  have p: "parse ?raw = Inr (zero_url\<lparr>url_scheme := sch, url_host := host, url_path := path\<rparr>)"
    using nctl nstar sl(2,3)
    by (simp add: parse_def gs sq Let_def tw dw parse_authority_host [OF host] set_path_plain [OF path]
                  zero_url_def)
  show ?thesis by (simp add: url_parse_def str_cut_absent [OF nsharp] p)
qed

end
