(* ===== verification/Client.thy ===== *)
theory Client
  imports Prelude
begin

text \<open>
  Client construction (\<^verbatim>\<open>src/client.go\<close>: \<^verbatim>\<open>NewClient\<close>,
  \<^verbatim>\<open>NewClientWithConfig\<close>; \<^verbatim>\<open>src/unnamed/part_000\<close>: the functional options
  and \<^verbatim>\<open>NewClientWithOptions\<close>).  A \<^verbatim>\<open>Client\<close> holds a pointer to an
  \<^verbatim>\<open>http.Client\<close>, and that object may be shared with the caller, so the
  \<^verbatim>\<open>http.Client\<close> objects live in an explicit heap: a list indexed by address,
  \<open>alloc\<close> appending a fresh object.  A nil pointer is \<open>None\<close>.  Of an
  \<^verbatim>\<open>http.Client\<close> only the \<^verbatim>\<open>Timeout\<close> (a \<^verbatim>\<open>time.Duration\<close>, in nanoseconds)
  is modelled; the transport behind it is a parameter of the request pipeline.
  The \<^verbatim>\<open>ClientOption\<close> closures the package defines are the three constructors
  of \<open>client_option\<close>, and \<open>apply_option\<close> runs one; \<open>None\<close> is the nil-pointer
  panic of \<^verbatim>\<open>WithTimeout\<close> on a client whose \<^verbatim>\<open>http.Client\<close> is nil.
\<close>

type_synonym hc_ref = nat

record http_client =
  hc_timeout :: int

type_synonym hc_heap = "http_client list"

record client =
  api_key :: string
  base_url :: string
  http_client :: "hc_ref option"

record config =
  cfg_api_key :: string
  cfg_base_url :: string
  cfg_http_client :: "hc_ref option"
  cfg_timeout :: int

definition default_base_url :: string where
  "default_base_url = ''https://api.autosend.com/v1''"

text \<open>\<^verbatim>\<open>30 * time.Second\<close>, in nanoseconds.\<close>

definition default_timeout :: int where
  "default_timeout = 30 * 1000000000"

definition alloc :: "hc_heap \<Rightarrow> http_client \<Rightarrow> hc_ref \<times> hc_heap" where
  "alloc h v = (length h, h @ [v])"

definition new_client :: "string \<Rightarrow> hc_heap \<Rightarrow> client \<times> hc_heap" where
  "new_client key h =
     (let (r, h') = alloc h \<lparr>hc_timeout = default_timeout\<rparr>
      in (\<lparr>api_key = key, base_url = default_base_url, http_client = Some r\<rparr>, h'))"

definition new_client_with_config :: "config \<Rightarrow> hc_heap \<Rightarrow> client \<times> hc_heap" where
  "new_client_with_config cfg h =
     (let base = (if cfg_base_url cfg = [] then default_base_url else cfg_base_url cfg) in
      case cfg_http_client cfg of
        Some r \<Rightarrow> (\<lparr>api_key = cfg_api_key cfg, base_url = base, http_client = Some r\<rparr>, h)
      | None \<Rightarrow>
          (let t = (if cfg_timeout cfg = 0 then default_timeout else cfg_timeout cfg);
               (r, h') = alloc h \<lparr>hc_timeout = t\<rparr>
           in (\<lparr>api_key = cfg_api_key cfg, base_url = base, http_client = Some r\<rparr>, h')))"

datatype client_option =
    WithBaseURL string
  | WithHTTPClient "hc_ref option"
  | WithTimeout int

text \<open>
  \<^verbatim>\<open>WithTimeout\<close> writes through the client's pointer,
  \<^verbatim>\<open>c.httpClient.Timeout = timeout\<close>: it changes the object in the heap, which
  may be one the caller handed in with \<^verbatim>\<open>WithHTTPClient\<close>.  An address outside
  the heap is not an object Go code can hold; it is treated like nil.
\<close>

fun apply_option :: "client_option \<Rightarrow> client \<times> hc_heap \<Rightarrow> (client \<times> hc_heap) option" where
  "apply_option (WithBaseURL u) (c, h) = Some (c\<lparr>base_url := u\<rparr>, h)"
| "apply_option (WithHTTPClient p) (c, h) = Some (c\<lparr>http_client := p\<rparr>, h)"
| "apply_option (WithTimeout t) (c, h) =
     (case http_client c of
        None \<Rightarrow> None
      | Some r \<Rightarrow> if r < length h then Some (c, h[r := (h ! r)\<lparr>hc_timeout := t\<rparr>]) else None)"

fun apply_options :: "client_option list \<Rightarrow> client \<times> hc_heap \<Rightarrow> (client \<times> hc_heap) option" where
  "apply_options [] s = Some s"
| "apply_options (opt # opts) s =
     (case apply_option opt s of None \<Rightarrow> None | Some s' \<Rightarrow> apply_options opts s')"

definition new_client_with_options :: "string \<Rightarrow> client_option list \<Rightarrow> hc_heap \<Rightarrow> (client \<times> hc_heap) option" where
  "new_client_with_options key opts h =
     (let (r, h') = alloc h \<lparr>hc_timeout = default_timeout\<rparr>
      in apply_options opts (\<lparr>api_key = key, base_url = default_base_url, http_client = Some r\<rparr>, h'))"

text \<open>The \<^verbatim>\<open>http.Client\<close> a client sends through, if its pointer is not nil.\<close>

definition client_transport :: "client \<Rightarrow> hc_heap \<Rightarrow> http_client option" where
  "client_transport c h =
     (case http_client c of None \<Rightarrow> None | Some r \<Rightarrow> if r < length h then Some (h ! r) else None)"

text \<open>The base URL a list of options leaves, starting from \<open>u\<close>: the last \<^verbatim>\<open>WithBaseURL\<close> wins.\<close>

fun options_base_url :: "client_option list \<Rightarrow> string \<Rightarrow> string" where
  "options_base_url [] u = u"
| "options_base_url (WithBaseURL u' # opts) u = options_base_url opts u'"
| "options_base_url (_ # opts) u = options_base_url opts u"

lemmas client_defs = new_client_def new_client_with_config_def new_client_with_options_def alloc_def
  client_transport_def default_base_url_def default_timeout_def

subsection \<open>Lemmas\<close>

lemma apply_options_Cons_Some:
  "apply_option opt s = Some s' \<Longrightarrow> apply_options (opt # opts) s = apply_options opts s'"
  by simp

text \<open>
  Applying options never allocates, and it changes only objects the client
  pointed to when a \<^verbatim>\<open>WithTimeout\<close> ran: the object the client started with,
  or one handed in by a \<^verbatim>\<open>WithHTTPClient\<close> option.
\<close>

lemma apply_options_frame:
  "apply_options opts (c, h) = Some (c', h') \<Longrightarrow>
   length h' = length h \<and>
   (\<forall>a < length h. http_client c \<noteq> Some a \<longrightarrow> WithHTTPClient (Some a) \<notin> set opts \<longrightarrow> h' ! a = h ! a)"
proof (induction opts arbitrary: c h)
  case Nil
  then show ?case by simp
next
  case (Cons opt opts)
  then obtain c1 h1 where step: "apply_option opt (c, h) = Some (c1, h1)"
    and rest: "apply_options opts (c1, h1) = Some (c', h')"
    by (auto split: option.splits)
  have ih: "length h' = length h1 \<and>
    (\<forall>a < length h1. http_client c1 \<noteq> Some a \<longrightarrow> WithHTTPClient (Some a) \<notin> set opts \<longrightarrow> h' ! a = h1 ! a)"
    using Cons.IH [OF rest] .
  show ?case
  proof (cases opt)
    case (WithBaseURL u)
    with step ih show ?thesis by auto
  next
    case (WithHTTPClient p)
    with step ih show ?thesis by auto
  next
    case (WithTimeout t)
    with step ih show ?thesis
      by (auto split: option.splits if_splits simp: nth_list_update)
  qed
qed

lemma apply_options_fields:
  "apply_options opts (c, h) = Some (c', h') \<Longrightarrow>
   api_key c' = api_key c \<and> base_url c' = options_base_url opts (base_url c)"
proof (induction opts arbitrary: c h)
  case Nil
  then show ?case by simp
next
  case (Cons opt opts)
  then obtain c1 h1 where step: "apply_option opt (c, h) = Some (c1, h1)"
    and rest: "apply_options opts (c1, h1) = Some (c', h')"
    by (auto split: option.splits)
  from Cons.IH [OF rest] step show ?case
    by (cases opt) (auto split: option.splits if_splits)
qed

lemma new_client_with_options_fields:
  "new_client_with_options key opts h = Some (c, h') \<Longrightarrow>
   api_key c = key \<and> base_url c = options_base_url opts default_base_url"
  using apply_options_fields [of opts] by (simp add: new_client_with_options_def alloc_def)

text \<open>
  C20: the three construction modes agree: \<^verbatim>\<open>NewClientWithOptions\<close> without
  options and \<^verbatim>\<open>NewClientWithConfig\<close> with only the key set build the same
  client, with the same fresh \<^verbatim>\<open>http.Client\<close>, as \<^verbatim>\<open>NewClient\<close>.
\<close>

theorem construction_modes_agree:
  "new_client_with_options key [] h = Some (new_client key h) \<and>
   new_client_with_config \<lparr>cfg_api_key = key, cfg_base_url = [], cfg_http_client = None, cfg_timeout = 0\<rparr> h =
     new_client key h \<and>
   client_transport (fst (new_client key h)) (snd (new_client key h)) = Some \<lparr>hc_timeout = default_timeout\<rparr>"
  by (simp add: client_defs)

text \<open>
  \<^verbatim>\<open>NewClientWithConfig\<close> replaces an empty base URL and a nil
  \<^verbatim>\<open>http.Client\<close> by the defaults, and a zero timeout by the default timeout
  when it builds the \<^verbatim>\<open>http.Client\<close> itself; a configured \<^verbatim>\<open>http.Client\<close> is
  used as it is, and nothing is allocated for it.
\<close>

lemma config_defaults:
  assumes "new_client_with_config cfg h = (c, h')"
  shows "api_key c = cfg_api_key cfg \<and>
         base_url c = (if cfg_base_url cfg = [] then default_base_url else cfg_base_url cfg) \<and>
         (case cfg_http_client cfg of
            None \<Rightarrow> client_transport c h' =
                      Some \<lparr>hc_timeout = (if cfg_timeout cfg = 0 then default_timeout else cfg_timeout cfg)\<rparr>
          | Some r \<Rightarrow> http_client c = Some r \<and> h' = h)"
  using assms by (cases "cfg_http_client cfg") (auto simp: client_defs Let_def)

text \<open>
  C22: a timeout given in the \<^verbatim>\<open>Config\<close> together with an \<^verbatim>\<open>http.Client\<close> is
  ignored: the client sends with the given \<^verbatim>\<open>http.Client\<close> and its own
  timeout, although the spec says explicit configuration values always win.
\<close>

theorem config_timeout_ignored_with_http_client:
  assumes "cfg_http_client cfg = Some r" and "r < length h"
  shows "client_transport (fst (new_client_with_config cfg h)) (snd (new_client_with_config cfg h)) =
           Some (h ! r)"
  using assms by (simp add: client_defs)

lemma options_pair_step:
  "r < length h \<Longrightarrow>
   apply_options [WithHTTPClient (Some r), WithTimeout t] (c, h) =
     Some (c\<lparr>http_client := Some r\<rparr>, h[r := (h ! r)\<lparr>hc_timeout := t\<rparr>])"
  by simp

text \<open>
  C21: \<^verbatim>\<open>WithTimeout\<close> after \<^verbatim>\<open>WithHTTPClient\<close> writes the timeout into the
  caller's \<^verbatim>\<open>http.Client\<close>: building a second client changes the timeout of
  every existing client that shares that object, against the spec's invariant
  that a client's transport is immutable once constructed.
\<close>

theorem with_timeout_mutates_shared_client:
  assumes "r < length h" and "http_client a = Some r"
  shows "\<exists>b h'. new_client_with_options key [WithHTTPClient (Some r), WithTimeout t] h = Some (b, h') \<and>
                client_transport a h' = Some ((h ! r)\<lparr>hc_timeout := t\<rparr>) \<and>
                client_transport b h' = client_transport a h'"
  using assms by (simp add: client_defs nth_append nth_list_update)

text \<open>
  C23: \<^verbatim>\<open>WithTimeout\<close> after \<^verbatim>\<open>WithHTTPClient(nil)\<close> dereferences the nil
  pointer: \<^verbatim>\<open>NewClientWithOptions\<close> panics instead of returning a client,
  although the spec says the library never panics.
\<close>

theorem nil_http_client_then_timeout_panics:
  "new_client_with_options key [WithHTTPClient None, WithTimeout t] h = None"
  by (simp add: client_defs)

text \<open>
  C24: building a client with options leaves every \<^verbatim>\<open>http.Client\<close> of the
  caller unchanged unless it was handed in with \<^verbatim>\<open>WithHTTPClient\<close>, and
  allocates exactly one object.
\<close>

theorem options_frame:
  assumes "new_client_with_options key opts h = Some (c, h')"
  shows "length h' = Suc (length h) \<and>
         (\<forall>a < length h. WithHTTPClient (Some a) \<notin> set opts \<longrightarrow> h' ! a = h ! a)"
proof -
  have run: "apply_options opts (\<lparr>api_key = key, base_url = default_base_url, http_client = Some (length h)\<rparr>,
                                  h @ [\<lparr>hc_timeout = default_timeout\<rparr>]) = Some (c, h')"
    using assms by (simp add: new_client_with_options_def alloc_def)
  show ?thesis
    using apply_options_frame [OF run] by (auto simp: nth_append)
qed


subsection \<open>Witnesses\<close>

theorem config_timeout_ignored_with_http_client_witness:
  "cfg_http_client \<lparr>cfg_api_key = ''k'', cfg_base_url = [], cfg_http_client = Some 0, cfg_timeout = 5\<rparr> = Some 0 \<and>
   client_transport (fst (new_client_with_config
       \<lparr>cfg_api_key = ''k'', cfg_base_url = [], cfg_http_client = Some 0, cfg_timeout = 5\<rparr> [\<lparr>hc_timeout = 7\<rparr>]))
     (snd (new_client_with_config
       \<lparr>cfg_api_key = ''k'', cfg_base_url = [], cfg_http_client = Some 0, cfg_timeout = 5\<rparr> [\<lparr>hc_timeout = 7\<rparr>])) =
     Some \<lparr>hc_timeout = 7\<rparr>"
  using config_timeout_ignored_with_http_client
          [of "\<lparr>cfg_api_key = ''k'', cfg_base_url = [], cfg_http_client = Some 0, cfg_timeout = 5\<rparr>" 0
              "[\<lparr>hc_timeout = 7\<rparr>]"]
  by simp

theorem with_timeout_mutates_shared_client_witness:
  "\<exists>b h'. new_client_with_options ''key_b'' [WithHTTPClient (Some 0), WithTimeout 9] [\<lparr>hc_timeout = 7\<rparr>] = Some (b, h') \<and>
          client_transport \<lparr>api_key = ''key_a'', base_url = default_base_url, http_client = Some 0\<rparr> h' =
            Some \<lparr>hc_timeout = 9\<rparr> \<and>
          client_transport b h' =
            client_transport \<lparr>api_key = ''key_a'', base_url = default_base_url, http_client = Some 0\<rparr> h'"
  using with_timeout_mutates_shared_client
          [of 0 "[\<lparr>hc_timeout = 7\<rparr>]" "\<lparr>api_key = ''key_a'', base_url = default_base_url, http_client = Some 0\<rparr>"
              "''key_b''" 9]
  by simp

theorem options_frame_witness:
  "new_client_with_options ''k'' [WithBaseURL ''http://localhost''] [\<lparr>hc_timeout = 7\<rparr>] =
     Some (\<lparr>api_key = ''k'', base_url = ''http://localhost'', http_client = Some 1\<rparr>,
           [\<lparr>hc_timeout = 7\<rparr>, \<lparr>hc_timeout = default_timeout\<rparr>]) \<and>
   [\<lparr>hc_timeout = 7\<rparr>, \<lparr>hc_timeout = default_timeout\<rparr>] ! 0 = \<lparr>hc_timeout = 7\<rparr>"
proof -
  have h: "new_client_with_options ''k'' [WithBaseURL ''http://localhost''] [\<lparr>hc_timeout = 7\<rparr>] =
     Some (\<lparr>api_key = ''k'', base_url = ''http://localhost'', http_client = Some 1\<rparr>,
           [\<lparr>hc_timeout = 7\<rparr>, \<lparr>hc_timeout = default_timeout\<rparr>])"
    by (simp add: new_client_with_options_def alloc_def)
  show ?thesis using options_frame [OF h] h by simp
qed

end
