(* ===== verification/Http.thy ===== *)
theory Http
  imports Url Client
begin

text \<open>
  The part of the Go runtime's \<^verbatim>\<open>net/http\<close> that the pipeline of
  \<^verbatim>\<open>src/client.go\<close> goes through: the request and response types,
  \<^verbatim>\<open>http.NewRequestWithContext\<close> (method check, nil-context check,
  \<^verbatim>\<open>url.Parse\<close>, the host without an empty port), and the checks
  \<^verbatim>\<open>http.Transport\<close> makes before any connection (\<open>round_trip_check\<close>),
  after which \<open>http_do\<close> hands the request to the network.  The network is a
  parameter, a \<open>transport\<close>, which maps the \<^verbatim>\<open>http.Client\<close> and the
  request to a failure or a response; \<open>Timing\<close> builds the transports that
  \<^verbatim>\<open>http.Client.Do\<close> makes of a network under its deadline.  The context is
  the state it has at the call (\<open>ctx_state\<close>), which the request carries.
\<close>

datatype ctx_state = CtxActive | CtxCanceled | CtxDeadlineExceeded

text \<open>
  The errors \<^verbatim>\<open>http.Client.Do\<close> returns.  \<open>TEInvalidHeader\<close> is the
  \<^verbatim>\<open>invalid header field name\<close> or \<^verbatim>\<open>value\<close> error of the transport; which of
  the two, and the key it names, depend on Go's random map iteration order, so
  the model keeps the kind only.  \<open>TEClientTimeout\<close> is the error of the
  client's own timer (\<^verbatim>\<open>Client.Timeout exceeded\<close>), \<open>TEDeadlineExceeded\<close>
  that of the context's deadline.
\<close>

datatype transport_error =
    TECanceled | TEDeadlineExceeded | TEClientTimeout | TENetwork string
  | TEInvalidHeader | TEUnsupportedScheme string | TEInvalidMethod string | TENoHost

record http_request =
  hr_method :: string
  hr_url :: url
  hr_header :: header
  hr_body :: string
  hr_host :: string
  hr_ctx :: ctx_state

record http_response =
  hresp_status :: int
  hresp_header :: header
  hresp_body :: "transport_error + string"

type_synonym transport = "http_client \<Rightarrow> http_request \<Rightarrow> transport_error + http_response"

datatype event = EvDispatch http_request | EvReadBody | EvCloseBody

datatype new_request_error = ErrInvalidMethod string | ErrNilContext | ErrParseURL url_error

subsection \<open>\<^verbatim>\<open>http.NewRequestWithContext\<close> and \<^verbatim>\<open>http.Client.Do\<close>\<close>

text \<open>
  \<^verbatim>\<open>validMethod\<close>, and the header checks of \<^verbatim>\<open>golang.org/x/net/http/httpguts\<close>:
  a name is a non-empty token, a value holds no control byte but the tab.
\<close>

definition valid_method :: "string \<Rightarrow> bool" where
  "valid_method m \<longleftrightarrow> m \<noteq> [] \<and> list_all valid_header_field_byte m"

definition valid_header_field_name :: "string \<Rightarrow> bool" where
  "valid_header_field_name k \<longleftrightarrow> k \<noteq> [] \<and> list_all valid_header_field_byte k"

definition valid_header_field_value :: "string \<Rightarrow> bool" where
  "valid_header_field_value v \<longleftrightarrow>
     list_all (\<lambda>b. \<not> (of_char b < (32::nat) \<or> of_char b = (127::nat)) \<or> b = CHR '' '' \<or> b = CHR 0x09) v"

definition header_valid :: "header \<Rightarrow> bool" where
  "header_valid h \<longleftrightarrow>
     (\<forall>k \<in> dom h. valid_header_field_name k \<and> list_all valid_header_field_value (the (h k)))"

text \<open>\<^verbatim>\<open>removeEmptyPort\<close> and \<^verbatim>\<open>hasPort\<close>.\<close>

definition has_port :: "string \<Rightarrow> bool" where
  "has_port s =
     (case last_index s (CHR '':'') of
        None \<Rightarrow> False
      | Some i \<Rightarrow> (case last_index s (CHR '']'') of None \<Rightarrow> True | Some j \<Rightarrow> j < i))"

definition remove_empty_port :: "string \<Rightarrow> string" where
  "remove_empty_port h = (if has_port h \<and> last h = CHR '':'' then butlast h else h)"

definition new_request_with_context ::
  "ctx_state option \<Rightarrow> string \<Rightarrow> string \<Rightarrow> string \<Rightarrow> new_request_error + http_request" where
  "new_request_with_context ctx method0 raw body =
     (let method = (if method0 = [] then ''GET'' else method0) in
      if \<not> valid_method method then Inl (ErrInvalidMethod method)
      else (case ctx of
              None \<Rightarrow> Inl ErrNilContext
            | Some st \<Rightarrow>
                (case url_parse raw of
                   Inl e \<Rightarrow> Inl (ErrParseURL e)
                 | Inr u \<Rightarrow>
                     Inr \<lparr>hr_method = method, hr_url = u\<lparr>url_host := remove_empty_port (url_host u)\<rparr>,
                          hr_header = Map.empty, hr_body = body, hr_host = remove_empty_port (url_host u),
                          hr_ctx = st\<rparr>)))"

text \<open>
  The checks of \<^verbatim>\<open>http.Transport.roundTrip\<close> before it opens a connection, in
  its order: header names and values (for \<^verbatim>\<open>http\<close> and \<^verbatim>\<open>https\<close> only), the
  scheme, the method, the host, and last the context.  \<open>http_do\<close> dispatches
  the request once they pass.
\<close>

definition round_trip_check :: "http_request \<Rightarrow> transport_error option" where
  "round_trip_check r =
     (let scheme = url_scheme (hr_url r); is_http = (scheme = ''http'' \<or> scheme = ''https'') in
      if is_http \<and> \<not> header_valid (hr_header r) then Some TEInvalidHeader
      else if \<not> is_http then Some (TEUnsupportedScheme scheme)
      else if hr_method r \<noteq> [] \<and> \<not> valid_method (hr_method r) then Some (TEInvalidMethod (hr_method r))
      else if url_host (hr_url r) = [] then Some TENoHost
      else (case hr_ctx r of
              CtxActive \<Rightarrow> None
            | CtxCanceled \<Rightarrow> Some TECanceled
            | CtxDeadlineExceeded \<Rightarrow> Some TEDeadlineExceeded))"

definition http_do :: "transport \<Rightarrow> http_client \<Rightarrow> http_request \<Rightarrow>
                       (transport_error + http_response) \<times> event list" where
  "http_do tr hc r =
     (case round_trip_check r of
        Some e \<Rightarrow> (Inl e, [])
      | None \<Rightarrow> (tr hc r, [EvDispatch r]))"

subsection \<open>Lemmas\<close>

lemma valid_header_field_value_simps [simp]:
  "valid_header_field_value []"
  "valid_header_field_value (c # s) \<longleftrightarrow>
     (\<not> (of_char c < (32::nat) \<or> of_char c = (127::nat)) \<or> c = CHR '' '' \<or> c = CHR 0x09) \<and>
     valid_header_field_value s"
  by (simp_all add: valid_header_field_value_def)

lemma round_trip_check_None:
  "round_trip_check r = None \<longleftrightarrow>
     (url_scheme (hr_url r) = ''http'' \<or> url_scheme (hr_url r) = ''https'') \<and> header_valid (hr_header r) \<and>
     (hr_method r = [] \<or> valid_method (hr_method r)) \<and> url_host (hr_url r) \<noteq> [] \<and> hr_ctx r = CtxActive"
  unfolding round_trip_check_def Let_def by (auto split: ctx_state.splits if_splits)

lemma round_trip_check_cancel:
  "round_trip_check r = None \<Longrightarrow> round_trip_check (r\<lparr>hr_ctx := CtxCanceled\<rparr>) = Some TECanceled"
  unfolding round_trip_check_def Let_def by (auto split: if_splits ctx_state.splits)

lemma remove_empty_port_plain: "list_all host_byte host \<Longrightarrow> remove_empty_port host = host"
proof -
  assume "list_all host_byte host"
  then have "CHR '':'' \<notin> set host" using host_byte_unreserved by (auto simp: list_all_iff)
  then show ?thesis by (simp add: remove_empty_port_def has_port_def last_index_None)
qed

end
