(* ===== verification/Utf8.thy ===== *)
theory Utf8
  imports Prelude
begin

text \<open>
  Go's \<^verbatim>\<open>unicode/utf8\<close> decoding and encoding, which \<^verbatim>\<open>encoding/json\<close> uses
  to coerce strings to well-formed UTF-8.  Runes are \<open>nat\<close>s; bytes are \<open>char\<close>s
  read with \<open>of_char\<close>.  \<^verbatim>\<open>DecodeRune\<close> classifies the first byte with Go's
  \<^verbatim>\<open>first\<close> table (the size of the sequence and the accepted range of the second
  byte) and returns \<^verbatim>\<open>RuneError\<close> with size 1 for any ill-formed sequence;
  \<^verbatim>\<open>EncodeRune\<close> writes 1 to 4 bytes and replaces surrogates and values beyond
  U+10FFFF by \<^verbatim>\<open>RuneError\<close>.  The shifts and masks of the Go code are written
  as \<open>div\<close> and \<open>mod\<close> by powers of two.
\<close>

definition rune_error :: nat where
  "rune_error = 65533"

definition byte_of :: "char \<Rightarrow> nat" where
  "byte_of c = of_char c"

text \<open>
  The classification of a leading byte of at least 0x80 (Go's \<^verbatim>\<open>first\<close> and
  \<^verbatim>\<open>acceptRanges\<close>): the sequence length and the accepted range of the second
  byte, or \<open>None\<close> for a byte that cannot start a sequence.
\<close>

definition utf8_first :: "nat \<Rightarrow> (nat \<times> nat \<times> nat) option" where
  "utf8_first b =
     (if 194 \<le> b \<and> b \<le> 223 then Some (2, 128, 191)
      else if b = 224 then Some (3, 160, 191)
      else if 225 \<le> b \<and> b \<le> 236 then Some (3, 128, 191)
      else if b = 237 then Some (3, 128, 159)
      else if 238 \<le> b \<and> b \<le> 239 then Some (3, 128, 191)
      else if b = 240 then Some (4, 144, 191)
      else if 241 \<le> b \<and> b \<le> 243 then Some (4, 128, 191)
      else if b = 244 then Some (4, 128, 143)
      else None)"

definition is_cont :: "nat \<Rightarrow> bool" where
  "is_cont b \<longleftrightarrow> 128 \<le> b \<and> b \<le> 191"

definition decode_rune :: "string \<Rightarrow> nat \<times> nat" where
  "decode_rune p =
     (case p of
        [] \<Rightarrow> (rune_error, 0)
      | c0 # rest \<Rightarrow>
          let p0 = byte_of c0 in
          if p0 < 128 then (p0, 1)
          else (case utf8_first p0 of
                  None \<Rightarrow> (rune_error, 1)
                | Some (sz, lo, hi) \<Rightarrow>
                    if length p < sz then (rune_error, 1)
                    else let b1 = byte_of (p ! 1) in
                      if b1 < lo \<or> hi < b1 then (rune_error, 1)
                      else if sz = 2 then ((p0 mod 32) * 64 + b1 mod 64, 2)
                      else let b2 = byte_of (p ! 2) in
                        if \<not> is_cont b2 then (rune_error, 1)
                        else if sz = 3 then ((p0 mod 16) * 4096 + (b1 mod 64) * 64 + b2 mod 64, 3)
                        else let b3 = byte_of (p ! 3) in
                          if \<not> is_cont b3 then (rune_error, 1)
                          else ((p0 mod 8) * 262144 + (b1 mod 64) * 4096 + (b2 mod 64) * 64
                                + b3 mod 64, 4)))"

definition encode_rune :: "nat \<Rightarrow> string" where
  "encode_rune r =
     (if r < 128 then [char_of r]
      else if r < 2048 then [char_of (192 + r div 64), char_of (128 + r mod 64)]
      else if r < 55296 \<or> (57343 < r \<and> r < 65536) then
        [char_of (224 + r div 4096), char_of (128 + (r div 64) mod 64), char_of (128 + r mod 64)]
      else if 65535 < r \<and> r \<le> 1114111 then
        [char_of (240 + r div 262144), char_of (128 + (r div 4096) mod 64),
         char_of (128 + (r div 64) mod 64), char_of (128 + r mod 64)]
      else [char_of (239::nat), char_of (191::nat), char_of (189::nat)])"

text \<open>
  A string is well-formed UTF-8 when decoding never meets an ill-formed
  sequence; \<open>utf8_valid\<close> follows Go's \<^verbatim>\<open>utf8.ValidString\<close>.
\<close>

function utf8_valid :: "string \<Rightarrow> bool" where
  "utf8_valid s =
     (case s of
        [] \<Rightarrow> True
      | _ \<Rightarrow> decode_rune s \<noteq> (rune_error, 1) \<and> utf8_valid (drop (snd (decode_rune s)) s))"
  by pat_completeness auto

lemma utf8_first_size: "utf8_first b = Some (sz, lo, hi) \<Longrightarrow> 2 \<le> sz"
  by (simp add: utf8_first_def split: if_splits)

lemma decode_rune_size: "s \<noteq> [] \<Longrightarrow> 1 \<le> snd (decode_rune s) \<and> snd (decode_rune s) \<le> length s"
  by (cases s) (auto simp: decode_rune_def Let_def Suc_le_eq dest: utf8_first_size
                     split: option.splits prod.splits if_splits)

lemma decode_rune_Cons_pos: "0 < snd (decode_rune (c # cs))"
  using decode_rune_size [of "c # cs"] by simp

termination utf8_valid
  by (relation "measure length") (auto simp: decode_rune_Cons_pos)

declare utf8_valid.simps [simp del]

subsection \<open>Decoding and re-encoding\<close>

text \<open>
  Arithmetic of the 6-bit groups, and the fact that re-encoding the rune of a
  well-formed sequence gives back its bytes, which depends only on those bytes.
\<close>

lemma char_of_byte_of [simp]: "char_of (byte_of c) = c"
  by (simp add: byte_of_def)

lemma mod_from_base: "(a::nat) \<le> p \<Longrightarrow> p < a + m \<Longrightarrow> a mod m = 0 \<Longrightarrow> p mod m = p - a"
proof -
  assume "a \<le> p" "p < a + m" "a mod m = 0"
  then obtain d where "p = a + d" "d < m" by (metis add_diff_inverse_nat add_less_cancel_left not_le)
  with \<open>a mod m = 0\<close> show ?thesis by (simp add: mod_add_left_eq [symmetric])
qed

lemma base64_div: "(z::nat) < 64 \<Longrightarrow> (q * 64 + z) div 64 = q"
  by simp

lemma base64_mod: "(z::nat) < 64 \<Longrightarrow> (q * 64 + z) mod 64 = z"
  by simp

lemma div_4096: "(r::nat) div 4096 = r div 64 div 64"
  by (simp add: div_mult2_eq [of r 64 64, simplified])

lemma div_262144: "(r::nat) div 262144 = r div 64 div 64 div 64"
  by (simp add: div_mult2_eq [of r 4096 64, simplified] div_4096)

lemma utf8_arith_3:
  fixes x y z :: nat
  assumes "x < 16" "y < 64" "z < 64" "x = 0 \<Longrightarrow> 32 \<le> y" "x = 13 \<Longrightarrow> y < 32"
  defines "r \<equiv> x * 4096 + y * 64 + z"
  shows "2048 \<le> r \<and> (r < 55296 \<or> 57343 < r \<and> r < 65536) \<and>
         r div 4096 = x \<and> r div 64 mod 64 = y \<and> r mod 64 = z"
proof -
  have e: "r = (x * 64 + y) * 64 + z" unfolding r_def by simp
  have d: "r div 64 = x * 64 + y" "r mod 64 = z" unfolding e using assms(3) by (rule base64_div, rule base64_mod)
  have "2048 \<le> r" using assms(1,2,4) unfolding r_def by (cases "x = 0") auto
  moreover have "r < 55296 \<or> 57343 < r \<and> r < 65536"
    using assms(1,2,3,5) unfolding r_def by (cases "x = 13"; cases "x < 13") auto
  moreover have "r div 64 div 64 = x" "r div 64 mod 64 = y" unfolding d(1) using assms(2)
    by (rule base64_div, rule base64_mod)
  ultimately show ?thesis by (simp only: div_4096 d(2) simp_thms)
qed

lemma utf8_arith_4:
  fixes w x y z :: nat
  assumes "w \<le> 4" "x < 64" "y < 64" "z < 64" "w = 0 \<Longrightarrow> 16 \<le> x" "w = 4 \<Longrightarrow> x < 16"
  defines "r \<equiv> w * 262144 + x * 4096 + y * 64 + z"
  shows "65535 < r \<and> r \<le> 1114111 \<and> r div 262144 = w \<and> r div 4096 mod 64 = x \<and>
         r div 64 mod 64 = y \<and> r mod 64 = z"
proof -
  have e: "r = ((w * 64 + x) * 64 + y) * 64 + z" unfolding r_def by simp
  have d: "r div 64 = (w * 64 + x) * 64 + y" "r mod 64 = z" unfolding e using assms(4)
    by (rule base64_div, rule base64_mod)
  have d2: "r div 64 div 64 = w * 64 + x" "r div 64 mod 64 = y" unfolding d using assms(3)
    by (rule base64_div, rule base64_mod)
  have d3: "r div 64 div 64 div 64 = w" "r div 64 div 64 mod 64 = x" unfolding d2 using assms(2)
    by (rule base64_div, rule base64_mod)
  have "65535 < r" using assms(5) unfolding r_def by (cases "w = 0") auto
  moreover have "r \<le> 1114111" using assms(1,2,3,4,6) unfolding r_def by (cases "w = 4") auto
  ultimately show ?thesis by (simp only: div_4096 div_262144 d3 d2(2) d(2) simp_thms)
qed

lemma utf8_arith_2:
  fixes x y :: nat
  assumes "2 \<le> x" "x < 32" "y < 64"
  defines "r \<equiv> x * 64 + y"
  shows "128 \<le> r \<and> r < 2048 \<and> r div 64 = x \<and> r mod 64 = y"
  using assms by simp

lemma utf8_first_cases:
  assumes "utf8_first b = Some (sz, lo, hi)"
  shows "128 \<le> lo \<and> hi \<le> 191 \<and>
         (sz = 2 \<and> 194 \<le> b \<and> b \<le> 223 \<or>
          sz = 3 \<and> 224 \<le> b \<and> b \<le> 239 \<and> (b = 224 \<longrightarrow> lo = 160) \<and> (b = 237 \<longrightarrow> hi = 159) \<or>
          sz = 4 \<and> 240 \<le> b \<and> b \<le> 244 \<and> (b = 240 \<longrightarrow> lo = 144) \<and> (b = 244 \<longrightarrow> hi = 143))"
  using assms by (auto simp: utf8_first_def split: if_splits)

lemma cont_byte: "128 \<le> (b::nat) \<Longrightarrow> b \<le> 191 \<Longrightarrow> b mod 64 < 64 \<and> 128 + b mod 64 = b"
  using mod_from_base [of 128 b 64] by simp

lemma lead_byte:
  "192 \<le> (p::nat) \<Longrightarrow> p < 224 \<Longrightarrow> 192 + p mod 32 = p"
  "224 \<le> (p::nat) \<Longrightarrow> p < 240 \<Longrightarrow> 224 + p mod 16 = p"
  "240 \<le> (p::nat) \<Longrightarrow> p < 248 \<Longrightarrow> 240 + p mod 8 = p"
  using mod_from_base [of 192 p 32] mod_from_base [of 224 p 16] mod_from_base [of 240 p 8] by simp_all

lemma encode_rune_2:
  "128 \<le> r \<Longrightarrow> r < 2048 \<Longrightarrow> encode_rune r = [char_of (192 + r div 64), char_of (128 + r mod 64)]"
  by (simp add: encode_rune_def)

lemma encode_rune_4:
  "65535 < r \<Longrightarrow> r \<le> 1114111 \<Longrightarrow>
   encode_rune r = [char_of (240 + r div 262144), char_of (128 + r div 4096 mod 64),
                    char_of (128 + r div 64 mod 64), char_of (128 + r mod 64)]"
  by (simp add: encode_rune_def)

lemma encode_rune_3:
  "2048 \<le> r \<Longrightarrow> r < 55296 \<or> 57343 < r \<and> r < 65536 \<Longrightarrow>
   encode_rune r = [char_of (224 + r div 4096), char_of (128 + r div 64 mod 64), char_of (128 + r mod 64)]"
  by (simp add: encode_rune_def)

lemma decode_rune_multi:
  assumes "decode_rune (c0 # rest) \<noteq> (rune_error, 1)" and "\<not> byte_of c0 < 128"
  obtains sz lo hi where "utf8_first (byte_of c0) = Some (sz, lo, hi)" "sz \<le> Suc (length rest)"
    "lo \<le> byte_of (rest ! 0)" "byte_of (rest ! 0) \<le> hi"
    "sz = 2 \<Longrightarrow> decode_rune (c0 # rest) = ((byte_of c0 mod 32) * 64 + byte_of (rest ! 0) mod 64, 2)"
    "sz \<noteq> 2 \<Longrightarrow> is_cont (byte_of (rest ! 1))"
    "sz = 3 \<Longrightarrow> decode_rune (c0 # rest) =
       ((byte_of c0 mod 16) * 4096 + (byte_of (rest ! 0) mod 64) * 64 + byte_of (rest ! 1) mod 64, 3)"
    "sz = 4 \<Longrightarrow> is_cont (byte_of (rest ! 2))"
    "sz = 4 \<Longrightarrow> decode_rune (c0 # rest) =
       ((byte_of c0 mod 8) * 262144 + (byte_of (rest ! 0) mod 64) * 4096 + (byte_of (rest ! 1) mod 64) * 64
        + byte_of (rest ! 2) mod 64, 4)"
proof -
  from assms obtain sz lo hi where f: "utf8_first (byte_of c0) = Some (sz, lo, hi)"
    by (cases "utf8_first (byte_of c0)") (auto simp: decode_rune_def)
  from utf8_first_cases [OF f] have sz: "sz = 2 \<or> sz = 3 \<or> sz = 4" by blast
  show ?thesis
    using assms f sz
    by (intro that [OF f]) (auto simp: decode_rune_def Let_def split: if_splits)
qed

lemma encode_decode_rune:
  assumes "decode_rune (c0 # rest) \<noteq> (rune_error, 1)"
  shows "encode_rune (fst (decode_rune (c0 # rest))) = take (snd (decode_rune (c0 # rest))) (c0 # rest)"
proof (cases "byte_of c0 < 128")
  case True
  then show ?thesis by (simp add: decode_rune_def encode_rune_def)
next
  case False
  obtain sz lo hi where f: "utf8_first (byte_of c0) = Some (sz, lo, hi)" and len: "sz \<le> Suc (length rest)"
    and b1: "lo \<le> byte_of (rest ! 0)" "byte_of (rest ! 0) \<le> hi"
    and d2: "sz = 2 \<Longrightarrow> decode_rune (c0 # rest) = ((byte_of c0 mod 32) * 64 + byte_of (rest ! 0) mod 64, 2)"
    and c2: "sz \<noteq> 2 \<Longrightarrow> is_cont (byte_of (rest ! 1))"
    and d3: "sz = 3 \<Longrightarrow> decode_rune (c0 # rest) =
       ((byte_of c0 mod 16) * 4096 + (byte_of (rest ! 0) mod 64) * 64 + byte_of (rest ! 1) mod 64, 3)"
    and c3: "sz = 4 \<Longrightarrow> is_cont (byte_of (rest ! 2))"
    and d4: "sz = 4 \<Longrightarrow> decode_rune (c0 # rest) =
       ((byte_of c0 mod 8) * 262144 + (byte_of (rest ! 0) mod 64) * 4096 + (byte_of (rest ! 1) mod 64) * 64
        + byte_of (rest ! 2) mod 64, 4)"
    using decode_rune_multi [OF assms False] by blast
  note fc = utf8_first_cases [OF f]
  have cb1: "byte_of (rest ! 0) mod 64 < 64 \<and> 128 + byte_of (rest ! 0) mod 64 = byte_of (rest ! 0)"
    using b1 fc by (intro cont_byte) auto
  consider (two) "sz = 2" | (three) "sz = 3" | (four) "sz = 4" using fc by blast
  then show ?thesis
  proof cases
    case two
    obtain c1 r1 where r: "rest = c1 # r1" using len two by (cases rest) auto
    have "192 + byte_of c0 mod 32 = byte_of c0" using fc two by (intro lead_byte(1)) auto
    moreover have "2 \<le> byte_of c0 mod 32" "byte_of c0 mod 32 < 32"
      using fc two mod_from_base [of 192 "byte_of c0" 32] by auto
    ultimately show ?thesis using cb1 utf8_arith_2 [of "byte_of c0 mod 32" "byte_of c1 mod 64"]
      unfolding d2 [OF two] unfolding r by (simp add: encode_rune_2)
  next
    case three
    obtain c1 c2 r2 where r: "rest = c1 # c2 # r2" using len three by (cases rest; cases "tl rest") auto
    have cb2: "byte_of c2 mod 64 < 64 \<and> 128 + byte_of c2 mod 64 = byte_of c2"
      using c2 three r by (intro cont_byte) (auto simp: is_cont_def)
    have lb: "224 + byte_of c0 mod 16 = byte_of c0" using fc three by (intro lead_byte(2)) auto
    moreover have "byte_of c0 mod 16 < 16" by simp
    moreover have "byte_of c0 mod 16 = 0 \<Longrightarrow> 32 \<le> byte_of c1 mod 64" "byte_of c0 mod 16 = 13 \<Longrightarrow> byte_of c1 mod 64 < 32"
      using fc three b1 cb1 r lb by auto
    ultimately have a: "let R = byte_of c0 mod 16 * 4096 + byte_of c1 mod 64 * 64 + byte_of c2 mod 64 in
                     2048 \<le> R \<and> (R < 55296 \<or> 57343 < R \<and> R < 65536) \<and>
                     R div 4096 = byte_of c0 mod 16 \<and> R div 64 mod 64 = byte_of c1 mod 64 \<and>
                     R mod 64 = byte_of c2 mod 64"
      using cb1 cb2 r utf8_arith_3 [of "byte_of c0 mod 16" "byte_of c1 mod 64" "byte_of c2 mod 64"]
      unfolding Let_def by simp
    show ?thesis using a lb cb1 cb2 unfolding d3 [OF three] unfolding r Let_def
      by (simp add: encode_rune_3)
  next
    case four
    obtain c1 c2 c3 r3 where r: "rest = c1 # c2 # c3 # r3"
      using len four by (cases rest; cases "tl rest"; cases "tl (tl rest)") auto
    have cb2: "byte_of c2 mod 64 < 64 \<and> 128 + byte_of c2 mod 64 = byte_of c2"
      using c2 four r by (intro cont_byte) (auto simp: is_cont_def)
    have cb3: "byte_of c3 mod 64 < 64 \<and> 128 + byte_of c3 mod 64 = byte_of c3"
      using c3 four r by (intro cont_byte) (auto simp: is_cont_def)
    have lb: "240 + byte_of c0 mod 8 = byte_of c0" using fc four by (intro lead_byte(3)) auto
    moreover have "byte_of c0 mod 8 \<le> 4"
      using fc four mod_from_base [of 240 "byte_of c0" 8] by auto
    moreover have "byte_of c0 mod 8 = 0 \<Longrightarrow> 16 \<le> byte_of c1 mod 64" "byte_of c0 mod 8 = 4 \<Longrightarrow> byte_of c1 mod 64 < 16"
      using fc four b1 cb1 r lb by auto
    ultimately show ?thesis using cb1 cb2 cb3
        utf8_arith_4 [of "byte_of c0 mod 8" "byte_of c1 mod 64" "byte_of c2 mod 64" "byte_of c3 mod 64"]
      unfolding d4 [OF four] unfolding r by (simp add: encode_rune_4)
  qed
qed

lemma decode_rune_prefix:
  assumes "decode_rune (c0 # rest) \<noteq> (rune_error, 1)"
  shows "decode_rune (take (snd (decode_rune (c0 # rest))) (c0 # rest) @ t) = decode_rune (c0 # rest)"
proof (cases "byte_of c0 < 128")
  case True
  then show ?thesis by (simp add: decode_rune_def)
next
  case False
  obtain sz lo hi where f: "utf8_first (byte_of c0) = Some (sz, lo, hi)" and len: "sz \<le> Suc (length rest)"
    and b1: "lo \<le> byte_of (rest ! 0)" "byte_of (rest ! 0) \<le> hi"
    and d2: "sz = 2 \<Longrightarrow> decode_rune (c0 # rest) = ((byte_of c0 mod 32) * 64 + byte_of (rest ! 0) mod 64, 2)"
    and c2: "sz \<noteq> 2 \<Longrightarrow> is_cont (byte_of (rest ! 1))"
    and d3: "sz = 3 \<Longrightarrow> decode_rune (c0 # rest) =
       ((byte_of c0 mod 16) * 4096 + (byte_of (rest ! 0) mod 64) * 64 + byte_of (rest ! 1) mod 64, 3)"
    and c3: "sz = 4 \<Longrightarrow> is_cont (byte_of (rest ! 2))"
    and d4: "sz = 4 \<Longrightarrow> decode_rune (c0 # rest) =
       ((byte_of c0 mod 8) * 262144 + (byte_of (rest ! 0) mod 64) * 4096 + (byte_of (rest ! 1) mod 64) * 64
        + byte_of (rest ! 2) mod 64, 4)"
    using decode_rune_multi [OF assms False] by blast
  consider (two) "sz = 2" | (three) "sz = 3" | (four) "sz = 4" using utf8_first_cases [OF f] by blast
  then show ?thesis
  proof cases
    case two
    obtain c1 r1 where r: "rest = c1 # r1" using len two by (cases rest) auto
    show ?thesis using False f b1 two unfolding d2 [OF two] unfolding r by (simp add: decode_rune_def)
  next
    case three
    obtain c1 c2 r2 where r: "rest = c1 # c2 # r2" using len three by (cases rest; cases "tl rest") auto
    show ?thesis using False f b1 three c2 unfolding d3 [OF three] unfolding r by (simp add: decode_rune_def)
  next
    case four
    obtain c1 c2 c3 r3 where r: "rest = c1 # c2 # c3 # r3"
      using len four by (cases rest; cases "tl rest"; cases "tl (tl rest)") auto
    show ?thesis using False f b1 four c2 c3 unfolding d4 [OF four] unfolding r by (simp add: decode_rune_def)
  qed
qed

lemma utf8_valid_Cons:
  "utf8_valid (c # cs) \<longleftrightarrow>
     decode_rune (c # cs) \<noteq> (rune_error, 1) \<and> utf8_valid (drop (snd (decode_rune (c # cs))) (c # cs))"
  by (simp add: utf8_valid.simps [of "c # cs"])

lemma decode_rune_bytes_high:
  assumes "decode_rune (c # cs) \<noteq> (rune_error, 1)" and "\<not> of_char c < (128::nat)"
  shows "\<forall>x \<in> set (take (snd (decode_rune (c # cs))) (c # cs)). \<not> of_char x < (128::nat)"
proof -
  have nb: "\<not> byte_of c < 128" using assms(2) by (simp add: byte_of_def)
  obtain sz lo hi where f: "utf8_first (byte_of c) = Some (sz, lo, hi)" and len: "sz \<le> Suc (length cs)"
    and b1: "lo \<le> byte_of (cs ! 0)"
    and d2: "sz = 2 \<Longrightarrow> decode_rune (c # cs) = ((byte_of c mod 32) * 64 + byte_of (cs ! 0) mod 64, 2)"
    and c2: "sz \<noteq> 2 \<Longrightarrow> is_cont (byte_of (cs ! 1))"
    and d3: "sz = 3 \<Longrightarrow> snd (decode_rune (c # cs)) = 3"
    and c3: "sz = 4 \<Longrightarrow> is_cont (byte_of (cs ! 2))"
    and d4: "sz = 4 \<Longrightarrow> snd (decode_rune (c # cs)) = 4"
    using decode_rune_multi [OF assms(1) nb] by (metis snd_conv)
  have lo: "128 \<le> lo" using utf8_first_cases [OF f] by blast
  consider "sz = 2" | "sz = 3" | "sz = 4" using utf8_first_cases [OF f] by blast
  then show ?thesis
  proof cases
    case 1
    then obtain c1 r1 where r: "cs = c1 # r1" using len by (cases cs) auto
    have n: "snd (decode_rune (c # cs)) = 2" using d2 [OF 1] by simp
    show ?thesis unfolding n using nb b1 lo by (simp add: r byte_of_def)
  next
    case 2
    then obtain c1 c2 r2 where r: "cs = c1 # c2 # r2" using len by (cases cs; cases "tl cs") auto
    show ?thesis unfolding d3 [OF 2] using nb b1 lo c2 2 by (simp add: r byte_of_def is_cont_def)
  next
    case 3
    then obtain c1 c2 c3 r3 where r: "cs = c1 # c2 # c3 # r3"
      using len by (cases cs; cases "tl cs"; cases "tl (tl cs)") auto
    show ?thesis unfolding d4 [OF 3] using nb b1 lo c2 c3 3 by (simp add: r byte_of_def is_cont_def)
  qed
qed

end
