(* ===== verification/Json.thy ===== *)
theory Json
  imports Utf8
begin

text \<open>
  The part of Go's \<^verbatim>\<open>encoding/json\<close> the client relies on to read responses:
  the syntax checker (\<^verbatim>\<open>scanner.go\<close>) and string unquoting
  (\<^verbatim>\<open>unquoteBytes\<close> in \<^verbatim>\<open>decode.go\<close>).  The scanner is Go's byte-at-a-time
  state machine: \<open>scan_step\<close> names Go's \<^verbatim>\<open>state*\<close> functions, the stack of
  \<open>frame\<close>s is Go's \<^verbatim>\<open>parseState\<close> (object key, object value, array value)
  extended with the members read so far, so that the same pass that checks the
  syntax also builds the value.  A string keeps its raw bytes between the quotes
  (\<open>JString\<close>), as the decoder sees them: \<^verbatim>\<open>time.Time\<close> parses those raw
  bytes, and \<open>unquote\<close> is applied when a string is stored in a string field.
  A number keeps its literal text.  Nesting deeper than Go's
  \<^verbatim>\<open>maxNestingDepth\<close> (10000) is a syntax error.  Scanning is structural
  recursion on the input, so it terminates on every input.
\<close>

datatype jvalue =
    JNull
  | JBool bool
  | JNumber string
  | JString string
  | JArray "jvalue list"
  | JObject "(string \<times> jvalue) list"

subsection \<open>Unquoting a string literal\<close>

definition is_hex :: "char \<Rightarrow> bool" where
  "is_hex c \<longleftrightarrow> is_digit c \<or> (CHR ''a'' \<le> c \<and> c \<le> CHR ''f'') \<or> (CHR ''A'' \<le> c \<and> c \<le> CHR ''F'')"

definition hex_val :: "char \<Rightarrow> nat" where
  "hex_val c =
     (if is_digit c then digit_val c
      else if CHR ''a'' \<le> c \<and> c \<le> CHR ''f'' then of_char c - 87
      else of_char c - 55)"

text \<open>Go's \<^verbatim>\<open>getu4\<close>: the value of a \<^verbatim>\<open>\uXXXX\<close> escape at the head of the input.\<close>

definition getu4 :: "string \<Rightarrow> nat option" where
  "getu4 s =
     (if length s < 6 \<or> s ! 0 \<noteq> CHR 0x5C \<or> s ! 1 \<noteq> CHR ''u'' \<or> \<not> list_all is_hex (take 4 (drop 2 s))
      then None
      else Some (foldl (\<lambda>r c. r * 16 + hex_val c) 0 (take 4 (drop 2 s))))"

definition is_surrogate :: "nat \<Rightarrow> bool" where
  "is_surrogate r \<longleftrightarrow> 55296 \<le> r \<and> r < 57344"

text \<open>\<^verbatim>\<open>utf16.DecodeRune\<close>: a surrogate pair, or \<^verbatim>\<open>RuneError\<close>.\<close>

definition utf16_decode :: "nat \<Rightarrow> nat \<Rightarrow> nat" where
  "utf16_decode r1 r2 =
     (if 55296 \<le> r1 \<and> r1 < 56320 \<and> 56320 \<le> r2 \<and> r2 < 57344
      then (r1 - 55296) * 1024 + (r2 - 56320) + 65536
      else rune_error)"

fun unescape_char :: "char \<Rightarrow> char option" where
  "unescape_char e =
     (if e = CHR ''b'' then Some (CHR 0x08)
      else if e = CHR ''f'' then Some (CHR 0x0C)
      else if e = CHR ''n'' then Some (CHR 0x0A)
      else if e = CHR ''r'' then Some (CHR 0x0D)
      else if e = CHR ''t'' then Some (CHR 0x09)
      else if e = CHR 0x22 \<or> e = CHR 0x5C \<or> e = CHR ''/'' \<or> e = CHR 0x27 then Some e
      else None)"

text \<open>
  The decoding loop of \<^verbatim>\<open>unquoteBytes\<close> on the bytes between the quotes:
  escapes are decoded, a \<^verbatim>\<open>\u\<close> surrogate pair is combined and a lone
  surrogate becomes U+FFFD, and each byte of an ill-formed UTF-8 sequence becomes
  U+FFFD.
\<close>

function unquote :: "string \<Rightarrow> string option" where
  "unquote [] = Some []"
| "unquote (c # cs) =
     (if c = CHR 0x5C then
        (case cs of
           [] \<Rightarrow> None
         | e # cs' \<Rightarrow>
             if e = CHR ''u'' then
               (case getu4 (c # cs) of
                  None \<Rightarrow> None
                | Some r \<Rightarrow>
                    if is_surrogate r then
                      (case getu4 (drop 5 cs) of
                         Some r2 \<Rightarrow>
                           if utf16_decode r r2 \<noteq> rune_error
                           then map_option ((@) (encode_rune (utf16_decode r r2))) (unquote (drop 11 cs))
                           else map_option ((@) (encode_rune rune_error)) (unquote (drop 5 cs))
                       | None \<Rightarrow> map_option ((@) (encode_rune rune_error)) (unquote (drop 5 cs)))
                    else map_option ((@) (encode_rune r)) (unquote (drop 5 cs)))
             else (case unescape_char e of
                     None \<Rightarrow> None
                   | Some u \<Rightarrow> map_option (Cons u) (unquote cs')))
      else if c = CHR 0x22 \<or> of_char c < (32::nat) then None
      else if of_char c < (128::nat) then map_option (Cons c) (unquote cs)
      else map_option ((@) (encode_rune (fst (decode_rune (c # cs)))))
             (unquote (drop (snd (decode_rune (c # cs))) (c # cs))))"
  by pat_completeness auto

termination unquote
  by (relation "measure length") (auto simp: decode_rune_Cons_pos)

text \<open>
  \<^verbatim>\<open>unquoteBytes\<close> itself first scans for the longest prefix that needs no
  change (no backslash, quote or control byte, well-formed UTF-8): if that is
  the whole input it is returned as it is; otherwise the prefix is copied and the
  loop above runs on the rest.
\<close>

function plain_prefix :: "string \<Rightarrow> nat" where
  "plain_prefix [] = 0"
| "plain_prefix (c # cs) =
     (if c = CHR 0x5C \<or> c = CHR 0x22 \<or> of_char c < (32::nat) then 0
      else if of_char c < (128::nat) then Suc (plain_prefix cs)
      else if decode_rune (c # cs) = (rune_error, 1) then 0
      else snd (decode_rune (c # cs)) + plain_prefix (drop (snd (decode_rune (c # cs))) (c # cs)))"
  by pat_completeness auto

termination plain_prefix
  by (relation "measure length") (auto simp: decode_rune_Cons_pos)

definition unquote_bytes :: "string \<Rightarrow> string option" where
  "unquote_bytes s =
     (let r = plain_prefix s in
      if r = length s then Some s else map_option ((@) (take r s)) (unquote (drop r s)))"

subsection \<open>The scanner\<close>

definition max_nesting_depth :: nat where
  "max_nesting_depth = 10000"

datatype frame =
    FArray "jvalue list"
  | FObjKey "(string \<times> jvalue) list"
  | FObjValue "(string \<times> jvalue) list" string

datatype scan_step =
    BeginValueOrEmpty | BeginValue | BeginStringOrEmpty | BeginString
  | InString | InStringEsc | InStringEscU nat
  | Neg | One | Zero | Dot | Dot0 | Exp | ExpSign | Exp0
  | Lit string jvalue
  | EndValue | EndTop

record scanner =
  sc_step :: scan_step
  sc_stack :: "frame list"
  sc_buf :: string
  sc_val :: "jvalue option"

definition scanner_init :: scanner where
  "scanner_init = \<lparr>sc_step = BeginValue, sc_stack = [], sc_buf = [], sc_val = None\<rparr>"

definition is_space :: "char \<Rightarrow> bool" where
  "is_space c \<longleftrightarrow> c = CHR '' '' \<or> c = CHR 0x09 \<or> c = CHR 0x0D \<or> c = CHR 0x0A"

definition pop_frame :: "scanner \<Rightarrow> jvalue \<Rightarrow> scanner" where
  "pop_frame sc v =
     sc\<lparr>sc_stack := tl (sc_stack sc), sc_val := Some v,
        sc_step := (if tl (sc_stack sc) = [] then EndTop else EndValue)\<rparr>"

definition push_frame :: "scanner \<Rightarrow> frame \<Rightarrow> scan_step \<Rightarrow> scanner option" where
  "push_frame sc f nxt =
     (if length (sc_stack sc) + 1 \<le> max_nesting_depth
      then Some (sc\<lparr>sc_stack := f # sc_stack sc, sc_step := nxt\<rparr>) else None)"

definition state_end_top :: "scanner \<Rightarrow> char \<Rightarrow> scanner option" where
  "state_end_top sc c = (if is_space c then Some sc else None)"

definition state_end_value :: "scanner \<Rightarrow> char \<Rightarrow> scanner option" where
  "state_end_value sc c =
     (case sc_stack sc of
        [] \<Rightarrow> state_end_top (sc\<lparr>sc_step := EndTop\<rparr>) c
      | f # st \<Rightarrow>
          if is_space c then Some (sc\<lparr>sc_step := EndValue\<rparr>)
          else (case sc_val sc of
                  None \<Rightarrow> None
                | Some v \<Rightarrow>
                    (case f of
                       FObjKey ps \<Rightarrow>
                         (case v of
                            JString k \<Rightarrow>
                              if c = CHR '':'' then
                                Some (sc\<lparr>sc_stack := FObjValue ps k # st, sc_step := BeginValue,
                                         sc_val := None\<rparr>)
                              else None
                          | _ \<Rightarrow> None)
                     | FObjValue ps k \<Rightarrow>
                         if c = CHR '','' then
                           Some (sc\<lparr>sc_stack := FObjKey (ps @ [(k, v)]) # st, sc_step := BeginString,
                                    sc_val := None\<rparr>)
                         else if c = CHR 0x7D then Some (pop_frame sc (JObject (ps @ [(k, v)])))
                         else None
                     | FArray vs \<Rightarrow>
                         if c = CHR '','' then
                           Some (sc\<lparr>sc_stack := FArray (vs @ [v]) # st, sc_step := BeginValue,
                                    sc_val := None\<rparr>)
                         else if c = CHR '']'' then Some (pop_frame sc (JArray (vs @ [v])))
                         else None)))"

definition end_number :: "scanner \<Rightarrow> char \<Rightarrow> scanner option" where
  "end_number sc c = state_end_value (sc\<lparr>sc_val := Some (JNumber (sc_buf sc))\<rparr>) c"

definition state0 :: "scanner \<Rightarrow> char \<Rightarrow> scanner option" where
  "state0 sc c =
     (if c = CHR ''.'' then Some (sc\<lparr>sc_step := Dot, sc_buf := sc_buf sc @ [c]\<rparr>)
      else if c = CHR ''e'' \<or> c = CHR ''E'' then Some (sc\<lparr>sc_step := Exp, sc_buf := sc_buf sc @ [c]\<rparr>)
      else end_number sc c)"

definition state_begin_value :: "scanner \<Rightarrow> char \<Rightarrow> scanner option" where
  "state_begin_value sc c =
     (if is_space c then Some sc
      else if c = CHR 0x7B then push_frame sc (FObjKey []) BeginStringOrEmpty
      else if c = CHR ''['' then push_frame sc (FArray []) BeginValueOrEmpty
      else if c = CHR 0x22 then Some (sc\<lparr>sc_step := InString, sc_buf := []\<rparr>)
      else if c = CHR ''-'' then Some (sc\<lparr>sc_step := Neg, sc_buf := [c]\<rparr>)
      else if c = CHR ''0'' then Some (sc\<lparr>sc_step := Zero, sc_buf := [c]\<rparr>)
      else if c = CHR ''t'' then Some (sc\<lparr>sc_step := Lit ''rue'' (JBool True)\<rparr>)
      else if c = CHR ''f'' then Some (sc\<lparr>sc_step := Lit ''alse'' (JBool False)\<rparr>)
      else if c = CHR ''n'' then Some (sc\<lparr>sc_step := Lit ''ull'' JNull\<rparr>)
      else if CHR ''1'' \<le> c \<and> c \<le> CHR ''9'' then Some (sc\<lparr>sc_step := One, sc_buf := [c]\<rparr>)
      else None)"

definition state_begin_string :: "scanner \<Rightarrow> char \<Rightarrow> scanner option" where
  "state_begin_string sc c =
     (if is_space c then Some sc
      else if c = CHR 0x22 then Some (sc\<lparr>sc_step := InString, sc_buf := []\<rparr>)
      else None)"

definition scan_char :: "scanner \<Rightarrow> char \<Rightarrow> scanner option" where
  "scan_char sc c =
     (case sc_step sc of
        BeginValueOrEmpty \<Rightarrow>
          if is_space c then Some sc
          else if c = CHR '']'' then Some (pop_frame sc (JArray []))
          else state_begin_value sc c
      | BeginValue \<Rightarrow> state_begin_value sc c
      | BeginStringOrEmpty \<Rightarrow>
          if is_space c then Some sc
          else if c = CHR 0x7D then Some (pop_frame sc (JObject []))
          else state_begin_string sc c
      | BeginString \<Rightarrow> state_begin_string sc c
      | InString \<Rightarrow>
          if c = CHR 0x22 then Some (sc\<lparr>sc_step := EndValue, sc_val := Some (JString (sc_buf sc))\<rparr>)
          else if c = CHR 0x5C then Some (sc\<lparr>sc_step := InStringEsc, sc_buf := sc_buf sc @ [c]\<rparr>)
          else if of_char c < (32::nat) then None
          else Some (sc\<lparr>sc_buf := sc_buf sc @ [c]\<rparr>)
      | InStringEsc \<Rightarrow>
          if c \<in> set [CHR ''b'', CHR ''f'', CHR ''n'', CHR ''r'', CHR ''t'', CHR 0x5C, CHR ''/'', CHR 0x22]
          then Some (sc\<lparr>sc_step := InString, sc_buf := sc_buf sc @ [c]\<rparr>)
          else if c = CHR ''u'' then Some (sc\<lparr>sc_step := InStringEscU 0, sc_buf := sc_buf sc @ [c]\<rparr>)
          else None
      | InStringEscU k \<Rightarrow>
          if is_hex c
          then Some (sc\<lparr>sc_step := (if k = 3 then InString else InStringEscU (k + 1)),
                        sc_buf := sc_buf sc @ [c]\<rparr>)
          else None
      | Neg \<Rightarrow>
          if c = CHR ''0'' then Some (sc\<lparr>sc_step := Zero, sc_buf := sc_buf sc @ [c]\<rparr>)
          else if CHR ''1'' \<le> c \<and> c \<le> CHR ''9'' then Some (sc\<lparr>sc_step := One, sc_buf := sc_buf sc @ [c]\<rparr>)
          else None
      | One \<Rightarrow> if is_digit c then Some (sc\<lparr>sc_buf := sc_buf sc @ [c]\<rparr>) else state0 sc c
      | Zero \<Rightarrow> state0 sc c
      | Dot \<Rightarrow> if is_digit c then Some (sc\<lparr>sc_step := Dot0, sc_buf := sc_buf sc @ [c]\<rparr>) else None
      | Dot0 \<Rightarrow>
          if is_digit c then Some (sc\<lparr>sc_buf := sc_buf sc @ [c]\<rparr>)
          else if c = CHR ''e'' \<or> c = CHR ''E'' then Some (sc\<lparr>sc_step := Exp, sc_buf := sc_buf sc @ [c]\<rparr>)
          else end_number sc c
      | Exp \<Rightarrow>
          if c = CHR ''+'' \<or> c = CHR ''-'' then Some (sc\<lparr>sc_step := ExpSign, sc_buf := sc_buf sc @ [c]\<rparr>)
          else if is_digit c then Some (sc\<lparr>sc_step := Exp0, sc_buf := sc_buf sc @ [c]\<rparr>)
          else None
      | ExpSign \<Rightarrow> if is_digit c then Some (sc\<lparr>sc_step := Exp0, sc_buf := sc_buf sc @ [c]\<rparr>) else None
      | Exp0 \<Rightarrow> if is_digit c then Some (sc\<lparr>sc_buf := sc_buf sc @ [c]\<rparr>) else end_number sc c
      | Lit xs v \<Rightarrow>
          (case xs of
             [] \<Rightarrow> None
           | x # xs' \<Rightarrow>
               if c \<noteq> x then None
               else if xs' = [] then Some (sc\<lparr>sc_step := EndValue, sc_val := Some v\<rparr>)
               else Some (sc\<lparr>sc_step := Lit xs' v\<rparr>))
      | EndValue \<Rightarrow> state_end_value sc c
      | EndTop \<Rightarrow> state_end_top sc c)"

fun scan_run :: "scanner \<Rightarrow> string \<Rightarrow> scanner option" where
  "scan_run sc [] = Some sc"
| "scan_run sc (c # cs) = (case scan_char sc c of None \<Rightarrow> None | Some sc' \<Rightarrow> scan_run sc' cs)"

text \<open>
  \<^verbatim>\<open>scanner.eof\<close>: the input is complete when the top-level value has ended,
  possibly after feeding a space to end a trailing number.
\<close>

definition scan_eof :: "scanner \<Rightarrow> jvalue option" where
  "scan_eof sc =
     (if sc_step sc = EndTop then sc_val sc
      else (case scan_char sc (CHR '' '') of
              None \<Rightarrow> None
            | Some sc' \<Rightarrow> if sc_step sc' = EndTop then sc_val sc' else None))"

definition json_parse :: "string \<Rightarrow> jvalue option" where
  "json_parse s = (case scan_run scanner_init s of None \<Rightarrow> None | Some sc \<Rightarrow> scan_eof sc)"

lemmas json_scan_defs = json_parse_def scan_eof_def scanner_init_def scan_char_def
  state_begin_value_def state_begin_string_def state0_def end_number_def state_end_value_def
  state_end_top_def push_frame_def pop_frame_def is_space_def is_hex_def max_nesting_depth_def

subsection \<open>The fast path of \<^verbatim>\<open>unquoteBytes\<close>\<close>

lemma plain_prefix_le: "plain_prefix s \<le> length s"
proof (induction s rule: plain_prefix.induct)
  case (2 c cs)
  have "snd (decode_rune (c # cs)) \<le> length (c # cs)" using decode_rune_size [of "c # cs"] by simp
  with 2 show ?case by auto
qed simp

lemma unquote_plain_prefix:
  "unquote s = map_option ((@) (take (plain_prefix s) s)) (unquote (drop (plain_prefix s) s))"
proof (induction s rule: plain_prefix.induct)
  case 1
  then show ?case by (cases "unquote []") simp_all
next
  case (2 c cs)
  let ?n = "snd (decode_rune (c # cs))"
  show ?case
  proof (cases "c = CHR 0x5C \<or> c = CHR 0x22 \<or> of_char c < (32::nat)")
    case True
    then show ?thesis by (simp add: option.map_ident)
  next
    case plain: False
    show ?thesis
    proof (cases "of_char c < (128::nat)")
      case True
      with plain "2.IH"(1) show ?thesis by (auto simp: option.map_comp comp_def)
    next
      case multi: False
      show ?thesis
      proof (cases "decode_rune (c # cs) = (rune_error, 1)")
        case True
        with plain multi show ?thesis by (simp add: option.map_ident)
      next
        case ok: False
        have "?n \<le> length (c # cs)" using decode_rune_size [of "c # cs"] by simp
        then have tk: "take (?n + k) (c # cs) = take ?n (c # cs) @ take k (drop ?n (c # cs))"
          and dr: "drop (?n + k) (c # cs) = drop k (drop ?n (c # cs))" for k
          by (simp add: take_add) (simp add: add.commute)
        have "unquote (c # cs) = map_option ((@) (take ?n (c # cs))) (unquote (drop ?n (c # cs)))"
          using plain multi encode_decode_rune [OF ok] by simp
        with plain multi ok "2.IH"(2) show ?thesis
          by (simp add: tk dr option.map_comp comp_def)
      qed
    qed
  qed
qed

lemma unquote_bytes_eq_unquote: "unquote_bytes s = unquote s"
proof (cases "plain_prefix s = length s")
  case True
  then show ?thesis using unquote_plain_prefix [of s] by (simp add: unquote_bytes_def)
next
  case False
  then show ?thesis using unquote_plain_prefix [of s] by (simp add: unquote_bytes_def Let_def)
qed

end
