(* ===== verification/Json_Decode.thy ===== *)
theory Json_Decode
  imports Json Strconv Data_Model "HOL-Library.Monad_Syntax"
begin

text \<open>
  \<^verbatim>\<open>json.Unmarshal\<close> into the response structs of \<^verbatim>\<open>src/types.go\<close>
  (\<^verbatim>\<open>decode.go\<close>, and \<^verbatim>\<open>time.Time.UnmarshalJSON\<close>).  Go decodes into an
  existing value: a decoder here takes the JSON value and the current Go value
  and returns the updated one.  Go distinguishes two kinds of failure, and the
  result type \<open>dec_result\<close> keeps them apart: a type mismatch (a string where a
  bool is expected, say) is \<^emph>\<open>saved\<close>, the field is left unchanged and decoding
  goes on, and \<^verbatim>\<open>Unmarshal\<close> reports the first saved error at the end; an
  error of an \<^verbatim>\<open>UnmarshalJSON\<close> method (here only \<^verbatim>\<open>time.Time\<close>) aborts at
  once.  JSON \<^verbatim>\<open>null\<close> leaves a bool, string, number or struct field unchanged
  and empties a slice.  Object keys are matched to fields case-insensitively
  (\<open>fold_name\<close>); keys of no field are skipped, and of two equal keys the later
  wins.

  Not modelled: Go's \<^verbatim>\<open>foldRune\<close> is exact only on the runes that fold to ASCII
  letters (U+017F folds to S, U+212A to K); the field names are ASCII, so the
  matching of keys to fields is exact.  When the same array-valued key appears
  three times, Go may reuse elements beyond the slice's length that are still in
  its capacity; the model decodes such elements from the zero value.
\<close>

datatype json_error = ErrJsonSyntax | ErrJsonType | ErrJsonTime

datatype 'a dec_result = Abort json_error | Done 'a "json_error option"

type_synonym 'a decoder = "jvalue \<Rightarrow> 'a \<Rightarrow> 'a dec_result"

definition first_error :: "json_error option \<Rightarrow> json_error option \<Rightarrow> json_error option" where
  "first_error a b = (case a of None \<Rightarrow> b | Some e \<Rightarrow> Some e)"

primrec map_dec :: "('a \<Rightarrow> 'b) \<Rightarrow> 'a dec_result \<Rightarrow> 'b dec_result" where
  "map_dec f (Abort e) = Abort e"
| "map_dec f (Done x e) = Done (f x) e"

subsection \<open>Matching keys to fields\<close>

definition fold_rune :: "nat \<Rightarrow> nat" where
  "fold_rune r = (if r = 383 then 83 else if r = 8490 then 75 else r)"

function fold_name :: "string \<Rightarrow> nat list" where
  "fold_name [] = []"
| "fold_name (c # cs) =
     (if of_char c < (128::nat) then
        (if CHR ''a'' \<le> c \<and> c \<le> CHR ''z'' then of_char c - 32 else of_char c) # fold_name cs
      else fold_rune (fst (decode_rune (c # cs))) # fold_name (drop (snd (decode_rune (c # cs))) (c # cs)))"
  by pat_completeness auto

termination fold_name
  by (relation "measure length") (auto simp: decode_rune_Cons_pos)

subsection \<open>Scalars\<close>

definition dec_string :: "string decoder" where
  "dec_string v old =
     (case v of
        JString raw \<Rightarrow> (case unquote_bytes raw of None \<Rightarrow> Abort ErrJsonSyntax | Some s \<Rightarrow> Done s None)
      | JNull \<Rightarrow> Done old None
      | _ \<Rightarrow> Done old (Some ErrJsonType))"

definition dec_bool :: "bool decoder" where
  "dec_bool v old =
     (case v of
        JBool b \<Rightarrow> Done b None
      | JNull \<Rightarrow> Done old None
      | _ \<Rightarrow> Done old (Some ErrJsonType))"

text \<open>A number into an \<^verbatim>\<open>int\<close> field goes through \<^verbatim>\<open>strconv.ParseInt(s, 10, 64)\<close>.\<close>

definition dec_int :: "int decoder" where
  "dec_int v old =
     (case v of
        JNumber lit \<Rightarrow> (case parse_int lit of (n, None) \<Rightarrow> Done n None | _ \<Rightarrow> Done old (Some ErrJsonType))
      | JNull \<Rightarrow> Done old None
      | _ \<Rightarrow> Done old (Some ErrJsonType))"

subsection \<open>\<^verbatim>\<open>time.Time\<close>: RFC 3339, with the fallback to \<^verbatim>\<open>time.Parse\<close>\<close>

definition digits_value :: "string \<Rightarrow> nat" where
  "digits_value ds = foldl (\<lambda>a c. a * 10 + digit_val c) 0 ds"

text \<open>The \<^verbatim>\<open>parseUint\<close> closure of \<^verbatim>\<open>parseRFC3339\<close>: digits only, within range.\<close>

definition uint_range :: "string \<Rightarrow> nat \<Rightarrow> nat \<Rightarrow> nat option" where
  "uint_range s lo hi =
     (if list_all is_digit s \<and> lo \<le> digits_value s \<and> digits_value s \<le> hi
      then Some (digits_value s) else None)"

definition is_leap :: "nat \<Rightarrow> bool" where
  "is_leap y \<longleftrightarrow> y mod 4 = 0 \<and> (y mod 100 \<noteq> 0 \<or> y mod 400 = 0)"

definition days_in :: "nat \<Rightarrow> nat \<Rightarrow> nat" where
  "days_in m y =
     (if m = 2 then (if is_leap y then 29 else 28)
      else if m = 4 \<or> m = 6 \<or> m = 9 \<or> m = 11 then 30 else 31)"

text \<open>
  \<^verbatim>\<open>parseNanoseconds\<close>: at most nine digits are significant, scaled to
  nanoseconds; further digits are ignored.
\<close>

definition frac_nanos :: "string \<Rightarrow> nat" where
  "frac_nanos ds = digits_value (take 9 ds) * 10 ^ (9 - min 9 (length ds))"

definition parse_zone :: "string \<Rightarrow> int option" where
  "parse_zone tz =
     (if tz = ''Z'' then Some 0
      else if length tz \<noteq> 6 then None
      else (case (uint_range (take 2 (drop 1 tz)) 0 23, uint_range (take 2 (drop 4 tz)) 0 59) of
              (Some hr, Some mm) \<Rightarrow>
                if tz ! 0 = CHR ''+'' \<and> tz ! 3 = CHR '':'' then Some (int ((hr * 60 + mm) * 60))
                else if tz ! 0 = CHR ''-'' \<and> tz ! 3 = CHR '':'' then Some (- int ((hr * 60 + mm) * 60))
                else None
            | _ \<Rightarrow> None))"

definition parse_rfc3339 :: "string \<Rightarrow> go_time option" where
  "parse_rfc3339 s =
     (if length s < 19 then None
      else (case (uint_range (take 4 s) 0 9999, uint_range (take 2 (drop 5 s)) 1 12) of
              (Some year, Some month) \<Rightarrow>
                (case (uint_range (take 2 (drop 8 s)) 1 (days_in month year),
                       uint_range (take 2 (drop 11 s)) 0 23, uint_range (take 2 (drop 14 s)) 0 59,
                       uint_range (take 2 (drop 17 s)) 0 59) of
                   (Some day, Some hour, Some mi, Some sec) \<Rightarrow>
                     if s ! 4 = CHR ''-'' \<and> s ! 7 = CHR ''-'' \<and> s ! 10 = CHR ''T'' \<and>
                        s ! 13 = CHR '':'' \<and> s ! 16 = CHR '':'' then
                       (let rest = drop 19 s;
                            frac = (if 2 \<le> length rest \<and> rest ! 0 = CHR ''.'' \<and> is_digit (rest ! 1)
                                    then takeWhile is_digit (drop 1 rest) else []);
                            tz = (if frac = [] then rest else drop (1 + length frac) rest)
                        in map_option (\<lambda>off. \<lparr>t_year = int year, t_month = month, t_day = day,
                                              t_hour = hour, t_min = mi, t_sec = sec,
                                              t_nsec = (if frac = [] then 0 else frac_nanos frac),
                                              t_offset = off\<rparr>) (parse_zone tz))
                     else None
                 | _ \<Rightarrow> None)
            | _ \<Rightarrow> None))"

text \<open>
  \<^verbatim>\<open>time.Parse(RFC3339, s)\<close>, the generic layout parser run on the layout
  \<^verbatim>\<open>2006-01-02T15:04:05Z07:00\<close>, its chunks taken in order: a four-digit
  year (\<^verbatim>\<open>stdLongYear\<close>), the literal \<^verbatim>\<open>-\<close>, a two-digit month
  (\<^verbatim>\<open>stdZeroMonth\<close>, 1 to 12), \<^verbatim>\<open>-\<close>, a two-digit day, \<^verbatim>\<open>T\<close>, an hour
  of one or two digits (\<^verbatim>\<open>stdHour\<close> reads it with \<^verbatim>\<open>getnum(value, false)\<close>,
  below 24), \<^verbatim>\<open>:\<close>, two-digit minutes and seconds below 60, a fraction
  after a period or a comma that the layout does not name, and the zone
  \<^verbatim>\<open>Z07:00\<close>: \<^verbatim>\<open>Z\<close>, or a sign, two-digit hours, \<^verbatim>\<open>:\<close> and two-digit
  minutes, which \<^verbatim>\<open>Parse\<close> bounds by 24 and 60 inclusive.  Nothing may follow,
  and the day must exist in its month.  Every failure is an error, \<open>None\<close>.
\<close>

fun getnum :: "string \<Rightarrow> bool \<Rightarrow> (nat \<times> string) option" where
  "getnum (a # b # r) fixed =
     (if \<not> is_digit a then None
      else if \<not> is_digit b then (if fixed then None else Some (digit_val a, b # r))
      else Some (digit_val a * 10 + digit_val b, r))"
| "getnum [a] fixed = (if is_digit a \<and> \<not> fixed then Some (digit_val a, []) else None)"
| "getnum [] fixed = None"

fun skip_char :: "char \<Rightarrow> string \<Rightarrow> string option" where
  "skip_char c (x # r) = (if x = c then Some r else None)"
| "skip_char c [] = None"

text \<open>\<^verbatim>\<open>stdLongYear\<close>: four bytes, the first a digit, read by \<^verbatim>\<open>atoi\<close>, which takes digits only.\<close>

fun long_year :: "string \<Rightarrow> (nat \<times> string) option" where
  "long_year (a # b # c # d # r) =
     (if list_all is_digit [a, b, c, d] then Some (digits_value [a, b, c, d], r) else None)"
| "long_year _ = None"

text \<open>The digits of a fraction after the seconds, introduced by a period or a comma.\<close>

fun frac_part :: "string \<Rightarrow> string" where
  "frac_part (c # d # r) =
     (if (c = CHR ''.'' \<or> c = CHR '','') \<and> is_digit d then takeWhile is_digit (d # r) else [])"
| "frac_part _ = []"

fun parse_layout_zone :: "string \<Rightarrow> int option" where
  "parse_layout_zone [z] = (if z = CHR ''Z'' then Some 0 else None)"
| "parse_layout_zone (sg # h1 # h2 # c # m1 # m2 # r) =
     (if sg = CHR ''Z'' \<or> c \<noteq> CHR '':'' \<or> \<not> list_all is_digit [h1, h2, m1, m2] then None
      else (let hr = digits_value [h1, h2]; mm = digits_value [m1, m2] in
            if 24 < hr \<or> 60 < mm \<or> r \<noteq> [] then None
            else if sg = CHR ''+'' then Some (int ((hr * 60 + mm) * 60))
            else if sg = CHR ''-'' then Some (- int ((hr * 60 + mm) * 60))
            else None))"
| "parse_layout_zone _ = None"

definition time_parse_rfc3339 :: "string \<Rightarrow> go_time option" where
  "time_parse_rfc3339 s0 = do {
     (year, s) \<leftarrow> long_year s0;
     s \<leftarrow> skip_char CHR ''-'' s;
     (month, s) \<leftarrow> getnum s True;
     if month < 1 \<or> 12 < month then None else do {
     s \<leftarrow> skip_char CHR ''-'' s;
     (day, s) \<leftarrow> getnum s True;
     s \<leftarrow> skip_char CHR ''T'' s;
     (hour, s) \<leftarrow> getnum s False;
     if 24 \<le> hour then None else do {
     s \<leftarrow> skip_char CHR '':'' s;
     (mi, s) \<leftarrow> getnum s True;
     if 60 \<le> mi then None else do {
     s \<leftarrow> skip_char CHR '':'' s;
     (sec, s) \<leftarrow> getnum s True;
     if 60 \<le> sec then None else do {
     off \<leftarrow> parse_layout_zone (if frac_part s = [] then s else drop (1 + length (frac_part s)) s);
     if day < 1 \<or> days_in month year < day then None
     else Some \<lparr>t_year = int year, t_month = month, t_day = day, t_hour = hour, t_min = mi,
                t_sec = sec, t_nsec = (if frac_part s = [] then 0 else frac_nanos (frac_part s)),
                t_offset = off\<rparr>
     }}}}}"

text \<open>
  \<^verbatim>\<open>parseStrictRFC3339\<close>: the fast \<^verbatim>\<open>parseRFC3339\<close>, and when it fails
  \<^verbatim>\<open>time.Parse(RFC3339, s)\<close>, whose result is returned as it is (the stricter
  checks after it are disabled, \<^verbatim>\<open>case true: return t, nil\<close>).
\<close>

definition parse_strict_rfc3339 :: "string \<Rightarrow> go_time option" where
  "parse_strict_rfc3339 s = (case parse_rfc3339 s of Some t \<Rightarrow> Some t | None \<Rightarrow> time_parse_rfc3339 s)"

text \<open>
  \<^verbatim>\<open>Time.UnmarshalJSON\<close> receives the literal's raw bytes: \<^verbatim>\<open>null\<close> is a no-op,
  anything but a string is an error, and a string's bytes between the quotes are
  parsed as they are, without unescaping.
\<close>

definition dec_time :: "go_time decoder" where
  "dec_time v old =
     (case v of
        JNull \<Rightarrow> Done old None
      | JString raw \<Rightarrow> (case parse_strict_rfc3339 raw of None \<Rightarrow> Abort ErrJsonTime | Some t \<Rightarrow> Done t None)
      | _ \<Rightarrow> Abort ErrJsonTime)"

subsection \<open>Structs and slices\<close>

fun dec_members :: "(nat list \<Rightarrow> 'a decoder option) \<Rightarrow> (string \<times> jvalue) list \<Rightarrow> 'a \<Rightarrow>
                    json_error option \<Rightarrow> 'a dec_result" where
  "dec_members fld [] x saved = Done x saved"
| "dec_members fld ((k, v) # ps) x saved =
     (case unquote_bytes k of
        None \<Rightarrow> Abort ErrJsonSyntax
      | Some key \<Rightarrow>
          (case fld (fold_name key) of
             None \<Rightarrow> dec_members fld ps x saved
           | Some d \<Rightarrow>
               (case d v x of
                  Abort e \<Rightarrow> Abort e
                | Done x' e \<Rightarrow> dec_members fld ps x' (first_error saved e))))"

definition dec_struct :: "(nat list \<Rightarrow> 'a decoder option) \<Rightarrow> 'a decoder" where
  "dec_struct fld v x =
     (case v of
        JObject ps \<Rightarrow> dec_members fld ps x None
      | JNull \<Rightarrow> Done x None
      | _ \<Rightarrow> Done x (Some ErrJsonType))"

fun dec_elems :: "'a decoder \<Rightarrow> 'a \<Rightarrow> jvalue list \<Rightarrow> 'a list \<Rightarrow> json_error option \<Rightarrow> 'a list dec_result" where
  "dec_elems d z [] old saved = Done [] saved"
| "dec_elems d z (v # vs) old saved =
     (case d v (case old of [] \<Rightarrow> z | y # _ \<Rightarrow> y) of
        Abort e \<Rightarrow> Abort e
      | Done x e \<Rightarrow> map_dec (Cons x) (dec_elems d z vs (tl old) (first_error saved e)))"

definition dec_slice :: "'a decoder \<Rightarrow> 'a \<Rightarrow> 'a list decoder" where
  "dec_slice d z v old =
     (case v of
        JArray vs \<Rightarrow> dec_elems d z vs old None
      | JNull \<Rightarrow> Done [] None
      | _ \<Rightarrow> Done old (Some ErrJsonType))"

subsection \<open>The response structs\<close>

definition field_error_fields :: "nat list \<Rightarrow> field_error decoder option" where
  "field_error_fields k =
     (if k = fold_name ''field'' then Some (\<lambda>v x. map_dec (\<lambda>s. x\<lparr>fe_field := s\<rparr>) (dec_string v (fe_field x)))
      else if k = fold_name ''message'' then
        Some (\<lambda>v x. map_dec (\<lambda>s. x\<lparr>fe_message := s\<rparr>) (dec_string v (fe_message x)))
      else None)"

definition error_response_fields :: "nat list \<Rightarrow> error_response decoder option" where
  "error_response_fields k =
     (if k = fold_name ''success'' then
        Some (\<lambda>v x. map_dec (\<lambda>b. x\<lparr>er_success := b\<rparr>) (dec_bool v (er_success x)))
      else if k = fold_name ''message'' then
        Some (\<lambda>v x. map_dec (\<lambda>s. x\<lparr>er_message := s\<rparr>) (dec_string v (er_message x)))
      else if k = fold_name ''errors'' then
        Some (\<lambda>v x. map_dec (\<lambda>es. x\<lparr>er_errors := es\<rparr>)
                     (dec_slice (dec_struct field_error_fields) zero_field_error v (er_errors x)))
      else if k = fold_name ''retryAfter'' then
        Some (\<lambda>v x. map_dec (\<lambda>n. x\<lparr>er_retry_after := n\<rparr>) (dec_int v (er_retry_after x)))
      else None)"

definition send_email_data_fields :: "nat list \<Rightarrow> send_email_data decoder option" where
  "send_email_data_fields k =
     (if k = fold_name ''emailId'' then
        Some (\<lambda>v x. map_dec (\<lambda>s. x\<lparr>email_id := s\<rparr>) (dec_string v (email_id x)))
      else if k = fold_name ''status'' then
        Some (\<lambda>v x. map_dec (\<lambda>s. x\<lparr>status := s\<rparr>) (dec_string v (status x)))
      else if k = fold_name ''queuedAt'' then
        Some (\<lambda>v x. map_dec (\<lambda>t. x\<lparr>queued_at := t\<rparr>) (dec_time v (queued_at x)))
      else None)"

definition send_email_response_fields :: "nat list \<Rightarrow> send_email_response decoder option" where
  "send_email_response_fields k =
     (if k = fold_name ''success'' then
        Some (\<lambda>v x. map_dec (\<lambda>b. x\<lparr>resp_success := b\<rparr>) (dec_bool v (resp_success x)))
      else if k = fold_name ''message'' then
        Some (\<lambda>v x. map_dec (\<lambda>s. x\<lparr>resp_message := s\<rparr>) (dec_string v (resp_message x)))
      else if k = fold_name ''data'' then
        Some (\<lambda>v x. map_dec (\<lambda>d. x\<lparr>resp_data := d\<rparr>) (dec_struct send_email_data_fields v (resp_data x)))
      else None)"

text \<open>
  \<^verbatim>\<open>json.Unmarshal(body, &v)\<close> with \<open>v\<close> the zero value: a syntax error is
  reported before anything is decoded; otherwise the aborting error, else the
  first saved error, else the decoded value.
\<close>

definition json_unmarshal :: "'a decoder \<Rightarrow> 'a \<Rightarrow> string \<Rightarrow> json_error + 'a" where
  "json_unmarshal d x0 body =
     (case json_parse body of
        None \<Rightarrow> Inl ErrJsonSyntax
      | Some v \<Rightarrow> (case d v x0 of
                     Abort e \<Rightarrow> Inl e
                   | Done x None \<Rightarrow> Inr x
                   | Done x (Some e) \<Rightarrow> Inl e))"

definition unmarshal_send_email_response :: "string \<Rightarrow> json_error + send_email_response" where
  "unmarshal_send_email_response =
     json_unmarshal (dec_struct send_email_response_fields) zero_send_email_response"

definition unmarshal_error_response :: "string \<Rightarrow> json_error + error_response" where
  "unmarshal_error_response = json_unmarshal (dec_struct error_response_fields) zero_error_response"

subsection \<open>Invariants of the decoded structs\<close>

text \<open>
  A property every field decoder preserves holds of the decoded struct; the
  retry hint of a decoded \<^verbatim>\<open>ErrorResponse\<close> is a Go \<^verbatim>\<open>int\<close>.
\<close>

lemma dec_members_inv:
  assumes "\<And>k d v x x' err. fld k = Some d \<Longrightarrow> d v x = Done x' err \<Longrightarrow> P x \<Longrightarrow> P x'"
  shows "P x \<Longrightarrow> dec_members fld ps x saved = Done y s \<Longrightarrow> P y"
proof (induction ps arbitrary: x saved)
  case (Cons p ps)
  obtain k v where p: "p = (k, v)" by fastforce
  show ?case
  proof (cases "unquote_bytes k")
    case (Some key)
    show ?thesis
    proof (cases "fld (fold_name key)")
      case None
      with Some p Cons.IH Cons.prems show ?thesis by simp
    next
      case (Some d)
      show ?thesis
      proof (cases "d v x")
        case (Done x' err)
        then have "P x'" using assms [OF Some] Cons.prems(1) by blast
        with \<open>unquote_bytes k = Some key\<close> Some Done p Cons.IH Cons.prems(2) show ?thesis by simp
      qed (use \<open>unquote_bytes k = Some key\<close> Some p Cons.prems in simp)
    qed
  qed (use p Cons.prems in simp)
qed simp

lemma map_dec_Done: "map_dec f r = Done y e \<longleftrightarrow> (\<exists>x. r = Done x e \<and> y = f x)"
  by (cases r) auto

lemma unmarshal_error_response_retry_in_int64:
  assumes "unmarshal_error_response body = Inr er"
  shows "in_int64 (er_retry_after er)"
proof -
  have step: "in_int64 (er_retry_after x')"
    if "error_response_fields k = Some d" "d v x = Done x' err" "in_int64 (er_retry_after x)" for k d v x x' err
    using that
    by (auto simp: error_response_fields_def dec_int_def map_dec_Done dest: parse_int_in_int64
             split: if_splits jvalue.splits prod.splits option.splits)
  obtain jv err where p: "dec_struct error_response_fields jv zero_error_response = Done er err"
    using assms by (auto simp: unmarshal_error_response_def json_unmarshal_def
                          split: option.splits dec_result.splits)
  show ?thesis
  proof (cases jv)
    case (JObject ps)
    have d: "dec_members error_response_fields ps zero_error_response None = Done er err"
      using p JObject by (simp add: dec_struct_def)
    show ?thesis
    proof (rule dec_members_inv [where P = "\<lambda>x. in_int64 (er_retry_after x)"])
      show "in_int64 (er_retry_after x')"
        if "error_response_fields k = Some d" "d v x = Done x' err" "in_int64 (er_retry_after x)" for k d v x x' err
        using step that by blast
    qed (use d in \<open>simp_all add: zero_error_response_def\<close>)
  qed (use p in \<open>auto simp: dec_struct_def zero_error_response_def\<close>)
qed


lemmas time_parse_defs = parse_strict_rfc3339_def parse_rfc3339_def time_parse_rfc3339_def uint_range_def
  digits_value_def days_in_def is_leap_def frac_nanos_def parse_zone_def is_digit_def digit_val_def

text \<open>
  What the fallback adds to the fast parser, on concrete timestamps: a one-digit
  hour, a comma before the fraction and a zone offset of 24 hours decode; a day
  the month does not have and the hour 24 do not.
\<close>

lemma parse_strict_rfc3339_fallback:
  "parse_rfc3339 ''2025-01-01T1:00:00Z'' = None"
  "parse_strict_rfc3339 ''2025-01-01T1:00:00Z'' =
     Some \<lparr>t_year = 2025, t_month = 1, t_day = 1, t_hour = 1, t_min = 0, t_sec = 0, t_nsec = 0, t_offset = 0\<rparr>"
  "parse_strict_rfc3339 ''2025-01-01T00:00:00,5Z'' =
     Some \<lparr>t_year = 2025, t_month = 1, t_day = 1, t_hour = 0, t_min = 0, t_sec = 0, t_nsec = 500000000,
           t_offset = 0\<rparr>"
  "parse_strict_rfc3339 ''2025-01-01T00:00:00+24:00'' =
     Some \<lparr>t_year = 2025, t_month = 1, t_day = 1, t_hour = 0, t_min = 0, t_sec = 0, t_nsec = 0,
           t_offset = 86400\<rparr>"
  "parse_strict_rfc3339 ''2025-02-29T00:00:00Z'' = None"
  "parse_strict_rfc3339 ''2025-01-01T24:00:00Z'' = None"
  by (simp_all add: time_parse_defs)

end
