(* ===== verification/Json_Encode.thy ===== *)
theory Json_Encode
  imports Json Strconv Data_Model "HOL-Library.AList"
begin

text \<open>
  \<^verbatim>\<open>json.Marshal\<close> of a \<^verbatim>\<open>SendEmailRequest\<close> (\<^verbatim>\<open>encode.go\<close>), as
  \<^verbatim>\<open>doRequest\<close> calls it.  Strings are written by \<^verbatim>\<open>appendString\<close> with HTML
  escaping on: \<^verbatim>\<open>"\<close> and \<^verbatim>\<open>\\<close> and the control characters are escaped, and so
  are \<^verbatim>\<open><\<close>, \<^verbatim>\<open>>\<close>, \<^verbatim>\<open>&\<close>, U+2028 and U+2029; each byte of an ill-formed
  UTF-8 sequence becomes the escape of U+FFFD.  Struct fields are written in declaration
  order under their tag names, and a field tagged \<^verbatim>\<open>omitempty\<close> is left out when
  it is empty (empty string, nil pointer, empty slice or map, \<open>false\<close>).  A
  \<^verbatim>\<open>map[string]any\<close> is written with its keys sorted bytewise; the association
  list that models it is read as a map, the first binding of a key winning.  The
  only failures are a value of an unsupported type and a \<^verbatim>\<open>json.Number\<close> that
  is not a number literal; Go reports the first in output order.
\<close>

datatype marshal_error = ErrUnsupportedType string | ErrInvalidNumber string

subsection \<open>Strings\<close>

definition html_safe :: "char \<Rightarrow> bool" where
  "html_safe c \<longleftrightarrow> (32::nat) \<le> of_char c \<and> of_char c < (128::nat) \<and>
     c \<notin> set [CHR 0x22, CHR 0x5C, CHR ''<'', CHR ''>'', CHR ''&'']"

definition hex_digit :: "nat \<Rightarrow> char" where
  "hex_digit n = ''0123456789abcdef'' ! n"

function json_escape :: "string \<Rightarrow> string" where
  "json_escape [] = []"
| "json_escape (c # cs) =
     (if of_char c < (128::nat) then
        (if html_safe c then c # json_escape cs
         else if c = CHR 0x5C \<or> c = CHR 0x22 then CHR 0x5C # c # json_escape cs
         else if c = CHR 0x08 then CHR 0x5C # CHR ''b'' # json_escape cs
         else if c = CHR 0x0C then CHR 0x5C # CHR ''f'' # json_escape cs
         else if c = CHR 0x0A then CHR 0x5C # CHR ''n'' # json_escape cs
         else if c = CHR 0x0D then CHR 0x5C # CHR ''r'' # json_escape cs
         else if c = CHR 0x09 then CHR 0x5C # CHR ''t'' # json_escape cs
         else CHR 0x5C # CHR ''u'' # CHR ''0'' # CHR ''0'' # hex_digit (of_char c div 16) #
                hex_digit (of_char c mod 16) # json_escape cs)
      else if decode_rune (c # cs) = (rune_error, 1) then
        CHR 0x5C # ''ufffd'' @ json_escape cs
      else if fst (decode_rune (c # cs)) = 8232 \<or> fst (decode_rune (c # cs)) = 8233 then
        CHR 0x5C # ''u202'' @ [hex_digit (fst (decode_rune (c # cs)) mod 16)] @
          json_escape (drop (snd (decode_rune (c # cs))) (c # cs))
      else take (snd (decode_rune (c # cs))) (c # cs) @
             json_escape (drop (snd (decode_rune (c # cs))) (c # cs)))"
  by pat_completeness auto

termination json_escape
  by (relation "measure length") (auto simp: decode_rune_Cons_pos)

definition quote_string :: "string \<Rightarrow> string" where
  "quote_string s = CHR 0x22 # json_escape s @ [CHR 0x22]"

subsection \<open>Numbers\<close>

text \<open>\<^verbatim>\<open>isValidNumber\<close>, the check \<^verbatim>\<open>json.Number\<close> values must pass.\<close>

definition skip_digits :: "string \<Rightarrow> string" where
  "skip_digits s = dropWhile is_digit s"

definition is_valid_number :: "string \<Rightarrow> bool" where
  "is_valid_number s0 =
     (s0 \<noteq> [] \<and>
      (let s1 = (if hd s0 = CHR ''-'' then tl s0 else s0) in
       s1 \<noteq> [] \<and> is_digit (hd s1) \<and>
       (let s2 = (if hd s1 = CHR ''0'' then tl s1 else skip_digits (tl s1));
            s3 = (if 2 \<le> length s2 \<and> s2 ! 0 = CHR ''.'' \<and> is_digit (s2 ! 1)
                  then skip_digits (drop 2 s2) else s2)
        in if 2 \<le> length s3 \<and> (s3 ! 0 = CHR ''e'' \<or> s3 ! 0 = CHR ''E'') then
             (let s4 = tl s3 in
              if hd s4 = CHR ''+'' \<or> hd s4 = CHR ''-'' then
                tl s4 \<noteq> [] \<and> skip_digits (tl s4) = []
              else skip_digits s4 = [])
           else s3 = [])))"

subsection \<open>Dynamic values\<close>

fun strings_concat_sep :: "string list \<Rightarrow> string" where
  "strings_concat_sep [] = []"
| "strings_concat_sep [x] = x"
| "strings_concat_sep (x # y # xs) = x @ '','' @ strings_concat_sep (y # xs)"

fun seq_sum :: "('e + 'a) list \<Rightarrow> 'e + 'a list" where
  "seq_sum [] = Inr []"
| "seq_sum (Inl e # _) = Inl e"
| "seq_sum (Inr x # xs) = (case seq_sum xs of Inl e \<Rightarrow> Inl e | Inr ys \<Rightarrow> Inr (x # ys))"

definition encode_object :: "(string \<times> (marshal_error + string)) list \<Rightarrow> marshal_error + string" where
  "encode_object ps =
     (case seq_sum (map (\<lambda>(k, r). case r of Inl e \<Rightarrow> Inl e | Inr s \<Rightarrow> Inr (quote_string k @ '':'' @ s))
                       (sort_key fst (AList.clearjunk ps))) of
        Inl e \<Rightarrow> Inl e
      | Inr ms \<Rightarrow> Inr (CHR 0x7B # strings_concat_sep ms @ [CHR 0x7D]))"

fun encode_any :: "go_any \<Rightarrow> marshal_error + string"
and encode_list :: "go_any list \<Rightarrow> (marshal_error + string) list"
and encode_members :: "(string \<times> go_any) list \<Rightarrow> (string \<times> (marshal_error + string)) list" where
  "encode_any AnyNil = Inr ''null''"
| "encode_any (AnyBool b) = Inr (if b then ''true'' else ''false'')"
| "encode_any (AnyInt i) = Inr (itoa i)"
| "encode_any (AnyString s) = Inr (quote_string s)"
| "encode_any (AnyNumber s) =
     (let n = (if s = [] then ''0'' else s) in if is_valid_number n then Inr n else Inl (ErrInvalidNumber n))"
| "encode_any (AnySlice xs) =
     (case seq_sum (encode_list xs) of
        Inl e \<Rightarrow> Inl e
      | Inr es \<Rightarrow> Inr (''['' @ strings_concat_sep es @ '']''))"
| "encode_any (AnyMap ps) = encode_object (encode_members ps)"
| "encode_any (AnyUnsupported t) = Inl (ErrUnsupportedType t)"
| "encode_list [] = []"
| "encode_list (x # xs) = encode_any x # encode_list xs"
| "encode_members [] = []"
| "encode_members ((k, v) # ps) = (k, encode_any v) # encode_members ps"

subsection \<open>The request\<close>

definition encode_email_address :: "email_address \<Rightarrow> string" where
  "encode_email_address a =
     ''{'' @ quote_string ''email'' @ '':'' @ quote_string (email a) @
     (if name a = [] then [] else '','' @ quote_string ''name'' @ '':'' @ quote_string (name a)) @ ''}''"

definition omit_empty_string :: "string \<Rightarrow> string \<Rightarrow> (string \<times> (marshal_error + string)) option" where
  "omit_empty_string k s = (if s = [] then None else Some (k, Inr (quote_string s)))"

text \<open>The fields of \<^verbatim>\<open>SendEmailRequest\<close> in declaration order, those left out by \<^verbatim>\<open>omitempty\<close> as \<open>None\<close>.\<close>

definition request_fields :: "send_email_request \<Rightarrow> (string \<times> (marshal_error + string)) option list" where
  "request_fields r =
     [Some (''to'', Inr (encode_email_address (req_to r))),
      Some (''from'', Inr (encode_email_address (req_from r))),
      omit_empty_string ''subject'' (req_subject r),
      omit_empty_string ''html'' (req_html r),
      omit_empty_string ''text'' (req_text r),
      omit_empty_string ''templateId'' (req_template_id r),
      map_option (\<lambda>a. (''replyTo'', Inr (encode_email_address a))) (req_reply_to r),
      omit_empty_string ''unsubscribeGroupId'' (req_unsubscribe_group_id r),
      (if req_categories r = [] then None
       else Some (''categories'', Inr (''['' @ strings_concat_sep (map quote_string (req_categories r)) @ '']''))),
      (if req_dynamic_data r = [] then None
       else Some (''dynamicData'', encode_any (AnyMap (req_dynamic_data r)))),
      omit_empty_string ''scheduledAt'' (req_scheduled_at r),
      omit_empty_string ''campaignName'' (req_campaign_name r),
      (if req_test r then Some (''test'', Inr ''true'') else None)]"

definition marshal_request :: "send_email_request \<Rightarrow> marshal_error + string" where
  "marshal_request r =
     (case seq_sum (map (\<lambda>(k, v). case v of Inl e \<Rightarrow> Inl e | Inr s \<Rightarrow> Inr (quote_string k @ '':'' @ s))
                       (List.map_filter id (request_fields r))) of
        Inl e \<Rightarrow> Inl e
      | Inr ms \<Rightarrow> Inr (CHR 0x7B # strings_concat_sep ms @ [CHR 0x7D]))"

subsection \<open>String round trip\<close>

text \<open>
  Each escape \<^verbatim>\<open>appendString\<close> writes is read back by \<^verbatim>\<open>unquoteBytes\<close> as the
  character it stands for, and the bytes of a well-formed multi-byte sequence
  pass through unchanged.
\<close>

lemma hex_digit_all: "list_all (\<lambda>n. is_hex (hex_digit n) \<and> hex_val (hex_digit n) = n) [0..<16]"
  by code_simp

lemma hex_digit_val: "n < 16 \<Longrightarrow> is_hex (hex_digit n) \<and> hex_val (hex_digit n) = n"
  using hex_digit_all by (simp add: list_all_iff)

lemma getu4_escape:
  assumes "a < 16" "b < 16" "c < 16" "d < 16"
  shows "getu4 (CHR 0x5C # CHR ''u'' # hex_digit a # hex_digit b # hex_digit c # hex_digit d # rest) =
           Some (((a * 16 + b) * 16 + c) * 16 + d)"
  using hex_digit_val [OF assms(1)] hex_digit_val [OF assms(2)] hex_digit_val [OF assms(3)]
    hex_digit_val [OF assms(4)]
  by (simp add: getu4_def)

lemma hex_digit_0: "hex_digit 0 = CHR ''0''" and hex_digit_2: "hex_digit 2 = CHR ''2''"
  by (simp_all add: hex_digit_def)

lemma unquote_ascii_escape:
  assumes "of_char c < (128::nat)"
  shows "unquote (CHR 0x5C # CHR ''u'' # CHR ''0'' # CHR ''0'' # hex_digit (of_char c div 16) #
                  hex_digit (of_char c mod 16) # rest) = map_option (Cons c) (unquote rest)"
proof -
  have "getu4 (CHR 0x5C # CHR ''u'' # hex_digit 0 # hex_digit 0 # hex_digit (of_char c div 16) #
                  hex_digit (of_char c mod 16) # rest) = Some (of_char c)"
    using getu4_escape [of 0 0 "of_char c div 16" "of_char c mod 16" rest] assms by simp
  then have "getu4 (CHR 0x5C # CHR ''u'' # CHR ''0'' # CHR ''0'' # hex_digit (of_char c div 16) #
                  hex_digit (of_char c mod 16) # rest) = Some (of_char c)"
    by (simp add: hex_digit_0)
  with assms show ?thesis by (cases "unquote rest") (simp_all add: is_surrogate_def encode_rune_def)
qed

lemma unquote_line_sep_escape:
  assumes "r = 8232 \<or> r = 8233"
  shows "unquote (CHR 0x5C # ''u202'' @ [hex_digit (r mod 16)] @ rest) =
           map_option ((@) (encode_rune r)) (unquote rest)"
proof -
  have "getu4 (CHR 0x5C # CHR ''u'' # hex_digit 2 # hex_digit 0 # hex_digit 2 # hex_digit (r mod 16) # rest) =
          Some r"
    using getu4_escape [of 2 0 2 "r mod 16" rest] assms by auto
  then have "getu4 (CHR 0x5C # ''u202'' @ [hex_digit (r mod 16)] @ rest) = Some r"
    by (simp add: hex_digit_0 hex_digit_2)
  with assms show ?thesis by (auto simp: is_surrogate_def)
qed

lemma unquote_Cons_plain:
  "html_safe c \<Longrightarrow> unquote (c # rest) = map_option (Cons c) (unquote rest)"
  by (simp add: html_safe_def)

lemma unquote_simple_escape:
  "unescape_char e = Some u \<Longrightarrow> e \<noteq> CHR ''u'' \<Longrightarrow>
   unquote (CHR 0x5C # e # rest) = map_option (Cons u) (unquote rest)"
  by simp

lemma utf8_valid_ascii_tl: "of_char c < (128::nat) \<Longrightarrow> utf8_valid (c # cs) \<Longrightarrow> utf8_valid cs"
  by (simp add: utf8_valid_Cons decode_rune_def byte_of_def)

lemma unquote_rune_bytes:
  assumes "\<not> of_char c < (128::nat)" and "decode_rune (c # cs) \<noteq> (rune_error, 1)"
  shows "unquote (take (snd (decode_rune (c # cs))) (c # cs) @ rest) =
           map_option ((@) (take (snd (decode_rune (c # cs))) (c # cs))) (unquote rest)"
proof -
  let ?n = "snd (decode_rune (c # cs))"
  have n: "1 \<le> ?n" "?n \<le> Suc (length cs)" using decode_rune_size [of "c # cs"] by simp_all
  have t: "take ?n (c # cs) = c # take (?n - 1) cs" using n by (cases ?n) simp_all
  have d: "drop ?n (take ?n (c # cs) @ rest) = rest" using n by simp
  have "of_char c \<noteq> (34::nat)" "of_char c \<noteq> (92::nat)" "\<not> of_char c < (32::nat)" using assms(1) by auto
  then have "c \<noteq> CHR 0x22" "c \<noteq> CHR 0x5C" by auto
  with assms show ?thesis
    using decode_rune_prefix [OF assms(2), of rest] encode_decode_rune [OF assms(2)] d
    by (simp only: t unquote.simps(2)) (simp add: t)
qed

lemma unquote_json_escape: "utf8_valid s \<Longrightarrow> unquote (json_escape s) = Some s"
proof (induction s rule: json_escape.induct)
  case 1
  then show ?case by simp
next
  case (2 c cs)
  show ?case
  proof (cases "of_char c < (128::nat)")
    case ascii: True
    have v: "utf8_valid cs" using utf8_valid_ascii_tl [OF ascii "2.prems"] .
    have ih: "unquote (json_escape cs) = Some cs"
      using "2.IH"(1-8) ascii v by blast
    have e: "unquote (json_escape (c # cs)) = Some (c # cs)"
    proof (cases "html_safe c")
      case True
      with ascii ih show ?thesis by (simp del: unquote.simps add: unquote_Cons_plain)
    next
      case hs: False
      have js: "json_escape (c # cs) =
          (if c = CHR 0x5C \<or> c = CHR 0x22 then CHR 0x5C # c # json_escape cs
           else if c = CHR 0x08 then CHR 0x5C # CHR ''b'' # json_escape cs
           else if c = CHR 0x0C then CHR 0x5C # CHR ''f'' # json_escape cs
           else if c = CHR 0x0A then CHR 0x5C # CHR ''n'' # json_escape cs
           else if c = CHR 0x0D then CHR 0x5C # CHR ''r'' # json_escape cs
           else if c = CHR 0x09 then CHR 0x5C # CHR ''t'' # json_escape cs
           else CHR 0x5C # CHR ''u'' # CHR ''0'' # CHR ''0'' # hex_digit (of_char c div 16) #
                  hex_digit (of_char c mod 16) # json_escape cs)"
        using ascii hs by (simp only: json_escape.simps(2) if_True if_False)
      consider (quote) "c = CHR 0x5C \<or> c = CHR 0x22" | (b) "c = CHR 0x08" | (f) "c = CHR 0x0C"
        | (n) "c = CHR 0x0A" | (r) "c = CHR 0x0D" | (t) "c = CHR 0x09"
        | (u) "\<not> (c = CHR 0x5C \<or> c = CHR 0x22)" "c \<noteq> CHR 0x08" "c \<noteq> CHR 0x0C" "c \<noteq> CHR 0x0A"
              "c \<noteq> CHR 0x0D" "c \<noteq> CHR 0x09"
        by blast
      then show ?thesis
      proof cases
        case quote
        then have "unescape_char c = Some c" "c \<noteq> CHR ''u''" by auto
        then have "unquote (CHR 0x5C # c # json_escape cs) = Some (c # cs)"
          using ih by (simp del: unquote.simps add: unquote_simple_escape)
        with quote show ?thesis unfolding js by simp
      next
        case u
        with ascii ih show ?thesis unfolding js by (simp only: if_False unquote_ascii_escape) simp
      qed (use ih in \<open>simp_all add: js html_safe_def\<close>)
    qed
    then show ?thesis .
  next
    case False
    let ?n = "snd (decode_rune (c # cs))" and ?r = "fst (decode_rune (c # cs))"
    have ok: "decode_rune (c # cs) \<noteq> (rune_error, 1)" and v: "utf8_valid (drop ?n (c # cs))"
      using "2.prems" by (simp_all add: utf8_valid_Cons)
    have ih: "unquote (json_escape (drop ?n (c # cs))) = Some (drop ?n (c # cs))"
      using "2.IH"(10-11) False ok v by blast
    have js: "json_escape (c # cs) =
      (if ?r = 8232 \<or> ?r = 8233 then
         CHR 0x5C # ''u202'' @ [hex_digit (?r mod 16)] @ json_escape (drop ?n (c # cs))
       else take ?n (c # cs) @ json_escape (drop ?n (c # cs)))"
      using False ok by (simp only: json_escape.simps(2) if_True if_False)
    show ?thesis
    proof (cases "?r = 8232 \<or> ?r = 8233")
      case True
      then show ?thesis unfolding js
        using ih unquote_line_sep_escape [OF True] encode_decode_rune [OF ok] by simp
    next
      case sep: False
      then show ?thesis unfolding js
        using ih unquote_rune_bytes [OF False ok] by simp
    qed
  qed
qed

subsection \<open>Scanning an encoded string\<close>

text \<open>
  The scanner reads the bytes \<^verbatim>\<open>appendString\<close> writes between the quotes as
  one string literal: no raw quote or control byte, every escape well-formed.
\<close>

lemma scan_run_append:
  "scan_run sc (xs @ ys) = (case scan_run sc xs of None \<Rightarrow> None | Some sc' \<Rightarrow> scan_run sc' ys)"
  by (induction xs arbitrary: sc) (auto split: option.splits)

lemma scan_string_bytes:
  assumes "\<forall>c \<in> set xs. c \<noteq> CHR 0x22 \<and> c \<noteq> CHR 0x5C \<and> \<not> of_char c < (32::nat)" and "sc_step sc = InString"
  shows "scan_run sc (xs @ ys) = scan_run (sc\<lparr>sc_buf := sc_buf sc @ xs\<rparr>) ys"
  using assms by (induction xs arbitrary: sc) (auto simp: scan_char_def)

lemma scanner_step_same [simp]: "sc_step sc = s \<Longrightarrow> sc\<lparr>sc_step := s\<rparr> = sc"
  by simp

lemma scan_short_escape:
  assumes "sc_step sc = InString" and "e \<in> set [CHR ''b'', CHR ''f'', CHR ''n'', CHR ''r'', CHR ''t'', CHR 0x5C, CHR ''/'', CHR 0x22]"
  shows "scan_run sc (CHR 0x5C # e # rest) = scan_run (sc\<lparr>sc_buf := sc_buf sc @ [CHR 0x5C, e]\<rparr>) rest"
  using assms by (simp add: scan_char_def)

lemma scan_u_escape:
  assumes "sc_step sc = InString" and "list_all is_hex [h1, h2, h3, h4]"
  shows "scan_run sc (CHR 0x5C # CHR ''u'' # h1 # h2 # h3 # h4 # rest) =
           scan_run (sc\<lparr>sc_buf := sc_buf sc @ [CHR 0x5C, CHR ''u'', h1, h2, h3, h4]\<rparr>) rest"
  using assms by (simp add: scan_char_def)

lemma hex_digit_is_hex: "n < 16 \<Longrightarrow> is_hex (hex_digit n)"
  using hex_digit_val by blast

lemma is_hex_0: "is_hex CHR ''0''"
  by (simp add: is_hex_def is_digit_def)

lemma scan_json_escape:
  "sc_step sc = InString \<Longrightarrow>
   scan_run sc (json_escape s @ ys) = scan_run (sc\<lparr>sc_buf := sc_buf sc @ json_escape s\<rparr>) ys"
proof (induction s arbitrary: sc rule: json_escape.induct)
  case 1
  then show ?case by simp
next
  case (2 c cs)
  show ?case
  proof (cases "of_char c < (128::nat)")
    case ascii: True
    show ?thesis
    proof (cases "html_safe c")
      case True
      then have "scan_char sc c = Some (sc\<lparr>sc_buf := sc_buf sc @ [c]\<rparr>)"
        using "2.prems" by (auto simp: scan_char_def html_safe_def)
      with ascii True "2.IH"(1) [OF ascii True, of "sc\<lparr>sc_buf := sc_buf sc @ [c]\<rparr>"] "2.prems"
      show ?thesis by simp
    next
      case hs: False
      have js: "json_escape (c # cs) =
          (if c = CHR 0x5C \<or> c = CHR 0x22 then CHR 0x5C # c # json_escape cs
           else if c = CHR 0x08 then CHR 0x5C # CHR ''b'' # json_escape cs
           else if c = CHR 0x0C then CHR 0x5C # CHR ''f'' # json_escape cs
           else if c = CHR 0x0A then CHR 0x5C # CHR ''n'' # json_escape cs
           else if c = CHR 0x0D then CHR 0x5C # CHR ''r'' # json_escape cs
           else if c = CHR 0x09 then CHR 0x5C # CHR ''t'' # json_escape cs
           else CHR 0x5C # CHR ''u'' # CHR ''0'' # CHR ''0'' # hex_digit (of_char c div 16) #
                  hex_digit (of_char c mod 16) # json_escape cs)"
        using ascii hs by (simp only: json_escape.simps(2) if_True if_False)
      have ih: "scan_run sc' (json_escape cs @ ys) = scan_run (sc'\<lparr>sc_buf := sc_buf sc' @ json_escape cs\<rparr>) ys"
        if "sc_step sc' = InString" for sc'
        using "2.IH"(2-8) ascii hs that by blast
      have hex: "list_all is_hex [CHR ''0'', CHR ''0'', hex_digit (of_char c div 16), hex_digit (of_char c mod 16)]"
        using ascii is_hex_0 by (simp add: hex_digit_is_hex)
      show ?thesis
        unfolding js using "2.prems"
        by (simp add: scan_short_escape scan_u_escape [OF _ hex] ih del: scan_run.simps)
    qed
  next
    case multi: False
    let ?n = "snd (decode_rune (c # cs))" and ?r = "fst (decode_rune (c # cs))"
    show ?thesis
    proof (cases "decode_rune (c # cs) = (rune_error, 1)")
      case True
      have hex: "list_all is_hex [CHR ''f'', CHR ''f'', CHR ''f'', CHR ''d'']" by (simp add: is_hex_def)
      have "json_escape (c # cs) = CHR 0x5C # CHR ''u'' # CHR ''f'' # CHR ''f'' # CHR ''f'' # CHR ''d'' # json_escape cs"
        using multi True by simp
      then show ?thesis
        using "2.prems" "2.IH"(9) [OF multi True] by (simp add: scan_u_escape [OF _ hex] del: scan_run.simps)
    next
      case ok: False
      show ?thesis
      proof (cases "?r = 8232 \<or> ?r = 8233")
        case True
        have hex: "list_all is_hex [CHR ''2'', CHR ''0'', CHR ''2'', hex_digit (?r mod 16)]"
          by (simp add: hex_digit_is_hex) (simp add: is_hex_def is_digit_def)
        have "json_escape (c # cs) = CHR 0x5C # CHR ''u'' # CHR ''2'' # CHR ''0'' # CHR ''2'' #
                                     hex_digit (?r mod 16) # json_escape (drop ?n (c # cs))"
          using multi ok True by simp
        then show ?thesis
          using "2.prems" "2.IH"(10) [OF multi ok True] by (simp add: scan_u_escape [OF _ hex] del: scan_run.simps)
      next
        case sep: False
        have "json_escape (c # cs) = take ?n (c # cs) @ json_escape (drop ?n (c # cs))"
          using multi ok sep by simp
        moreover have "\<forall>x \<in> set (take ?n (c # cs)). x \<noteq> CHR 0x22 \<and> x \<noteq> CHR 0x5C \<and> \<not> of_char x < (32::nat)"
          using decode_rune_bytes_high [OF ok multi] by fastforce
        ultimately show ?thesis
          using "2.prems" "2.IH"(11) [OF multi ok sep] by (simp add: scan_string_bytes del: scan_run.simps)
      qed
    qed
  qed
qed

end
