(* ===== verification/Pipeline.thy ===== *)
theory Pipeline
  imports Validation Api_Error Http Json_Decode Json_Encode
begin

text \<open>
  The request pipeline of \<^verbatim>\<open>src/client.go\<close> and \<^verbatim>\<open>src/email.go\<close>:
  \<^verbatim>\<open>doRequest\<close>, \<^verbatim>\<open>handleErrorResponse\<close>, \<^verbatim>\<open>SendEmailWithIdempotency\<close> and
  \<^verbatim>\<open>SendEmail\<close>.  \<^verbatim>\<open>doRequest\<close> builds its request with
  \<^verbatim>\<open>http.NewRequestWithContext\<close> and sets its headers; \<^verbatim>\<open>http.Client.Do\<close>
  then runs the checks \<^verbatim>\<open>http.Transport\<close> makes before any connection and
  hands the request to the network (all three in \<open>Http\<close>).  The network is a
  parameter: a \<open>transport\<close> maps the \<^verbatim>\<open>http.Client\<close> and the request to a
  transport failure or a response, whose body is what \<^verbatim>\<open>io.ReadAll\<close> yields
  (the bytes, or the error that interrupted the read, a cancellation for
  instance).  The context is \<open>None\<close> for a nil \<^verbatim>\<open>context.Context\<close>, else its
  state, which the request carries.  Each function returns its result and the
  trace of the externally visible events: the dispatch of a request to the
  network, the read of a response body, the close of a response body.  Go's
  error values are the constructors of \<open>client_error\<close>, one per
  \<^verbatim>\<open>return\<close> of an error.
\<close>

datatype client_error =
    EValidation validation_error
  | EMarshal marshal_error
  | ECreateRequest new_request_error
  | ETransport transport_error
  | EReadBody transport_error
  | EParse json_error
  | EAPI api_error
  | EReadErrorResponse transport_error
  | EPlainAPI int string

subsection \<open>\<^verbatim>\<open>doRequest\<close>\<close>

text \<open>\<^verbatim>\<open>json.Marshal\<close> of the \<^verbatim>\<open>*SendEmailRequest\<close> body; a nil pointer encodes as \<^verbatim>\<open>null\<close>.\<close>

definition marshal_request_ptr :: "send_email_request option \<Rightarrow> marshal_error + string" where
  "marshal_request_ptr r = (case r of None \<Rightarrow> Inr ''null'' | Some req \<Rightarrow> marshal_request req)"

text \<open>\<^verbatim>\<open>Header.Set\<close>: the canonical key bound to the single value.\<close>

definition header_set :: "header \<Rightarrow> string \<Rightarrow> string \<Rightarrow> header" where
  "header_set h k v = h(canonical_mime_header_key k \<mapsto> [v])"

definition user_agent :: string where
  "user_agent = ''autosend-go/1.0.0''"

definition request_headers :: "string \<Rightarrow> string \<Rightarrow> header" where
  "request_headers key idem =
     (let h = header_set (header_set (header_set Map.empty ''Authorization'' (''Bearer '' @ key))
                ''Content-Type'' ''application/json'') ''User-Agent'' user_agent
      in if idem \<noteq> [] then header_set h ''Idempotency-Key'' idem else h)"

text \<open>
  The request \<^verbatim>\<open>doRequest\<close> builds: \<^verbatim>\<open>NewRequestWithContext\<close> on
  \<^verbatim>\<open>c.baseURL + path\<close>, then the headers set on its empty header.
\<close>

definition new_request :: "client \<Rightarrow> ctx_state option \<Rightarrow> string \<Rightarrow> string \<Rightarrow> string \<Rightarrow> string \<Rightarrow>
                           new_request_error + http_request" where
  "new_request c ctx method path json idem =
     map_sum id (\<lambda>r. r\<lparr>hr_header := request_headers (api_key c) idem\<rparr>)
       (new_request_with_context ctx method (base_url c @ path) json)"

definition do_request :: "transport \<Rightarrow> http_client \<Rightarrow> client \<Rightarrow> ctx_state option \<Rightarrow> string \<Rightarrow> string \<Rightarrow>
                          send_email_request option \<Rightarrow> string \<Rightarrow> (client_error + http_response) \<times> event list" where
  "do_request tr hc c ctx method path body idem =
     (case marshal_request_ptr body of
        Inl e \<Rightarrow> (Inl (EMarshal e), [])
      | Inr json \<Rightarrow>
          (case new_request c ctx method path json idem of
             Inl e \<Rightarrow> (Inl (ECreateRequest e), [])
           | Inr r \<Rightarrow>
               (case http_do tr hc r of
                  (Inl e, evs) \<Rightarrow> (Inl (ETransport e), evs)
                | (Inr resp, evs) \<Rightarrow> (Inr resp, evs))))"

subsection \<open>\<^verbatim>\<open>handleErrorResponse\<close>\<close>

definition api_error_of :: "http_response \<Rightarrow> error_response \<Rightarrow> api_error" where
  "api_error_of resp er =
     \<lparr>status_code = hresp_status resp, ae_message = er_message er, ae_errors = er_errors er,
      retry_after = er_retry_after er, rate_limit = Some (parse_rate_limit_headers (hresp_header resp))\<rparr>"

definition handle_error_response :: "http_response \<Rightarrow> client_error \<times> event list" where
  "handle_error_response resp =
     (case hresp_body resp of
        Inl e \<Rightarrow> (EReadErrorResponse e, [EvReadBody, EvCloseBody])
      | Inr body \<Rightarrow>
          (case unmarshal_error_response body of
             Inl _ \<Rightarrow> (EPlainAPI (hresp_status resp) body, [EvReadBody, EvCloseBody])
           | Inr er \<Rightarrow> (EAPI (api_error_of resp er), [EvReadBody, EvCloseBody])))"

subsection \<open>\<^verbatim>\<open>SendEmailWithIdempotency\<close> and \<^verbatim>\<open>SendEmail\<close>\<close>

text \<open>
  The part of \<^verbatim>\<open>SendEmailWithIdempotency\<close> after a response is received: the
  deferred close runs last, after \<^verbatim>\<open>handleErrorResponse\<close> has closed the body
  itself on the error path.
\<close>

definition read_send_response :: "http_response \<Rightarrow> (client_error + send_email_response) \<times> event list" where
  "read_send_response resp =
     (if hresp_status resp \<noteq> 200 then
        (case handle_error_response resp of (e, evs) \<Rightarrow> (Inl e, evs @ [EvCloseBody]))
      else (case hresp_body resp of
              Inl e \<Rightarrow> (Inl (EReadBody e), [EvReadBody, EvCloseBody])
            | Inr body \<Rightarrow>
                (case unmarshal_send_email_response body of
                   Inl e \<Rightarrow> (Inl (EParse e), [EvReadBody, EvCloseBody])
                 | Inr v \<Rightarrow> (Inr v, [EvReadBody, EvCloseBody]))))"

definition send_email_with_idempotency ::
  "transport \<Rightarrow> http_client \<Rightarrow> client \<Rightarrow> ctx_state option \<Rightarrow> send_email_request option \<Rightarrow> string \<Rightarrow>
   (client_error + send_email_response) \<times> event list" where
  "send_email_with_idempotency tr hc c ctx req idem =
     (case validate_send_email_request req of
        Some e \<Rightarrow> (Inl (EValidation e), [])
      | None \<Rightarrow>
          (case do_request tr hc c ctx ''POST'' ''/mails/send'' req idem of
             (Inl e, evs) \<Rightarrow> (Inl e, evs)
           | (Inr resp, evs) \<Rightarrow> (case read_send_response resp of (res, evs') \<Rightarrow> (res, evs @ evs'))))"

definition send_email :: "transport \<Rightarrow> http_client \<Rightarrow> client \<Rightarrow> ctx_state option \<Rightarrow> send_email_request option \<Rightarrow>
                          (client_error + send_email_response) \<times> event list" where
  "send_email tr hc c ctx req = send_email_with_idempotency tr hc c ctx req []"

lemmas pipeline_defs = send_email_with_idempotency_def do_request_def http_do_def read_send_response_def
  handle_error_response_def

subsection \<open>Examples\<close>

text \<open>
  The request and the client of the retry example (\<^verbatim>\<open>main\<close> in
  \<^verbatim>\<open>src/unnamed/part_002\<close>), the client built by \<^verbatim>\<open>NewClient\<close> in an
  empty heap, and the responses of spec section 8, returned by a transport
  that answers every request with the same response.
\<close>

definition example_request :: send_email_request where
  "example_request = zero_request\<lparr>
     req_to := \<lparr>email = ''customer@example.com'', name = ''Jane Smith''\<rparr>,
     req_from := \<lparr>email = ''hello@mail.yourdomain.com'', name = ''Your Company''\<rparr>,
     req_subject := ''Test Email'', req_html := ''<p>This is a test email</p>''\<rparr>"

definition example_client :: client where
  "example_client = fst (new_client ''test_key'' [])"

definition example_http_client :: http_client where
  "example_http_client = \<lparr>hc_timeout = default_timeout\<rparr>"

definition const_transport :: "http_response \<Rightarrow> transport" where
  "const_transport resp = (\<lambda>hc r. Inr resp)"

definition response_200 :: http_response where
  "response_200 = \<lparr>hresp_status = 200, hresp_header = Map.empty,
     hresp_body = Inr ''{\"success\":true,\"message\":\"ok\",\"data\":{\"emailId\":\"em_1\",\"status\":\"queued\",\"queuedAt\":\"2025-01-01T00:00:00Z\"}}''\<rparr>"

definition response_429 :: http_response where
  "response_429 = \<lparr>hresp_status = 429,
     hresp_header = header_of_lines [(''X-RateLimit-Limit'', ''50''), (''X-RateLimit-Remaining'', ''0''),
                                     (''X-RateLimit-Reset'', ''1700000000'')],
     hresp_body = Inr ''{\"success\":false,\"message\":\"rate limited\",\"retryAfter\":5}''\<rparr>"

definition response_400 :: http_response where
  "response_400 = \<lparr>hresp_status = 400, hresp_header = Map.empty,
     hresp_body = Inr ''{\"success\":false,\"message\":\"invalid\",\"errors\":[{\"field\":\"to.email\",\"message\":\"invalid format\"}]}''\<rparr>"

definition response_502_html :: http_response where
  "response_502_html = \<lparr>hresp_status = 502, hresp_header = Map.empty,
     hresp_body = Inr ''<html><body>Bad Gateway</body></html>''\<rparr>"

definition example_response_200_value :: send_email_response where
  "example_response_200_value = \<lparr>resp_success = True, resp_message = ''ok'',
     resp_data = \<lparr>email_id = ''em_1'', status = ''queued'',
       queued_at = \<lparr>t_year = 2025, t_month = 1, t_day = 1, t_hour = 0, t_min = 0, t_sec = 0, t_nsec = 0,
                    t_offset = 0\<rparr>\<rparr>\<rparr>"

text \<open>The request \<^verbatim>\<open>doRequest\<close> builds for the example request with a live context.\<close>

abbreviation example_outbound :: "string \<Rightarrow> http_request" where
  "example_outbound k \<equiv> projr (new_request example_client (Some CtxActive) ''POST'' ''/mails/send''
                                 (projr (marshal_request_ptr (Some example_request))) k)"

lemmas example_defs = example_request_def example_client_def example_http_client_def const_transport_def

subsection \<open>Lemmas\<close>

lemma canonical_request_keys:
  "canonical_mime_header_key ''Authorization'' = ''Authorization''"
  "canonical_mime_header_key ''Content-Type'' = ''Content-Type''"
  "canonical_mime_header_key ''User-Agent'' = ''User-Agent''"
  "canonical_mime_header_key ''Idempotency-Key'' = ''Idempotency-Key''"
  by code_simp+

lemma request_headers_get:
  "header_get (request_headers key idem) ''Authorization'' = ''Bearer '' @ key"
  "header_get (request_headers key idem) ''Content-Type'' = ''application/json''"
  "header_get (request_headers key idem) ''User-Agent'' = user_agent"
  "request_headers key idem ''Idempotency-Key'' = (if idem = [] then None else Some [idem])"
  by (simp_all add: request_headers_def header_set_def header_get_def canonical_request_keys Let_def)

lemma request_headers_valid:
  "header_valid (request_headers key idem) \<longleftrightarrow> valid_header_field_value key \<and> valid_header_field_value idem"
proof -
  have n: "valid_header_field_name ''Authorization''" "valid_header_field_name ''Content-Type''"
      "valid_header_field_name ''User-Agent''" "valid_header_field_name ''Idempotency-Key''"
    by code_simp+
  show ?thesis
    by (cases "idem = []")
       (auto simp: header_valid_def request_headers_def header_set_def canonical_request_keys Let_def n
                   user_agent_def)
qed

lemma new_request_Inr:
  "new_request c ctx m p json k = Inr r \<longleftrightarrow>
     (\<exists>st u. ctx = Some st \<and> valid_method (if m = [] then ''GET'' else m) \<and> url_parse (base_url c @ p) = Inr u \<and>
        r = \<lparr>hr_method = (if m = [] then ''GET'' else m), hr_url = u\<lparr>url_host := remove_empty_port (url_host u)\<rparr>,
             hr_header = request_headers (api_key c) k, hr_body = json, hr_host = remove_empty_port (url_host u),
             hr_ctx = st\<rparr>)"
  by (auto simp: new_request_def new_request_with_context_def Let_def split: option.splits sum.splits)

lemma new_request_ctx:
  "new_request c (Some st) m p json k = map_sum id (\<lambda>r. r\<lparr>hr_ctx := st\<rparr>) (new_request c (Some CtxActive) m p json k)"
  by (simp add: new_request_def new_request_with_context_def Let_def split: sum.splits)

lemma new_request_simple_url:
  assumes "new_request c ctx m p json k = Inr r"
    and "base_url c = sch @ ''://'' @ host @ bp" and "sch = ''http'' \<or> sch = ''https''"
    and "list_all host_byte host" and "list_all path_byte (bp @ p)" and "bp @ p = [] \<or> hd (bp @ p) = CHR ''/''"
  shows "url_scheme (hr_url r) = sch \<and> url_host (hr_url r) = host \<and> url_path (hr_url r) = bp @ p"
proof -
  have "url_parse (base_url c @ p) = Inr (zero_url\<lparr>url_scheme := sch, url_host := host, url_path := bp @ p\<rparr>)"
    using url_parse_simple [OF assms(3,4,5,6)] assms(2) by simp
  then show ?thesis
    using assms(1) remove_empty_port_plain [OF assms(4)] by (auto simp: new_request_Inr zero_url_def)
qed

lemma do_request_cases:
  assumes "do_request tr hc c ctx m p b k = (res, evs)"
  shows "(evs = [] \<and> isl res) \<or>
         (\<exists>json r. marshal_request_ptr b = Inr json \<and> new_request c ctx m p json k = Inr r \<and>
                   round_trip_check r = None \<and> evs = [EvDispatch r] \<and> res = map_sum ETransport id (tr hc r))"
  using assms
  by (auto simp: do_request_def http_do_def split: sum.splits option.splits)

lemma read_send_response_trace:
  assumes "read_send_response resp = (res, evs)"
  shows "EvReadBody \<in> set evs \<and> evs \<noteq> [] \<and> last evs = EvCloseBody \<and> (\<forall>r. EvDispatch r \<notin> set evs)"
  using assms
  by (auto simp: read_send_response_def handle_error_response_def split: sum.splits if_splits prod.splits)

text \<open>The two outcomes of a call: nothing happens, or one request is dispatched.\<close>

definition dispatched_outcome ::
  "transport \<Rightarrow> http_client \<Rightarrow> http_request \<Rightarrow> client_error + send_email_response \<Rightarrow> event list \<Rightarrow> bool" where
  "dispatched_outcome tr hc r res evs \<longleftrightarrow>
     (case tr hc r of
        Inl e \<Rightarrow> res = Inl (ETransport e) \<and> evs = [EvDispatch r]
      | Inr resp \<Rightarrow> (res, tl evs) = read_send_response resp \<and> hd evs = EvDispatch r \<and> evs \<noteq> [])"

lemma send_cases:
  assumes "send_email_with_idempotency tr hc c ctx req k = (res, evs)"
  shows "(evs = [] \<and> isl res) \<or>
         (\<exists>json r. validate_send_email_request req = None \<and> marshal_request_ptr req = Inr json \<and>
                   new_request c ctx ''POST'' ''/mails/send'' json k = Inr r \<and> round_trip_check r = None \<and>
                   dispatched_outcome tr hc r res evs)"
proof (cases "validate_send_email_request req")
  case (Some e)
  with assms show ?thesis by (auto simp: send_email_with_idempotency_def)
next
  case None
  obtain res1 evs1 where d: "do_request tr hc c ctx ''POST'' ''/mails/send'' req k = (res1, evs1)"
    by fastforce
  from do_request_cases [OF d] show ?thesis
  proof
    assume "evs1 = [] \<and> isl res1"
    with assms None d show ?thesis
      by (auto simp: send_email_with_idempotency_def split: sum.splits)
  next
    assume "\<exists>json r. marshal_request_ptr req = Inr json \<and> new_request c ctx ''POST'' ''/mails/send'' json k = Inr r \<and>
              round_trip_check r = None \<and> evs1 = [EvDispatch r] \<and> res1 = map_sum ETransport id (tr hc r)"
    with assms None d show ?thesis
      by (auto simp: send_email_with_idempotency_def dispatched_outcome_def split: sum.splits prod.splits)
  qed
qed

lemma send_dispatched:
  assumes "validate_send_email_request req = None" and "marshal_request_ptr req = Inr json"
    and "new_request c ctx ''POST'' ''/mails/send'' json k = Inr r" and "round_trip_check r = None"
  shows "send_email_with_idempotency tr hc c ctx req k =
           (case tr hc r of
              Inl e \<Rightarrow> (Inl (ETransport e), [EvDispatch r])
            | Inr resp \<Rightarrow> (fst (read_send_response resp), EvDispatch r # snd (read_send_response resp)))"
  using assms
  by (simp add: send_email_with_idempotency_def do_request_def http_do_def split: sum.splits prod.splits)

lemma dispatched_outcome_request:
  assumes "dispatched_outcome tr hc r res evs" and "EvDispatch r' \<in> set evs"
  shows "r' = r"
proof (cases "tr hc r")
  case (Inl e)
  with assms show ?thesis by (simp add: dispatched_outcome_def)
next
  case (Inr resp)
  with assms(1) have rd: "read_send_response resp = (res, tl evs)" and hd: "hd evs = EvDispatch r"
    and ne: "evs \<noteq> []"
    by (simp_all add: dispatched_outcome_def)
  have "EvDispatch r' \<notin> set (tl evs)" using read_send_response_trace [OF rd] by blast
  with assms(2) ne hd show ?thesis by (cases evs) auto
qed

lemma send_dispatch_request:
  assumes "EvDispatch r \<in> set (snd (send_email_with_idempotency tr hc c ctx req k))"
  shows "\<exists>json. validate_send_email_request req = None \<and> marshal_request_ptr req = Inr json \<and>
                new_request c ctx ''POST'' ''/mails/send'' json k = Inr r \<and> round_trip_check r = None"
proof -
  obtain res evs where s: "send_email_with_idempotency tr hc c ctx req k = (res, evs)" by fastforce
  with assms have r: "EvDispatch r \<in> set evs" by simp
  from send_cases [OF s] show ?thesis
  proof
    assume "evs = [] \<and> isl res" with r show ?thesis by simp
  next
    assume "\<exists>json r. validate_send_email_request req = None \<and> marshal_request_ptr req = Inr json \<and>
                   new_request c ctx ''POST'' ''/mails/send'' json k = Inr r \<and> round_trip_check r = None \<and>
                   dispatched_outcome tr hc r res evs"
    then obtain json r0 where j: "validate_send_email_request req = None" "marshal_request_ptr req = Inr json"
        "new_request c ctx ''POST'' ''/mails/send'' json k = Inr r0" "round_trip_check r0 = None"
      and o: "dispatched_outcome tr hc r0 res evs"
      by blast
    have "r = r0" using dispatched_outcome_request [OF o r] .
    with j show ?thesis by blast
  qed
qed

lemma validate_None_wf:
  "validate_send_email_request req = None \<Longrightarrow> \<exists>rq. req = Some rq \<and> request_wf rq"
  by (cases req) (simp_all add: validate_None_req validate_Some_req)

lemma send_response:
  assumes "validate_send_email_request req = None" and "marshal_request_ptr req = Inr json"
    and "new_request c ctx ''POST'' ''/mails/send'' json k = Inr r" and "round_trip_check r = None"
    and "tr hc r = Inr resp"
  shows "send_email_with_idempotency tr hc c ctx req k =
           (fst (read_send_response resp), EvDispatch r # snd (read_send_response resp))"
  using send_dispatched [where tr = tr and hc = hc, OF assms(1-4)] assms(5) by simp

lemma send_api_error_source:
  assumes "fst (send_email_with_idempotency tr hc c ctx req k) = Inl (EAPI e)"
  shows "\<exists>resp body er. hresp_body resp = Inr body \<and> unmarshal_error_response body = Inr er \<and>
                       e = api_error_of resp er"
  using assms
  by (auto simp: send_email_with_idempotency_def do_request_def http_do_def read_send_response_def
                 handle_error_response_def
           split: option.splits sum.splits prod.splits if_splits)

text \<open>
  C2: a request that fails validation is rejected before anything reaches the
  network: the transport is never invoked and no event happens.
\<close>

theorem validation_failure_no_dispatch:
  assumes "validate_send_email_request req = Some e"
  shows "send_email_with_idempotency tr hc c ctx req k = (Inl (EValidation e), [])"
  using assms by (simp add: send_email_with_idempotency_def)

text \<open>
  C4: the request handed to the transport carries an \<^verbatim>\<open>Idempotency-Key\<close>
  header if and only if a non-empty key was supplied, and then exactly that key.
\<close>

theorem idempotency_header_iff_key:
  assumes "EvDispatch r \<in> set (snd (send_email_with_idempotency tr hc c ctx req k))"
  shows "hr_header r ''Idempotency-Key'' = (if k = [] then None else Some [k])"
  using send_dispatch_request [OF assms] by (auto simp: new_request_Inr request_headers_get)

text \<open>
  C3: a request reaches the network only from a live context and for a request
  satisfying the invariant, as \<^verbatim>\<open>POST\<close> to the URL \<^verbatim>\<open>url.Parse\<close> makes of
  the base URL followed by \<^verbatim>\<open>/mails/send\<close>, an \<^verbatim>\<open>http\<close> or \<^verbatim>\<open>https\<close> URL
  with a host, with bearer authentication by the client's key (a key that is a
  valid header value), the JSON content type, the fixed user agent, and the
  JSON encoding of the request as its body.
\<close>

theorem outbound_request_contents:
  assumes "EvDispatch r \<in> set (snd (send_email_with_idempotency tr hc c ctx req k))"
  shows "ctx = Some CtxActive \<and> hr_method r = ''POST'' \<and>
         (\<exists>u. url_parse (base_url c @ ''/mails/send'') = Inr u \<and>
              hr_url r = u\<lparr>url_host := remove_empty_port (url_host u)\<rparr>) \<and>
         (url_scheme (hr_url r) = ''http'' \<or> url_scheme (hr_url r) = ''https'') \<and> url_host (hr_url r) \<noteq> [] \<and>
         hr_host r = url_host (hr_url r) \<and>
         header_get (hr_header r) ''Authorization'' = ''Bearer '' @ api_key c \<and>
         header_get (hr_header r) ''Content-Type'' = ''application/json'' \<and>
         header_get (hr_header r) ''User-Agent'' = user_agent \<and> valid_header_field_value (api_key c) \<and>
         (\<exists>rq. req = Some rq \<and> request_wf rq \<and> marshal_request rq = Inr (hr_body r))"
proof -
  obtain json where j: "validate_send_email_request req = None" "marshal_request_ptr req = Inr json"
      "new_request c ctx ''POST'' ''/mails/send'' json k = Inr r" and rt: "round_trip_check r = None"
    using send_dispatch_request [OF assms] by blast
  obtain st u where r: "ctx = Some st" "url_parse (base_url c @ ''/mails/send'') = Inr u"
      "r = \<lparr>hr_method = ''POST'', hr_url = u\<lparr>url_host := remove_empty_port (url_host u)\<rparr>,
             hr_header = request_headers (api_key c) k, hr_body = json, hr_host = remove_empty_port (url_host u),
             hr_ctx = st\<rparr>"
    using j(3) by (auto simp: new_request_Inr)
  obtain rq where "req = Some rq" "request_wf rq" using validate_None_wf [OF j(1)] by blast
  with j(2) r rt show ?thesis
    by (simp add: round_trip_check_None request_headers_valid request_headers_get marshal_request_ptr_def)
qed

text \<open>
  C8: with a context cancelled before the call, a valid request that the
  transport's checks accept fails with the cancellation error of the transport
  layer, and no request is dispatched.
\<close>

theorem cancelled_context_fails_without_dispatch:
  assumes "validate_send_email_request req = None" and "marshal_request_ptr req = Inr json"
    and "new_request c (Some CtxActive) ''POST'' ''/mails/send'' json k = Inr r" and "round_trip_check r = None"
  shows "send_email_with_idempotency tr hc c (Some CtxCanceled) req k = (Inl (ETransport TECanceled), [])"
  using assms round_trip_check_cancel [OF assms(4)]
  by (simp add: send_email_with_idempotency_def do_request_def http_do_def new_request_ctx [of c CtxCanceled])

text \<open>
  C7: the transport is invoked at most once per call, and whenever it returns a
  response, the body is read and the last event of the call is its close: the
  body is released on every path, success or failure.
\<close>

theorem response_body_released:
  assumes "send_email_with_idempotency tr hc c ctx req k = (res, evs)"
  shows "length (filter (\<lambda>e. \<exists>r. e = EvDispatch r) evs) \<le> 1 \<and>
         (\<forall>r resp. EvDispatch r \<in> set evs \<longrightarrow> tr hc r = Inr resp \<longrightarrow>
                   EvReadBody \<in> set evs \<and> last evs = EvCloseBody)"
  using send_cases [OF assms]
proof
  assume "evs = [] \<and> isl res" then show ?thesis by simp
next
  assume "\<exists>json r. validate_send_email_request req = None \<and> marshal_request_ptr req = Inr json \<and>
                   new_request c ctx ''POST'' ''/mails/send'' json k = Inr r \<and> round_trip_check r = None \<and>
                   dispatched_outcome tr hc r res evs"
  then obtain r where o: "dispatched_outcome tr hc r res evs" by blast
  show ?thesis
  proof (cases "tr hc r")
    case (Inl e)
    with o show ?thesis by (simp add: dispatched_outcome_def)
  next
    case (Inr resp)
    with o have rd: "read_send_response resp = (res, tl evs)" and hd: "hd evs = EvDispatch r" and ne: "evs \<noteq> []"
      by (simp_all add: dispatched_outcome_def)
    have tlp: "EvReadBody \<in> set (tl evs) \<and> tl evs \<noteq> [] \<and> last (tl evs) = EvCloseBody \<and>
               (\<forall>r. EvDispatch r \<notin> set (tl evs))"
      using read_send_response_trace [OF rd] .
    then have "filter (\<lambda>e. \<exists>r. e = EvDispatch r) (tl evs) = []" by (auto simp: filter_empty_conv)
    with hd ne tlp show ?thesis by (cases evs) auto
  qed
qed

text \<open>
  C5: a call succeeds only through a response of status exactly 200 whose body
  was read and decoded as a \<^verbatim>\<open>SendEmailResponse\<close>; the result is the decoded
  value, and the call dispatched, read and closed once each.
\<close>

theorem success_only_from_200:
  assumes "fst (send_email_with_idempotency tr hc c ctx req k) = Inr v"
  shows "\<exists>r resp body. snd (send_email_with_idempotency tr hc c ctx req k) = [EvDispatch r, EvReadBody, EvCloseBody] \<and>
           tr hc r = Inr resp \<and> hresp_status resp = 200 \<and> hresp_body resp = Inr body \<and>
           unmarshal_send_email_response body = Inr v"
proof -
  obtain res evs where s: "send_email_with_idempotency tr hc c ctx req k = (res, evs)" by fastforce
  with assms have rv: "res = Inr v" by simp
  from send_cases [OF s] rv obtain r where o: "dispatched_outcome tr hc r res evs" by auto
  with rv obtain resp where t: "tr hc r = Inr resp"
    by (cases "tr hc r") (auto simp: dispatched_outcome_def)
  with o have rd: "read_send_response resp = (Inr v, tl evs)" and hd: "hd evs = EvDispatch r" and ne: "evs \<noteq> []"
    using rv by (simp_all add: dispatched_outcome_def)
  from rd obtain body where "hresp_status resp = 200" "hresp_body resp = Inr body"
      "unmarshal_send_email_response body = Inr v" "tl evs = [EvReadBody, EvCloseBody]"
    by (auto simp: read_send_response_def handle_error_response_def split: if_splits sum.splits prod.splits)
  with s t hd ne show ?thesis by (cases evs) auto
qed

text \<open>
  C6: a response of any other status whose body decodes as an
  \<^verbatim>\<open>ErrorResponse\<close> yields an \<^verbatim>\<open>APIError\<close> carrying the status code, the
  message, the field errors and the retry hint of the body, and the rate-limit
  information of the headers; the body is read once and closed by both deferred
  closes.
\<close>

theorem error_response_classified:
  assumes "validate_send_email_request req = None" and "marshal_request_ptr req = Inr json"
    and "new_request c ctx ''POST'' ''/mails/send'' json k = Inr r" and "round_trip_check r = None"
    and "tr hc r = Inr resp"
    and "hresp_status resp \<noteq> 200" and "hresp_body resp = Inr body"
    and "unmarshal_error_response body = Inr er"
  shows "send_email_with_idempotency tr hc c ctx req k =
           (Inl (EAPI \<lparr>status_code = hresp_status resp, ae_message = er_message er, ae_errors = er_errors er,
                      retry_after = er_retry_after er,
                      rate_limit = Some (parse_rate_limit_headers (hresp_header resp))\<rparr>),
            [EvDispatch r, EvReadBody, EvCloseBody, EvCloseBody])"
  using send_response [where tr = tr and hc = hc, OF assms(1-5)] assms(6-8)
  by (simp add: read_send_response_def handle_error_response_def api_error_of_def)

text \<open>
  C9: a response of status other than 200 whose body is not an
  \<^verbatim>\<open>ErrorResponse\<close> (an HTML error page, say) yields a plain error holding the
  status and the raw body, not an \<^verbatim>\<open>APIError\<close>: the predicates and the
  rate-limit information are unavailable to the caller, whereas spec sections
  4.4 and 8 require an \<^verbatim>\<open>APIError\<close> with the raw body as its message.
\<close>

theorem unparsable_error_body_not_api_error:
  assumes "validate_send_email_request req = None" and "marshal_request_ptr req = Inr json"
    and "new_request c ctx ''POST'' ''/mails/send'' json k = Inr r" and "round_trip_check r = None"
    and "tr hc r = Inr resp"
    and "hresp_status resp \<noteq> 200" and "hresp_body resp = Inr body"
    and "unmarshal_error_response body = Inl je"
  shows "fst (send_email_with_idempotency tr hc c ctx req k) = Inl (EPlainAPI (hresp_status resp) body) \<and>
         (\<forall>e. fst (send_email_with_idempotency tr hc c ctx req k) \<noteq> Inl (EAPI e))"
  using send_response [where tr = tr and hc = hc, OF assms(1-5)] assms(6-8)
  by (simp add: read_send_response_def handle_error_response_def)

text \<open>
  C10: when reading the body of an error response fails, the classifier itself
  fails with a read error instead of producing an \<^verbatim>\<open>APIError\<close>, although spec
  section 4.4 says it never fails or propagates a secondary error.
\<close>

theorem error_body_read_failure_not_api_error:
  assumes "validate_send_email_request req = None" and "marshal_request_ptr req = Inr json"
    and "new_request c ctx ''POST'' ''/mails/send'' json k = Inr r" and "round_trip_check r = None"
    and "tr hc r = Inr resp"
    and "hresp_status resp \<noteq> 200" and "hresp_body resp = Inl te"
  shows "fst (send_email_with_idempotency tr hc c ctx req k) = Inl (EReadErrorResponse te)"
  using send_response [where tr = tr and hc = hc, OF assms(1-5)] assms(6-7)
  by (simp add: read_send_response_def handle_error_response_def)

text \<open>
  An API key that is not a valid header value fails every call with a valid
  request, whatever the context's state, with the transport error of the
  header check, before any request reaches the network.
\<close>

lemma invalid_api_key_fails_before_dispatch:
  assumes "validate_send_email_request req = None" and "marshal_request_ptr req = Inr json"
    and "url_parse (base_url c @ ''/mails/send'') = Inr u"
    and "url_scheme u = ''http'' \<or> url_scheme u = ''https''"
    and "\<not> valid_header_field_value (api_key c)"
  shows "send_email_with_idempotency tr hc c (Some st) req k = (Inl (ETransport TEInvalidHeader), [])"
proof -
  have "valid_method ''POST''" by code_simp
  then have n: "new_request c (Some st) ''POST'' ''/mails/send'' json k =
      Inr \<lparr>hr_method = ''POST'', hr_url = u\<lparr>url_host := remove_empty_port (url_host u)\<rparr>,
           hr_header = request_headers (api_key c) k, hr_body = json, hr_host = remove_empty_port (url_host u),
           hr_ctx = st\<rparr>"
    using assms(3) by (simp add: new_request_Inr)
  show ?thesis
    using assms(1,2,4,5) n
    by (auto simp: send_email_with_idempotency_def do_request_def http_do_def round_trip_check_def
                   request_headers_valid)
qed

subsection \<open>Witnesses\<close>

lemma example_request_valid: "validate_send_email_request (Some example_request) = None"
  by (simp add: example_defs go_eval)

lemma example_request_marshals:
  "marshal_request_ptr (Some example_request) = Inr (projr (marshal_request_ptr (Some example_request)))"
proof -
  have "\<not> isl (marshal_request_ptr (Some example_request))" by code_simp
  then show ?thesis by (cases "marshal_request_ptr (Some example_request)") simp_all
qed

lemma default_url_parse:
  "url_parse (default_base_url @ ''/mails/send'') =
     Inr (zero_url\<lparr>url_scheme := ''https'', url_host := ''api.autosend.com'', url_path := ''/v1/mails/send''\<rparr>)"
  by code_simp

lemma default_url_request:
  assumes "base_url c = default_base_url"
  shows "new_request c (Some st) ''POST'' ''/mails/send'' json k =
           Inr \<lparr>hr_method = ''POST'',
                hr_url = zero_url\<lparr>url_scheme := ''https'', url_host := ''api.autosend.com'',
                                  url_path := ''/v1/mails/send''\<rparr>,
                hr_header = request_headers (api_key c) k, hr_body = json, hr_host = ''api.autosend.com'',
                hr_ctx = st\<rparr>"
proof -
  have m: "valid_method ''POST''" and p: "remove_empty_port ''api.autosend.com'' = ''api.autosend.com''"
    by code_simp+
  show ?thesis
    using assms by (simp add: new_request_def new_request_with_context_def default_url_parse m p zero_url_def)
qed

lemma default_url_round_trip:
  assumes "valid_header_field_value key" and "valid_header_field_value k"
  shows "round_trip_check \<lparr>hr_method = ''POST'',
            hr_url = zero_url\<lparr>url_scheme := ''https'', url_host := ''api.autosend.com'',
                              url_path := ''/v1/mails/send''\<rparr>,
            hr_header = request_headers key k, hr_body = json, hr_host = ''api.autosend.com'',
            hr_ctx = CtxActive\<rparr> = None"
proof -
  have m: "valid_method ''POST''" by code_simp
  show ?thesis using assms by (simp add: round_trip_check_None request_headers_valid m zero_url_def)
qed

lemma example_client_fields: "example_client = \<lparr>api_key = ''test_key'', base_url = default_base_url, http_client = Some 0\<rparr>"
  by (simp add: example_client_def client_defs)

lemma example_new_request:
  "new_request example_client (Some st) ''POST'' ''/mails/send'' json k =
     Inr \<lparr>hr_method = ''POST'',
          hr_url = zero_url\<lparr>url_scheme := ''https'', url_host := ''api.autosend.com'', url_path := ''/v1/mails/send''\<rparr>,
          hr_header = request_headers ''test_key'' k, hr_body = json, hr_host = ''api.autosend.com'', hr_ctx = st\<rparr>"
  using default_url_request [of example_client] by (simp add: example_client_fields)

lemma example_round_trip:
  "valid_header_field_value k \<Longrightarrow> round_trip_check (example_outbound k) = None"
  using default_url_round_trip [of "''test_key''" k] by (simp add: example_new_request)

lemma example_json_parse:
  "json_parse ''{\"success\":false,\"message\":\"rate limited\",\"retryAfter\":5}'' =
     Some (JObject [(''success'', JBool False), (''message'', JString ''rate limited''),
                    (''retryAfter'', JNumber ''5'')])"
  "json_parse ''{\"success\":true,\"message\":\"ok\",\"data\":{\"emailId\":\"em_1\",\"status\":\"queued\",\"queuedAt\":\"2025-01-01T00:00:00Z\"}}'' =
     Some (JObject [(''success'', JBool True), (''message'', JString ''ok''),
                    (''data'', JObject [(''emailId'', JString ''em_1''), (''status'', JString ''queued''),
                                       (''queuedAt'', JString ''2025-01-01T00:00:00Z'')])])"
  "json_parse ''<html><body>Bad Gateway</body></html>'' = None"
  by code_simp+

lemma example_unmarshal_429:
  "unmarshal_error_response ''{\"success\":false,\"message\":\"rate limited\",\"retryAfter\":5}'' =
     Inr (zero_error_response\<lparr>er_message := ''rate limited'', er_retry_after := 5\<rparr>)"
  unfolding unmarshal_error_response_def json_unmarshal_def example_json_parse
  by (simp add: dec_struct_def error_response_fields_def dec_bool_def dec_string_def dec_int_def go_eval
                first_error_def unquote_bytes_def)

lemma example_unmarshal_400:
  "unmarshal_error_response ''{\"success\":false,\"message\":\"invalid\",\"errors\":[{\"field\":\"to.email\",\"message\":\"invalid format\"}]}'' =
     Inr (zero_error_response\<lparr>er_message := ''invalid'',
            er_errors := [\<lparr>fe_field = ''to.email'', fe_message = ''invalid format''\<rparr>]\<rparr>)"
  by code_simp


lemma example_rate_limit_429:
  "parse_rate_limit_headers (hresp_header response_429) = \<lparr>rl_limit = 50, rl_remaining = 0, rl_reset = 1700000000\<rparr>"
proof -
  have k: "canonical_mime_header_key ''X-RateLimit-Limit'' = ''X-Ratelimit-Limit''"
          "canonical_mime_header_key ''X-RateLimit-Remaining'' = ''X-Ratelimit-Remaining''"
          "canonical_mime_header_key ''X-RateLimit-Reset'' = ''X-Ratelimit-Reset''"
    by code_simp+
  have g: "header_get (hresp_header response_429) ''X-RateLimit-Limit'' = ''50''"
          "header_get (hresp_header response_429) ''X-RateLimit-Remaining'' = ''0''"
          "header_get (hresp_header response_429) ''X-RateLimit-Reset'' = ''1700000000''"
    by (simp_all add: response_429_def header_get_def header_of_lines_def header_add_def k)
  show ?thesis by (simp add: parse_rate_limit_headers_fields g header_int_def go_eval)
qed

lemma example_unmarshal_200:
  "unmarshal_send_email_response ''{\"success\":true,\"message\":\"ok\",\"data\":{\"emailId\":\"em_1\",\"status\":\"queued\",\"queuedAt\":\"2025-01-01T00:00:00Z\"}}'' =
     Inr example_response_200_value"
  unfolding unmarshal_send_email_response_def json_unmarshal_def example_json_parse example_response_200_value_def
  by code_simp

lemma example_unmarshal_html:
  "unmarshal_error_response ''<html><body>Bad Gateway</body></html>'' = Inl ErrJsonSyntax"
  unfolding unmarshal_error_response_def json_unmarshal_def example_json_parse by simp

lemma example_request_Inr:
  "new_request example_client (Some CtxActive) ''POST'' ''/mails/send''
     (projr (marshal_request_ptr (Some example_request))) k = Inr (example_outbound k)"
  by (simp add: example_new_request)

lemma example_dispatch:
  assumes "valid_header_field_value k"
  shows "send_email_with_idempotency (const_transport resp) example_http_client example_client (Some CtxActive)
           (Some example_request) k =
         (fst (read_send_response resp), EvDispatch (example_outbound k) # snd (read_send_response resp))"
  using send_response [OF example_request_valid example_request_marshals example_request_Inr
                          example_round_trip [OF assms],
                       where tr = "const_transport resp" and hc = example_http_client]
  by (simp add: const_transport_def)

theorem validation_failure_no_dispatch_witness:
  "validate_send_email_request (Some zero_request) = Some ErrToEmail \<and>
   send_email_with_idempotency (const_transport response_200) example_http_client example_client
     (Some CtxActive) (Some zero_request) [] = (Inl (EValidation ErrToEmail), [])"
proof -
  have v: "validate_send_email_request (Some zero_request) = Some ErrToEmail" by (simp add: go_eval)
  show ?thesis using validation_failure_no_dispatch [OF v] v by simp
qed

theorem idempotency_header_iff_key_witness:
  "EvDispatch (example_outbound ''idem-1'') \<in>
     set (snd (send_email_with_idempotency (const_transport response_200) example_http_client example_client
                 (Some CtxActive) (Some example_request) ''idem-1'')) \<and>
   hr_header (example_outbound ''idem-1'') ''Idempotency-Key'' = Some [''idem-1'']"
proof -
  have v: "valid_header_field_value ''idem-1''" by code_simp
  have d: "EvDispatch (example_outbound ''idem-1'') \<in>
     set (snd (send_email_with_idempotency (const_transport response_200) example_http_client example_client
                 (Some CtxActive) (Some example_request) ''idem-1''))"
    by (simp add: example_dispatch [OF v])
  show ?thesis using idempotency_header_iff_key [OF d] d by simp
qed

theorem outbound_request_contents_witness:
  "EvDispatch (example_outbound []) \<in>
     set (snd (send_email (const_transport response_200) example_http_client example_client
                 (Some CtxActive) (Some example_request))) \<and>
   url_host (hr_url (example_outbound [])) = ''api.autosend.com'' \<and>
   url_path (hr_url (example_outbound [])) = ''/v1/mails/send'' \<and>
   url_scheme (hr_url (example_outbound [])) = ''https'' \<and>
   header_get (hr_header (example_outbound [])) ''Authorization'' = ''Bearer test_key''"
proof -
  have d: "EvDispatch (example_outbound []) \<in>
     set (snd (send_email_with_idempotency (const_transport response_200) example_http_client example_client
                 (Some CtxActive) (Some example_request) []))"
    by (simp add: example_dispatch)
  have o: "(\<exists>u. url_parse (base_url example_client @ ''/mails/send'') = Inr u \<and>
                hr_url (example_outbound []) = u\<lparr>url_host := remove_empty_port (url_host u)\<rparr>) \<and>
           header_get (hr_header (example_outbound [])) ''Authorization'' = ''Bearer '' @ api_key example_client"
    using outbound_request_contents [OF d] by blast
  have p: "remove_empty_port ''api.autosend.com'' = ''api.autosend.com''" by code_simp
  show ?thesis using o d unfolding send_email_def
    by (auto simp: example_client_fields default_url_parse zero_url_def p)
qed

theorem cancelled_context_fails_without_dispatch_witness:
  "send_email_with_idempotency (const_transport response_200) example_http_client example_client
     (Some CtxCanceled) (Some example_request) [] = (Inl (ETransport TECanceled), [])"
  using cancelled_context_fails_without_dispatch [OF example_request_valid example_request_marshals
          example_request_Inr example_round_trip]
  by simp

theorem response_body_released_witness:
  "EvReadBody \<in> set (snd (send_email_with_idempotency (const_transport response_429) example_http_client
                               example_client (Some CtxActive) (Some example_request) [])) \<and>
   last (snd (send_email_with_idempotency (const_transport response_429) example_http_client
                example_client (Some CtxActive) (Some example_request) [])) = EvCloseBody"
proof -
  let ?s = "send_email_with_idempotency (const_transport response_429) example_http_client
              example_client (Some CtxActive) (Some example_request) []"
  have s: "?s = (fst ?s, snd ?s)" by simp
  have d: "EvDispatch (example_outbound []) \<in> set (snd ?s)" by (simp add: example_dispatch)
  have t: "const_transport response_429 example_http_client (example_outbound []) = Inr response_429"
    by (simp add: const_transport_def)
  show ?thesis using response_body_released [OF s] d t by blast
qed

theorem success_only_from_200_witness:
  "fst (send_email_with_idempotency (const_transport response_200) example_http_client example_client
          (Some CtxActive) (Some example_request) []) = Inr example_response_200_value \<and>
   email_id (resp_data example_response_200_value) = ''em_1'' \<and>
   (\<exists>r resp body. snd (send_email_with_idempotency (const_transport response_200) example_http_client example_client
          (Some CtxActive) (Some example_request) []) = [EvDispatch r, EvReadBody, EvCloseBody] \<and>
      const_transport response_200 example_http_client r = Inr resp \<and> hresp_status resp = 200 \<and>
      hresp_body resp = Inr body \<and> unmarshal_send_email_response body = Inr example_response_200_value)"
proof -
  have h: "fst (send_email_with_idempotency (const_transport response_200) example_http_client example_client
          (Some CtxActive) (Some example_request) []) = Inr example_response_200_value"
    by (simp add: example_dispatch read_send_response_def response_200_def example_unmarshal_200)
  show ?thesis using success_only_from_200 [OF h] h by (simp add: example_response_200_value_def)
qed

theorem error_response_classified_witness:
  "fst (send_email_with_idempotency (const_transport response_429) example_http_client example_client
          (Some CtxActive) (Some example_request) []) =
     Inl (EAPI \<lparr>status_code = 429, ae_message = ''rate limited'', ae_errors = [], retry_after = 5,
                rate_limit = Some \<lparr>rl_limit = 50, rl_remaining = 0, rl_reset = 1700000000\<rparr>\<rparr>) \<and>
   is_rate_limit_error \<lparr>status_code = 429, ae_message = ''rate limited'', ae_errors = [], retry_after = 5,
                rate_limit = Some \<lparr>rl_limit = 50, rl_remaining = 0, rl_reset = 1700000000\<rparr>\<rparr> \<and>
   get_retry_after \<lparr>status_code = 429, ae_message = ''rate limited'', ae_errors = [], retry_after = 5,
                rate_limit = Some \<lparr>rl_limit = 50, rl_remaining = 0, rl_reset = 1700000000\<rparr>\<rparr> = 5 \<and>
   fst (send_email_with_idempotency (const_transport response_400) example_http_client example_client
          (Some CtxActive) (Some example_request) []) =
     Inl (EAPI \<lparr>status_code = 400, ae_message = ''invalid'',
                ae_errors = [\<lparr>fe_field = ''to.email'', fe_message = ''invalid format''\<rparr>], retry_after = 0,
                rate_limit = Some (parse_rate_limit_headers Map.empty)\<rparr>) \<and>
   is_validation_error \<lparr>status_code = 400, ae_message = ''invalid'',
                ae_errors = [\<lparr>fe_field = ''to.email'', fe_message = ''invalid format''\<rparr>], retry_after = 0,
                rate_limit = Some (parse_rate_limit_headers Map.empty)\<rparr>"
proof -
  have t429: "const_transport response_429 example_http_client (example_outbound []) = Inr response_429"
    by (simp add: const_transport_def)
  have t400: "const_transport response_400 example_http_client (example_outbound []) = Inr response_400"
    by (simp add: const_transport_def)
  have a: "hresp_status response_429 \<noteq> 200"
      "hresp_body response_429 = Inr ''{\"success\":false,\"message\":\"rate limited\",\"retryAfter\":5}''"
      "hresp_status response_400 \<noteq> 200"
      "hresp_body response_400 = Inr ''{\"success\":false,\"message\":\"invalid\",\"errors\":[{\"field\":\"to.email\",\"message\":\"invalid format\"}]}''"
    by (simp_all add: response_429_def response_400_def)
  note ok = example_request_valid example_request_marshals example_request_Inr example_round_trip
  note e429 = error_response_classified [where tr = "const_transport response_429" and hc = example_http_client,
                OF ok t429 a(1,2) example_unmarshal_429]
  note e400 = error_response_classified [where tr = "const_transport response_400" and hc = example_http_client,
                OF ok t400 a(3,4) example_unmarshal_400]
  have st: "hresp_status response_429 = 429" "hresp_status response_400 = 400"
      "hresp_header response_400 = Map.empty"
    by (simp_all add: response_429_def response_400_def)
  show ?thesis
    using e429 e400 example_rate_limit_429 by (simp add: st zero_values api_error_defs)
qed

theorem unparsable_error_body_not_api_error_witness:
  "fst (send_email_with_idempotency (const_transport response_502_html) example_http_client example_client
          (Some CtxActive) (Some example_request) []) =
     Inl (EPlainAPI 502 ''<html><body>Bad Gateway</body></html>'')"
proof -
  have t: "const_transport response_502_html example_http_client (example_outbound []) = Inr response_502_html"
    by (simp add: const_transport_def)
  have a: "hresp_status response_502_html \<noteq> 200"
      "hresp_body response_502_html = Inr ''<html><body>Bad Gateway</body></html>''"
    by (simp_all add: response_502_html_def)
  show ?thesis
    using unparsable_error_body_not_api_error [where tr = "const_transport response_502_html" and hc = example_http_client,
            OF example_request_valid example_request_marshals example_request_Inr example_round_trip t a
               example_unmarshal_html]
    by (simp add: response_502_html_def)
qed

theorem error_body_read_failure_not_api_error_witness:
  "fst (send_email_with_idempotency
          (const_transport \<lparr>hresp_status = 503, hresp_header = Map.empty, hresp_body = Inl TECanceled\<rparr>)
          example_http_client example_client (Some CtxActive) (Some example_request) []) =
     Inl (EReadErrorResponse TECanceled)"
proof -
  have t: "const_transport \<lparr>hresp_status = 503, hresp_header = Map.empty, hresp_body = Inl TECanceled\<rparr>
      example_http_client (example_outbound []) =
      Inr \<lparr>hresp_status = 503, hresp_header = Map.empty, hresp_body = Inl TECanceled\<rparr>"
    by (simp add: const_transport_def)
  show ?thesis
    using error_body_read_failure_not_api_error
      [where tr = "const_transport \<lparr>hresp_status = 503, hresp_header = Map.empty, hresp_body = Inl TECanceled\<rparr>"
       and hc = example_http_client,
       OF example_request_valid example_request_marshals example_request_Inr example_round_trip t]
    by simp
qed

end
