(* ===== verification/Duration.thy ===== *)
theory Duration
  imports Strconv
begin

text \<open>
  \<^verbatim>\<open>time.Duration.String\<close> of the Go runtime, which \<^verbatim>\<open>fmt\<close>'s \<^verbatim>\<open>%v\<close> calls on
  the waits the retry example prints.  A \<^verbatim>\<open>Duration\<close> is a signed 64-bit
  count of nanoseconds, a \<open>64 word\<close>; \<^verbatim>\<open>format\<close> works on its magnitude as an
  unsigned word (\<^verbatim>\<open>u = -u\<close> for a negative duration, which leaves the least
  one at \<open>2 ^ 63\<close>), and writes the text from the right: the unit, the
  fraction without its trailing zeros (\<^verbatim>\<open>fmtFrac\<close>), then the integer part
  (\<^verbatim>\<open>fmtInt\<close>), and for a second or more the minutes and hours.  The micro
  sign is the two UTF-8 bytes \<open>0xC2 0xB5\<close>.
\<close>

text \<open>
  The loop of \<^verbatim>\<open>fmtFrac\<close>: \<open>prec\<close> digits taken from the low end of \<open>v\<close>,
  printed once a non-zero one has been met; it returns the digits written, whether any
  was, and \<open>v\<close> divided by \<open>10 ^ prec\<close>.
\<close>

fun fmt_frac_digits :: "nat \<Rightarrow> 64 word \<Rightarrow> bool \<Rightarrow> string \<Rightarrow> string \<times> bool \<times> 64 word" where
  "fmt_frac_digits 0 v printed acc = (acc, printed, v)"
| "fmt_frac_digits (Suc i) v printed acc =
     (let digit = v mod 10; printed' = printed \<or> digit \<noteq> 0 in
      fmt_frac_digits i (v div 10) printed' (if printed' then digit_char (unat digit) # acc else acc))"

definition fmt_frac :: "64 word \<Rightarrow> nat \<Rightarrow> string \<times> 64 word" where
  "fmt_frac v prec =
     (case fmt_frac_digits prec v False [] of
        (s, printed, v') \<Rightarrow> (if printed then CHR ''.'' # s else s, v'))"

definition fmt_int :: "64 word \<Rightarrow> string" where
  "fmt_int v = digits_of (unat v)"

definition duration_string :: "64 word \<Rightarrow> string" where
  "duration_string d =
     (let neg = sint d < 0; u = (if neg then - d else d) in
      if u = 0 then ''0s''
      else (if neg then ''-'' else []) @
        (if u < 1000000000 then
           (let (unit, prec) = (if u < 1000 then (''n'', 0)
                                else if u < 1000000 then ([CHR 0xC2, CHR 0xB5], 3)
                                else (''m'', 6))
            in case fmt_frac u prec of (fr, v) \<Rightarrow> fmt_int v @ fr @ unit @ ''s'')
         else
           (case fmt_frac u 9 of
              (fr, v) \<Rightarrow>
                (let sec = fmt_int (v mod 60) @ fr @ ''s''; mins = v div 60 in
                 if mins = 0 then sec
                 else (let ms = fmt_int (mins mod 60) @ ''m'' @ sec; hours = mins div 60 in
                       if hours = 0 then ms else fmt_int hours @ ''h'' @ ms)))))"

text \<open>
  What \<^verbatim>\<open>String\<close> promises for a positive whole number of seconds: the
  seconds below a minute, else minutes and seconds, else hours, minutes and
  seconds, each in decimal without padding.
\<close>

definition seconds_text :: "nat \<Rightarrow> string" where
  "seconds_text n =
     (if n < 60 then digits_of n @ ''s''
      else if n < 3600 then digits_of (n div 60) @ ''m'' @ digits_of (n mod 60) @ ''s''
      else digits_of (n div 3600) @ ''h'' @ digits_of (n div 60 mod 60) @ ''m'' @ digits_of (n mod 60) @ ''s'')"

subsection \<open>Lemmas\<close>

lemma fmt_frac_digits_zeros:
  assumes "unat v = m * 10 ^ k"
  shows "fmt_frac_digits k v False acc = (acc, False, of_nat m)"
  using assms
proof (induction k arbitrary: v)
  case 0
  then show ?case by auto
next
  case (Suc k)
  have d: "unat (v mod 10) = 0" using Suc.prems by (simp add: unat_mod)
  then have z: "v mod 10 = 0" by (simp add: unat_eq_zero)
  have "unat (v div 10) = m * 10 ^ k" using Suc.prems by (simp add: unat_div)
  with z Suc.IH show ?case by simp
qed

lemma duration_string_seconds:
  assumes "0 < n" and "n * 1000000000 < 2 ^ 63"
  shows "duration_string (of_nat (n * 1000000000)) = seconds_text n"
proof -
  let ?w = "of_nat (n * 1000000000) :: 64 word"
  have u: "unat ?w = n * 1000000000"
    using assms(2) unat_of_nat [of "n * 1000000000", where 'a = 64] by simp
  have pos: "\<not> sint ?w < 0"
  proof -
    have r: "in_int64 (int (n * 1000000000))"
      using assms(2) by (simp add: in_int64_def int64_min_def int64_max_def)
    have "?w = word_of_int (int (n * 1000000000))" by simp
    then have "sint ?w = int (n * 1000000000)" using in_int64_sint_of_int [OF r] by simp
    then show ?thesis by simp
  qed
  have nz: "?w \<noteq> 0" and big: "\<not> ?w < 1000000000"
    using u assms(1) by (auto simp: word_less_nat_alt unat_eq_zero)
  have f: "fmt_frac ?w 9 = ([], of_nat n)"
    using fmt_frac_digits_zeros [of ?w n 9 "[]"] u by (simp add: fmt_frac_def)
  have n64: "n < 2 ^ 64" using assms(2) by simp
  have un: "unat (of_nat n :: 64 word) = n" using n64 by (simp add: unat_of_nat)
  have d3600: "n div 60 div 60 = n div 3600" by (simp add: div_mult2_eq [symmetric])
  have i: "fmt_int (of_nat n mod 60) = digits_of (n mod 60)"
    "fmt_int (of_nat n div 60 mod 60) = digits_of (n div 60 mod 60)"
    "fmt_int (of_nat n div 60 div 60) = digits_of (n div 3600)"
    using un d3600 by (simp_all add: fmt_int_def unat_mod unat_div)
  have m0: "(of_nat n div 60 = (0::64 word)) \<longleftrightarrow> n < 60"
    using un by (simp add: unat_eq_zero [symmetric] unat_div div_eq_0_iff)
  have h0: "(of_nat n div 60 div 60 = (0::64 word)) \<longleftrightarrow> n < 3600"
    using un d3600 by (simp add: unat_eq_zero [symmetric] unat_div div_eq_0_iff)
  show ?thesis
    using pos nz big f i m0 h0 by (simp add: duration_string_def seconds_text_def Let_def)
qed

text \<open>Evaluation of \<^verbatim>\<open>String\<close> on a concrete duration by \<open>simp\<close>.\<close>

lemma fmt_frac_digits_numeral:
  "fmt_frac_digits (numeral k) v printed acc =
     (let digit = v mod 10; printed' = printed \<or> digit \<noteq> 0 in
      fmt_frac_digits (pred_numeral k) (v div 10) printed' (if printed' then digit_char (unat digit) # acc else acc))"
  by (simp add: numeral_eq_Suc)

lemma digit_chars:
  "digit_char 0 = CHR ''0''" "digit_char (Suc 0) = CHR ''1''" "digit_char 2 = CHR ''2''" "digit_char 3 = CHR ''3''"
  "digit_char 4 = CHR ''4''" "digit_char 5 = CHR ''5''" "digit_char 6 = CHR ''6''" "digit_char 7 = CHR ''7''"
  "digit_char 8 = CHR ''8''" "digit_char 9 = CHR ''9''"
  by code_simp+

lemmas duration_eval = duration_string_def fmt_frac_def fmt_int_def fmt_frac_digits_numeral digit_chars
  digits_of.simps seconds_text_def

end
