(* ===== verification/Retry.thy ===== *)
theory Retry
  imports Pipeline Duration
begin

text \<open>
  The retry loop of the example program (\<^verbatim>\<open>sendEmailWithRetry\<close> in
  \<^verbatim>\<open>src/unnamed/part_002\<close>).  The loop calls \<^verbatim>\<open>SendEmail\<close> once per attempt;
  \<open>call a\<close> is the result of the call of attempt \<open>a\<close> (in
  \<open>send_email_with_retry\<close> the pipeline run with the transport of that attempt).
  The loop returns its result and the trace of its calls, its printed lines and
  its sleeps; a printed \<^verbatim>\<open>time.Duration\<close> is its \<^verbatim>\<open>String\<close> text
  (\<open>Duration\<close>), a printed \<^verbatim>\<open>*APIError\<close> its \<^verbatim>\<open>Error()\<close> text, and the
  error of the pipeline printed before a backoff for a non-API error is kept as
  the value between the two texts around it.  \<^verbatim>\<open>errors.As(err, &apiErr)\<close> holds exactly for the
  \<open>EAPI\<close> errors of the pipeline.  Durations are \<^verbatim>\<open>time.Duration\<close> values,
  signed 64-bit nanoseconds, as \<open>64 word\<close>: \<^verbatim>\<open>1<<attempt\<close> is a shift of a
  \<^verbatim>\<open>Duration\<close> (Go converts the untyped constant to the type of the
  conversion), and the multiplication by \<^verbatim>\<open>time.Second\<close> wraps around.
  \<^verbatim>\<open>time.Sleep\<close> of a duration of at most zero returns at once.  The loop is a
  \<open>function\<close> whose termination measure is the number of attempts left.
\<close>

definition second :: "64 word" where
  "second = 1000000000"

definition backoff :: "int \<Rightarrow> 64 word" where
  "backoff attempt = push_bit (nat attempt) 1 * second"

definition duration_of_seconds :: "int \<Rightarrow> 64 word" where
  "duration_of_seconds n = word_of_int n * second"

definition rate_limit_wait :: "api_error \<Rightarrow> int \<Rightarrow> 64 word" where
  "rate_limit_wait e attempt =
     (if duration_of_seconds (get_retry_after e) = 0 then backoff attempt
      else duration_of_seconds (get_retry_after e))"

datatype retry_result =
    RetrySuccess send_email_response
  | RetryGiveUp api_error
  | RetryExhausted "client_error option"

datatype retry_event = RCall int | RPrint string | RPrintErr string client_error string | RSleep "64 word"

text \<open>The lines \<^verbatim>\<open>"... Waiting %v before retry %d/%d...\\n"\<close> printed before a sleep.\<close>

definition wait_line :: "string \<Rightarrow> 64 word \<Rightarrow> int \<Rightarrow> int \<Rightarrow> string" where
  "wait_line prefix w attempt max_retries =
     prefix @ duration_string w @ '' before retry '' @ itoa (attempt + 1) @ ''/'' @ itoa max_retries @
     ''...'' @ [CHR 0x0A]"

text \<open>The lines \<^verbatim>\<open>"...: %v\\n"\<close> printed when the loop gives up on an \<^verbatim>\<open>APIError\<close>.\<close>

definition give_up_line :: "string \<Rightarrow> api_error \<Rightarrow> string" where
  "give_up_line prefix e = prefix @ api_error_string e @ [CHR 0x0A]"

function retry_loop :: "(int \<Rightarrow> client_error + send_email_response) \<Rightarrow> int \<Rightarrow> int \<Rightarrow> client_error option \<Rightarrow>
                        retry_result \<times> retry_event list" where
  "retry_loop call max_retries attempt last_err =
     (if attempt < max_retries then
        (case call attempt of
           Inr resp \<Rightarrow> (RetrySuccess resp, [RCall attempt])
         | Inl err \<Rightarrow>
             (case err of
                EAPI e \<Rightarrow>
                  if is_rate_limit_error e then
                    map_prod id ((@) [RCall attempt,
                                      RPrint (wait_line ''Rate limited. Waiting '' (rate_limit_wait e attempt) attempt
                                                max_retries),
                                      RSleep (rate_limit_wait e attempt)])
                      (retry_loop call max_retries (attempt + 1) (Some err))
                  else if is_validation_error e then
                    (RetryGiveUp e, [RCall attempt, RPrint (give_up_line ''Validation error: '' e)])
                  else if is_authentication_error e then
                    (RetryGiveUp e, [RCall attempt, RPrint (give_up_line ''Authentication error: '' e)])
                  else if is_server_error e then
                    map_prod id ((@) [RCall attempt,
                                      RPrint (wait_line ''Server error. Waiting '' (backoff attempt) attempt max_retries),
                                      RSleep (backoff attempt)])
                      (retry_loop call max_retries (attempt + 1) (Some err))
                  else (RetryGiveUp e, [RCall attempt, RPrint (give_up_line ''API error: '' e)])
              | _ \<Rightarrow>
                  map_prod id ((@) (RCall attempt #
                                     (if attempt < max_retries - 1 then
                                        [RPrintErr ''Error: '' err
                                           (wait_line ''. Waiting '' (backoff attempt) attempt max_retries),
                                         RSleep (backoff attempt)]
                                      else [])))
                    (retry_loop call max_retries (attempt + 1) (Some err))))
      else (RetryExhausted last_err, []))"
  by pat_completeness auto

termination retry_loop
  by (relation "measure (\<lambda>(call, m, a, l). nat (m - a))") auto

definition send_email_with_retry :: "(int \<Rightarrow> transport) \<Rightarrow> http_client \<Rightarrow> client \<Rightarrow> ctx_state option \<Rightarrow>
                                     send_email_request option \<Rightarrow> int \<Rightarrow> retry_result \<times> retry_event list" where
  "send_email_with_retry trs hc c ctx req max_retries =
     retry_loop (\<lambda>a. fst (send_email (trs a) hc c ctx req)) max_retries 0 None"

definition is_call :: "retry_event \<Rightarrow> bool" where
  "is_call ev \<longleftrightarrow> (case ev of RCall _ \<Rightarrow> True | _ \<Rightarrow> False)"

text \<open>
  The heading the example means to print before an \<^verbatim>\<open>APIError\<close> it gives up
  on, by the error's kind of spec section 9 (the comments of its
  \<^verbatim>\<open>switch\<close>): validation and authentication errors are named, every other
  kind it does not retry is an API error.
\<close>

definition give_up_heading :: "error_kind \<Rightarrow> string" where
  "give_up_heading k =
     (case k of KValidation \<Rightarrow> ''Validation error: ''
              | KAuthentication \<Rightarrow> ''Authentication error: ''
              | _ \<Rightarrow> ''API error: '')"

text \<open>A server error response, every attempt of which fails the same way.\<close>

definition response_503 :: http_response where
  "response_503 = \<lparr>hresp_status = 503, hresp_header = Map.empty,
     hresp_body = Inr ''{\"success\":false,\"message\":\"unavailable\"}''\<rparr>"

text \<open>
  A 200 answer whose \<^verbatim>\<open>queuedAt\<close> is a date without a time, which
  \<^verbatim>\<open>time.Time\<close>'s \<^verbatim>\<open>UnmarshalJSON\<close> rejects.
\<close>

definition response_200_date_only :: http_response where
  "response_200_date_only = \<lparr>hresp_status = 200, hresp_header = Map.empty,
     hresp_body = Inr ''{\"success\":true,\"message\":\"ok\",\"data\":{\"emailId\":\"em_1\",\"status\":\"queued\",\"queuedAt\":\"2025-01-01\"}}''\<rparr>"

declare retry_loop.simps [simp del]

subsection \<open>Lemmas\<close>

lemma send_email_parse_error:
  assumes "validate_send_email_request req = None" and "marshal_request_ptr req = Inr json"
    and "new_request c ctx ''POST'' ''/mails/send'' json [] = Inr r" and "round_trip_check r = None"
    and "tr hc r = Inr resp" and "hresp_status resp = 200" and "hresp_body resp = Inr body"
    and "unmarshal_send_email_response body = Inl e"
  shows "send_email tr hc c ctx req = (Inl (EParse e), [EvDispatch r, EvReadBody, EvCloseBody])"
  using send_response [where tr = tr and hc = hc, OF assms(1-5)] assms(6-8)
  by (simp add: send_email_def read_send_response_def)

lemma server_error_not_other:
  "is_server_error e \<Longrightarrow> \<not> is_rate_limit_error e \<and> \<not> is_validation_error e \<and> \<not> is_authentication_error e"
  by (simp add: api_error_defs)

lemma nat_diff_step: "a < m \<Longrightarrow> nat (m - a) = Suc (nat (m - (a + 1)))" by simp

lemma retry_loop_calls:
  "length (filter is_call (snd (retry_loop call m a l))) \<le> nat (m - a) \<and>
   length (snd (retry_loop call m a l)) \<le> 3 * nat (m - a) \<and>
   (\<forall>l'. fst (retry_loop call m a l) = RetryExhausted l' \<longrightarrow>
          length (filter is_call (snd (retry_loop call m a l))) = nat (m - a))"
proof (induction call m a l rule: retry_loop.induct)
  case (1 call m a l)
  show ?case
  proof (cases "a < m")
    case False then show ?thesis by (simp add: retry_loop.simps)
  next
    case True
    note ih = "1.IH" [OF True]
    have n: "3 * nat (m - a) = 3 + 3 * nat (m - (a + 1))" using True by simp
    show ?thesis
    proof (cases "call a")
      case (Inr resp) with True show ?thesis by (simp add: retry_loop.simps is_call_def)
    next
      case (Inl err)
      note ih' = ih [OF Inl]
      show ?thesis
      proof (cases err)
        case (EAPI e)
        with True Inl ih' n show ?thesis
          by (auto simp: retry_loop.simps [of call m a] is_call_def nat_diff_step split: prod.splits)
      qed (use True Inl ih' n in \<open>auto simp: retry_loop.simps [of call m a] is_call_def nat_diff_step
                                   split: prod.splits\<close>)
    qed
  qed
qed

text \<open>One step of the loop: an attempt that fails with an error the loop retries adds its events in front of the rest.\<close>

lemma retry_loop_continue:
  assumes "a < m" and "call a = Inl err" and "\<forall>e. err = EAPI e \<longrightarrow> is_rate_limit_error e \<or> is_server_error e"
  shows "\<exists>xs. retry_loop call m a l = map_prod id ((@) xs) (retry_loop call m (a + 1) (Some err))"
  using assms by (cases err) (auto simp: retry_loop.simps [of call m a] dest: server_error_not_other)

lemma switch_heading:
  assumes "\<not> is_rate_limit_error e" and "\<not> is_server_error e"
  shows "(if is_validation_error e then ''Validation error: ''
          else if is_authentication_error e then ''Authentication error: '' else ''API error: '') =
         give_up_heading (kind_of_status (status_code e))"
  using assms by (simp add: give_up_heading_def kind_of_status_def api_error_defs)

lemma retry_loop_give_up:
  assumes "fst (retry_loop call m a l) = RetryGiveUp e"
  shows "\<exists>b. a \<le> b \<and> b < m \<and> call b = Inl (EAPI e) \<and> \<not> is_rate_limit_error e \<and> \<not> is_server_error e \<and>
           (\<exists>pre. snd (retry_loop call m a l) =
                   pre @ [RCall b, RPrint (give_up_line (give_up_heading (kind_of_status (status_code e))) e)])"
  using assms
proof (induction "nat (m - a)" arbitrary: a l)
  case 0
  then show ?case by (simp add: retry_loop.simps)
next
  case (Suc n)
  then have am: "a < m" and n: "n = nat (m - (a + 1))" by auto
  show ?case
  proof (cases "call a")
    case (Inr resp) with am Suc.prems show ?thesis by (simp add: retry_loop.simps)
  next
    case (Inl err)
    show ?thesis
    proof (cases "\<forall>e'. err = EAPI e' \<longrightarrow> is_rate_limit_error e' \<or> is_server_error e'")
      case True
      obtain xs where step: "retry_loop call m a l = map_prod id ((@) xs) (retry_loop call m (a + 1) (Some err))"
        using retry_loop_continue [of a m call err l, OF am Inl True] by blast
      with Suc.prems have "fst (retry_loop call m (a + 1) (Some err)) = RetryGiveUp e" by simp
      then obtain b pre where "a + 1 \<le> b" "b < m" "call b = Inl (EAPI e)" "\<not> is_rate_limit_error e"
          "\<not> is_server_error e"
          "snd (retry_loop call m (a + 1) (Some err)) =
             pre @ [RCall b, RPrint (give_up_line (give_up_heading (kind_of_status (status_code e))) e)]"
        using Suc.hyps(1) [OF n] by blast
      with step show ?thesis by (intro exI [of _ b]) auto
    next
      case False
      then obtain e' where e': "err = EAPI e'" "\<not> is_rate_limit_error e'" "\<not> is_server_error e'" by blast
      let ?p = "if is_validation_error e' then ''Validation error: ''
                else if is_authentication_error e' then ''Authentication error: '' else ''API error: ''"
      have "retry_loop call m a l = (RetryGiveUp e', [RCall a, RPrint (give_up_line ?p e')])"
        using am Inl e' by (simp add: retry_loop.simps [of call m a])
      with Suc.prems Inl e' am switch_heading [OF e'(2,3)] show ?thesis by (intro exI [of _ a]) auto
    qed
  qed
qed

lemma retry_loop_local_error:
  assumes "\<forall>b. call b = Inl err" and "\<forall>e. err \<noteq> EAPI e"
  shows "retry_loop call m a l =
           (if a < m then RetryExhausted (Some err) else RetryExhausted l,
            concat (map (\<lambda>b. RCall b # (if b < m - 1 then [RPrintErr ''Error: '' err (wait_line ''. Waiting '' (backoff b) b m),
                                                     RSleep (backoff b)] else [])) [a..m - 1]))"
using assms(1) proof (induction call m a l rule: retry_loop.induct)
  case (1 call m a l)
  show ?case
  proof (cases "a < m")
    case False then show ?thesis by (simp add: retry_loop.simps)
  next
    case True
    then have "[a..m - 1] = a # [a + 1..m - 1]" by (simp add: upto_rec1)
    with True "1.IH" "1.prems" assms(2) show ?thesis
      by (cases err) (auto simp: retry_loop.simps [of _ m a])
  qed
qed

lemma retry_loop_server_error:
  assumes "\<forall>b. call b = Inl (EAPI e)" and "is_server_error e"
  shows "retry_loop call m a l =
           (if a < m then RetryExhausted (Some (EAPI e)) else RetryExhausted l,
            concat (map (\<lambda>b. [RCall b, RPrint (wait_line ''Server error. Waiting '' (backoff b) b m), RSleep (backoff b)])
              [a..m - 1]))"
using assms(1) proof (induction call m a l rule: retry_loop.induct)
  case (1 call m a l)
  show ?case
  proof (cases "a < m")
    case False then show ?thesis by (simp add: retry_loop.simps)
  next
    case True
    then have "[a..m - 1] = a # [a + 1..m - 1]" by (simp add: upto_rec1)
    with True "1.IH" "1.prems" assms(2) server_error_not_other [OF assms(2)] show ?thesis
      by (auto simp: retry_loop.simps [of _ m a])
  qed
qed

lemma send_email_local_error:
  "validate_send_email_request req = Some v \<Longrightarrow> fst (send_email tr hc c ctx req) = Inl (EValidation v)"
  by (simp add: send_email_def send_email_with_idempotency_def)

lemma last_concat_triples:
  "0 < m \<Longrightarrow> concat (map (\<lambda>b. [RCall b, RPrint (p b), RSleep (backoff b)]) [0..m - 1]) \<noteq> [] \<and>
   last (concat (map (\<lambda>b. [RCall b, RPrint (p b), RSleep (backoff b)]) [0..m - 1])) = RSleep (backoff (m - 1))"
proof -
  assume m: "0 < m"
  then have "[0..m - 1] = [0..m - 2] @ [m - 1]" by (simp add: upto_rec2)
  then show ?thesis by simp
qed

lemma backoff_text:
  assumes "0 \<le> a" and "a \<le> 33"
  shows "duration_string (backoff a) = seconds_text (2 ^ nat a)"
proof -
  have q: "(2::nat) ^ nat a \<le> 2 ^ 33" using assms by (intro power_increasing) auto
  then have b: "2 ^ nat a * 1000000000 < (2::nat) ^ 63" by simp
  have "backoff a = of_nat (2 ^ nat a * 1000000000)"
    by (simp add: backoff_def second_def push_bit_eq_mult)
  then show ?thesis using duration_string_seconds [OF _ b] by simp
qed

lemma duration_of_seconds_sint:
  assumes "0 \<le> r" "r \<le> 9223372036"
  shows "sint (duration_of_seconds r) = r * 1000000000"
proof -
  have x: "in_int64 (r * 1000000000)"
    using assms unfolding in_int64_def int64_min_def int64_max_def by simp
  have "duration_of_seconds r = word_of_int (r * 1000000000)"
    by (simp add: duration_of_seconds_def second_def)
  then show ?thesis using in_int64_sint_of_int [OF x] by simp
qed

lemma retry_loop_success_call:
  "fst (retry_loop call m a l) = RetrySuccess resp \<Longrightarrow> \<exists>b. a \<le> b \<and> b < m \<and> call b = Inr resp"
proof (induction call m a l rule: retry_loop.induct)
  case (1 call m a l)
  show ?case
  proof (cases "a < m")
    case False then show ?thesis using "1.prems" by (simp add: retry_loop.simps)
  next
    case True
    note ih = "1.IH" [OF True]
    show ?thesis
    proof (cases "call a")
      case (Inr r) with True "1.prems" show ?thesis by (auto simp: retry_loop.simps)
    next
      case (Inl err)
      note ih' = ih [OF Inl]
      have step: "\<exists>b. a + 1 \<le> b \<and> b < m \<and> call b = Inr resp \<Longrightarrow> ?thesis"
      proof -
        assume "\<exists>b. a + 1 \<le> b \<and> b < m \<and> call b = Inr resp"
        then obtain b where "a + 1 \<le> b" "b < m" "call b = Inr resp" by blast
        then show ?thesis by (intro exI [of _ b]) simp
      qed
      show ?thesis
      proof (cases err)
        case (EAPI e)
        then show ?thesis using True Inl ih' "1.prems" step
          by (auto simp: retry_loop.simps [of call m a] split: if_splits prod.splits)
      qed (use True Inl ih' "1.prems" step in \<open>auto simp: retry_loop.simps [of call m a] split: prod.splits\<close>)
    qed
  qed
qed

lemma retry_loop_reaches_success:
  assumes "call b = Inr resp" and "b < m"
    and "\<forall>x. a \<le> x \<and> x < b \<longrightarrow>
           (\<exists>err. call x = Inl err \<and> (\<forall>e. err = EAPI e \<longrightarrow> is_rate_limit_error e \<or> is_server_error e))"
    and "a \<le> b"
  shows "fst (retry_loop call m a l) = RetrySuccess resp \<and>
         length (filter is_call (snd (retry_loop call m a l))) = nat (b - a) + 1"
using assms proof (induction call m a l rule: retry_loop.induct)
  case (1 call m a l)
  have am: "a < m" using "1.prems"(2,4) by simp
  show ?case
  proof (cases "a = b")
    case True
    with am "1.prems"(1) show ?thesis by (simp add: retry_loop.simps [of call m b] is_call_def)
  next
    case False
    then have ab: "a < b" "a + 1 \<le> b" using "1.prems"(4) by simp_all
    obtain err where err: "call a = Inl err" and ok: "\<forall>e. err = EAPI e \<longrightarrow> is_rate_limit_error e \<or> is_server_error e"
      using "1.prems"(3) ab(1) by auto
    have pre: "\<forall>x. a + 1 \<le> x \<and> x < b \<longrightarrow>
           (\<exists>err. call x = Inl err \<and> (\<forall>e. err = EAPI e \<longrightarrow> is_rate_limit_error e \<or> is_server_error e))"
      using "1.prems"(3) by simp
    have n: "nat (b - a) = Suc (nat (b - (a + 1)))" using ab(1) by simp
    show ?thesis
    proof (cases err)
      case (EAPI e)
      then show ?thesis
        using "1.IH" [OF am err] "1.prems"(1,2) pre ab(2) am err ok n
        by (auto simp: retry_loop.simps [of call m a] is_call_def dest: server_error_not_other split: prod.splits)
    qed (use "1.IH" [OF am err] "1.prems"(1,2) pre ab(2) am err n in \<open>auto simp: retry_loop.simps [of call m a] is_call_def
                                                              split: prod.splits\<close>)
  qed
qed

text \<open>
  C26: the retry loop calls \<^verbatim>\<open>SendEmail\<close> at most \<^verbatim>\<open>maxRetries\<close> times, and
  exactly that often when it gives up with \<^verbatim>\<open>max retries exceeded\<close>.
\<close>

theorem retry_call_budget:
  "length (filter is_call (snd (send_email_with_retry trs hc c ctx req m))) \<le> nat m \<and>
   (fst (send_email_with_retry trs hc c ctx req m) = RetryExhausted l \<longrightarrow>
      length (filter is_call (snd (send_email_with_retry trs hc c ctx req m))) = nat m)"
  using retry_loop_calls [of "\<lambda>a. fst (send_email (trs a) hc c ctx req)" m 0 None]
  by (simp add: send_email_with_retry_def)

text \<open>
  C27: the loop gives up before its budget only on an \<^verbatim>\<open>APIError\<close> that is
  neither a rate-limit nor a server error, returned by the last call of the
  trace, after which it prints the error's text under the heading of its kind
  of spec section 9 (\<open>give_up_heading\<close>: \<^verbatim>\<open>Validation error: \<close> for a
  400, \<^verbatim>\<open>Authentication error: \<close> for a 401, \<^verbatim>\<open>API error: \<close> for any
  other status it does not retry) and stops.
\<close>

theorem retry_gives_up_only_on_permanent_errors:
  assumes "fst (send_email_with_retry trs hc c ctx req m) = RetryGiveUp e"
  shows "\<exists>b. 0 \<le> b \<and> b < m \<and> fst (send_email (trs b) hc c ctx req) = Inl (EAPI e) \<and>
             \<not> is_rate_limit_error e \<and> \<not> is_server_error e \<and>
             (\<exists>pre. snd (send_email_with_retry trs hc c ctx req m) =
                     pre @ [RCall b, RPrint (give_up_line (give_up_heading (kind_of_status (status_code e))) e)])"
  using retry_loop_give_up [of "\<lambda>a. fst (send_email (trs a) hc c ctx req)" m 0 None e] assms
  by (auto simp: send_email_with_retry_def)

text \<open>
  C28: a request that fails the local validation, which no retry can change, is
  nevertheless sent \<^verbatim>\<open>maxRetries\<close> times with exponential backoff between the
  attempts: \<^verbatim>\<open>errors.As\<close> finds no \<^verbatim>\<open>APIError\<close> in it, so the loop treats
  it as a network error, against its own comment that validation errors are not
  retried.
\<close>

theorem local_validation_error_retried:
  assumes "validate_send_email_request req = Some v" and "0 < m"
  shows "send_email_with_retry trs hc c ctx req m =
           (RetryExhausted (Some (EValidation v)),
            concat (map (\<lambda>b. RCall b # (if b < m - 1 then [RPrintErr ''Error: '' (EValidation v)
                                                        (wait_line ''. Waiting '' (backoff b) b m), RSleep (backoff b)]
                                     else [])) [0..m - 1]))"
  using retry_loop_local_error [of "\<lambda>a. fst (send_email (trs a) hc c ctx req)" "EValidation v" m 0 None]
        send_email_local_error [OF assms(1)] assms(2)
  by (simp add: send_email_with_retry_def)

text \<open>
  C29: a 200 answer whose body \<^verbatim>\<open>json.Unmarshal\<close> rejects (a
  \<^verbatim>\<open>queuedAt\<close> that \<^verbatim>\<open>time.Time\<close> cannot read, say) makes
  \<^verbatim>\<open>SendEmail\<close> fail with its parse error after the server accepted the
  e-mail; the retry loop finds no \<^verbatim>\<open>APIError\<close> in it and sends the same
  request again, without an \<^verbatim>\<open>Idempotency-Key\<close>, until its budget is spent:
  the server is asked \<^verbatim>\<open>maxRetries\<close> times to send an e-mail it already
  accepted.
\<close>

theorem accepted_email_resent_on_unparsable_response:
  assumes "validate_send_email_request req = None" and "marshal_request_ptr req = Inr json"
    and "new_request c ctx ''POST'' ''/mails/send'' json [] = Inr r" and "round_trip_check r = None"
    and "\<forall>a. trs a hc r = Inr resp" and "hresp_status resp = 200" and "hresp_body resp = Inr body"
    and "unmarshal_send_email_response body = Inl e" and "0 < m"
  shows "hr_header r ''Idempotency-Key'' = None \<and>
         (\<forall>a. send_email (trs a) hc c ctx req = (Inl (EParse e), [EvDispatch r, EvReadBody, EvCloseBody])) \<and>
         send_email_with_retry trs hc c ctx req m =
           (RetryExhausted (Some (EParse e)),
            concat (map (\<lambda>b. RCall b # (if b < m - 1 then [RPrintErr ''Error: '' (EParse e)
                                                        (wait_line ''. Waiting '' (backoff b) b m), RSleep (backoff b)]
                                     else [])) [0..m - 1]))"
proof -
  have s: "send_email (trs a) hc c ctx req = (Inl (EParse e), [EvDispatch r, EvReadBody, EvCloseBody])" for a
    using send_email_parse_error [OF assms(1-4) _ assms(6-8)] assms(5) by blast
  have h: "hr_header r ''Idempotency-Key'' = None"
    using assms(3) by (auto simp: new_request_Inr request_headers_get)
  show ?thesis
    using h s retry_loop_local_error [of "\<lambda>a. fst (send_email (trs a) hc c ctx req)" "EParse e" m 0 None] assms(9)
    by (simp add: send_email_with_retry_def)
qed

text \<open>
  C25: an API key that is not a valid header value (a trailing newline read
  from a file, say) makes every \<^verbatim>\<open>SendEmail\<close> with a valid request fail
  before any request reaches the network, with the transport error of
  \<^verbatim>\<open>net/http\<close>'s header check; the retry loop finds no \<^verbatim>\<open>APIError\<close> in it
  and repeats the call \<^verbatim>\<open>maxRetries\<close> times with backoff sleeps between,
  although the failure is deterministic, and spec section 7 reserves transport
  failures for network, connection and cancellation errors.
\<close>

theorem invalid_api_key_retried_without_dispatch:
  assumes "validate_send_email_request req = None" and "marshal_request_ptr req = Inr json"
    and "url_parse (base_url c @ ''/mails/send'') = Inr u"
    and "url_scheme u = ''http'' \<or> url_scheme u = ''https''"
    and "\<not> valid_header_field_value (api_key c)" and "0 < m"
  shows "(\<forall>a. send_email (trs a) hc c (Some st) req = (Inl (ETransport TEInvalidHeader), [])) \<and>
         send_email_with_retry trs hc c (Some st) req m =
           (RetryExhausted (Some (ETransport TEInvalidHeader)),
            concat (map (\<lambda>b. RCall b # (if b < m - 1 then [RPrintErr ''Error: '' (ETransport TEInvalidHeader)
                                                        (wait_line ''. Waiting '' (backoff b) b m), RSleep (backoff b)]
                                     else [])) [0..m - 1]))"
proof -
  have s: "\<forall>a. send_email (trs a) hc c (Some st) req = (Inl (ETransport TEInvalidHeader), [])"
    using invalid_api_key_fails_before_dispatch [OF assms(1-5)] by (simp add: send_email_def)
  show ?thesis
    using retry_loop_local_error [of "\<lambda>a. fst (send_email (trs a) hc c (Some st) req)"
            "ETransport TEInvalidHeader" m 0 None] s assms(6)
    by (simp add: send_email_with_retry_def)
qed

text \<open>
  C30: when every attempt ends in a server error, the loop prints before each
  backoff \<^verbatim>\<open>Server error. Waiting <wait> before retry <n>/<maxRetries>...\<close>,
  the wait of attempt \<open>b\<close> being \<open>2 ^ b\<close> seconds as \<^verbatim>\<open>time.Duration\<close>
  prints it (for a budget of at most 34 attempts, where the backoff does not
  overflow), and sleeps that long, after the last attempt too: the last event
  before it gives up is a backoff sleep, unlike the branch for non-API errors,
  which does not sleep after the last attempt.
\<close>

theorem server_error_sleeps_after_last_attempt:
  assumes "\<forall>b. fst (send_email (trs b) hc c ctx req) = Inl (EAPI e)" and "is_server_error e"
    and "0 < m" and "m \<le> 34"
  shows "send_email_with_retry trs hc c ctx req m =
           (RetryExhausted (Some (EAPI e)),
            concat (map (\<lambda>b. [RCall b,
                               RPrint (''Server error. Waiting '' @ seconds_text (2 ^ nat b) @ '' before retry '' @
                                       itoa (b + 1) @ ''/'' @ itoa m @ ''...'' @ [CHR 0x0A]),
                               RSleep (backoff b)]) [0..m - 1])) \<and>
         last (snd (send_email_with_retry trs hc c ctx req m)) = RSleep (backoff (m - 1))"
proof -
  let ?p = "\<lambda>b. wait_line ''Server error. Waiting '' (backoff b) b m"
  have run: "send_email_with_retry trs hc c ctx req m =
               (RetryExhausted (Some (EAPI e)), concat (map (\<lambda>b. [RCall b, RPrint (?p b), RSleep (backoff b)]) [0..m - 1]))"
    using retry_loop_server_error [of "\<lambda>a. fst (send_email (trs a) hc c ctx req)" e m 0 None] assms(1-3)
    by (simp add: send_email_with_retry_def)
  have "?p b = ''Server error. Waiting '' @ seconds_text (2 ^ nat b) @ '' before retry '' @
                itoa (b + 1) @ ''/'' @ itoa m @ ''...'' @ [CHR 0x0A]" if "b \<in> set [0..m - 1]" for b
    using that assms(4) backoff_text [of b] by (simp add: wait_line_def)
  then have "map (\<lambda>b. [RCall b, RPrint (?p b), RSleep (backoff b)]) [0..m - 1] =
             map (\<lambda>b. [RCall b,
                         RPrint (''Server error. Waiting '' @ seconds_text (2 ^ nat b) @ '' before retry '' @
                                 itoa (b + 1) @ ''/'' @ itoa m @ ''...'' @ [CHR 0x0A]),
                         RSleep (backoff b)]) [0..m - 1]"
    by (intro map_cong) simp_all
  note eq = this
  have "last (snd (send_email_with_retry trs hc c ctx req m)) = RSleep (backoff (m - 1))"
    using run last_concat_triples [OF assms(3), of ?p] by simp
  then show ?thesis by (simp only: run eq)
qed

text \<open>
  for the attempts 0 to 33 the exponential backoff waits exactly
  \<open>2 ^ attempt\<close> seconds: \<^verbatim>\<open>time.Duration(1<<attempt) * time.Second\<close> does not
  overflow there.
\<close>

lemma backoff_exact:
  assumes "0 \<le> a" "a \<le> 33"
  shows "sint (backoff a) = 2 ^ nat a * 1000000000"
proof -
  have q: "(2::int) ^ nat a \<le> 2 ^ 33" using assms by (intro power_increasing) auto
  have x: "in_int64 (x * 1000000000)" if "0 \<le> x" "x \<le> 8589934592" for x :: int
    using that unfolding in_int64_def int64_min_def int64_max_def by simp
  have r: "in_int64 (2 ^ nat a * 1000000000)" using x [of "2 ^ nat a"] q by simp
  have "backoff a = word_of_int (2 ^ nat a * 1000000000)"
    by (simp add: backoff_def second_def push_bit_eq_mult)
  then show ?thesis using in_int64_sint_of_int [OF r] by simp
qed

lemma push_bit_one_zero: "64 \<le> n \<Longrightarrow> push_bit n (1::64 word) = 0"
  by (rule bit_word_eqI) (auto simp: bit_push_bit_iff bit_exp_iff)

lemma backoff_zero:
  assumes "64 \<le> a"
  shows "backoff a = 0"
proof -
  have "push_bit (nat a) (1::64 word) = 0" using assms by (intro push_bit_one_zero) simp
  then show ?thesis unfolding backoff_def by (simp only: mult_zero_left)
qed

lemma backoff_inexact:
  assumes "34 \<le> a"
  shows "sint (backoff a) \<noteq> 2 ^ nat a * 1000000000"
proof -
  have "(2::int) ^ 34 \<le> 2 ^ nat a" using assms by (intro power_increasing) auto
  then have "(2::int) ^ 63 \<le> 2 ^ nat a * 1000000000" by simp
  moreover have "sint (backoff a) < 2 ^ 63" using sint_less [of "backoff a"] by simp
  ultimately show ?thesis by simp
qed

text \<open>
  C31: from attempt 34 on, \<^verbatim>\<open>time.Duration(1<<attempt) * time.Second\<close>
  overflows: the wait of every attempt from 34 is not its \<open>2 ^ attempt\<close>
  seconds, the wait of attempt 34 is negative, printed as
  \<^verbatim>\<open>-351909h41m29.709551616s\<close>, so \<^verbatim>\<open>time.Sleep\<close> returns at once, and
  the wait of every attempt from 64 is zero, the shift having left the word.  A caller passing a
  \<^verbatim>\<open>maxRetries\<close> above 34 gets no backoff on those attempts.
\<close>

theorem backoff_overflow:
  "(\<forall>a. 34 \<le> a \<longrightarrow> sint (backoff a) \<noteq> 2 ^ nat a * 1000000000) \<and>
   (\<forall>a. 64 \<le> a \<longrightarrow> backoff a = 0) \<and>
   sint (backoff 34) < 0 \<and> duration_string (backoff 34) = ''-351909h41m29.709551616s''"
proof -
  have "sint (backoff 34) < 0" by (simp add: backoff_def second_def)
  moreover have "duration_string (backoff 34) = ''-351909h41m29.709551616s''"
    by (simp add: duration_eval backoff_def second_def Let_def)
  ultimately show ?thesis using backoff_inexact backoff_zero by blast
qed

text \<open>
  C32: after a 429 the loop waits the server's \<^verbatim>\<open>retryAfter\<close> seconds
  exactly, for every hint up to the largest number of seconds a
  \<^verbatim>\<open>Duration\<close> can hold.
\<close>

theorem rate_limit_wait_uses_retry_after:
  assumes "0 < get_retry_after e" and "get_retry_after e \<le> 9223372036"
  shows "sint (rate_limit_wait e a) = get_retry_after e * 1000000000"
proof -
  have s: "sint (duration_of_seconds (get_retry_after e)) = get_retry_after e * 1000000000"
    using duration_of_seconds_sint assms by simp
  then have "duration_of_seconds (get_retry_after e) \<noteq> 0" using assms(1) by auto
  with s show ?thesis by (simp add: rate_limit_wait_def)
qed

text \<open>
  C36: the loop reaches a success: when some attempt \<open>b\<close> below
  \<^verbatim>\<open>maxRetries\<close> succeeds and every earlier attempt fails with an error the loop
  retries (a rate-limit or server \<^verbatim>\<open>APIError\<close>, or an error that is no
  \<^verbatim>\<open>APIError\<close>), the loop returns that response after exactly \<open>b + 1\<close> calls.
\<close>

theorem retry_eventually_succeeds:
  assumes "0 \<le> b" and "b < m" and "fst (send_email (trs b) hc c ctx req) = Inr resp"
    and "\<forall>a. 0 \<le> a \<and> a < b \<longrightarrow>
           (\<exists>err. fst (send_email (trs a) hc c ctx req) = Inl err \<and>
                  (\<forall>e. err = EAPI e \<longrightarrow> is_rate_limit_error e \<or> is_server_error e))"
  shows "fst (send_email_with_retry trs hc c ctx req m) = RetrySuccess resp \<and>
         length (filter is_call (snd (send_email_with_retry trs hc c ctx req m))) = nat b + 1"
  using retry_loop_reaches_success [of "\<lambda>a. fst (send_email (trs a) hc c ctx req)" b resp m 0 None] assms
  by (simp add: send_email_with_retry_def)

text \<open>
  C37: the retry loop always returns, whatever each attempt answers: it stops
  after at most \<^verbatim>\<open>maxRetries\<close> calls, as many printed lines and as many
  sleeps, so its trace holds at most \<open>3 * maxRetries\<close> events (none for a
  budget of zero or less).
\<close>

theorem retry_returns_within_bound:
  "length (snd (send_email_with_retry trs hc c ctx req m)) \<le> 3 * nat m"
  using retry_loop_calls [of "\<lambda>a. fst (send_email (trs a) hc c ctx req)" m 0 None]
  by (simp add: send_email_with_retry_def)

subsection \<open>Witnesses\<close>

lemma example_send_error_response:
  assumes "hresp_status resp \<noteq> 200" and "hresp_body resp = Inr body"
    and "unmarshal_error_response body = Inr er"
  shows "fst (send_email (const_transport resp) example_http_client example_client (Some CtxActive)
               (Some example_request)) = Inl (EAPI (api_error_of resp er))"
  using assms by (simp add: send_email_def example_dispatch read_send_response_def handle_error_response_def)

lemma example_unmarshal_503:
  "unmarshal_error_response ''{\"success\":false,\"message\":\"unavailable\"}'' =
     Inr (zero_error_response\<lparr>er_message := ''unavailable''\<rparr>)"
  by code_simp

lemma example_send_503:
  "fst (send_email (const_transport response_503) example_http_client example_client (Some CtxActive)
          (Some example_request)) =
     Inl (EAPI (api_error_of response_503 (zero_error_response\<lparr>er_message := ''unavailable''\<rparr>))) \<and>
   is_server_error (api_error_of response_503 (zero_error_response\<lparr>er_message := ''unavailable''\<rparr>))"
proof -
  have st: "hresp_status response_503 = 503"
      "hresp_body response_503 = Inr ''{\"success\":false,\"message\":\"unavailable\"}''"
    by (simp_all add: response_503_def)
  show ?thesis
    using example_send_error_response [OF _ st(2) example_unmarshal_503] st(1)
    by (simp add: api_error_of_def api_error_defs)
qed

lemma example_send_200:
  "fst (send_email (const_transport response_200) example_http_client example_client (Some CtxActive)
          (Some example_request)) = Inr example_response_200_value"
  by (simp add: send_email_def example_dispatch read_send_response_def example_unmarshal_200 response_200_def)

theorem retry_call_budget_witness:
  "fst (send_email_with_retry (\<lambda>_. const_transport response_200) example_http_client example_client
          (Some CtxActive) (Some zero_request) 3) = RetryExhausted (Some (EValidation ErrToEmail)) \<and>
   length (filter is_call (snd (send_email_with_retry (\<lambda>_. const_transport response_200) example_http_client
          example_client (Some CtxActive) (Some zero_request) 3))) = 3"
proof -
  have v: "validate_send_email_request (Some zero_request) = Some ErrToEmail" by (simp add: go_eval)
  have f: "fst (send_email_with_retry (\<lambda>_. const_transport response_200) example_http_client example_client
          (Some CtxActive) (Some zero_request) 3) = RetryExhausted (Some (EValidation ErrToEmail))"
    using retry_loop_local_error [of "\<lambda>a. fst (send_email (const_transport response_200) example_http_client
              example_client (Some CtxActive) (Some zero_request))" "EValidation ErrToEmail" 3 0 None]
          send_email_local_error [OF v]
    by (simp add: send_email_with_retry_def)
  show ?thesis
    using retry_call_budget [of "\<lambda>_. const_transport response_200" example_http_client example_client
            "Some CtxActive" "Some zero_request" 3 "Some (EValidation ErrToEmail)"] f
    by simp
qed

theorem retry_gives_up_only_on_permanent_errors_witness:
  "fst (send_email_with_retry (\<lambda>_. const_transport response_400) example_http_client example_client
          (Some CtxActive) (Some example_request) 3) =
     RetryGiveUp (api_error_of response_400 (zero_error_response\<lparr>er_message := ''invalid'',
            er_errors := [\<lparr>fe_field = ''to.email'', fe_message = ''invalid format''\<rparr>]\<rparr>)) \<and>
   snd (send_email_with_retry (\<lambda>_. const_transport response_400) example_http_client example_client
          (Some CtxActive) (Some example_request) 3) =
     [RCall 0, RPrint (give_up_line ''Validation error: ''
                         (api_error_of response_400 (zero_error_response\<lparr>er_message := ''invalid'',
                            er_errors := [\<lparr>fe_field = ''to.email'', fe_message = ''invalid format''\<rparr>]\<rparr>)))]"
proof -
  let ?e = "api_error_of response_400 (zero_error_response\<lparr>er_message := ''invalid'',
            er_errors := [\<lparr>fe_field = ''to.email'', fe_message = ''invalid format''\<rparr>]\<rparr>)"
  have st: "hresp_status response_400 = 400" "hresp_body response_400 =
      Inr ''{\"success\":false,\"message\":\"invalid\",\"errors\":[{\"field\":\"to.email\",\"message\":\"invalid format\"}]}''"
    by (simp_all add: response_400_def)
  have s: "fst (send_email (const_transport response_400) example_http_client example_client (Some CtxActive)
               (Some example_request)) = Inl (EAPI ?e)"
    using example_send_error_response [OF _ st(2) example_unmarshal_400] st(1) by simp
  have k: "is_validation_error ?e" "\<not> is_rate_limit_error ?e"
    by (simp_all add: api_error_of_def st(1) api_error_defs)
  have run: "send_email_with_retry (\<lambda>_. const_transport response_400) example_http_client example_client
          (Some CtxActive) (Some example_request) 3 = (RetryGiveUp ?e, [RCall 0, RPrint (give_up_line ''Validation error: '' ?e)])"
    by (simp add: send_email_with_retry_def retry_loop.simps [of _ 3 0] s k)
  then have g: "fst (send_email_with_retry (\<lambda>_. const_transport response_400) example_http_client example_client
          (Some CtxActive) (Some example_request) 3) = RetryGiveUp ?e" by simp
  show ?thesis using retry_gives_up_only_on_permanent_errors [OF g] run by simp
qed

theorem local_validation_error_retried_witness:
  "send_email_with_retry (\<lambda>_. const_transport response_200) example_http_client example_client
     (Some CtxActive) (Some zero_request) 3 =
   (RetryExhausted (Some (EValidation ErrToEmail)),
    [RCall 0, RPrintErr ''Error: '' (EValidation ErrToEmail) (wait_line ''. Waiting '' (backoff 0) 0 3), RSleep (backoff 0),
     RCall 1, RPrintErr ''Error: '' (EValidation ErrToEmail) (wait_line ''. Waiting '' (backoff 1) 1 3), RSleep (backoff 1),
     RCall 2])"
proof -
  have v: "validate_send_email_request (Some zero_request) = Some ErrToEmail" by (simp add: go_eval)
  have u: "[0..3 - 1] = [0, 1, (2::int)]" by (simp add: upto.simps)
  show ?thesis using local_validation_error_retried [OF v, of 3] u by simp
qed

theorem server_error_sleeps_after_last_attempt_witness:
  "send_email_with_retry (\<lambda>_. const_transport response_503) example_http_client example_client
     (Some CtxActive) (Some example_request) 3 =
   (RetryExhausted (Some (EAPI (api_error_of response_503 (zero_error_response\<lparr>er_message := ''unavailable''\<rparr>)))),
    [RCall 0, RPrint (''Server error. Waiting 1s before retry 1/3...'' @ [CHR 0x0A]), RSleep (backoff 0),
     RCall 1, RPrint (''Server error. Waiting 2s before retry 2/3...'' @ [CHR 0x0A]), RSleep (backoff 1),
     RCall 2, RPrint (''Server error. Waiting 4s before retry 3/3...'' @ [CHR 0x0A]), RSleep (backoff 2)])"
proof -
  let ?e = "api_error_of response_503 (zero_error_response\<lparr>er_message := ''unavailable''\<rparr>)"
  have s: "\<forall>b. fst (send_email ((\<lambda>_. const_transport response_503) b) example_http_client example_client
               (Some CtxActive) (Some example_request)) = Inl (EAPI ?e)"
    using example_send_503 by simp
  have k: "is_server_error ?e" using example_send_503 by simp
  have u: "[0..3 - 1] = [0, 1, (2::int)]" by (simp add: upto.simps)
  have t: "seconds_text 1 = ''1s''" "seconds_text 2 = ''2s''" "seconds_text 4 = ''4s''"
    "itoa 1 = ''1''" "itoa 2 = ''2''" "itoa 3 = ''3''"
    by (simp_all add: seconds_text_def itoa_def digits_of.simps digit_chars)
  show ?thesis using conjunct1 [OF server_error_sleeps_after_last_attempt [OF s k, of 3]] u t by simp
qed

theorem rate_limit_wait_uses_retry_after_witness:
  "get_retry_after rate_limited_example = 5 \<and> sint (rate_limit_wait rate_limited_example 0) = 5000000000"
proof -
  have g: "get_retry_after rate_limited_example = 5"
    by (simp add: rate_limited_example_def api_error_defs)
  show ?thesis using rate_limit_wait_uses_retry_after [of rate_limited_example 0] g by simp
qed

theorem retry_eventually_succeeds_witness:
  "fst (send_email_with_retry (\<lambda>a. if a = 0 then const_transport response_503 else const_transport response_200)
          example_http_client example_client (Some CtxActive) (Some example_request) 3) =
     RetrySuccess example_response_200_value \<and>
   length (filter is_call (snd (send_email_with_retry
          (\<lambda>a. if a = 0 then const_transport response_503 else const_transport response_200)
          example_http_client example_client (Some CtxActive) (Some example_request) 3))) = 2"
proof -
  let ?trs = "\<lambda>a::int. if a = 0 then const_transport response_503 else const_transport response_200"
  let ?e = "api_error_of response_503 (zero_error_response\<lparr>er_message := ''unavailable''\<rparr>)"
  have s0: "fst (send_email (?trs 0) example_http_client example_client (Some CtxActive) (Some example_request)) =
              Inl (EAPI ?e)" and k: "is_server_error ?e"
    using example_send_503 by simp_all
  have s1: "fst (send_email (?trs 1) example_http_client example_client (Some CtxActive) (Some example_request)) =
              Inr example_response_200_value"
    using example_send_200 by simp
  have pre: "\<forall>a. 0 \<le> a \<and> a < 1 \<longrightarrow>
           (\<exists>err. fst (send_email (?trs a) example_http_client example_client (Some CtxActive) (Some example_request)) =
                    Inl err \<and> (\<forall>e. err = EAPI e \<longrightarrow> is_rate_limit_error e \<or> is_server_error e))"
    using s0 k by auto
  show ?thesis
    using retry_eventually_succeeds [of 1 3 ?trs example_http_client example_client "Some CtxActive"
            "Some example_request" example_response_200_value] s1 pre
    by simp
qed

theorem invalid_api_key_retried_without_dispatch_witness:
  "send_email_with_retry (\<lambda>_. const_transport response_200) example_http_client
     (example_client\<lparr>api_key := ''test_key'' @ [CHR 0x0A]\<rparr>) (Some CtxActive) (Some example_request) 3 =
     (RetryExhausted (Some (ETransport TEInvalidHeader)),
      [RCall 0, RPrintErr ''Error: '' (ETransport TEInvalidHeader) (wait_line ''. Waiting '' (backoff 0) 0 3),
       RSleep (backoff 0),
       RCall 1, RPrintErr ''Error: '' (ETransport TEInvalidHeader) (wait_line ''. Waiting '' (backoff 1) 1 3),
       RSleep (backoff 1), RCall 2]) \<and>
   send_email (const_transport response_200) example_http_client
     (example_client\<lparr>api_key := ''test_key'' @ [CHR 0x0A]\<rparr>) (Some CtxActive) (Some example_request) =
     (Inl (ETransport TEInvalidHeader), [])"
proof -
  let ?c = "example_client\<lparr>api_key := ''test_key'' @ [CHR 0x0A]\<rparr>"
  let ?u = "zero_url\<lparr>url_scheme := ''https'', url_host := ''api.autosend.com'', url_path := ''/v1/mails/send''\<rparr>"
  have k: "\<not> valid_header_field_value (api_key ?c)" by simp
  have u: "url_parse (base_url ?c @ ''/mails/send'') = Inr ?u"
    by (simp add: example_client_fields default_url_parse)
  have h: "url_scheme ?u = ''http'' \<or> url_scheme ?u = ''https''" by (simp add: zero_url_def)
  have r: "[0..3 - 1] = [0, 1, (2::int)]" by (simp add: upto.simps)
  show ?thesis
    using invalid_api_key_retried_without_dispatch [OF example_request_valid example_request_marshals u h k,
            of 3 "\<lambda>_. const_transport response_200" example_http_client CtxActive] r
    by simp
qed


theorem backoff_overflow_witness:
  "sint (backoff 40) \<noteq> 2 ^ nat 40 * 1000000000 \<and> backoff 100 = 0"
  using backoff_overflow [THEN conjunct1, rule_format, of 40]
        backoff_overflow [THEN conjunct2, THEN conjunct1, rule_format, of 100]
  by simp


theorem accepted_email_resent_on_unparsable_response_witness:
  "send_email (const_transport response_200_date_only) example_http_client example_client (Some CtxActive)
     (Some example_request) = (Inl (EParse ErrJsonTime), [EvDispatch (example_outbound []), EvReadBody, EvCloseBody]) \<and>
   send_email_with_retry (\<lambda>_. const_transport response_200_date_only) example_http_client example_client
     (Some CtxActive) (Some example_request) 3 =
   (RetryExhausted (Some (EParse ErrJsonTime)),
    [RCall 0, RPrintErr ''Error: '' (EParse ErrJsonTime) (wait_line ''. Waiting '' (backoff 0) 0 3), RSleep (backoff 0),
     RCall 1, RPrintErr ''Error: '' (EParse ErrJsonTime) (wait_line ''. Waiting '' (backoff 1) 1 3), RSleep (backoff 1),
     RCall 2])"
proof -
  have k: "valid_header_field_value []" by simp
  have u: "unmarshal_send_email_response
             ''{\"success\":true,\"message\":\"ok\",\"data\":{\"emailId\":\"em_1\",\"status\":\"queued\",\"queuedAt\":\"2025-01-01\"}}'' =
           Inl ErrJsonTime"
    by code_simp
  note c = accepted_email_resent_on_unparsable_response [OF example_request_valid example_request_marshals
             example_request_Inr example_round_trip [OF k],
             where trs = "\<lambda>_. const_transport response_200_date_only" and hc = example_http_client
               and resp = response_200_date_only and m = 3]
  have "[0..3 - 1] = [0, 1, (2::int)]" by code_simp
  then show ?thesis
    using c u by (simp add: const_transport_def response_200_date_only_def)
qed

end
