(* ===== verification/Examples.thy ===== *)
theory Examples
  imports Pipeline
begin

text \<open>
  The example programs \<^verbatim>\<open>src/examples/basic/main.go\<close> and
  \<^verbatim>\<open>src/examples/with_template/main.go\<close>.  Each \<^verbatim>\<open>main\<close> reads the API key
  from the environment (the parameter \<open>key\<close>), builds a client with
  \<^verbatim>\<open>NewClient\<close> in an empty heap, sends its request with
  \<^verbatim>\<open>context.Background()\<close> (a context that is never done) through the transport
  \<open>tr\<close>, and prints the result or exits through \<^verbatim>\<open>log.Fatal\<close>.  The output is a
  list of events: a printed line, the print of a \<^verbatim>\<open>time.Time\<close> (whose text
  depends on the local time zone, so the value is kept), a fatal log line with
  the error value it formats.  \<open>MainPanic\<close> would be the nil-pointer panic of
  \<^verbatim>\<open>Do\<close> on a nil \<^verbatim>\<open>http.Client\<close>, which \<^verbatim>\<open>NewClient\<close> never produces.
\<close>

definition basic_request :: send_email_request where
  "basic_request = zero_request\<lparr>
     req_to := \<lparr>email = ''customer@example.com'', name = ''Jane Smith''\<rparr>,
     req_from := \<lparr>email = ''hello@mail.yourdomain.com'', name = ''Your Company''\<rparr>,
     req_subject := ''Welcome to Our Platform!'',
     req_html := ''<h1>Welcome, {{name}}!</h1><p>Thanks for signing up.</p>'',
     req_dynamic_data := [(''name'', AnyString ''Jane'')],
     req_categories := [''welcome'', ''onboarding'']\<rparr>"

definition template_request :: send_email_request where
  "template_request = zero_request\<lparr>
     req_to := \<lparr>email = ''customer@example.com'', name = ''Jane Smith''\<rparr>,
     req_from := \<lparr>email = ''hello@mail.yourdomain.com'', name = ''Your Company''\<rparr>,
     req_template_id := ''tmpl_abc123'',
     req_dynamic_data := [(''firstName'', AnyString ''Jane''), (''orderNumber'', AnyString ''ORD-12345''),
                          (''orderTotal'', AnyString ''$99.99'')],
     req_categories := [''order'', ''confirmation'']\<rparr>"

datatype main_event =
    PrintLine string
  | PrintQueuedAt go_time
  | LogFatal string
  | LogFatalErr string client_error
  | MainPanic

definition print_success :: "send_email_response \<Rightarrow> main_event list" where
  "print_success resp =
     [PrintLine ''Email sent successfully!'', PrintLine (''Email ID: '' @ email_id (resp_data resp)),
      PrintLine (''Status: '' @ status (resp_data resp))]"

definition basic_main :: "string \<Rightarrow> transport \<Rightarrow> main_event list \<times> event list" where
  "basic_main key tr =
     (if key = [] then ([LogFatal ''AUTOSEND_API_KEY environment variable is required''], [])
      else (case new_client key [] of
              (c, h) \<Rightarrow>
                (case client_transport c h of
                   None \<Rightarrow> ([MainPanic], [])
                 | Some hc \<Rightarrow>
                     (case send_email tr hc c (Some CtxActive) (Some basic_request) of
                        (Inl e, evs) \<Rightarrow> ([LogFatalErr ''Failed to send email: '' e], evs)
                      | (Inr resp, evs) \<Rightarrow>
                          (print_success resp @ [PrintQueuedAt (queued_at (resp_data resp))], evs)))))"

definition template_main :: "string \<Rightarrow> transport \<Rightarrow> main_event list \<times> event list" where
  "template_main key tr =
     (if key = [] then ([LogFatal ''AUTOSEND_API_KEY environment variable is required''], [])
      else (case new_client key [] of
              (c, h) \<Rightarrow>
                (case client_transport c h of
                   None \<Rightarrow> ([MainPanic], [])
                 | Some hc \<Rightarrow>
                     (case send_email_with_idempotency tr hc c (Some CtxActive) (Some template_request)
                             ''order-confirmation-ORD-12345'' of
                        (Inl e, evs) \<Rightarrow> ([LogFatalErr ''Failed to send email: '' e], evs)
                      | (Inr resp, evs) \<Rightarrow> (print_success resp, evs)))))"

subsection \<open>Lemmas\<close>

text \<open>
  The bodies \<^verbatim>\<open>json.Marshal\<close> writes for the two example requests: fields in
  declaration order, empty ones left out, the \<^verbatim>\<open>DynamicData\<close> keys sorted,
  and \<open><\<close>, \<open>>\<close> in the HTML body written as \<^verbatim>\<open>\u003c\<close> and
  \<^verbatim>\<open>\u003e\<close>.
\<close>

lemma basic_request_marshals:
  "marshal_request_ptr (Some basic_request) =
     Inr (let u = [CHR 0x5C, CHR ''u'', CHR ''0'', CHR ''0'', CHR ''3''] in
          ''{\"to\":{\"email\":\"customer@example.com\",\"name\":\"Jane Smith\"},'' @
          ''\"from\":{\"email\":\"hello@mail.yourdomain.com\",\"name\":\"Your Company\"},'' @
          ''\"subject\":\"Welcome to Our Platform!\",'' @
          ''\"html\":\"'' @ u @ ''ch1'' @ u @ ''eWelcome, {{name}}!'' @ u @ ''c/h1'' @ u @ ''e'' @
            u @ ''cp'' @ u @ ''eThanks for signing up.'' @ u @ ''c/p'' @ u @ ''e\",'' @
          ''\"categories\":[\"welcome\",\"onboarding\"],\"dynamicData\":{\"name\":\"Jane\"}}'')"
  by code_simp
lemma template_request_marshals:
  "marshal_request_ptr (Some template_request) =
     Inr (''{\"to\":{\"email\":\"customer@example.com\",\"name\":\"Jane Smith\"},'' @
          ''\"from\":{\"email\":\"hello@mail.yourdomain.com\",\"name\":\"Your Company\"},'' @
          ''\"templateId\":\"tmpl_abc123\",\"categories\":[\"order\",\"confirmation\"],'' @
          ''\"dynamicData\":{\"firstName\":\"Jane\",\"orderNumber\":\"ORD-12345\",\"orderTotal\":\"$99.99\"}}'')"
  by code_simp
lemma new_client_transport:
  "client_transport (fst (new_client key [])) (snd (new_client key [])) = Some \<lparr>hc_timeout = default_timeout\<rparr>"
  by (simp add: new_client_def alloc_def client_transport_def)

lemma basic_request_valid: "validate_send_email_request (Some basic_request) = None"
  by (simp add: basic_request_def zero_request_def validate_send_email_request_def)

lemma template_request_valid: "validate_send_email_request (Some template_request) = None"
  by (simp add: template_request_def zero_request_def validate_send_email_request_def)

lemma new_client_fields:
  "new_client key [] = (\<lparr>api_key = key, base_url = default_base_url, http_client = Some 0\<rparr>,
                          [\<lparr>hc_timeout = default_timeout\<rparr>])"
  by (simp add: new_client_def alloc_def)

subsection \<open>The example programs\<close>

text \<open>
  C34: with an API key set that is a valid header value, the basic example's
  first event is the dispatch of exactly this request: \<^verbatim>\<open>POST\<close> to the
  default URL as \<^verbatim>\<open>url.Parse\<close> reads it, authenticated with the key, no
  idempotency header, and a body that is the expected JSON literal of spec
  section 8 with HTML-escaped markup; the program never panics.
\<close>

theorem basic_main_dispatches_request:
  assumes "key \<noteq> []" and "valid_header_field_value key"
  shows "\<exists>rest. snd (basic_main key tr) =
           EvDispatch \<lparr>hr_method = ''POST'',
                       hr_url = zero_url\<lparr>url_scheme := ''https'', url_host := ''api.autosend.com'',
                                         url_path := ''/v1/mails/send''\<rparr>,
                       hr_header = request_headers key [],
                       hr_body = (let u = [CHR 0x5C, CHR ''u'', CHR ''0'', CHR ''0'', CHR ''3''] in
          ''{\"to\":{\"email\":\"customer@example.com\",\"name\":\"Jane Smith\"},'' @
          ''\"from\":{\"email\":\"hello@mail.yourdomain.com\",\"name\":\"Your Company\"},'' @
          ''\"subject\":\"Welcome to Our Platform!\",'' @
          ''\"html\":\"'' @ u @ ''ch1'' @ u @ ''eWelcome, {{name}}!'' @ u @ ''c/h1'' @ u @ ''e'' @
            u @ ''cp'' @ u @ ''eThanks for signing up.'' @ u @ ''c/p'' @ u @ ''e\",'' @
          ''\"categories\":[\"welcome\",\"onboarding\"],\"dynamicData\":{\"name\":\"Jane\"}}''),
                       hr_host = ''api.autosend.com'', hr_ctx = CtxActive\<rparr> # rest \<and>
         MainPanic \<notin> set (fst (basic_main key tr))"
proof -
  let ?c = "\<lparr>api_key = key, base_url = default_base_url, http_client = Some 0\<rparr>"
  note d = send_dispatched [OF basic_request_valid basic_request_marshals
             default_url_request [of ?c] default_url_round_trip [OF _ valid_header_field_value_simps(1)],
             where tr = tr and hc = "\<lparr>hc_timeout = default_timeout\<rparr>"]
  show ?thesis
    using assms d
    by (simp add: basic_main_def new_client_fields client_transport_def send_email_def
                  print_success_def split: sum.splits)
qed

text \<open>
  C35: with an API key set that is a valid header value, the template example
  dispatches its request with the \<^verbatim>\<open>Idempotency-Key\<close> header and a body with no
  subject or content, which passes validation because a template is set; the
  program never panics.
\<close>

theorem template_main_dispatches_request:
  assumes "key \<noteq> []" and "valid_header_field_value key"
  shows "\<exists>rest. snd (template_main key tr) =
           EvDispatch \<lparr>hr_method = ''POST'',
                       hr_url = zero_url\<lparr>url_scheme := ''https'', url_host := ''api.autosend.com'',
                                         url_path := ''/v1/mails/send''\<rparr>,
                       hr_header = request_headers key ''order-confirmation-ORD-12345'',
                       hr_body =
          ''{\"to\":{\"email\":\"customer@example.com\",\"name\":\"Jane Smith\"},'' @
          ''\"from\":{\"email\":\"hello@mail.yourdomain.com\",\"name\":\"Your Company\"},'' @
          ''\"templateId\":\"tmpl_abc123\",\"categories\":[\"order\",\"confirmation\"],'' @
          ''\"dynamicData\":{\"firstName\":\"Jane\",\"orderNumber\":\"ORD-12345\",\"orderTotal\":\"$99.99\"}}'',
                       hr_host = ''api.autosend.com'', hr_ctx = CtxActive\<rparr>
             # rest \<and>
         header_get (request_headers key ''order-confirmation-ORD-12345'') ''Idempotency-Key'' =
           ''order-confirmation-ORD-12345'' \<and>
         MainPanic \<notin> set (fst (template_main key tr))"
proof -
  let ?c = "\<lparr>api_key = key, base_url = default_base_url, http_client = Some 0\<rparr>"
  have idem: "header_get (request_headers key ''order-confirmation-ORD-12345'') ''Idempotency-Key'' =
               ''order-confirmation-ORD-12345''"
    by (simp add: header_get_def request_headers_get canonical_request_keys)
  have v: "valid_header_field_value ''order-confirmation-ORD-12345''" by code_simp
  note d = send_dispatched [OF template_request_valid template_request_marshals
             default_url_request [of ?c] default_url_round_trip [OF _ v],
             where tr = tr and hc = "\<lparr>hc_timeout = default_timeout\<rparr>"]
  show ?thesis
    using assms d idem
    by (simp add: template_main_def new_client_fields client_transport_def print_success_def split: sum.splits)
qed

theorem basic_main_dispatches_request_witness:
  "''test_key'' \<noteq> [] \<and> valid_header_field_value ''test_key'' \<and>
   (\<exists>r rest. snd (basic_main ''test_key'' (const_transport response_200)) = EvDispatch r # rest \<and>
             url_host (hr_url r) = ''api.autosend.com'') \<and>
   MainPanic \<notin> set (fst (basic_main ''test_key'' (const_transport response_200)))"
  using basic_main_dispatches_request [of "''test_key''" "const_transport response_200"]
  by (auto simp: zero_url_def)

theorem template_main_dispatches_request_witness:
  "''test_key'' \<noteq> [] \<and> valid_header_field_value ''test_key'' \<and>
   (\<exists>r rest. snd (template_main ''test_key'' (const_transport response_200)) = EvDispatch r # rest \<and>
             header_get (hr_header r) ''Idempotency-Key'' = ''order-confirmation-ORD-12345'') \<and>
   MainPanic \<notin> set (fst (template_main ''test_key'' (const_transport response_200)))"
  using template_main_dispatches_request [of "''test_key''" "const_transport response_200"] by auto

end
