(* ===== verification/Retry_Main.thy ===== *)
theory Retry_Main
  imports Retry Examples
begin

text \<open>
  The \<^verbatim>\<open>main\<close> function of the retry example (\<^verbatim>\<open>src/unnamed/part_002\<close>, lines
  14--43): it reads the API key from the environment (the parameter \<open>key\<close>),
  builds a client with \<^verbatim>\<open>NewClient\<close>, runs \<^verbatim>\<open>sendEmailWithRetry\<close> with
  \<^verbatim>\<open>context.Background()\<close> and \<^verbatim>\<open>maxRetries = 3\<close>, \<open>trs a\<close> being the transport the
  attempt \<open>a\<close> meets, and prints the email ID or exits through
  \<^verbatim>\<open>log.Fatalf\<close>.  The error \<^verbatim>\<open>sendEmailWithRetry\<close> returns is the
  \<^verbatim>\<open>*APIError\<close> it gave up on, or the \<^verbatim>\<open>fmt.Errorf("max retries exceeded: %w",
  lastErr)\<close> wrapping of the last error (\<open>None\<close> is a nil \<^verbatim>\<open>lastErr\<close>).  The
  progress lines the loop prints are not part of the output modelled here.
\<close>

datatype retry_error =
    RetryAPIError api_error
  | MaxRetriesExceeded "client_error option"

datatype retry_main_event =
    RPrintLine string
  | RLogFatal string
  | RLogFatalErr string retry_error
  | RMainPanic

definition retry_main :: "string \<Rightarrow> (int \<Rightarrow> transport) \<Rightarrow> retry_main_event list \<times> retry_event list" where
  "retry_main key trs =
     (if key = [] then ([RLogFatal ''AUTOSEND_API_KEY environment variable is required''], [])
      else (case new_client key [] of
              (c, h) \<Rightarrow>
                (case client_transport c h of
                   None \<Rightarrow> ([RMainPanic], [])
                 | Some hc \<Rightarrow>
                     (case send_email_with_retry trs hc c (Some CtxActive) (Some example_request) 3 of
                        (RetrySuccess resp, evs) \<Rightarrow>
                          ([RPrintLine (''Email sent successfully! ID: '' @ email_id (resp_data resp))], evs)
                      | (RetryGiveUp e, evs) \<Rightarrow>
                          ([RLogFatalErr ''Failed to send email after retries: '' (RetryAPIError e)], evs)
                      | (RetryExhausted l, evs) \<Rightarrow>
                          ([RLogFatalErr ''Failed to send email after retries: '' (MaxRetriesExceeded l)], evs)))))"

subsection \<open>The retry example program\<close>

lemma retry_main_key_set:
  assumes "key \<noteq> []"
  shows "retry_main key trs =
           (case send_email_with_retry trs example_http_client (fst (new_client key [])) (Some CtxActive)
                   (Some example_request) 3 of
              (RetrySuccess resp, evs) \<Rightarrow>
                ([RPrintLine (''Email sent successfully! ID: '' @ email_id (resp_data resp))], evs)
            | (RetryGiveUp e, evs) \<Rightarrow>
                ([RLogFatalErr ''Failed to send email after retries: '' (RetryAPIError e)], evs)
            | (RetryExhausted l, evs) \<Rightarrow>
                ([RLogFatalErr ''Failed to send email after retries: '' (MaxRetriesExceeded l)], evs))"
  using assms by (simp add: retry_main_def new_client_fields client_transport_def example_http_client_def)

text \<open>
  C38: with an API key set, the retry example never panics and writes exactly
  one line: either the fatal log of the error, or the success line, whose email
  ID is that of the response of one of the three attempts; in every case it
  calls \<^verbatim>\<open>SendEmail\<close> at most three times.
\<close>

theorem retry_main_outcome:
  assumes "key \<noteq> []"
  shows "length (fst (retry_main key trs)) = 1 \<and> RMainPanic \<notin> set (fst (retry_main key trs)) \<and>
         length (filter is_call (snd (retry_main key trs))) \<le> 3 \<and>
         (\<forall>s. RPrintLine s \<in> set (fst (retry_main key trs)) \<longrightarrow>
            (\<exists>a resp. 0 \<le> a \<and> a < 3 \<and>
               fst (send_email (trs a) example_http_client (fst (new_client key [])) (Some CtxActive)
                      (Some example_request)) = Inr resp \<and>
               s = ''Email sent successfully! ID: '' @ email_id (resp_data resp)))"
proof -
  let ?call = "\<lambda>a. fst (send_email (trs a) example_http_client (fst (new_client key [])) (Some CtxActive)
                         (Some example_request))"
  obtain r evs where run: "send_email_with_retry trs example_http_client (fst (new_client key []))
                             (Some CtxActive) (Some example_request) 3 = (r, evs)"
    by fastforce
  have loop: "retry_loop ?call 3 0 None = (r, evs)"
    using run by (simp add: send_email_with_retry_def)
  have calls: "length (filter is_call evs) \<le> 3"
    using retry_loop_calls [of ?call 3 0 None] loop by simp
  have ok: "\<exists>a. 0 \<le> a \<and> a < 3 \<and> ?call a = Inr resp" if "r = RetrySuccess resp" for resp
    using retry_loop_success_call [of ?call 3 0 None resp] loop that by simp
  show ?thesis
    using calls ok by (cases r) (auto simp: retry_main_key_set [OF assms] run)
qed

theorem retry_main_outcome_witness:
  "''test_key'' \<noteq> [] \<and>
   fst (retry_main ''test_key'' (\<lambda>a. if a = 0 then const_transport response_503 else const_transport response_200)) =
     [RPrintLine (''Email sent successfully! ID: '' @ email_id (resp_data example_response_200_value))] \<and>
   length (filter is_call (snd (retry_main ''test_key''
     (\<lambda>a. if a = 0 then const_transport response_503 else const_transport response_200)))) \<le> 3"
proof -
  let ?trs = "\<lambda>a::int. if a = 0 then const_transport response_503 else const_transport response_200"
  have c: "fst (new_client ''test_key'' []) = example_client" by (simp add: example_client_def)
  have run: "send_email_with_retry ?trs example_http_client example_client (Some CtxActive)
               (Some example_request) 3 =
             (RetrySuccess example_response_200_value,
              [RCall 0, RPrint (wait_line ''Server error. Waiting '' (backoff 0) 0 3), RSleep (backoff 0), RCall 1])"
    using example_send_503 example_send_200 server_error_not_other [OF conjunct2 [OF example_send_503]]
    by (simp add: send_email_with_retry_def retry_loop.simps [of _ 3 0] retry_loop.simps [of _ 3 1])
  show ?thesis
    using retry_main_outcome [of "''test_key''" ?trs]
    by (simp add: retry_main_key_set c run)
qed

end
