(* ===== verification/Json_Roundtrip.thy ===== *)
theory Json_Roundtrip
  imports Json_Decode Json_Encode
begin

text \<open>
  The JSON form of \<^verbatim>\<open>ErrorResponse\<close> (\<^verbatim>\<open>src/types.go\<close>) in both directions.
  \<open>marshal_error_response\<close> is \<^verbatim>\<open>json.Marshal\<close> of the struct under its tags:
  \<^verbatim>\<open>success\<close> and \<^verbatim>\<open>message\<close> always written, \<^verbatim>\<open>errors\<close> (each element
  by \<open>marshal_field_error\<close>) and \<^verbatim>\<open>retryAfter\<close> left out when empty
  (\<^verbatim>\<open>omitempty\<close>), an \<^verbatim>\<open>int\<close> in decimal.  This is the body an API server
  written with the same struct sends; the client decodes it with
  \<open>unmarshal_error_response\<close> (the \<^verbatim>\<open>json.Unmarshal\<close> call of
  \<^verbatim>\<open>handleErrorResponse\<close>).  The lemmas follow the scanner through such a body
  piece by piece: a string value, the separator and key of the next member, a
  field-error object, the array of them, the optional number and the closing
  brace; then the decoder through the parsed value.
\<close>

definition marshal_field_error :: "field_error \<Rightarrow> string" where
  "marshal_field_error fe =
     CHR 0x7B # quote_string ''field'' @ '':'' @ quote_string (fe_field fe) @ '','' @
     quote_string ''message'' @ '':'' @ quote_string (fe_message fe) @ [CHR 0x7D]"

definition marshal_error_response :: "error_response \<Rightarrow> string" where
  "marshal_error_response e =
     CHR 0x7B # strings_concat_sep (map (\<lambda>(k, v). quote_string k @ '':'' @ v) (List.map_filter id
       [Some (''success'', if er_success e then ''true'' else ''false''),
        Some (''message'', quote_string (er_message e)),
        (if er_errors e = [] then None
         else Some (''errors'', ''['' @ strings_concat_sep (map marshal_field_error (er_errors e)) @ '']'')),
        (if er_retry_after e = 0 then None else Some (''retryAfter'', itoa (er_retry_after e)))])) @ [CHR 0x7D]"

abbreviation field_error_value :: "field_error \<Rightarrow> jvalue" where
  "field_error_value fe \<equiv>
     JObject [(''field'', JString (json_escape (fe_field fe))), (''message'', JString (json_escape (fe_message fe)))]"

subsection \<open>Scanning the encoded body\<close>

lemma scan_digits:
  "list_all is_digit ds \<Longrightarrow> sc_step sc = One \<Longrightarrow>
   scan_run sc (ds @ ys) = scan_run (sc\<lparr>sc_buf := sc_buf sc @ ds\<rparr>) ys"
  by (induction ds arbitrary: sc) (simp_all add: scan_char_def)

lemma scan_itoa:
  assumes "n \<noteq> 0" and "sc_step sc = BeginValue"
  shows "scan_run sc (itoa n @ ys) = scan_run (sc\<lparr>sc_step := One, sc_buf := itoa n\<rparr>) ys"
proof (cases "n < 0")
  case True
  then obtain d ds where d: "digits_of (nat (- n)) = d # ds" "CHR ''1'' \<le> d" "d \<le> CHR ''9''" "list_all is_digit ds"
    using digits_of_lead [of "nat (- n)"] by auto
  have "d \<noteq> CHR ''0''" using d(2) by (auto simp: less_eq_char_def)
  then have "scan_run sc (itoa n @ ys) = scan_run (sc\<lparr>sc_step := One, sc_buf := [CHR ''-'', d]\<rparr>) (ds @ ys)"
    using True d assms(2) by (simp add: itoa_def scan_char_def state_begin_value_def is_space_def)
  also have "\<dots> = scan_run (sc\<lparr>sc_step := One, sc_buf := itoa n\<rparr>) ys"
    using True d by (simp add: scan_digits itoa_def)
  finally show ?thesis .
next
  case False
  with assms(1) have "0 < nat n" by simp
  then obtain d ds where d: "digits_of (nat n) = d # ds" "CHR ''1'' \<le> d" "d \<le> CHR ''9''" "list_all is_digit ds"
    using digits_of_lead [of "nat n"] by auto
  have "d \<noteq> CHR 0x7B \<and> d \<noteq> CHR ''['' \<and> d \<noteq> CHR 0x22 \<and> d \<noteq> CHR ''-'' \<and> d \<noteq> CHR ''0'' \<and>
        d \<noteq> CHR ''t'' \<and> d \<noteq> CHR ''f'' \<and> d \<noteq> CHR ''n'' \<and> \<not> is_space d"
    using d(2,3) by (auto simp: less_eq_char_def is_space_def)
  then have "scan_run sc (itoa n @ ys) = scan_run (sc\<lparr>sc_step := One, sc_buf := [d]\<rparr>) (ds @ ys)"
    using False d assms(2) by (simp add: itoa_def scan_char_def state_begin_value_def)
  also have "\<dots> = scan_run (sc\<lparr>sc_step := One, sc_buf := itoa n\<rparr>) ys"
    using False d by (simp add: scan_digits itoa_def)
  finally show ?thesis .
qed

lemma scan_string_value:
  "scan_run \<lparr>sc_step = BeginValue, sc_stack = st, sc_buf = b, sc_val = v\<rparr> (CHR 0x22 # json_escape s @ CHR 0x22 # ys) =
     scan_run \<lparr>sc_step = EndValue, sc_stack = st, sc_buf = json_escape s, sc_val = Some (JString (json_escape s))\<rparr> ys"
  using scan_json_escape [of "\<lparr>sc_step = InString, sc_stack = st, sc_buf = [], sc_val = v\<rparr>" s "CHR 0x22 # ys"]
  by (simp add: scan_char_def state_begin_value_def is_space_def)

lemma scan_next_member:
  assumes "\<forall>c \<in> set key. c \<noteq> CHR 0x22 \<and> c \<noteq> CHR 0x5C \<and> \<not> of_char c < (32::nat)"
  shows "scan_run \<lparr>sc_step = EndValue, sc_stack = FObjValue ps k # st, sc_buf = b, sc_val = Some v\<rparr>
            (CHR '','' # CHR 0x22 # key @ CHR 0x22 # CHR '':'' # ys) =
         scan_run \<lparr>sc_step = BeginValue, sc_stack = FObjValue (ps @ [(k, v)]) key # st, sc_buf = key,
                   sc_val = None\<rparr> ys"
  using scan_string_bytes [OF assms, of "\<lparr>sc_step = InString, sc_stack = FObjKey (ps @ [(k, v)]) # st,
                                            sc_buf = [], sc_val = None\<rparr>" "CHR 0x22 # CHR '':'' # ys"]
  by (simp add: scan_char_def state_end_value_def state_begin_string_def is_space_def)

lemma marshal_field_error_eq:
  "marshal_field_error fe =
     CHR 0x7B # CHR 0x22 # ''field'' @ CHR 0x22 # CHR '':'' # CHR 0x22 # json_escape (fe_field fe) @
     CHR 0x22 # CHR '','' # CHR 0x22 # ''message'' @ CHR 0x22 # CHR '':'' # CHR 0x22 # json_escape (fe_message fe) @
     [CHR 0x22, CHR 0x7D]"
  by (simp add: marshal_field_error_def quote_string_def html_safe_def)

lemma scan_field_error:
  assumes "step = BeginValue \<or> step = BeginValueOrEmpty" and "length st < max_nesting_depth"
  shows "scan_run \<lparr>sc_step = step, sc_stack = st, sc_buf = b, sc_val = v\<rparr> (marshal_field_error fe @ ys) =
         scan_run \<lparr>sc_step = (if st = [] then EndTop else EndValue), sc_stack = st,
                   sc_buf = json_escape (fe_message fe),
                   sc_val = Some (field_error_value fe)\<rparr> ys"
proof -
  let ?f = "json_escape (fe_field fe)" and ?m = "json_escape (fe_message fe)"
  have "scan_run \<lparr>sc_step = step, sc_stack = st, sc_buf = b, sc_val = v\<rparr> (marshal_field_error fe @ ys) =
        scan_run \<lparr>sc_step = BeginValue, sc_stack = FObjValue [] ''field'' # st, sc_buf = ''field'', sc_val = None\<rparr>
          (CHR 0x22 # ?f @ CHR 0x22 # CHR '','' # CHR 0x22 # ''message'' @ CHR 0x22 # CHR '':'' # CHR 0x22 # ?m @
           CHR 0x22 # CHR 0x7D # ys)"
    using assms
    by (auto simp: marshal_field_error_eq scan_char_def state_begin_value_def state_begin_string_def
                   push_frame_def state_end_value_def is_space_def)
  also have "\<dots> = scan_run \<lparr>sc_step = BeginValue, sc_stack = FObjValue [(''field'', JString ?f)] ''message'' # st,
                     sc_buf = ''message'', sc_val = None\<rparr> (CHR 0x22 # ?m @ CHR 0x22 # CHR 0x7D # ys)"
    by (simp del: scan_run.simps add: scan_string_value scan_next_member [of "''message''", simplified])
  also have "\<dots> = scan_run \<lparr>sc_step = (if st = [] then EndTop else EndValue), sc_stack = st, sc_buf = ?m,
                     sc_val = Some (JObject [(''field'', JString ?f), (''message'', JString ?m)])\<rparr> ys"
    by (simp only: scan_string_value) (simp add: scan_char_def state_end_value_def pop_frame_def is_space_def)
  finally show ?thesis .
qed

lemma strings_concat_sep_Cons: "strings_concat_sep (x # xs) = x @ concat (map ((#) CHR '','') xs)"
  by (induction xs arbitrary: x) auto

lemma scan_field_error_tail:
  assumes "Suc (length st) < max_nesting_depth"
  shows "scan_run \<lparr>sc_step = EndValue, sc_stack = FArray vs # st, sc_buf = b, sc_val = Some v\<rparr>
            (concat (map ((#) CHR '','' \<circ> marshal_field_error) fes) @ ys) =
         scan_run \<lparr>sc_step = EndValue,
                   sc_stack = FArray (butlast (vs @ v # map field_error_value fes)) # st,
                   sc_buf = (if fes = [] then b else json_escape (fe_message (last fes))),
                   sc_val = Some (last (v # map field_error_value fes))\<rparr> ys"
proof (induction fes arbitrary: vs v b)
  case Nil
  then show ?case by simp
next
  case (Cons fe fes)
  have "scan_run \<lparr>sc_step = EndValue, sc_stack = FArray vs # st, sc_buf = b, sc_val = Some v\<rparr>
            (concat (map ((#) CHR '','' \<circ> marshal_field_error) (fe # fes)) @ ys) =
        scan_run \<lparr>sc_step = BeginValue, sc_stack = FArray (vs @ [v]) # st, sc_buf = b, sc_val = None\<rparr>
            (marshal_field_error fe @ concat (map ((#) CHR '','' \<circ> marshal_field_error) fes) @ ys)"
    by (simp add: scan_char_def state_end_value_def is_space_def)
  also have "\<dots> = scan_run \<lparr>sc_step = EndValue, sc_stack = FArray (vs @ [v]) # st,
                     sc_buf = json_escape (fe_message fe), sc_val = Some (field_error_value fe)\<rparr>
                   (concat (map ((#) CHR '','' \<circ> marshal_field_error) fes) @ ys)"
    using assms by (simp add: scan_field_error)
  also have "\<dots> = scan_run \<lparr>sc_step = EndValue,
                   sc_stack = FArray (butlast ((vs @ [v]) @ field_error_value fe # map field_error_value fes)) # st,
                   sc_buf = (if fes = [] then json_escape (fe_message fe) else json_escape (fe_message (last fes))),
                   sc_val = Some (last (field_error_value fe # map field_error_value fes))\<rparr> ys"
    by (rule Cons.IH)
  also have "\<dots> = scan_run \<lparr>sc_step = EndValue,
                   sc_stack = FArray (butlast (vs @ v # map field_error_value (fe # fes))) # st,
                   sc_buf = (if fe # fes = [] then b else json_escape (fe_message (last (fe # fes)))),
                   sc_val = Some (last (v # map field_error_value (fe # fes)))\<rparr> ys"
    by simp
  finally show ?case .
qed

lemma scan_field_errors:
  assumes "fes \<noteq> []" and "st \<noteq> []" and "Suc (Suc (length st)) < max_nesting_depth"
  shows "scan_run \<lparr>sc_step = BeginValue, sc_stack = st, sc_buf = b, sc_val = v\<rparr>
            (CHR ''['' # strings_concat_sep (map marshal_field_error fes) @ CHR '']'' # ys) =
         scan_run \<lparr>sc_step = EndValue, sc_stack = st, sc_buf = json_escape (fe_message (last fes)),
                   sc_val = Some (JArray (map field_error_value fes))\<rparr> ys"
proof -
  obtain fe fes' where f: "fes = fe # fes'" using assms(1) by (cases fes) auto
  have "scan_run \<lparr>sc_step = BeginValue, sc_stack = st, sc_buf = b, sc_val = v\<rparr>
            (CHR ''['' # strings_concat_sep (map marshal_field_error fes) @ CHR '']'' # ys) =
        scan_run \<lparr>sc_step = BeginValueOrEmpty, sc_stack = FArray [] # st, sc_buf = b, sc_val = v\<rparr>
            (marshal_field_error fe @ concat (map ((#) CHR '','' \<circ> marshal_field_error) fes') @ CHR '']'' # ys)"
    using assms(3) by (simp add: f strings_concat_sep_Cons scan_char_def state_begin_value_def push_frame_def
                                 is_space_def)
  also have "\<dots> = scan_run \<lparr>sc_step = EndValue, sc_stack = FArray [] # st, sc_buf = json_escape (fe_message fe),
                     sc_val = Some (field_error_value fe)\<rparr>
                   (concat (map ((#) CHR '','' \<circ> marshal_field_error) fes') @ CHR '']'' # ys)"
    using assms(3) by (simp add: scan_field_error)
  also have "\<dots> = scan_run \<lparr>sc_step = EndValue, sc_stack = st, sc_buf = json_escape (fe_message (last fes)),
                     sc_val = Some (JArray (map field_error_value fes))\<rparr> ys"
    using assms(2,3) by (simp add: scan_field_error_tail f scan_char_def state_end_value_def pop_frame_def
                                   is_space_def)
  finally show ?thesis .
qed

lemma scan_error_prefix:
  "scan_run scanner_init (''{\"success\":'' @ (if b then ''true'' else ''false'') @ '',\"message\":\"'' @ rest) =
     scan_run \<lparr>sc_step = InString, sc_stack = [FObjValue [(''success'', JBool b)] ''message''], sc_buf = [],
           sc_val = None\<rparr> rest"
  by (cases b) (simp_all add: scanner_init_def scan_char_def state_begin_value_def state_begin_string_def
                  push_frame_def max_nesting_depth_def state_end_value_def is_space_def)

lemma marshal_error_response_eq:
  "marshal_error_response e =
     ''{\"success\":'' @ (if er_success e then ''true'' else ''false'') @ '',\"message\":\"'' @
     json_escape (er_message e) @ CHR 0x22 #
     (if er_errors e = [] then []
      else '',\"errors\":['' @ strings_concat_sep (map marshal_field_error (er_errors e)) @ '']'') @
     (if er_retry_after e = 0 then [] else '',\"retryAfter\":'' @ itoa (er_retry_after e)) @ ''}''"
  by (simp add: marshal_error_response_def quote_string_def map_filter_simps html_safe_def)

lemma scan_next_errors:
  "scan_run \<lparr>sc_step = EndValue, sc_stack = FObjValue ps k # st, sc_buf = b, sc_val = Some v\<rparr>
     ('',\"errors\":'' @ ys) =
   scan_run \<lparr>sc_step = BeginValue, sc_stack = FObjValue (ps @ [(k, v)]) ''errors'' # st, sc_buf = ''errors'',
             sc_val = None\<rparr> ys"
  using scan_next_member [of "''errors''" ps k st b v ys] by simp

lemma scan_next_retry_after:
  "scan_run \<lparr>sc_step = EndValue, sc_stack = FObjValue ps k # st, sc_buf = b, sc_val = Some v\<rparr>
     ('',\"retryAfter\":'' @ ys) =
   scan_run \<lparr>sc_step = BeginValue, sc_stack = FObjValue (ps @ [(k, v)]) ''retryAfter'' # st,
             sc_buf = ''retryAfter'', sc_val = None\<rparr> ys"
  using scan_next_member [of "''retryAfter''" ps k st b v ys] by simp

lemma scan_errors_segment:
  "scan_run \<lparr>sc_step = EndValue, sc_stack = [FObjValue ps k], sc_buf = b, sc_val = Some v\<rparr>
     ((if es = [] then [] else '',\"errors\":['' @ strings_concat_sep (map marshal_field_error es) @ '']'') @ ys) =
   (if es = [] then scan_run \<lparr>sc_step = EndValue, sc_stack = [FObjValue ps k], sc_buf = b, sc_val = Some v\<rparr> ys
    else scan_run \<lparr>sc_step = EndValue, sc_stack = [FObjValue (ps @ [(k, v)]) ''errors''],
                   sc_buf = json_escape (fe_message (last es)), sc_val = Some (JArray (map field_error_value es))\<rparr> ys)"
proof (cases "es = []")
  case False
  have "scan_run \<lparr>sc_step = EndValue, sc_stack = [FObjValue ps k], sc_buf = b, sc_val = Some v\<rparr>
          ((if es = [] then [] else '',\"errors\":['' @ strings_concat_sep (map marshal_field_error es) @ '']'') @ ys) =
        scan_run \<lparr>sc_step = EndValue, sc_stack = [FObjValue ps k], sc_buf = b, sc_val = Some v\<rparr>
          ('',\"errors\":'' @ CHR ''['' # strings_concat_sep (map marshal_field_error es) @ CHR '']'' # ys)"
    using False by simp
  also have "\<dots> = scan_run \<lparr>sc_step = BeginValue, sc_stack = [FObjValue (ps @ [(k, v)]) ''errors''],
                             sc_buf = ''errors'', sc_val = None\<rparr>
                     (CHR ''['' # strings_concat_sep (map marshal_field_error es) @ CHR '']'' # ys)"
    by (rule scan_next_errors)
  also have "\<dots> = scan_run \<lparr>sc_step = EndValue, sc_stack = [FObjValue (ps @ [(k, v)]) ''errors''],
                   sc_buf = json_escape (fe_message (last es)), sc_val = Some (JArray (map field_error_value es))\<rparr> ys"
    by (rule scan_field_errors [OF False]) (simp_all add: max_nesting_depth_def)
  finally show ?thesis using False by simp
qed simp

lemma scan_retry_tail:
  "\<exists>b'. scan_run \<lparr>sc_step = EndValue, sc_stack = [FObjValue ps k], sc_buf = b, sc_val = Some v\<rparr>
          ((if r = 0 then [] else '',\"retryAfter\":'' @ itoa r) @ ''}'') =
        Some \<lparr>sc_step = EndTop, sc_stack = [], sc_buf = b',
              sc_val = Some (JObject (ps @ [(k, v)] @ (if r = 0 then [] else [(''retryAfter'', JNumber (itoa r))])))\<rparr>"
proof (cases "r = 0")
  case True
  then show ?thesis by (simp add: scan_char_def state_end_value_def pop_frame_def is_space_def)
next
  case False
  let ?sc = "\<lparr>sc_step = BeginValue, sc_stack = [FObjValue (ps @ [(k, v)]) ''retryAfter''], sc_buf = ''retryAfter'',
              sc_val = None\<rparr>"
  have "scan_run \<lparr>sc_step = EndValue, sc_stack = [FObjValue ps k], sc_buf = b, sc_val = Some v\<rparr>
          ((if r = 0 then [] else '',\"retryAfter\":'' @ itoa r) @ ''}'') =
        scan_run \<lparr>sc_step = EndValue, sc_stack = [FObjValue ps k], sc_buf = b, sc_val = Some v\<rparr>
          ('',\"retryAfter\":'' @ itoa r @ ''}'')"
    using False by simp
  also have "\<dots> = scan_run ?sc (itoa r @ ''}'')"
    by (rule scan_next_retry_after)
  also have "\<dots> = scan_run (?sc\<lparr>sc_step := One, sc_buf := itoa r\<rparr>) ''}''"
    using scan_itoa [OF False, of ?sc] by simp
  finally show ?thesis using False
    by (simp add: scan_char_def state0_def end_number_def state_end_value_def pop_frame_def is_space_def
                  is_digit_def)
qed

lemma error_response_parse:
  "json_parse (marshal_error_response e) =
     Some (JObject ([(''success'', JBool (er_success e)), (''message'', JString (json_escape (er_message e)))] @
                    (if er_errors e = [] then [] else [(''errors'', JArray (map field_error_value (er_errors e)))]) @
                    (if er_retry_after e = 0 then [] else [(''retryAfter'', JNumber (itoa (er_retry_after e)))])))"
proof -
  let ?m = "json_escape (er_message e)" and ?es = "er_errors e"
  let ?ps = "[(''success'', JBool (er_success e))]"
  let ?sc1 = "\<lparr>sc_step = InString, sc_stack = [FObjValue ?ps ''message''], sc_buf = [], sc_val = None\<rparr>"
  let ?R = "(if er_retry_after e = 0 then [] else '',\"retryAfter\":'' @ itoa (er_retry_after e)) @ ''}''"
  let ?E = "if ?es = [] then [] else '',\"errors\":['' @ strings_concat_sep (map marshal_field_error ?es) @ '']''"
  have "scan_run scanner_init (marshal_error_response e) = scan_run ?sc1 (?m @ CHR 0x22 # ?E @ ?R)"
    unfolding marshal_error_response_eq append_assoc scan_error_prefix by simp
  also have "\<dots> = scan_run \<lparr>sc_step = EndValue, sc_stack = [FObjValue ?ps ''message''], sc_buf = ?m,
                             sc_val = Some (JString ?m)\<rparr> (?E @ ?R)"
    using scan_json_escape [of ?sc1 "er_message e" "CHR 0x22 # ?E @ ?R"] by (simp add: scan_char_def)
  finally have s: "scan_run scanner_init (marshal_error_response e) = \<dots>" .
  show ?thesis
  proof (cases "?es = []")
    case True
    obtain b' where "scan_run \<lparr>sc_step = EndValue, sc_stack = [FObjValue ?ps ''message''], sc_buf = ?m,
                             sc_val = Some (JString ?m)\<rparr> ?R =
        Some \<lparr>sc_step = EndTop, sc_stack = [], sc_buf = b',
              sc_val = Some (JObject (?ps @ [(''message'', JString ?m)] @
                (if er_retry_after e = 0 then [] else [(''retryAfter'', JNumber (itoa (er_retry_after e)))])))\<rparr>"
      using scan_retry_tail by blast
    with s True show ?thesis by (simp add: json_parse_def scan_eof_def)
  next
    case False
    obtain b' where "scan_run \<lparr>sc_step = EndValue, sc_stack = [FObjValue (?ps @ [(''message'', JString ?m)]) ''errors''],
                             sc_buf = json_escape (fe_message (last ?es)),
                             sc_val = Some (JArray (map field_error_value ?es))\<rparr> ?R =
        Some \<lparr>sc_step = EndTop, sc_stack = [], sc_buf = b',
              sc_val = Some (JObject ((?ps @ [(''message'', JString ?m)]) @ [(''errors'', JArray (map field_error_value ?es))] @
                (if er_retry_after e = 0 then [] else [(''retryAfter'', JNumber (itoa (er_retry_after e)))])))\<rparr>"
      using scan_retry_tail by blast
    moreover have "scan_run scanner_init (marshal_error_response e) =
      scan_run \<lparr>sc_step = EndValue, sc_stack = [FObjValue (?ps @ [(''message'', JString ?m)]) ''errors''],
                sc_buf = json_escape (fe_message (last ?es)),
                sc_val = Some (JArray (map field_error_value ?es))\<rparr> ?R"
      using s unfolding scan_errors_segment using False by simp
    ultimately show ?thesis using False by (simp add: json_parse_def scan_eof_def)
  qed
qed

lemma unquote_bytes_json_escape:
  "utf8_valid s \<Longrightarrow> unquote_bytes (json_escape s) = Some s"
  using unquote_bytes_eq_unquote unquote_json_escape by simp

lemma dec_field_errors:
  assumes "\<forall>fe \<in> set es. utf8_valid (fe_field fe) \<and> utf8_valid (fe_message fe)"
  shows "dec_elems (dec_struct field_error_fields) zero_field_error (map field_error_value es) old saved =
           Done es saved"
  using assms
proof (induction es arbitrary: old saved)
  case (Cons fe es)
  have k: "unquote_bytes ''field'' = Some ''field''" "unquote_bytes ''message'' = Some ''message''"
    by code_simp+
  have f: "field_error_fields (fold_name ''field'') =
             Some (\<lambda>v x. map_dec (\<lambda>s. x\<lparr>fe_field := s\<rparr>) (dec_string v (fe_field x)))"
          "field_error_fields (fold_name ''message'') =
             Some (\<lambda>v x. map_dec (\<lambda>s. x\<lparr>fe_message := s\<rparr>) (dec_string v (fe_message x)))"
    by (simp_all add: field_error_fields_def go_eval)
  from Cons show ?case
    by (simp add: dec_struct_def f [simplified] k dec_string_def unquote_bytes_json_escape first_error_def
                  split: option.split)
qed simp

subsection \<open>The round trip\<close>

text \<open>
  Decoding the JSON that \<^verbatim>\<open>json.Marshal\<close> writes for an
  \<^verbatim>\<open>ErrorResponse\<close> gives back the same struct, for every well-formed UTF-8
  message and field errors and every \<^verbatim>\<open>int\<close> retry hint: the tags of the
  struct agree in both directions, the fields left out by \<^verbatim>\<open>omitempty\<close> decode
  back to their zero values, and the strings survive the HTML escaping.
\<close>

lemma error_response_roundtrip:
  assumes "utf8_valid (er_message e)"
    and "\<forall>fe \<in> set (er_errors e). utf8_valid (fe_field fe) \<and> utf8_valid (fe_message fe)"
    and "in_int64 (er_retry_after e)"
  shows "unmarshal_error_response (marshal_error_response e) = Inr e"
proof -
  obtain b m es r where e: "e = \<lparr>er_success = b, er_message = m, er_errors = es, er_retry_after = r\<rparr>"
    by (cases e) auto
  have u: "unquote_bytes (json_escape m) = Some m"
    using unquote_bytes_json_escape assms(1) e by simp
  have d: "dec_elems (dec_struct field_error_fields) zero_field_error (map field_error_value es) [] None =
             Done es None"
    using dec_field_errors assms(2) e by simp
  have k: "unquote_bytes ''success'' = Some ''success''" "unquote_bytes ''message'' = Some ''message''"
          "unquote_bytes ''errors'' = Some ''errors''" "unquote_bytes ''retryAfter'' = Some ''retryAfter''"
    by code_simp+
  have p: "parse_int (itoa r) = (r, None)"
    using parse_int_itoa assms(3) e by simp
  have f: "error_response_fields (fold_name ''success'') =
             Some (\<lambda>v x. map_dec (\<lambda>b. x\<lparr>er_success := b\<rparr>) (dec_bool v (er_success x)))"
          "error_response_fields (fold_name ''message'') =
             Some (\<lambda>v x. map_dec (\<lambda>s. x\<lparr>er_message := s\<rparr>) (dec_string v (er_message x)))"
          "error_response_fields (fold_name ''errors'') =
             Some (\<lambda>v x. map_dec (\<lambda>es. x\<lparr>er_errors := es\<rparr>)
                     (dec_slice (dec_struct field_error_fields) zero_field_error v (er_errors x)))"
          "error_response_fields (fold_name ''retryAfter'') =
             Some (\<lambda>v x. map_dec (\<lambda>n. x\<lparr>er_retry_after := n\<rparr>) (dec_int v (er_retry_after x)))"
    by (simp_all add: error_response_fields_def go_eval)
  show ?thesis
    unfolding unmarshal_error_response_def json_unmarshal_def error_response_parse
    unfolding e
    by (simp add: dec_struct_def f [simplified] k u p d dec_bool_def dec_string_def dec_int_def dec_slice_def
                  first_error_def zero_error_response_def)
qed

end
