(* ===== verification/Client_Programs.thy ===== *)
theory Client_Programs
  imports Client
begin

text \<open>
  Programs that build clients: a caller of \<^verbatim>\<open>src/client.go\<close> and
  \<^verbatim>\<open>src/unnamed/part_000\<close> calls the three constructors one after another,
  all of them allocating in one heap of \<^verbatim>\<open>http.Client\<close> objects.  A step is one
  construction, applied by \<open>construct\<close> (\<open>None\<close> is the panic of
  \<^verbatim>\<open>WithTimeout\<close> on a nil \<^verbatim>\<open>http.Client\<close>).  The pointers a construction
  hands in, through \<^verbatim>\<open>Config.HTTPClient\<close> or \<^verbatim>\<open>WithHTTPClient\<close>, are nil or
  addresses of existing objects, since Go code can hold no other.  The states a
  program reaches are the inductive set \<open>built\<close> of the heap and the
  constructions made with the clients they returned; its invariant is that every
  client built points to an object of the heap, and to nothing exactly when its
  options ended with \<^verbatim>\<open>WithHTTPClient(nil)\<close>.
\<close>

datatype construction =
    CNewClient string
  | CNewClientWithConfig config
  | CNewClientWithOptions string "client_option list"

definition construct :: "construction \<Rightarrow> hc_heap \<Rightarrow> (client \<times> hc_heap) option" where
  "construct k h =
     (case k of
        CNewClient key \<Rightarrow> Some (new_client key h)
      | CNewClientWithConfig cfg \<Rightarrow> Some (new_client_with_config cfg h)
      | CNewClientWithOptions key opts \<Rightarrow> new_client_with_options key opts h)"

definition option_ref :: "client_option \<Rightarrow> hc_ref option" where
  "option_ref opt = (case opt of WithHTTPClient (Some r) \<Rightarrow> Some r | _ \<Rightarrow> None)"

definition handed_refs :: "construction \<Rightarrow> hc_ref list" where
  "handed_refs k =
     (case k of
        CNewClient _ \<Rightarrow> []
      | CNewClientWithConfig cfg \<Rightarrow> (case cfg_http_client cfg of None \<Rightarrow> [] | Some r \<Rightarrow> [r])
      | CNewClientWithOptions _ opts \<Rightarrow> List.map_filter option_ref opts)"

inductive built :: "hc_heap \<Rightarrow> (construction \<times> client) list \<Rightarrow> bool" where
  built_empty: "built [] []"
| built_step: "\<lbrakk>built h cs; list_all (\<lambda>r. r < length h) (handed_refs k); construct k h = Some (c, h')\<rbrakk>
               \<Longrightarrow> built h' ((k, c) # cs)"

text \<open>The pointer the last \<^verbatim>\<open>WithHTTPClient\<close> of a list of options sets, if there is one.\<close>

fun last_http_option :: "client_option list \<Rightarrow> hc_ref option option" where
  "last_http_option [] = None"
| "last_http_option (WithHTTPClient p # opts) =
     (case last_http_option opts of None \<Rightarrow> Some p | q \<Rightarrow> q)"
| "last_http_option (_ # opts) = last_http_option opts"

text \<open>A construction that asks for a client without an \<^verbatim>\<open>http.Client\<close>.\<close>

definition requests_nil :: "construction \<Rightarrow> bool" where
  "requests_nil k =
     (case k of CNewClientWithOptions _ opts \<Rightarrow> last_http_option opts = Some None | _ \<Rightarrow> False)"

definition ref_ok :: "hc_heap \<Rightarrow> client \<Rightarrow> bool" where
  "ref_ok h c \<longleftrightarrow> (case http_client c of None \<Rightarrow> True | Some r \<Rightarrow> r < length h)"

subsection \<open>Lemmas\<close>

lemma apply_options_ref:
  "apply_options opts (c, h) = Some (c', h') \<Longrightarrow>
   http_client c' = http_client c \<or> WithHTTPClient (http_client c') \<in> set opts"
proof (induction opts arbitrary: c h)
  case Nil
  then show ?case by simp
next
  case (Cons opt opts)
  then obtain c1 h1 where step: "apply_option opt (c, h) = Some (c1, h1)"
    and rest: "apply_options opts (c1, h1) = Some (c', h')"
    by (auto split: option.splits)
  from Cons.IH [OF rest] step show ?case
    by (cases opt) (auto split: option.splits if_splits)
qed

lemma apply_options_pointer:
  "apply_options opts (c, h) = Some (c', h') \<Longrightarrow>
   http_client c' = (case last_http_option opts of None \<Rightarrow> http_client c | Some p \<Rightarrow> p)"
proof (induction opts arbitrary: c h)
  case Nil
  then show ?case by simp
next
  case (Cons opt opts)
  then obtain c1 h1 where step: "apply_option opt (c, h) = Some (c1, h1)"
    and rest: "apply_options opts (c1, h1) = Some (c', h')"
    by (auto split: option.splits)
  from Cons.IH [OF rest] step show ?case
    by (cases opt) (auto split: option.splits if_splits)
qed

lemma construct_nil:
  "construct k h = Some (c, h') \<Longrightarrow> http_client c = None \<longleftrightarrow> requests_nil k"
  by (cases k)
     (auto simp: construct_def requests_nil_def client_defs Let_def split: option.splits
           dest!: apply_options_pointer)

lemma handed_option_ref:
  "WithHTTPClient (Some r) \<in> set opts \<Longrightarrow> r \<in> set (List.map_filter option_ref opts)"
  by (induction opts) (auto simp: List.map_filter_def option_ref_def)

lemma ref_ok_mono: "ref_ok h c \<Longrightarrow> length h \<le> length h' \<Longrightarrow> ref_ok h' c"
  by (auto simp: ref_ok_def split: option.splits)

lemma construct_ref_ok:
  assumes "list_all (\<lambda>r. r < length h) (handed_refs k)" and "construct k h = Some (c, h')"
  shows "length h \<le> length h' \<and> ref_ok h' c"
proof (cases k)
  case (CNewClient key)
  with assms show ?thesis by (auto simp: construct_def client_defs ref_ok_def)
next
  case (CNewClientWithConfig cfg)
  with assms show ?thesis
    by (cases "cfg_http_client cfg") (auto simp: construct_def client_defs ref_ok_def handed_refs_def Let_def)
next
  case (CNewClientWithOptions key opts)
  let ?c0 = "\<lparr>api_key = key, base_url = default_base_url, http_client = Some (length h)\<rparr>"
  have a: "apply_options opts (?c0, h @ [\<lparr>hc_timeout = default_timeout\<rparr>]) = Some (c, h')"
    using assms(2) CNewClientWithOptions by (simp add: construct_def new_client_with_options_def alloc_def)
  have len: "length h' = Suc (length h)" using apply_options_frame [OF a] by simp
  have hand: "\<forall>r \<in> set (List.map_filter option_ref opts). r < length h"
    using assms(1) CNewClientWithOptions by (simp add: handed_refs_def list_all_iff)
  from apply_options_ref [OF a] have "ref_ok h' c"
  proof
    assume "http_client c = http_client ?c0" with len show ?thesis by (simp add: ref_ok_def)
  next
    assume w: "WithHTTPClient (http_client c) \<in> set opts"
    show ?thesis
    proof (cases "http_client c")
      case None then show ?thesis by (simp add: ref_ok_def)
    next
      case (Some a)
      with w have "a \<in> set (List.map_filter option_ref opts)" using handed_option_ref by simp
      then have "a < length h" using hand by blast
      with len Some show ?thesis by (simp add: ref_ok_def)
    qed
  qed
  with len show ?thesis by simp
qed

lemma built_ref_ok:
  "built h cs \<Longrightarrow> \<forall>(k, c) \<in> set cs. ref_ok h c \<and> (http_client c = None \<longleftrightarrow> requests_nil k)"
proof (induction rule: built.induct)
  case built_empty
  then show ?case by simp
next
  case (built_step h cs k c h')
  from construct_ref_ok [OF built_step.hyps(2,3)] construct_nil [OF built_step.hyps(3)] built_step.IH
  show ?case by (auto intro: ref_ok_mono)
qed

text \<open>
  C12: in every state a program building clients reaches, a client has no
  \<^verbatim>\<open>http.Client\<close> to send through exactly when it was built by
  \<^verbatim>\<open>NewClientWithOptions\<close> with options whose last \<^verbatim>\<open>WithHTTPClient\<close> is
  nil: \<^verbatim>\<open>NewClient\<close> and \<^verbatim>\<open>NewClientWithConfig\<close> always give a client that
  can send.  Every other client's pointer names an object of the heap.
\<close>

theorem built_clients_transport:
  assumes "built h cs" and "(k, c) \<in> set cs"
  shows "(client_transport c h = None \<longleftrightarrow> requests_nil k) \<and>
         (\<forall>r. http_client c = Some r \<longrightarrow> client_transport c h = Some (h ! r))"
  using built_ref_ok [OF assms(1)] assms(2)
  by (auto simp: ref_ok_def client_transport_def split: option.splits)

theorem built_clients_transport_witness:
  "built [\<lparr>hc_timeout = default_timeout\<rparr>, \<lparr>hc_timeout = default_timeout\<rparr>, \<lparr>hc_timeout = default_timeout\<rparr>]
     [(CNewClientWithOptions ''c'' [WithHTTPClient None],
       \<lparr>api_key = ''c'', base_url = default_base_url, http_client = None\<rparr>),
      (CNewClientWithOptions ''b'' [WithHTTPClient (Some 0)],
       \<lparr>api_key = ''b'', base_url = default_base_url, http_client = Some 0\<rparr>),
      (CNewClient ''a'', \<lparr>api_key = ''a'', base_url = default_base_url, http_client = Some 0\<rparr>)] \<and>
   client_transport \<lparr>api_key = ''c'', base_url = default_base_url, http_client = None\<rparr>
     [\<lparr>hc_timeout = default_timeout\<rparr>, \<lparr>hc_timeout = default_timeout\<rparr>, \<lparr>hc_timeout = default_timeout\<rparr>] = None \<and>
   client_transport \<lparr>api_key = ''b'', base_url = default_base_url, http_client = Some 0\<rparr>
     [\<lparr>hc_timeout = default_timeout\<rparr>, \<lparr>hc_timeout = default_timeout\<rparr>, \<lparr>hc_timeout = default_timeout\<rparr>] =
     Some \<lparr>hc_timeout = default_timeout\<rparr>"
proof -
  let ?o = "\<lparr>hc_timeout = default_timeout\<rparr>"
  let ?ka = "CNewClient ''a''"
  let ?kb = "CNewClientWithOptions ''b'' [WithHTTPClient (Some 0)]"
  let ?kc = "CNewClientWithOptions ''c'' [WithHTTPClient None]"
  let ?a = "\<lparr>api_key = ''a'', base_url = default_base_url, http_client = Some 0\<rparr>"
  let ?b = "\<lparr>api_key = ''b'', base_url = default_base_url, http_client = Some 0\<rparr>"
  let ?c = "\<lparr>api_key = ''c'', base_url = default_base_url, http_client = None\<rparr>"
  have s1: "built [?o] [(?ka, ?a)]"
    using built_step [OF built_empty, of ?ka]
    by (simp add: construct_def handed_refs_def client_defs)
  have s2: "built [?o, ?o] [(?kb, ?b), (?ka, ?a)]"
    using built_step [OF s1, of ?kb]
    by (simp add: construct_def handed_refs_def List.map_filter_def option_ref_def client_defs)
  have s3: "built [?o, ?o, ?o] [(?kc, ?c), (?kb, ?b), (?ka, ?a)]"
    using built_step [OF s2, of ?kc]
    by (simp add: construct_def handed_refs_def List.map_filter_def option_ref_def client_defs)
  show ?thesis
    using built_clients_transport [OF s3, of ?kc ?c] built_clients_transport [OF s3, of ?kb ?b] s3
    by (simp add: requests_nil_def)
qed

end
