(* ===== verification/Timing.thy ===== *)
theory Timing
  imports Retry_Main
begin

text \<open>
  Time in the pipeline and the retry example.  A \<open>network\<close> says, for a
  dispatched request, when it fails or when the response headers come and how
  long the body takes to read, in nanoseconds from the dispatch.
  \<open>timed_transport\<close> is the transport \<^verbatim>\<open>http.Client.Do\<close> makes of it under
  the deadline of the call: the client's \<^verbatim>\<open>Timeout\<close> (\<^verbatim>\<open>Client.deadline\<close>,
  \<^verbatim>\<open>setRequestCancel\<close>, \<^verbatim>\<open>cancelTimerBody\<close> in the Go runtime) or the
  context's deadline.  A call waits for what it dispatched, cut at that deadline
  (\<open>call_elapsed\<close>, summed over a trace by \<open>trace_time\<close>); the retry loop adds
  its \<^verbatim>\<open>time.Sleep\<close> calls (\<open>retry_time\<close>), a sleep of at most zero
  returning at once.  \<open>retry_main_time\<close> is the time \<^verbatim>\<open>main\<close> of
  \<^verbatim>\<open>src/unnamed/part_002\<close> runs when attempt \<open>a\<close> meets the network
  \<open>nets a\<close>.  Local steps take no time.
\<close>

subsection \<open>The deadline of \<^verbatim>\<open>http.Client.Do\<close>\<close>

text \<open>
  What the network does with a dispatched request, on a clock in nanoseconds
  started at the dispatch: it fails with an error at some time, or the response
  headers arrive at some time and reading the body to its end (or to the error
  that cuts it) takes a further time.  \<open>net_transport\<close> is the same network
  with the clock forgotten.
\<close>

datatype net_outcome =
    NetFail transport_error nat
  | NetResponse int header nat "transport_error + string" nat

type_synonym network = "http_request \<Rightarrow> net_outcome"

definition net_transport :: "network \<Rightarrow> transport" where
  "net_transport net hc r =
     (case net r of
        NetFail e t \<Rightarrow> Inl e
      | NetResponse st h th body tb \<Rightarrow> Inr \<lparr>hresp_status = st, hresp_header = h, hresp_body = body\<rparr>)"

text \<open>
  \<^verbatim>\<open>Client.deadline\<close> and \<^verbatim>\<open>setRequestCancel\<close>: a positive
  \<^verbatim>\<open>Timeout\<close> sets a deadline that long after the call, and the client arms its
  own timer for it only when the context has no deadline at or before it
  (\<^verbatim>\<open>timeBeforeContextDeadline\<close>); otherwise the context's deadline, given as
  the time it leaves (\<open>ctx_dl\<close>), governs the call.  The flag says whether the
  client's timer governs.  A \<^verbatim>\<open>Timeout\<close> of zero or less sets no deadline.
\<close>

definition request_deadline :: "http_client \<Rightarrow> nat option \<Rightarrow> (nat \<times> bool) option" where
  "request_deadline hc ctx_dl =
     (if 0 < hc_timeout hc then
        (case ctx_dl of
           None \<Rightarrow> Some (nat (hc_timeout hc), True)
         | Some d \<Rightarrow> if nat (hc_timeout hc) < d then Some (nat (hc_timeout hc), True) else Some (d, False))
      else map_option (\<lambda>d. (d, False)) ctx_dl)"

text \<open>
  The error a call ends with when its deadline passes: the client's timeout
  error (\<^verbatim>\<open>Client.Timeout exceeded while awaiting headers\<close>, or, through
  \<^verbatim>\<open>cancelTimerBody\<close>, \<^verbatim>\<open>... while reading body\<close>) when the client's timer
  governs, else the context's \<^verbatim>\<open>context.DeadlineExceeded\<close>.
\<close>

definition deadline_error :: "bool \<Rightarrow> transport_error" where
  "deadline_error by_client = (if by_client then TEClientTimeout else TEDeadlineExceeded)"

text \<open>
  \<^verbatim>\<open>http.Client.Do\<close> over a network under its deadline: a failure or
  response headers that do not come before the deadline give the deadline's
  error; a body whose read does not end before it is cut with that error, the
  timer running on after \<^verbatim>\<open>Do\<close> returns.  When the deadline and an event of
  the network fall on the same nanosecond, the timer wins.
\<close>

definition timed_transport :: "network \<Rightarrow> nat option \<Rightarrow> transport" where
  "timed_transport net ctx_dl hc r =
     (case request_deadline hc ctx_dl of
        None \<Rightarrow> net_transport net hc r
      | Some (d, by_client) \<Rightarrow>
          (case net r of
             NetFail e t \<Rightarrow> Inl (if d \<le> t then deadline_error by_client else e)
           | NetResponse st h th body tb \<Rightarrow>
               if d \<le> th then Inl (deadline_error by_client)
               else Inr \<lparr>hresp_status = st, hresp_header = h,
                         hresp_body = (if d \<le> th + tb then Inl (deadline_error by_client) else body)\<rparr>))"

text \<open>
  The time a dispatched call spends on the network: until the failure, or
  until the end of the body read (every path of the pipeline reads the body of
  a response), cut at the deadline; and the time of a trace of the pipeline,
  its local steps taking no time.
\<close>

definition net_time :: "net_outcome \<Rightarrow> nat" where
  "net_time x = (case x of NetFail e t \<Rightarrow> t | NetResponse st h th body tb \<Rightarrow> th + tb)"

definition call_elapsed :: "network \<Rightarrow> nat option \<Rightarrow> http_client \<Rightarrow> http_request \<Rightarrow> nat" where
  "call_elapsed net ctx_dl hc r =
     (case request_deadline hc ctx_dl of
        None \<Rightarrow> net_time (net r)
      | Some (d, by_client) \<Rightarrow> min d (net_time (net r)))"

definition trace_time :: "network \<Rightarrow> nat option \<Rightarrow> http_client \<Rightarrow> event list \<Rightarrow> nat" where
  "trace_time net ctx_dl hc evs =
     sum_list (map (\<lambda>ev. case ev of EvDispatch r \<Rightarrow> call_elapsed net ctx_dl hc r | _ \<Rightarrow> 0) evs)"

subsection \<open>Durations of the retry loop\<close>

definition sleep_time :: "64 word \<Rightarrow> nat" where
  "sleep_time d = nat (sint d)"

definition retry_time :: "(int \<Rightarrow> nat) \<Rightarrow> retry_event list \<Rightarrow> nat" where
  "retry_time call_time evs =
     sum_list (map (\<lambda>ev. case ev of RCall a \<Rightarrow> call_time a | RSleep d \<Rightarrow> sleep_time d | _ \<Rightarrow> 0) evs)"

definition retry_main_time :: "string \<Rightarrow> (int \<Rightarrow> network) \<Rightarrow> nat" where
  "retry_main_time key nets =
     retry_time (\<lambda>a. trace_time (nets a) None example_http_client
                       (snd (send_email (timed_transport (nets a) None) example_http_client
                               (fst (new_client key [])) (Some CtxActive) (Some example_request))))
       (snd (retry_main key (\<lambda>a. timed_transport (nets a) None)))"

subsection \<open>Lemmas\<close>

lemma request_deadline_no_ctx:
  "request_deadline hc None = (if 0 < hc_timeout hc then Some (nat (hc_timeout hc), True) else None)"
  by (simp add: request_deadline_def)

lemma call_elapsed_deadline:
  "request_deadline hc ctx_dl = Some (d, by_client) \<Longrightarrow> call_elapsed net ctx_dl hc r \<le> d"
  by (simp add: call_elapsed_def)

lemma timed_transport_late:
  assumes "request_deadline hc ctx_dl = Some (d, by_client)" and "d \<le> net_time (net r)"
  shows "timed_transport net ctx_dl hc r = Inl (deadline_error by_client) \<or>
         (\<exists>resp. timed_transport net ctx_dl hc r = Inr resp \<and> hresp_body resp = Inl (deadline_error by_client))"
  using assms by (auto simp: timed_transport_def net_time_def split: net_outcome.splits)

lemma timed_transport_early:
  assumes "case request_deadline hc ctx_dl of None \<Rightarrow> True | Some (d, by_client) \<Rightarrow> net_time (net r) < d"
  shows "timed_transport net ctx_dl hc r = net_transport net hc r \<and> call_elapsed net ctx_dl hc r = net_time (net r)"
  using assms
  by (auto simp: timed_transport_def net_transport_def call_elapsed_def net_time_def
           split: option.splits net_outcome.splits)

lemma timed_transport_status:
  "timed_transport net ctx_dl hc r = Inr resp \<Longrightarrow> \<exists>h th body tb. net r = NetResponse (hresp_status resp) h th body tb"
  by (auto simp: timed_transport_def net_transport_def split: option.splits net_outcome.splits if_splits)

lemma trace_time_simps [simp]:
  "trace_time net ctx_dl hc [] = 0"
  "trace_time net ctx_dl hc (EvDispatch r # evs) = call_elapsed net ctx_dl hc r + trace_time net ctx_dl hc evs"
  "trace_time net ctx_dl hc (EvReadBody # evs) = trace_time net ctx_dl hc evs"
  "trace_time net ctx_dl hc (EvCloseBody # evs) = trace_time net ctx_dl hc evs"
  by (simp_all add: trace_time_def)

lemma trace_time_no_dispatch:
  "(\<forall>r. EvDispatch r \<notin> set evs) \<Longrightarrow> trace_time net ctx_dl hc evs = 0"
proof (induction evs)
  case (Cons ev evs)
  then show ?case by (cases ev) auto
qed simp

text \<open>A call dispatches at most one request, first, and nothing after it.\<close>

lemma send_trace_shape:
  "snd (send_email_with_idempotency tr hc c ctx req k) = [] \<or>
   (\<exists>r rest. snd (send_email_with_idempotency tr hc c ctx req k) = EvDispatch r # rest \<and>
             (\<forall>r'. EvDispatch r' \<notin> set rest))"
proof -
  obtain res evs where s: "send_email_with_idempotency tr hc c ctx req k = (res, evs)" by fastforce
  from send_cases [OF s] show ?thesis
  proof
    assume "evs = [] \<and> isl res" with s show ?thesis by simp
  next
    assume "\<exists>json r. validate_send_email_request req = None \<and> marshal_request_ptr req = Inr json \<and>
                   new_request c ctx ''POST'' ''/mails/send'' json k = Inr r \<and> round_trip_check r = None \<and>
                   dispatched_outcome tr hc r res evs"
    then obtain r where o: "dispatched_outcome tr hc r res evs" by blast
    show ?thesis
    proof (cases "tr hc r")
      case (Inl e) with o s show ?thesis by (simp add: dispatched_outcome_def)
    next
      case (Inr resp)
      with o have rd: "read_send_response resp = (res, tl evs)" and "hd evs = EvDispatch r" and "evs \<noteq> []"
        by (simp_all add: dispatched_outcome_def)
      moreover have "\<forall>r'. EvDispatch r' \<notin> set (tl evs)" using read_send_response_trace [OF rd] by blast
      ultimately show ?thesis using s by (cases evs) auto
    qed
  qed
qed

lemma send_dispatch_time:
  "EvDispatch r \<in> set (snd (send_email_with_idempotency tr hc c ctx req k)) \<Longrightarrow>
   trace_time net dl hc (snd (send_email_with_idempotency tr hc c ctx req k)) = call_elapsed net dl hc r"
  using send_trace_shape [of tr hc c ctx req k] trace_time_no_dispatch by fastforce

lemma send_time_within_deadline:
  assumes "request_deadline hc dl = Some (d, by_client)"
  shows "trace_time net dl hc (snd (send_email_with_idempotency tr hc c ctx req k)) \<le> d"
proof (cases "\<exists>r. EvDispatch r \<in> set (snd (send_email_with_idempotency tr hc c ctx req k))")
  case True
  then obtain r where "EvDispatch r \<in> set (snd (send_email_with_idempotency tr hc c ctx req k))" by blast
  with call_elapsed_deadline [OF assms] show ?thesis by (simp add: send_dispatch_time)
qed (simp add: trace_time_no_dispatch)

lemma retry_time_simps [simp]:
  "retry_time f [] = 0"
  "retry_time f (RCall a # evs) = f a + retry_time f evs"
  "retry_time f (RSleep d # evs) = sleep_time d + retry_time f evs"
  "retry_time f (RPrint s # evs) = retry_time f evs"
  "retry_time f (RPrintErr s err s' # evs) = retry_time f evs"
  "retry_time f (evs @ evs') = retry_time f evs + retry_time f evs'"
  by (simp_all add: retry_time_def)

lemma api_error_status_from_transport:
  assumes "fst (send_email_with_idempotency tr hc c ctx req k) = Inl (EAPI e)"
  shows "\<exists>r resp. tr hc r = Inr resp \<and> status_code e = hresp_status resp"
  using assms
  by (auto simp: send_email_with_idempotency_def do_request_def http_do_def read_send_response_def
                 handle_error_response_def api_error_of_def
           split: option.splits sum.splits prod.splits if_splits) blast+

text \<open>
  Without rate-limit errors, each attempt of the loop costs at most its call
  and its backoff sleep.
\<close>

lemma retry_loop_time:
  assumes "\<forall>b e. call b = Inl (EAPI e) \<longrightarrow> \<not> is_rate_limit_error e"
  shows "retry_time f (snd (retry_loop call m a l)) \<le> sum_list (map (\<lambda>b. f b + sleep_time (backoff b)) [a..m - 1])"
  using assms
proof (induction call m a l rule: retry_loop.induct)
  case (1 call m a l)
  show ?case
  proof (cases "a < m")
    case False then show ?thesis by (simp add: retry_loop.simps)
  next
    case True
    have up: "[a..m - 1] = a # [a + 1..m - 1]" using True by (simp add: upto_rec1)
    show ?thesis
    proof (cases "call a")
      case (Inr resp) with True up show ?thesis by (simp add: retry_loop.simps)
    next
      case (Inl err)
      note ih = "1.IH" [OF True Inl]
      show ?thesis
      proof (cases err)
        case (EAPI e)
        have "\<not> is_rate_limit_error e" using "1.prems" Inl EAPI by blast
        with True Inl EAPI ih "1.prems" up show ?thesis
          by (auto simp: retry_loop.simps [of call m a] split: prod.splits)
      qed (use True Inl ih "1.prems" up in \<open>auto simp: retry_loop.simps [of call m a] split: prod.splits\<close>)
    qed
  qed
qed

lemma example_deadline: "request_deadline example_http_client None = Some (30000000000, True)"
  by (simp add: request_deadline_def example_http_client_def default_timeout_def)

lemma example_timed_dispatch:
  "send_email_with_idempotency (timed_transport net dl) example_http_client example_client (Some CtxActive)
     (Some example_request) [] =
   (case timed_transport net dl example_http_client (example_outbound []) of
      Inl e \<Rightarrow> (Inl (ETransport e), [EvDispatch (example_outbound [])])
    | Inr resp \<Rightarrow> (fst (read_send_response resp), EvDispatch (example_outbound []) # snd (read_send_response resp)))"
  using send_dispatched [OF example_request_valid example_request_marshals example_request_Inr
                            example_round_trip [of "[]"], where tr = "timed_transport net dl" and hc = example_http_client]
  by simp

lemma do_request_pointwise:
  assumes "\<And>r. tr hc r = tr' hc r"
  shows "do_request tr hc c ctx m p b k = do_request tr' hc c ctx m p b k"
  unfolding do_request_def http_do_def using assms by (simp split: option.splits sum.splits)

lemma send_transport_pointwise:
  assumes "\<And>r. tr hc r = tr' hc r"
  shows "send_email_with_idempotency tr hc c ctx req k = send_email_with_idempotency tr' hc c ctx req k"
  unfolding send_email_with_idempotency_def do_request_pointwise [of tr hc tr', OF assms] ..

lemma send_late_deadline_error:
  assumes "EvDispatch r \<in> set (snd (send_email_with_idempotency (timed_transport net dl) hc c ctx req k))"
    and "request_deadline hc dl = Some (d, by_client)" and "d \<le> net_time (net r)"
  shows "fst (send_email_with_idempotency (timed_transport net dl) hc c ctx req k) \<in>
           {Inl (ETransport (deadline_error by_client)), Inl (EReadBody (deadline_error by_client)),
            Inl (EReadErrorResponse (deadline_error by_client))}"
proof -
  obtain json where j: "validate_send_email_request req = None" "marshal_request_ptr req = Inr json"
      "new_request c ctx ''POST'' ''/mails/send'' json k = Inr r" "round_trip_check r = None"
    using send_dispatch_request [OF assms(1)] by blast
  note s = send_dispatched [OF j, where tr = "timed_transport net dl" and hc = hc]
  from timed_transport_late [of hc dl d by_client net r, OF assms(2,3)] show ?thesis
  proof
    assume "timed_transport net dl hc r = Inl (deadline_error by_client)"
    with s show ?thesis by simp
  next
    assume "\<exists>resp. timed_transport net dl hc r = Inr resp \<and> hresp_body resp = Inl (deadline_error by_client)"
    then obtain resp where "timed_transport net dl hc r = Inr resp" "hresp_body resp = Inl (deadline_error by_client)"
      by blast
    with s show ?thesis by (simp add: read_send_response_def handle_error_response_def split: prod.splits)
  qed
qed

text \<open>
  When the network answers every request and finishes every body before
  the deadline of the call, \<^verbatim>\<open>http.Client.Do\<close>'s deadline is invisible: the
  call returns what it returns over the network without a clock, its trace
  included, and takes the network's time for the request it dispatched.
\<close>

lemma prompt_network_unaffected_by_deadline:
  assumes "\<forall>r. case request_deadline hc dl of None \<Rightarrow> True | Some (d, by_client) \<Rightarrow> net_time (net r) < d"
  shows "send_email_with_idempotency (timed_transport net dl) hc c ctx req k =
           send_email_with_idempotency (net_transport net) hc c ctx req k \<and>
         (\<forall>r. EvDispatch r \<in> set (snd (send_email_with_idempotency (net_transport net) hc c ctx req k)) \<longrightarrow>
              trace_time net dl hc (snd (send_email_with_idempotency (net_transport net) hc c ctx req k)) =
                net_time (net r))"
proof -
  have e: "timed_transport net dl hc r = net_transport net hc r \<and> call_elapsed net dl hc r = net_time (net r)" for r
    using timed_transport_early [where hc = hc and ctx_dl = dl and net = net and r = r] assms by blast
  then have "send_email_with_idempotency (timed_transport net dl) hc c ctx req k =
               send_email_with_idempotency (net_transport net) hc c ctx req k"
    by (intro send_transport_pointwise) blast
  with e show ?thesis by (simp add: send_dispatch_time)
qed

text \<open>
  C13: when the network has not finished with the dispatched request by the
  deadline of the call (the client's \<^verbatim>\<open>Timeout\<close> or the context's deadline,
  whichever \<^verbatim>\<open>http.Client.Do\<close> arms), the call ends at the deadline with the
  deadline's error, raised while awaiting the headers or while reading the
  body; it neither waits longer nor returns a late result (spec section 4.3).
\<close>

theorem deadline_ends_call:
  assumes "EvDispatch r \<in> set (snd (send_email_with_idempotency (timed_transport net dl) hc c ctx req k))"
    and "request_deadline hc dl = Some (d, by_client)" and "d \<le> net_time (net r)"
  shows "trace_time net dl hc (snd (send_email_with_idempotency (timed_transport net dl) hc c ctx req k)) = d \<and>
         fst (send_email_with_idempotency (timed_transport net dl) hc c ctx req k) \<in>
           {Inl (ETransport (deadline_error by_client)), Inl (EReadBody (deadline_error by_client)),
            Inl (EReadErrorResponse (deadline_error by_client))}"
proof -
  have "trace_time net dl hc (snd (send_email_with_idempotency (timed_transport net dl) hc c ctx req k)) =
        call_elapsed net dl hc r"
    using send_dispatch_time [OF assms(1)] .
  then show ?thesis
    using send_late_deadline_error [OF assms] assms(2,3) by (simp add: call_elapsed_def)
qed

text \<open>
  C14: every call of a client built by \<^verbatim>\<open>NewClientWithConfig\<close> without an
  \<^verbatim>\<open>http.Client\<close> and with a timeout of zero or more waits at most that
  timeout (30 seconds for a zero timeout), whatever the network does.
\<close>

theorem config_client_waits_at_most_timeout:
  assumes "new_client_with_config cfg h = (c, h')" and "cfg_http_client cfg = None" and "0 \<le> cfg_timeout cfg"
  shows "\<exists>hc. client_transport c h' = Some hc \<and> 0 < hc_timeout hc \<and>
           (\<forall>net ctx req k. trace_time net None hc
              (snd (send_email_with_idempotency (timed_transport net None) hc c ctx req k))
                \<le> nat (if cfg_timeout cfg = 0 then default_timeout else cfg_timeout cfg))"
proof -
  let ?t = "if cfg_timeout cfg = 0 then default_timeout else cfg_timeout cfg"
  have ct: "client_transport c h' = Some \<lparr>hc_timeout = ?t\<rparr>"
    using config_defaults [OF assms(1)] assms(2) by simp
  have pos: "0 < ?t" using assms(3) by (simp add: default_timeout_def)
  then have "request_deadline \<lparr>hc_timeout = ?t\<rparr> None = Some (nat ?t, True)"
    by (simp add: request_deadline_no_ctx)
  with ct pos show ?thesis using send_time_within_deadline by fastforce
qed

text \<open>
  C15: a negative \<^verbatim>\<open>Config.Timeout\<close> is not replaced by the default, since
  \<^verbatim>\<open>NewClientWithConfig\<close> only replaces zero, and \<^verbatim>\<open>http.Client\<close> takes a
  timeout of zero or less as none: such a client has no deadline, so a call
  waits as long as the network takes, longer than any bound, although spec
  section 4.2 gives every client the fixed default timeout unless one is
  configured.
\<close>

theorem negative_config_timeout_never_expires:
  assumes "new_client_with_config cfg h = (c, h')" and "cfg_http_client cfg = None" and "cfg_timeout cfg < 0"
    and "cfg_base_url cfg = []" and "valid_header_field_value (cfg_api_key cfg)"
  shows "\<exists>hc. client_transport c h' = Some hc \<and> (\<forall>net. timed_transport net None hc = net_transport net hc) \<and>
           (\<forall>n. \<exists>net. n < trace_time net None hc
                         (snd (send_email (timed_transport net None) hc c (Some CtxActive) (Some example_request))) \<and>
                       fst (send_email (timed_transport net None) hc c (Some CtxActive) (Some example_request)) =
                         Inr example_response_200_value)"
proof -
  let ?hc = "\<lparr>hc_timeout = cfg_timeout cfg\<rparr>"
  have c: "api_key c = cfg_api_key cfg" "base_url c = default_base_url" "client_transport c h' = Some ?hc"
    using config_defaults [OF assms(1)] assms(2,3,4) by auto
  have nd: "request_deadline ?hc None = None" using assms(3) by (simp add: request_deadline_no_ctx)
  then have tt: "timed_transport net None ?hc = net_transport net ?hc" for net
    by (intro ext) (simp add: timed_transport_def)
  let ?r = "\<lparr>hr_method = ''POST'',
            hr_url = zero_url\<lparr>url_scheme := ''https'', url_host := ''api.autosend.com'', url_path := ''/v1/mails/send''\<rparr>,
            hr_header = request_headers (api_key c) [], hr_body = projr (marshal_request_ptr (Some example_request)),
            hr_host = ''api.autosend.com'', hr_ctx = CtxActive\<rparr>"
  have rq: "new_request c (Some CtxActive) ''POST'' ''/mails/send'' (projr (marshal_request_ptr (Some example_request))) [] =
            Inr ?r"
    using default_url_request [OF c(2)] .
  have rt: "round_trip_check ?r = None"
    using default_url_round_trip [of "api_key c" "[]"] assms(5) c(1) by simp
  have run: "\<exists>net. n < trace_time net None ?hc
                        (snd (send_email (timed_transport net None) ?hc c (Some CtxActive) (Some example_request))) \<and>
                      fst (send_email (timed_transport net None) ?hc c (Some CtxActive) (Some example_request)) =
                        Inr example_response_200_value" for n
  proof -
    let ?net = "\<lambda>r::http_request. NetResponse 200 Map.empty (Suc n) (hresp_body response_200) 0"
    have tr: "timed_transport ?net None ?hc ?r = Inr response_200"
      by (simp add: tt net_transport_def response_200_def)
    have s: "send_email (timed_transport ?net None) ?hc c (Some CtxActive) (Some example_request) =
               (fst (read_send_response response_200), EvDispatch ?r # snd (read_send_response response_200))"
      using send_response [OF example_request_valid example_request_marshals rq rt, where tr = "timed_transport ?net None"
                             and hc = ?hc] tr
      by (simp add: send_email_def)
    have rd: "fst (read_send_response response_200) = Inr example_response_200_value"
      "\<forall>r. EvDispatch r \<notin> set (snd (read_send_response response_200))"
      by (simp_all add: read_send_response_def response_200_def example_unmarshal_200)
    have "call_elapsed ?net None ?hc ?r = Suc n" by (simp add: call_elapsed_def nd net_time_def)
    then show ?thesis using s rd trace_time_no_dispatch [OF rd(2)] by (intro exI [of _ ?net]) simp
  qed
  show ?thesis using c(3) tt run by blast
qed

lemma retry_main_trace:
  "key \<noteq> [] \<Longrightarrow>
   snd (retry_main key trs) =
     snd (retry_loop (\<lambda>a. fst (send_email (trs a) example_http_client (fst (new_client key [])) (Some CtxActive)
                                 (Some example_request))) 3 0 None)"
  by (simp add: retry_main_key_set send_email_with_retry_def split: prod.splits retry_result.splits)

lemma backoff_sleeps: "sleep_time (backoff 0) = 1000000000" "sleep_time (backoff 1) = 2000000000"
  "sleep_time (backoff 2) = 4000000000"
  by (simp_all add: sleep_time_def backoff_def second_def)

text \<open>
  C16: with an API key set and a server that never answers 429, the retry
  example's \<^verbatim>\<open>main\<close> ends within 97 seconds, whatever the network does: three
  calls of at most the 30 seconds of the \<^verbatim>\<open>NewClient\<close> timeout each, and the
  backoff sleeps of 1, 2 and 4 seconds.
\<close>

theorem retry_main_within_97_seconds:
  assumes "key \<noteq> []"
    and "\<forall>a r. case nets a r of NetFail e t \<Rightarrow> True | NetResponse st h th body tb \<Rightarrow> st \<noteq> 429"
  shows "retry_main_time key nets \<le> 97000000000"
proof -
  let ?c = "fst (new_client key [])"
  let ?f = "\<lambda>a. trace_time (nets a) None example_http_client
                 (snd (send_email (timed_transport (nets a) None) example_http_client ?c (Some CtxActive)
                         (Some example_request)))"
  let ?call = "\<lambda>a. fst (send_email (timed_transport (nets a) None) example_http_client ?c (Some CtxActive)
                        (Some example_request))"
  have no429: "\<not> is_rate_limit_error e" if "?call b = Inl (EAPI e)" for b e
  proof -
    have "fst (send_email_with_idempotency (timed_transport (nets b) None) example_http_client ?c (Some CtxActive)
                (Some example_request) []) = Inl (EAPI e)"
      using that by (simp add: send_email_def)
    then obtain r resp where t: "timed_transport (nets b) None example_http_client r = Inr resp"
        and st: "status_code e = hresp_status resp"
      using api_error_status_from_transport by blast
    obtain h th body tb where n: "nets b r = NetResponse (hresp_status resp) h th body tb"
      using timed_transport_status [OF t] by blast
    have "case nets b r of NetFail e t \<Rightarrow> True | NetResponse st h th body tb \<Rightarrow> st \<noteq> 429"
      using assms(2) by blast
    then have "hresp_status resp \<noteq> 429" by (simp add: n)
    with st show ?thesis by (simp add: is_rate_limit_error_def)
  qed
  have f: "?f a \<le> 30000000000" for a
    using send_time_within_deadline [OF example_deadline] by (simp add: send_email_def)
  have "retry_main_time key nets \<le> sum_list (map (\<lambda>b. ?f b + sleep_time (backoff b)) [0..3 - 1])"
    using retry_loop_time [of ?call ?f 3 0 None] no429 retry_main_trace [OF assms(1)]
    by (simp add: retry_main_time_def)
  also have "\<dots> = ?f 0 + ?f 1 + ?f 2 + 7000000000"
    by (simp add: upto.simps backoff_sleeps)
  also have "\<dots> \<le> 97000000000" using f [of 0] f [of 1] f [of 2] by linarith
  finally show ?thesis .
qed

subsection \<open>Witnesses\<close>

theorem deadline_ends_call_witness:
  "EvDispatch (example_outbound []) \<in>
     set (snd (send_email_with_idempotency (timed_transport (\<lambda>r. NetResponse 200 Map.empty 31000000000 (Inr []) 0) None)
                 example_http_client example_client (Some CtxActive) (Some example_request) [])) \<and>
   request_deadline example_http_client None = Some (30000000000, True) \<and>
   30000000000 \<le> net_time ((\<lambda>r. NetResponse 200 Map.empty 31000000000 (Inr []) 0) (example_outbound [])) \<and>
   trace_time (\<lambda>r. NetResponse 200 Map.empty 31000000000 (Inr []) 0) None example_http_client
     (snd (send_email_with_idempotency (timed_transport (\<lambda>r. NetResponse 200 Map.empty 31000000000 (Inr []) 0) None)
             example_http_client example_client (Some CtxActive) (Some example_request) [])) = 30000000000 \<and>
   fst (send_email_with_idempotency (timed_transport (\<lambda>r. NetResponse 200 Map.empty 31000000000 (Inr []) 0) None)
          example_http_client example_client (Some CtxActive) (Some example_request) []) =
     Inl (ETransport TEClientTimeout)"
proof -
  let ?net = "\<lambda>r::http_request. NetResponse 200 Map.empty 31000000000 (Inr []) 0"
  have t: "timed_transport ?net None example_http_client (example_outbound []) = Inl TEClientTimeout"
    by (simp add: timed_transport_def example_deadline deadline_error_def)
  have d: "EvDispatch (example_outbound []) \<in>
     set (snd (send_email_with_idempotency (timed_transport ?net None)
                 example_http_client example_client (Some CtxActive) (Some example_request) []))"
    by (simp add: example_timed_dispatch t)
  have n: "30000000000 \<le> net_time (?net (example_outbound []))" by (simp add: net_time_def)
  show ?thesis
    using deadline_ends_call [OF d example_deadline n] d n
    by (simp add: example_deadline example_timed_dispatch t deadline_error_def)
qed

theorem config_client_waits_at_most_timeout_witness:
  "new_client_with_config \<lparr>cfg_api_key = ''test_key'', cfg_base_url = [], cfg_http_client = None, cfg_timeout = 0\<rparr> [] =
     (example_client, [example_http_client]) \<and>
   trace_time (\<lambda>r. NetResponse 200 Map.empty 31000000000 (Inr []) 0) None example_http_client
     (snd (send_email_with_idempotency (timed_transport (\<lambda>r. NetResponse 200 Map.empty 31000000000 (Inr []) 0) None)
             example_http_client example_client (Some CtxActive) (Some example_request) [])) \<le> 30000000000"
proof -
  have n: "new_client_with_config \<lparr>cfg_api_key = ''test_key'', cfg_base_url = [], cfg_http_client = None, cfg_timeout = 0\<rparr> [] =
     (example_client, [example_http_client])"
    by (simp add: client_defs example_client_fields example_http_client_def Let_def)
  have ct: "client_transport example_client [example_http_client] = Some example_http_client"
    by (simp add: client_defs example_client_fields)
  show ?thesis
    using config_client_waits_at_most_timeout [OF n] n ct by (auto simp: default_timeout_def)
qed

theorem negative_config_timeout_never_expires_witness:
  "new_client_with_config \<lparr>cfg_api_key = ''test_key'', cfg_base_url = [], cfg_http_client = None, cfg_timeout = -1\<rparr> [] =
     (example_client, [\<lparr>hc_timeout = -1\<rparr>]) \<and>
   (\<exists>net. 3600000000000 < trace_time net None \<lparr>hc_timeout = -1\<rparr>
            (snd (send_email (timed_transport net None) \<lparr>hc_timeout = -1\<rparr> example_client (Some CtxActive)
                    (Some example_request))) \<and>
          fst (send_email (timed_transport net None) \<lparr>hc_timeout = -1\<rparr> example_client (Some CtxActive)
                 (Some example_request)) = Inr example_response_200_value)"
proof -
  have n: "new_client_with_config \<lparr>cfg_api_key = ''test_key'', cfg_base_url = [], cfg_http_client = None, cfg_timeout = -1\<rparr> [] =
     (example_client, [\<lparr>hc_timeout = -1\<rparr>])"
    by (simp add: client_defs example_client_fields Let_def)
  have ct: "client_transport example_client [\<lparr>hc_timeout = -1\<rparr>] = Some \<lparr>hc_timeout = -1\<rparr>"
    by (simp add: client_defs example_client_fields)
  have k: "valid_header_field_value ''test_key''" by code_simp
  show ?thesis
    using negative_config_timeout_never_expires [OF n] n ct k by auto
qed

theorem retry_main_within_97_seconds_witness:
  "''test_key'' \<noteq> [] \<and>
   (\<forall>a r. case (\<lambda>a r. NetResponse 503 Map.empty 29000000000 (Inr []) 0) a r of
              NetFail e t \<Rightarrow> True | NetResponse st h th body tb \<Rightarrow> st \<noteq> 429) \<and>
   retry_main_time ''test_key'' (\<lambda>a r. NetResponse 503 Map.empty 29000000000 (Inr []) 0) \<le> 97000000000"
  using retry_main_within_97_seconds [of "''test_key''" "\<lambda>a r. NetResponse 503 Map.empty 29000000000 (Inr []) 0"]
  by simp

end
