(* ===== verification/Spec2Isabelle.thy ===== *)
theory Spec2Isabelle
  imports Pipeline Retry_Main Json_Roundtrip Client_Programs Timing
begin

text \<open>
  A verification model of the Go client library \<^verbatim>\<open>autosend-go\<close>, which sends
  transactional e-mail through an HTTP API.  The program is a request pipeline:
  a caller builds a \<^verbatim>\<open>Client\<close> (\<^verbatim>\<open>NewClient\<close>, \<^verbatim>\<open>NewClientWithConfig\<close> or
  \<^verbatim>\<open>NewClientWithOptions\<close>) and a \<^verbatim>\<open>SendEmailRequest\<close>;
  \<^verbatim>\<open>SendEmailWithIdempotency\<close> checks the request with
  \<^verbatim>\<open>validateSendEmailRequest\<close>, \<^verbatim>\<open>doRequest\<close> encodes it as JSON,
  authenticates it and sends it through the client's \<^verbatim>\<open>http.Client\<close>, and the
  response is either decoded as a \<^verbatim>\<open>SendEmailResponse\<close> (status 200) or turned
  by \<^verbatim>\<open>handleErrorResponse\<close> into an \<^verbatim>\<open>APIError\<close>, whose predicates classify
  it and which carries the rate-limit headers parsed by
  \<^verbatim>\<open>parseRateLimitHeaders\<close>.

  Theories, one per component, each importing the components it calls:
  \<^item> \<open>Prelude\<close>: the signed 64-bit range of Go's \<^verbatim>\<open>int\<close>, ASCII digits, and the
    \<open>go_eval\<close> collection of the equations that run the model by \<open>simp\<close>.
  \<^item> \<open>Data_Model\<close> (\<^verbatim>\<open>src/types.go\<close>): the payload structs as records, the
    values of \<^verbatim>\<open>any\<close> as the datatype \<open>go_any\<close>, the zero values.
  \<^item> \<open>Validation\<close> (\<^verbatim>\<open>validateSendEmailRequest\<close> in \<^verbatim>\<open>src/email.go\<close>):
    it accepts exactly the requests satisfying the invariant \<open>request_wf\<close> of
    spec section 3 and reports the first failing check; a finding: a request
    with text and no HTML is accepted, as the spec says, while the listing of
    \<^verbatim>\<open>README.md\<close> marks \<^verbatim>\<open>HTML\<close> as required unless a template is used.
  \<^item> \<open>Strconv\<close>: Go's \<^verbatim>\<open>strconv.ParseUint\<close>, \<^verbatim>\<open>ParseInt\<close> and \<^verbatim>\<open>Atoi\<close>
    on \<open>64 word\<close> accumulators with Go's cut-off and wrap-around checks, and
    \<^verbatim>\<open>Itoa\<close>.  Proved: \<^verbatim>\<open>ParseInt\<close> clamps to the 64-bit range exactly as
    the abstract \<open>clamp_int64\<close> of the decimal value, \<^verbatim>\<open>Itoa\<close> and
    \<^verbatim>\<open>ParseInt\<close> are inverse on the range, and the fast path of \<^verbatim>\<open>Atoi\<close>
    (at most 18 digits, unchecked \<open>64 word\<close> arithmetic) equals \<^verbatim>\<open>ParseInt\<close>.
  \<^item> \<open>Api_Error\<close> (\<^verbatim>\<open>src/unnamed/part_001\<close>): \<^verbatim>\<open>APIError\<close>, \<^verbatim>\<open>Error()\<close>,
    the predicates and \<^verbatim>\<open>GetRetryAfter\<close>; the predicates refine the abstract
    classification of spec section 9 and exclude each other, and only a
    rate-limit error has a non-zero retry hint.
  \<^item> \<open>Headers\<close> (\<^verbatim>\<open>parseRateLimitHeaders\<close> in \<^verbatim>\<open>src/client.go\<close>, over
    \<^verbatim>\<open>net/textproto\<close> canonical header keys): the parse meets spec section 3
    on the 64-bit range and not beyond it, and finds the headers whatever the
    letter case of their names.
  \<^item> \<open>Utf8\<close>, \<open>Json\<close>, \<open>Json_Decode\<close>, \<open>Json_Encode\<close>: the parts of Go's
    \<^verbatim>\<open>unicode/utf8\<close> and \<^verbatim>\<open>encoding/json\<close> the client uses: the scanner as
    Go's byte-at-a-time state machine with its parse stack and nesting limit,
    string unquoting, decoding into the response structs (case-insensitive keys,
    saved and aborting errors, \<^verbatim>\<open>null\<close>, times as
    \<^verbatim>\<open>parseStrictRFC3339\<close> reads them: the fast RFC 3339 parser, and when it
    fails \<^verbatim>\<open>time.Parse\<close> on the layout \<^verbatim>\<open>RFC3339\<close>, which also takes a
    one-digit hour, a comma before the fraction and a zone offset of 24 hours), and the
    encoding of the request (\<^verbatim>\<open>omitempty\<close>, sorted map keys, HTML escaping).
    Lemmas: re-encoding the rune of a well-formed UTF-8 sequence gives back its
    bytes; \<^verbatim>\<open>unquoteBytes\<close> with its fast path equals its plain decoding
    loop; decoding a string written by \<^verbatim>\<open>appendString\<close> gives back every
    well-formed UTF-8 string; the scanner reads such a literal as one string;
    a property every field decoder keeps holds of the decoded struct.
  \<^item> \<open>Json_Roundtrip\<close> (the JSON tags of \<^verbatim>\<open>ErrorResponse\<close> in
    \<^verbatim>\<open>src/types.go\<close>): \<^verbatim>\<open>json.Marshal\<close> of an \<^verbatim>\<open>ErrorResponse\<close>, which
    no code of the repository calls: it is the encoding an API server written
    with the same struct would send, and serves to check the decoder's field
    table against the tags.  Lemma: decoding it gives back the struct, field
    errors and retry hint included.
  \<^item> \<open>Client\<close> (\<^verbatim>\<open>src/client.go\<close> constructors, \<^verbatim>\<open>src/unnamed/part_000\<close>
    options): \<^verbatim>\<open>http.Client\<close> objects in an explicit heap, so that sharing is
    visible; the three construction modes agree, \<^verbatim>\<open>Config\<close> defaults are as
    specified, and three findings: a configured timeout is ignored beside a
    configured \<^verbatim>\<open>http.Client\<close>, \<^verbatim>\<open>WithTimeout\<close> writes into a shared
    \<^verbatim>\<open>http.Client\<close>, and panics after \<^verbatim>\<open>WithHTTPClient(nil)\<close>.
  \<^item> \<open>Client_Programs\<close>: programs that call the three constructors one after
    another over one heap, as the inductive set \<open>built\<close> of the states they
    reach (a step is one call of \<open>construct\<close>, handing in only nil or existing
    objects), each recorded with the construction that made it.  Proved by
    rule induction: every client built points to an object of the heap, and to
    nil, so that it has no \<^verbatim>\<open>http.Client\<close> to send through, exactly when it
    was built by \<^verbatim>\<open>NewClientWithOptions\<close> with options whose last
    \<^verbatim>\<open>WithHTTPClient\<close> is nil.
  \<^item> \<open>Url\<close>: Go's \<^verbatim>\<open>url.Parse\<close> (\<^verbatim>\<open>net/url\<close> as of Go 1.22), function
    by function, with one error constructor per error it returns.  Lemmas:
    unescaping what \<^verbatim>\<open>escape\<close> wrote gives back the string (so
    \<^verbatim>\<open>setPath\<close> keeps no raw path for a canonically escaped one), and an
    \<^verbatim>\<open>http\<close> or \<^verbatim>\<open>https\<close> URL of plain host and path bytes parses into exactly
    its scheme, host and path.
  \<^item> \<open>Http\<close>: the part of Go's \<^verbatim>\<open>net/http\<close> the pipeline goes through:
    the request and response types, \<^verbatim>\<open>http.NewRequestWithContext\<close>, and the
    checks \<^verbatim>\<open>http.Transport\<close> makes before it connects (header names and
    values, scheme, method, host, then the context).
  \<^item> \<open>Pipeline\<close> (\<^verbatim>\<open>doRequest\<close>, \<^verbatim>\<open>handleErrorResponse\<close>,
    \<^verbatim>\<open>SendEmailWithIdempotency\<close>, \<^verbatim>\<open>SendEmail\<close>, over
    \<^verbatim>\<open>http.NewRequestWithContext\<close> and the checks \<^verbatim>\<open>http.Client.Do\<close> makes
    before it connects): the network is a parameter, the context a value the
    request carries, and each call returns its result with the trace of
    dispatches, body reads and body closes.  Proved: no dispatch for an invalid
    request or a done context, the outbound request's method, parsed URL (an
    \<^verbatim>\<open>http\<close> or \<^verbatim>\<open>https\<close> URL with a host), headers and body, the
    idempotency header exactly for a non-empty key, at most one dispatch and the
    body always read and closed after a response, success only from a decoded
    200, the classification of error responses; and three findings: an error
    body that is not JSON, or that cannot be read, gives a plain error rather
    than the \<^verbatim>\<open>APIError\<close> of spec section 4.4, and an API key that is not a
    valid header value fails every call before the network with an error
    reported as a transport failure.  The examples of spec section 8 are the
    witnesses.
  \<^item> \<open>Retry\<close> (\<^verbatim>\<open>sendEmailWithRetry\<close> in \<^verbatim>\<open>src/unnamed/part_002\<close>): the
    example's retry loop over the pipeline, one transport per attempt, with its
    calls, the lines it prints (\<open>wait_line\<close>, \<open>give_up_line\<close>) and its
    sleeps as a trace and its durations as \<open>64 word\<close>.  Proved: at
    most \<^verbatim>\<open>maxRetries\<close> calls, as many printed lines and as many sleeps for
    any behaviour of the server (the loop always returns), giving up only on a
    permanent \<^verbatim>\<open>APIError\<close>, printed under the heading of its kind of
    spec section 9 (\<open>give_up_heading\<close>), success
    once an attempt succeeds after retryable failures, the rate-limit wait
    equal to the server's hint, the backoff exactly \<open>2 ^ attempt\<close> seconds up
    to attempt 33 and printed as such (\<open>backoff_text\<close>); and five findings: a
    local validation error, and an API key that is not a valid header value,
    are retried with backoff, a 200 answer whose body does not decode (a
    \<^verbatim>\<open>queuedAt\<close> \<^verbatim>\<open>time.Time\<close> cannot read) makes the loop send again,
    without an idempotency key, an e-mail the server already accepted, the loop prints a wait and sleeps after its last
    attempt on server errors, and the backoff overflows from attempt 34: no
    wait from there on is its \<open>2 ^ attempt\<close> seconds, the wait of attempt 34
    prints as \<^verbatim>\<open>-351909h41m29.709551616s\<close>, and every wait from attempt 64
    is zero.
  \<^item> \<open>Duration\<close> (\<^verbatim>\<open>time.Duration.String\<close> of the Go runtime, with
    \<^verbatim>\<open>fmtFrac\<close> and \<^verbatim>\<open>fmtInt\<close>): the text \<^verbatim>\<open>%v\<close> prints for a
    duration, on the magnitude as an unsigned word as Go computes it.  Proved:
    a positive whole number of seconds below \<open>2 ^ 63\<close> nanoseconds prints as
    its hours, minutes and seconds (\<open>seconds_text\<close>).
  \<^item> \<open>Examples\<close> (\<^verbatim>\<open>main\<close> of \<^verbatim>\<open>src/examples/basic/main.go\<close> and
    \<^verbatim>\<open>src/examples/with_template/main.go\<close>): the key read from the
    environment is a parameter, the output a list of print and fatal-log events.
    Proved: each program dispatches exactly the expected request, its body the
    JSON literal of its request (with \<^verbatim>\<open>json.Marshal\<close>'s HTML escaping),
    the template one with its idempotency key, and neither panics.
  \<^item> \<open>Retry_Main\<close> (\<^verbatim>\<open>main\<close> of \<^verbatim>\<open>src/unnamed/part_002\<close>): the retry
    example's program around \<open>Retry\<close>, with \<^verbatim>\<open>maxRetries = 3\<close> and its
    returned error as a value (the \<^verbatim>\<open>APIError\<close> given up on, or the
    \<^verbatim>\<open>max retries exceeded\<close> wrapping of the last error).  Proved: with a
    key set it never panics, writes exactly one line of its own after the
    loop's progress lines, calls
    \<^verbatim>\<open>SendEmail\<close> at most three times, and the ID it prints is that of the
    response of one of its attempts.
  \<^item> \<open>Timing\<close>: time, for the deadline of \<^verbatim>\<open>http.Client.Do\<close> and the
    retry example.  The network is a \<open>network\<close>, which says when it fails, when
    the response headers come and how long the body takes; \<open>timed_transport\<close>
    is the transport \<^verbatim>\<open>http.Client.Do\<close> makes of it under the deadline of the
    call (the client's \<^verbatim>\<open>Timeout\<close>, armed by \<^verbatim>\<open>setRequestCancel\<close> and kept
    on the body by \<^verbatim>\<open>cancelTimerBody\<close>, or the context's deadline when it
    comes first), and a call's time is the time of what it dispatched, cut at
    the deadline.  Proved: under a network that is done before the deadline the
    call returns exactly what it returns without a clock, trace included (a
    lemma: the timed model refines the untimed one); a network not done by the deadline
    makes the call end
    exactly at the deadline with the deadline's error (spec section 4.3); a
    client built by \<^verbatim>\<open>NewClientWithConfig\<close> with a timeout of zero or more
    waits at most that timeout, 30 seconds by default; with no 429 answer the
    retry example ends within 97 seconds (three calls of at most 30 seconds,
    sleeps of 1, 2 and 4 seconds); and a finding: a negative
    \<^verbatim>\<open>Config.Timeout\<close> passes the zero check and leaves the client without
    any deadline, so a call can wait longer than any bound.

  All definitions are executable; loops are structural recursion (the JSON
  scanner consumes one byte per step) or functions with a measure (the UTF-8
  and unquoting loops consume at least one byte per step, the retry loop one
  attempt), so no fuel is needed and every loop terminates.  The root theory
  proves the properties that span the components: the request target of a client
  built from options, and that every \<^verbatim>\<open>APIError\<close> a call returns holds only
  integers of Go's \<^verbatim>\<open>int\<close> range.

  Time is counted in nanoseconds as \<open>nat\<close> from the dispatch of each call;
  local computation takes no time, and when the deadline and an event of the
  network fall on the same nanosecond the timer wins.

  Not modelled: the HTTP stack beyond the checks \<^verbatim>\<open>http.Transport\<close> makes
  before it connects and the deadline of \<^verbatim>\<open>http.Client.Do\<close> (connections,
  TLS and redirects are the \<open>transport\<close> or \<open>network\<close> parameter; a custom
  \<^verbatim>\<open>RoundTripper\<close> in a caller's \<^verbatim>\<open>http.Client\<close> is taken to behave like
  \<^verbatim>\<open>http.DefaultTransport\<close>), floating-point values in
  \<^verbatim>\<open>DynamicData\<close> (their shortest decimal text is computed by the
  runtime's \<^verbatim>\<open>strconv\<close> with the Ryu algorithm, on IEEE doubles, not by this
  program), the text \<^verbatim>\<open>fmt\<close> prints for a \<^verbatim>\<open>time.Time\<close> (it
  depends on the local time zone) and the text of the pipeline error in the
  retry loop's \<^verbatim>\<open>Error: %v.\<close> line (the error is kept as a value:
  its text nests the texts of the wrapped errors of \<^verbatim>\<open>net/http\<close> and
  \<^verbatim>\<open>encoding/json\<close>, which are not part of this program);
  \<^verbatim>\<open>README.md\<close> is documentation.
\<close>

subsection \<open>Properties spanning the components\<close>

text \<open>
  C33: a client built by \<^verbatim>\<open>NewClientWithOptions\<close> sends every request to the
  URL \<^verbatim>\<open>url.Parse\<close> makes of the base URL its options select (the last
  \<^verbatim>\<open>WithBaseURL\<close>, else the default) followed by \<^verbatim>\<open>/mails/send\<close>,
  authenticated with the key it was built with; for a base URL
  \<open>scheme://host/path\<close> of plain bytes the request goes to that scheme and host
  with the path followed by \<^verbatim>\<open>/mails/send\<close>, a trailing slash of the base URL
  included.
\<close>

theorem options_client_request_target:
  assumes "new_client_with_options key opts h = Some (c, h')"
    and "EvDispatch r \<in> set (snd (send_email_with_idempotency tr hc c ctx req k))"
  shows "(\<exists>u. url_parse (options_base_url opts default_base_url @ ''/mails/send'') = Inr u \<and>
              hr_url r = u\<lparr>url_host := remove_empty_port (url_host u)\<rparr>) \<and>
         header_get (hr_header r) ''Authorization'' = ''Bearer '' @ key \<and>
         (\<forall>sch host bp. options_base_url opts default_base_url = sch @ ''://'' @ host @ bp \<and>
             (sch = ''http'' \<or> sch = ''https'') \<and> list_all host_byte host \<and> list_all path_byte bp \<and>
             (bp = [] \<or> hd bp = CHR ''/'') \<longrightarrow>
           url_scheme (hr_url r) = sch \<and> url_host (hr_url r) = host \<and>
           url_path (hr_url r) = bp @ ''/mails/send'')"
proof -
  obtain json where n: "new_request c ctx ''POST'' ''/mails/send'' json k = Inr r"
    using send_dispatch_request [OF assms(2)] by blast
  note f = new_client_with_options_fields [OF assms(1)]
  have ms: "list_all path_byte ''/mails/send''" by code_simp
  have simple: "url_scheme (hr_url r) = sch \<and> url_host (hr_url r) = host \<and> url_path (hr_url r) = bp @ ''/mails/send''"
    if "options_base_url opts default_base_url = sch @ ''://'' @ host @ bp" and "sch = ''http'' \<or> sch = ''https''"
      and "list_all host_byte host" and "list_all path_byte bp" and "bp = [] \<or> hd bp = CHR ''/''"
    for sch host bp
    using new_request_simple_url [OF n _ that(2,3)] that(1,4,5) f ms by (cases bp) auto
  from n f simple show ?thesis
    by (auto simp: new_request_Inr request_headers_get)
qed

theorem options_client_request_target_witness:
  "new_client_with_options ''k2'' [WithBaseURL ''https://eu.autosend.example/v1/''] [] =
     Some (\<lparr>api_key = ''k2'', base_url = ''https://eu.autosend.example/v1/'', http_client = Some 0\<rparr>,
           [\<lparr>hc_timeout = default_timeout\<rparr>]) \<and>
   url_host (hr_url (projr (new_request
       \<lparr>api_key = ''k2'', base_url = ''https://eu.autosend.example/v1/'', http_client = Some 0\<rparr>
       (Some CtxActive) ''POST'' ''/mails/send'' (projr (marshal_request_ptr (Some example_request))) []))) =
     ''eu.autosend.example'' \<and>
   url_path (hr_url (projr (new_request
       \<lparr>api_key = ''k2'', base_url = ''https://eu.autosend.example/v1/'', http_client = Some 0\<rparr>
       (Some CtxActive) ''POST'' ''/mails/send'' (projr (marshal_request_ptr (Some example_request))) []))) =
     ''/v1//mails/send''"
proof -
  let ?c = "\<lparr>api_key = ''k2'', base_url = ''https://eu.autosend.example/v1/'', http_client = Some 0\<rparr>"
  let ?json = "projr (marshal_request_ptr (Some example_request))"
  let ?u = "zero_url\<lparr>url_scheme := ''https'', url_host := ''eu.autosend.example'', url_path := ''/v1//mails/send''\<rparr>"
  let ?r = "\<lparr>hr_method = ''POST'', hr_url = ?u, hr_header = request_headers ''k2'' [], hr_body = ?json,
             hr_host = ''eu.autosend.example'', hr_ctx = CtxActive\<rparr>"
  have b: "new_client_with_options ''k2'' [WithBaseURL ''https://eu.autosend.example/v1/''] [] =
             Some (?c, [\<lparr>hc_timeout = default_timeout\<rparr>])"
    by (simp add: new_client_with_options_def alloc_def)
  have p: "url_parse ''https://eu.autosend.example/v1//mails/send'' = Inr ?u" by code_simp
  have m: "valid_method ''POST''" and e: "remove_empty_port ''eu.autosend.example'' = ''eu.autosend.example''"
    by code_simp+
  have n: "new_request ?c (Some CtxActive) ''POST'' ''/mails/send'' ?json [] = Inr ?r"
    by (simp add: new_request_def new_request_with_context_def p m e zero_url_def)
  have rt: "round_trip_check ?r = None"
    by (simp add: round_trip_check_None request_headers_valid m zero_url_def)
  have d: "EvDispatch ?r \<in> set (snd (send_email_with_idempotency (const_transport response_200) example_http_client ?c
             (Some CtxActive) (Some example_request) []))"
    using send_response [OF example_request_valid example_request_marshals n rt,
                         where tr = "const_transport response_200" and hc = example_http_client]
    by (simp add: const_transport_def)
  have o: "options_base_url [WithBaseURL ''https://eu.autosend.example/v1/''] default_base_url =
             ''https'' @ ''://'' @ ''eu.autosend.example'' @ ''/v1/''"
    by simp
  have hb: "list_all host_byte ''eu.autosend.example''" and pb: "list_all path_byte ''/v1/''" by code_simp+
  have t: "url_host (hr_url ?r) = ''eu.autosend.example'' \<and> url_path (hr_url ?r) = ''/v1/'' @ ''/mails/send''"
    using conjunct2 [OF conjunct2 [OF options_client_request_target [OF b d]], rule_format,
                     of "''https''" "''eu.autosend.example''" "''/v1/''"] o hb pb
    by simp
  show ?thesis using b n t by simp
qed

text \<open>
  Every \<^verbatim>\<open>APIError\<close> a call returns has its integer fields within Go's
  \<^verbatim>\<open>int\<close>: the retry hint decoded from the body and the three rate-limit
  values parsed from the headers lie in the signed 64-bit range, whatever the
  server sent, so the unbounded integers of the model never hold a value the Go
  program could not.
\<close>

lemma api_error_ints_in_range:
  assumes "fst (send_email_with_idempotency tr hc c ctx req k) = Inl (EAPI e)"
  shows "in_int64 (retry_after e) \<and>
         (\<exists>rl. rate_limit e = Some rl \<and> in_int64 (rl_limit rl) \<and> in_int64 (rl_remaining rl) \<and>
               in_int64 (rl_reset rl))"
proof -
  obtain resp body er where "hresp_body resp = Inr body" and u: "unmarshal_error_response body = Inr er"
      and e: "e = api_error_of resp er"
    using send_api_error_source [OF assms] by blast
  then show ?thesis
    using unmarshal_error_response_retry_in_int64 [OF u]
    by (simp add: api_error_of_def parse_rate_limit_headers_fields header_int_in_int64)
qed

end
